(* ===== verification/Prelude.thy ===== *)
theory Prelude
  imports Complex_Main
begin

text \<open>
  Shared vocabulary of the development: Python values and the built-in
  operations the source applies to them, exceptions, computations that thread
  a state and may raise, and the lemma collections the component theories use.
\<close>

section \<open>Lemma collections\<close>

named_theorems comp_simps \<open>unfolding and evaluation of computations\<close>
named_theorems keeps_intros \<open>invariant rules for computations\<close>
named_theorems db_defs \<open>definitions of the table operations\<close>

section \<open>Exceptions\<close>

text \<open>The Python and Django exception classes the source raises, catches or lets through.\<close>

datatype exn =
    Http404
  | ValueError
  | TypeError
  | AttributeError
  | KeyError
  | OverflowError
  | IntegrityError
  | DoesNotExist
  | MultipleObjectsReturned
  | ValidationError
  | FileNotFoundError
  | YAMLError
  | NotAuthenticated
  | PermissionDenied
  | MethodNotAllowed
  | CommandError
  | OtherError

section \<open>Python values\<close>

text \<open>
  The values of a decoded JSON body or YAML document. A finite double is the
  rational it denotes. A dictionary is the list of its items in insertion order.
\<close>

datatype pyval =
    PNone
  | PBool bool
  | PInt int
  | PFloat rat
  | PStr string
  | PList "pyval list"
  | PDict "(pyval \<times> pyval) list"

text \<open>Truth value testing, as in \<^verbatim>\<open>if x\<close> and \<^verbatim>\<open>not x\<close>.\<close>

fun py_true :: "pyval \<Rightarrow> bool" where
  "py_true PNone = False"
| "py_true (PBool b) = b"
| "py_true (PInt n) = (n \<noteq> 0)"
| "py_true (PFloat x) = (x \<noteq> 0)"
| "py_true (PStr s) = (s \<noteq> [])"
| "py_true (PList xs) = (xs \<noteq> [])"
| "py_true (PDict kvs) = (kvs \<noteq> [])"

text \<open>\<^verbatim>\<open>x > n\<close> for an int \<open>n\<close>: numbers compare, everything else raises TypeError.\<close>

fun py_gt_int :: "pyval \<Rightarrow> int \<Rightarrow> exn + bool" where
  "py_gt_int (PInt m) n = Inr (m > n)"
| "py_gt_int (PBool b) n = Inr ((if b then 1 else 0) > n)"
| "py_gt_int (PFloat x) n = Inr (x > of_int n)"
| "py_gt_int _ n = Inl TypeError"

text \<open>
  \<^verbatim>\<open>int(s)\<close> for a string: surrounding ASCII white space, a sign, then decimal digits
  with single underscores between digits.
\<close>

definition is_space :: "char \<Rightarrow> bool" where
  "is_space c \<longleftrightarrow> (let n = (of_char c :: int) in n = 32 \<or> (9 \<le> n \<and> n \<le> 13) \<or> (28 \<le> n \<and> n \<le> 31))"

definition is_digit :: "char \<Rightarrow> bool" where
  "is_digit c \<longleftrightarrow> (let n = (of_char c :: int) in 48 \<le> n \<and> n \<le> 57)"

definition strip :: "string \<Rightarrow> string" where
  "strip s = rev (dropWhile is_space (rev (dropWhile is_space s)))"

fun int_digits :: "bool \<Rightarrow> int \<Rightarrow> string \<Rightarrow> int option" where
  "int_digits after_digit acc [] = (if after_digit then Some acc else None)"
| "int_digits after_digit acc (c # cs) =
     (if is_digit c then int_digits True (10 * acc + (of_char c - 48)) cs
      else if c = CHR ''_'' \<and> after_digit then int_digits False acc cs
      else None)"

definition int_of_str :: "string \<Rightarrow> exn + int" where
  "int_of_str s =
     (case (case strip s of
              [] \<Rightarrow> None
            | c # cs \<Rightarrow>
                if c = CHR ''-'' then map_option uminus (int_digits False 0 cs)
                else if c = CHR ''+'' then int_digits False 0 cs
                else int_digits False 0 (c # cs))
      of None \<Rightarrow> Inl ValueError | Some n \<Rightarrow> Inr n)"

text \<open>\<^verbatim>\<open>int(x)\<close>: a float is truncated towards zero.\<close>

fun py_int :: "pyval \<Rightarrow> exn + int" where
  "py_int (PInt n) = Inr n"
| "py_int (PBool b) = Inr (if b then 1 else 0)"
| "py_int (PFloat x) = Inr (if 0 \<le> x then \<lfloor>x\<rfloor> else \<lceil>x\<rceil>)"
| "py_int (PStr s) = int_of_str s"
| "py_int _ = Inl TypeError"

text \<open>
  \<^verbatim>\<open>d.get(k, default)\<close>, \<^verbatim>\<open>d[k]\<close>, \<^verbatim>\<open>k in d\<close>, iteration and \<^verbatim>\<open>d.items()\<close> for a string key:
  only a dict has \<^verbatim>\<open>get\<close> and \<^verbatim>\<open>items\<close>; a substring test, an index or an iteration
  on another type does what Python does there.
\<close>

fun py_get :: "pyval \<Rightarrow> string \<Rightarrow> pyval \<Rightarrow> exn + pyval" where
  "py_get (PDict kvs) k dflt = Inr (case map_of kvs (PStr k) of None \<Rightarrow> dflt | Some v \<Rightarrow> v)"
| "py_get _ k dflt = Inl AttributeError"

fun py_index :: "pyval \<Rightarrow> string \<Rightarrow> exn + pyval" where
  "py_index (PDict kvs) k = (case map_of kvs (PStr k) of None \<Rightarrow> Inl KeyError | Some v \<Rightarrow> Inr v)"
| "py_index _ k = Inl TypeError"

fun has_prefix :: "string \<Rightarrow> string \<Rightarrow> bool" where
  "has_prefix [] ys = True"
| "has_prefix (x # xs) [] = False"
| "has_prefix (x # xs) (y # ys) = (x = y \<and> has_prefix xs ys)"

fun is_substring :: "string \<Rightarrow> string \<Rightarrow> bool" where
  "is_substring xs [] = (xs = [])"
| "is_substring xs (y # ys) = (has_prefix xs (y # ys) \<or> is_substring xs ys)"

fun py_contains :: "pyval \<Rightarrow> string \<Rightarrow> exn + bool" where
  "py_contains (PDict kvs) k = Inr (PStr k \<in> set (map fst kvs))"
| "py_contains (PList xs) k = Inr (PStr k \<in> set xs)"
| "py_contains (PStr s) k = Inr (is_substring k s)"
| "py_contains _ k = Inl TypeError"

fun py_iter :: "pyval \<Rightarrow> exn + pyval list" where
  "py_iter (PList xs) = Inr xs"
| "py_iter (PDict kvs) = Inr (map fst kvs)"
| "py_iter (PStr s) = Inr (map (\<lambda>c. PStr [c]) s)"
| "py_iter _ = Inl TypeError"

fun py_items :: "pyval \<Rightarrow> exn + (pyval \<times> pyval) list" where
  "py_items (PDict kvs) = Inr kvs"
| "py_items _ = Inl AttributeError"

lemma is_digit_value: "is_digit c \<Longrightarrow> 0 \<le> (of_char c - 48 :: int) \<and> (of_char c - 48 :: int) \<le> 9"
  by (simp add: is_digit_def Let_def)

lemma int_digits_nonneg: "int_digits b acc s = Some n \<Longrightarrow> 0 \<le> acc \<Longrightarrow> 0 \<le> n"
proof (induction b acc s rule: int_digits.induct)
  case (2 b acc c cs)
  then show ?case using is_digit_value [of c] by (auto split: if_splits)
qed (auto split: if_splits)

section \<open>Computations: a state and exceptions\<close>

text \<open>
  A handler reads and writes the database and may raise. What it wrote before an
  exception stays written: the settings do not ask for \<^verbatim>\<open>ATOMIC_REQUESTS\<close>, so every
  statement commits on its own.
\<close>

type_synonym ('s, 'a) comp = "'s \<Rightarrow> (exn + 'a) \<times> 's"

definition ret :: "'a \<Rightarrow> ('s, 'a) comp" where
  "ret x = (\<lambda>s. (Inr x, s))"

definition raise :: "exn \<Rightarrow> ('s, 'a) comp" where
  "raise e = (\<lambda>s. (Inl e, s))"

definition query :: "('s \<Rightarrow> 'a) \<Rightarrow> ('s, 'a) comp" where
  "query f = (\<lambda>s. (Inr (f s), s))"

definition lift_exn :: "exn + 'a \<Rightarrow> ('s, 'a) comp" where
  "lift_exn r = (\<lambda>s. (r, s))"

definition andThen :: "('s, 'a) comp \<Rightarrow> ('a \<Rightarrow> ('s, 'b) comp) \<Rightarrow> ('s, 'b) comp" where
  "andThen m f = (\<lambda>s. case m s of (Inl e, s') \<Rightarrow> (Inl e, s') | (Inr x, s') \<Rightarrow> f x s')"

text \<open>\<^verbatim>\<open>try: m / except E: h(E)\<close>.\<close>

definition try_except :: "('s, 'a) comp \<Rightarrow> (exn \<Rightarrow> ('s, 'a) comp) \<Rightarrow> ('s, 'a) comp" where
  "try_except m h = (\<lambda>s. case m s of (Inl e, s') \<Rightarrow> h e s' | (Inr x, s') \<Rightarrow> (Inr x, s'))"

fun for_each :: "('a \<Rightarrow> ('s, unit) comp) \<Rightarrow> 'a list \<Rightarrow> ('s, unit) comp" where
  "for_each f [] = ret ()"
| "for_each f (x # xs) = andThen (f x) (\<lambda>_. for_each f xs)"

text \<open>A loop that carries a local variable, such as a counter.\<close>

fun fold_each :: "('b \<Rightarrow> 'a \<Rightarrow> ('s, 'b) comp) \<Rightarrow> 'b \<Rightarrow> 'a list \<Rightarrow> ('s, 'b) comp" where
  "fold_each f acc [] = ret acc"
| "fold_each f acc (x # xs) = andThen (f acc x) (\<lambda>acc'. fold_each f acc' xs)"

text \<open>A loop that collects the results, as a list comprehension or \<^verbatim>\<open>many=True\<close>.\<close>

fun map_each :: "('a \<Rightarrow> ('s, 'b) comp) \<Rightarrow> 'a list \<Rightarrow> ('s, 'b list) comp" where
  "map_each f [] = ret []"
| "map_each f (x # xs) = andThen (f x) (\<lambda>y. andThen (map_each f xs) (\<lambda>ys. ret (y # ys)))"

lemma ret_apply [simp, comp_simps]: "ret x s = (Inr x, s)"
  by (simp add: ret_def)

lemma raise_apply [simp, comp_simps]: "raise e s = (Inl e, s)"
  by (simp add: raise_def)

lemma query_apply [simp, comp_simps]: "query f s = (Inr (f s), s)"
  by (simp add: query_def)

lemma lift_exn_apply [simp, comp_simps]: "lift_exn r s = (r, s)"
  by (simp add: lift_exn_def)

lemma andThen_Inr [simp, comp_simps]: "m s = (Inr x, s') \<Longrightarrow> andThen m f s = f x s'"
  by (simp add: andThen_def)

lemma andThen_Inl [simp, comp_simps]: "m s = (Inl e, s') \<Longrightarrow> andThen m f s = (Inl e, s')"
  by (simp add: andThen_def)

lemma andThen_ret [simp]: "andThen (ret x) f = f x"
  by (rule ext) simp

lemma andThen_raise [simp]: "andThen (raise e) f = raise e"
  by (rule ext) simp

lemma andThen_query [simp]: "andThen (query g) f = (\<lambda>s. f (g s) s)"
  by (rule ext) simp

lemma andThen_assoc: "andThen (andThen m f) g = andThen m (\<lambda>x. andThen (f x) g)"
  by (rule ext) (auto simp: andThen_def split: prod.splits sum.splits)

lemma andThen_eq_Inr:
  "andThen m f s = (Inr y, s'') \<longleftrightarrow> (\<exists>x s'. m s = (Inr x, s') \<and> f x s' = (Inr y, s''))"
  by (auto simp: andThen_def split: prod.splits sum.splits)

lemma andThen_eq_Inl:
  "andThen m f s = (Inl e, s'') \<longleftrightarrow>
     m s = (Inl e, s'') \<or> (\<exists>x s'. m s = (Inr x, s') \<and> f x s' = (Inl e, s''))"
  by (auto simp: andThen_def split: prod.splits sum.splits)

lemma try_except_Inr [simp, comp_simps]: "m s = (Inr x, s') \<Longrightarrow> try_except m h s = (Inr x, s')"
  by (simp add: try_except_def)

lemma try_except_Inl [simp, comp_simps]: "m s = (Inl e, s') \<Longrightarrow> try_except m h s = h e s'"
  by (simp add: try_except_def)

section \<open>Invariants of computations\<close>

text \<open>\<open>keeps I m\<close>: \<open>m\<close> preserves \<open>I\<close>, whether it returns or raises.\<close>

definition keeps :: "('s \<Rightarrow> bool) \<Rightarrow> ('s, 'a) comp \<Rightarrow> bool" where
  "keeps I m \<longleftrightarrow> (\<forall>s. I s \<longrightarrow> I (snd (m s)))"

lemma keepsI: "(\<And>s. I s \<Longrightarrow> I (snd (m s))) \<Longrightarrow> keeps I m"
  by (simp add: keeps_def)

lemma keepsD: "keeps I m \<Longrightarrow> I s \<Longrightarrow> I (snd (m s))"
  by (simp add: keeps_def)

lemma keeps_result: "keeps I m \<Longrightarrow> I s \<Longrightarrow> m s = (r, s') \<Longrightarrow> I s'"
  using keepsD [of I m s] by simp

lemma keeps_ret [keeps_intros]: "keeps I (ret x)"
  by (simp add: keeps_def)

lemma keeps_raise [keeps_intros]: "keeps I (raise e)"
  by (simp add: keeps_def)

lemma keeps_query [keeps_intros]: "keeps I (query f)"
  by (simp add: keeps_def)

lemma keeps_lift_exn [keeps_intros]: "keeps I (lift_exn r)"
  by (simp add: keeps_def)

lemma keeps_andThen [keeps_intros]:
  "keeps I m \<Longrightarrow> (\<And>x. keeps I (f x)) \<Longrightarrow> keeps I (andThen m f)"
  by (auto simp: keeps_def andThen_def split: prod.splits sum.splits)

lemma keeps_try_except [keeps_intros]:
  "keeps I m \<Longrightarrow> (\<And>e. keeps I (h e)) \<Longrightarrow> keeps I (try_except m h)"
  by (auto simp: keeps_def try_except_def split: prod.splits sum.splits)

lemma keeps_for_each [keeps_intros]: "(\<And>x. keeps I (f x)) \<Longrightarrow> keeps I (for_each f xs)"
  by (induction xs) (auto intro: keeps_intros)

lemma keeps_fold_each [keeps_intros]:
  "(\<And>acc x. keeps I (f acc x)) \<Longrightarrow> keeps I (fold_each f acc xs)"
  by (induction xs arbitrary: acc) (auto intro: keeps_intros)

lemma keeps_map_each [keeps_intros]: "(\<And>x. keeps I (f x)) \<Longrightarrow> keeps I (map_each f xs)"
  by (induction xs) (auto intro: keeps_intros)

lemma keeps_if [keeps_intros]: "keeps I m \<Longrightarrow> keeps I n \<Longrightarrow> keeps I (if b then m else n)"
  by simp

lemma keeps_option [keeps_intros]:
  "keeps I m \<Longrightarrow> (\<And>x. keeps I (f x)) \<Longrightarrow> keeps I (case v of None \<Rightarrow> m | Some x \<Rightarrow> f x)"
  by (cases v) auto

lemma keeps_dict: "(\<And>kvs. keeps I (f kvs)) \<Longrightarrow> keeps I m \<Longrightarrow> keeps I (case v of PDict kvs \<Rightarrow> f kvs | _ \<Rightarrow> m)"
  by (cases v) simp_all

lemma keeps_sum:
  "(\<And>a. keeps I (f a)) \<Longrightarrow> (\<And>b. keeps I (g b)) \<Longrightarrow> keeps I (case v of Inl a \<Rightarrow> f a | Inr b \<Rightarrow> g b)"
  by (cases v) simp_all

lemma keeps_list: "keeps I m \<Longrightarrow> (\<And>x xs. keeps I (f x xs)) \<Longrightarrow> keeps I (case v of [] \<Rightarrow> m | x # xs \<Rightarrow> f x xs)"
  by (cases v) simp_all

lemma keeps_prod [keeps_intros]: "(\<And>x y. keeps I (f x y)) \<Longrightarrow> keeps I (case p of (x, y) \<Rightarrow> f x y)"
  by (cases p) auto

section \<open>Read-only computations\<close>

text \<open>A computation that leaves the state alone.\<close>

definition reads :: "('s, 'a) comp \<Rightarrow> bool" where
  "reads m \<longleftrightarrow> (\<forall>s. snd (m s) = s)"

lemma reads_keeps: "reads m \<longleftrightarrow> (\<forall>s0. keeps (\<lambda>s. s = s0) m)"
  by (auto simp: reads_def keeps_def)

lemma readsI: "(\<And>s0. keeps (\<lambda>s. s = s0) m) \<Longrightarrow> reads m"
  by (simp add: reads_keeps)

lemma readsD: "reads m \<Longrightarrow> m s = (r, s') \<Longrightarrow> s' = s"
  by (metis reads_def snd_conv)

lemma reads_keeps_any: "reads m \<Longrightarrow> keeps I m"
  by (auto simp: reads_def keeps_def)

named_theorems reads_intros \<open>read-only computations\<close>

lemma reads_ret [reads_intros]: "reads (ret x)"
  and reads_raise [reads_intros]: "reads (raise e)"
  and reads_query [reads_intros]: "reads (query f)"
  and reads_lift_exn [reads_intros]: "reads (lift_exn r)"
  by (simp_all add: reads_def)

lemma reads_andThen [reads_intros]: "reads m \<Longrightarrow> (\<And>x. reads (f x)) \<Longrightarrow> reads (andThen m f)"
  unfolding reads_keeps by (blast intro: keeps_andThen)

lemma reads_map_each [reads_intros]: "(\<And>x. reads (f x)) \<Longrightarrow> reads (map_each f xs)"
  unfolding reads_keeps by (blast intro: keeps_map_each)

text \<open>
  \<open>ends_in I m s\<close>: the run of \<open>m\<close> from \<open>s\<close> ends in a state with \<open>I\<close>. A read-only
  prefix is stepped over, and what it returned is known in the rest.
\<close>

definition ends_in :: "('s \<Rightarrow> bool) \<Rightarrow> ('s, 'a) comp \<Rightarrow> 's \<Rightarrow> bool" where
  "ends_in I m s \<longleftrightarrow> I (snd (m s))"

lemma ends_in_reads: "reads m \<Longrightarrow> I s \<Longrightarrow> ends_in I m s"
  by (simp add: ends_in_def reads_def)

lemma ends_in_after_read:
  assumes "reads m" "I s" "\<And>x. m s = (Inr x, s) \<Longrightarrow> ends_in I (f x) s"
  shows "ends_in I (andThen m f) s"
proof (cases "m s")
  case (Pair r s')
  have eq: "s' = s" by (rule readsD [OF assms(1) Pair])
  show ?thesis
  proof (cases r)
    case (Inl e)
    then show ?thesis using Pair eq assms(2) by (simp add: ends_in_def)
  next
    case (Inr x)
    then have m: "m s = (Inr x, s)" using Pair eq by simp
    have "ends_in I (f x) s" by (rule assms(3)) (rule m)
    with m show ?thesis by (simp add: ends_in_def)
  qed
qed

lemma ends_in_andThen:
  assumes "\<And>e s'. m s = (Inl e, s') \<Longrightarrow> I s'" "\<And>x s'. m s = (Inr x, s') \<Longrightarrow> ends_in I (f x) s'"
  shows "ends_in I (andThen m f) s"
proof (cases "m s")
  case (Pair r s')
  show ?thesis
  proof (cases r)
    case (Inl e)
    then have m: "m s = (Inl e, s')" using Pair by simp
    have "I s'" by (rule assms(1)) (rule m)
    with m show ?thesis by (simp add: ends_in_def)
  next
    case (Inr x)
    then have m: "m s = (Inr x, s')" using Pair by simp
    have "ends_in I (f x) s'" by (rule assms(2)) (rule m)
    with m show ?thesis by (simp add: ends_in_def)
  qed
qed

lemma ends_in_then_ret: "ends_in I m s \<Longrightarrow> ends_in I (andThen m (\<lambda>x. ret (f x))) s"
  by (auto simp: ends_in_def andThen_def split: prod.splits sum.splits)

lemma ends_in_if:
  "(b \<Longrightarrow> ends_in I m s) \<Longrightarrow> (\<not> b \<Longrightarrow> ends_in I n s) \<Longrightarrow> ends_in I (if b then m else n) s"
  by simp

lemma ends_in_ret [simp]: "ends_in I (ret x) s = I s" and ends_in_raise [simp]: "ends_in I (raise e) s = I s"
  by (simp_all add: ends_in_def)

lemma ends_inD: "ends_in I m s \<Longrightarrow> m s = (r, s') \<Longrightarrow> I s'"
  by (simp add: ends_in_def)

text \<open>A read-only loop that returns, returns the element-wise results.\<close>

lemma map_each_total:
  assumes "\<And>x. x \<in> set xs \<Longrightarrow> f x s = (Inr (g x), s)"
  shows "map_each f xs s = (Inr (map g xs), s)"
  using assms by (induction xs) simp_all

section \<open>Lists\<close>

text \<open>Rows are kept in lists; replacing the row with a given key is a \<open>map\<close>.\<close>

lemma distinct_map_snoc:
  "distinct (map f (xs @ [x])) \<longleftrightarrow> distinct (map f xs) \<and> f x \<notin> f ` set xs"
  by auto

lemma distinct_map_filter: "distinct (map f xs) \<Longrightarrow> distinct (map f (filter P xs))"
  by (induction xs) auto

lemma find_filter: "find P xs = (case filter P xs of [] \<Rightarrow> None | x # _ \<Rightarrow> Some x)"
  by (induction xs) auto

lemma find_SomeD: "find P xs = Some x \<Longrightarrow> x \<in> set xs \<and> P x"
  by (induction xs) (auto split: if_splits)

lemma filter_singletonD: "filter P xs = [x] \<Longrightarrow> x \<in> set xs \<and> P x"
  by (auto simp: filter_eq_Cons_iff)

lemma filter_eq_single:
  "distinct (map f xs) \<Longrightarrow> x \<in> set xs \<Longrightarrow> filter (\<lambda>y. f y = f x) xs = [x]"
proof (induction xs)
  case (Cons a xs)
  show ?case
  proof (cases "a = x")
    case True
    with Cons.prems have "\<forall>y \<in> set xs. f y \<noteq> f x" by (simp add: image_iff) metis
    with True show ?thesis by (simp add: filter_empty_conv)
  next
    case False
    with Cons.prems have "f a \<noteq> f x" "x \<in> set xs" by auto
    with Cons show ?thesis by simp
  qed
qed simp

lemma at_most_one:
  assumes "distinct xs" "\<And>x y. x \<in> set xs \<Longrightarrow> y \<in> set xs \<Longrightarrow> x = y"
  obtains "xs = []" | x where "xs = [x]"
proof (cases xs)
  case Nil
  then show ?thesis by (rule that(1))
next
  case (Cons x ys)
  have "y = x" if "y \<in> set ys" for y
    using that Cons assms(2) [of y x] by simp
  moreover have "x \<notin> set ys" using Cons assms(1) by simp
  ultimately have "ys = []" by (cases ys) auto
  with Cons have "xs = [x]" by simp
  then show ?thesis by (rule that(2))
qed

text \<open>A run that makes \<open>P\<close> true contains the step that does.\<close>

lemma crossing:
  assumes "r\<^sup>*\<^sup>* x z" "\<not> P x" "P z"
  obtains y y' where "r\<^sup>*\<^sup>* x y" "r y y'" "\<not> P y" "P y'" "r\<^sup>*\<^sup>* y' z"
proof -
  have "\<exists>y y'. r\<^sup>*\<^sup>* x y \<and> r y y' \<and> \<not> P y \<and> P y' \<and> r\<^sup>*\<^sup>* y' z"
    using assms(1,3)
  proof (induction rule: rtranclp_induct)
    case base
    then show ?case using assms(2) by simp
  next
    case (step y z)
    then show ?case by (cases "P y") (metis rtranclp.rtrancl_into_rtrancl, blast)
  qed
  then show thesis using that by blast
qed

end
