(* ===== verification/Models.thy ===== *)
theory Models
  imports Prelude
begin

text \<open>
  The data model of \<^verbatim>\<open>orders/backend/models.py\<close>: one record per model class, the
  database as the record of its tables, and the schema the classes declare (foreign
  keys, unique constraints, non-negative columns, cascading deletes) as functions
  on rows. The invariant \<open>db_ok\<close> says that a database satisfies that schema.
\<close>

section \<open>Choices\<close>

datatype order_state =
  Basket | New | Confirmed | Assembled | Sent | Delivered | Canceled

primrec state_code :: "order_state \<Rightarrow> string" where
  "state_code Basket = ''basket''"
| "state_code New = ''new''"
| "state_code Confirmed = ''confirmed''"
| "state_code Assembled = ''assembled''"
| "state_code Sent = ''sent''"
| "state_code Delivered = ''delivered''"
| "state_code Canceled = ''canceled''"

datatype user_type = ShopUser | Buyer

primrec user_type_code :: "user_type \<Rightarrow> string" where
  "user_type_code ShopUser = ''shop''"
| "user_type_code Buyer = ''buyer''"

section \<open>Model classes\<close>

text \<open>
  The first field of each record is the automatic primary key. Timestamps are
  integers (microseconds). \<open>user\<close> holds the fields of \<^verbatim>\<open>AbstractUser\<close> that the
  source reads or writes.
\<close>

record user =
  u_id :: int
  u_email :: string
  u_password :: string
  u_first_name :: string
  u_last_name :: string
  u_company :: string
  u_position :: string
  u_username :: string
  u_is_active :: bool
  u_is_staff :: bool
  u_is_superuser :: bool
  u_type :: user_type

record shop =
  s_id :: int
  s_name :: string
  s_url :: "string option"
  s_user :: "int option"
  s_state :: bool

record category =
  c_id :: int
  c_name :: string

text \<open>The rows of the many-to-many table behind \<^verbatim>\<open>Category.shops\<close>.\<close>

record category_shop =
  cs_id :: int
  cs_category :: int
  cs_shop :: int

record product =
  p_id :: int
  p_name :: string
  p_category :: int

record product_info =
  pi_id :: int
  pi_model :: string
  pi_external_id :: int
  pi_product :: int
  pi_shop :: int
  pi_quantity :: int
  pi_price :: int
  pi_price_rrc :: int

record parameter =
  pa_id :: int
  pa_name :: string

record product_parameter =
  pp_id :: int
  pp_info :: int
  pp_parameter :: int
  pp_value :: string

record contact =
  ct_id :: int
  ct_user :: int
  ct_city :: string
  ct_street :: string
  ct_house :: string
  ct_structure :: string
  ct_building :: string
  ct_apartment :: string
  ct_phone :: string

record order_t =
  o_id :: int
  o_user :: int
  o_dt :: int
  o_state :: order_state
  o_contact :: "int option"

record order_item =
  oi_id :: int
  oi_order :: int
  oi_info :: int
  oi_quantity :: int

record email_token =
  et_id :: int
  et_user :: int
  et_created_at :: int
  et_key :: string

record import_task =
  it_id :: int
  it_file :: string
  it_uploaded_at :: int
  it_is_processed :: bool
  it_products :: int
  it_categories :: int
  it_parameters :: int

section \<open>The database\<close>

record database =
  t_users :: "user list"
  t_shops :: "shop list"
  t_categories :: "category list"
  t_category_shops :: "category_shop list"
  t_products :: "product list"
  t_product_infos :: "product_info list"
  t_parameters :: "parameter list"
  t_product_parameters :: "product_parameter list"
  t_contacts :: "contact list"
  t_orders :: "order_t list"
  t_order_items :: "order_item list"
  t_email_tokens :: "email_token list"
  t_import_tasks :: "import_task list"

definition empty_db :: database where
  "empty_db = \<lparr>t_users = [], t_shops = [], t_categories = [], t_category_shops = [],
     t_products = [], t_product_infos = [], t_parameters = [], t_product_parameters = [],
     t_contacts = [], t_orders = [], t_order_items = [], t_email_tokens = [],
     t_import_tasks = []\<rparr>"

text \<open>
  The model classes by name, each after the classes it refers to, and a row of
  any of them.
\<close>

datatype model =
    UserM | ShopM | CategoryM | CategoryShopM | ProductM | ProductInfoM | ParameterM
  | ProductParameterM | ContactM | OrderM | OrderItemM | EmailTokenM | ImportTaskM

definition all_models :: "model list" where
  "all_models = [UserM, ShopM, CategoryM, CategoryShopM, ProductM, ProductInfoM, ParameterM,
     ProductParameterM, ContactM, OrderM, OrderItemM, EmailTokenM, ImportTaskM]"

datatype row =
    UserRow user
  | ShopRow shop
  | CategoryRow category
  | CategoryShopRow category_shop
  | ProductRow product
  | ProductInfoRow product_info
  | ParameterRow parameter
  | ProductParameterRow product_parameter
  | ContactRow contact
  | OrderRow order_t
  | OrderItemRow order_item
  | EmailTokenRow email_token
  | ImportTaskRow import_task

primrec model_of :: "row \<Rightarrow> model" where
  "model_of (UserRow _) = UserM"
| "model_of (ShopRow _) = ShopM"
| "model_of (CategoryRow _) = CategoryM"
| "model_of (CategoryShopRow _) = CategoryShopM"
| "model_of (ProductRow _) = ProductM"
| "model_of (ProductInfoRow _) = ProductInfoM"
| "model_of (ParameterRow _) = ParameterM"
| "model_of (ProductParameterRow _) = ProductParameterM"
| "model_of (ContactRow _) = ContactM"
| "model_of (OrderRow _) = OrderM"
| "model_of (OrderItemRow _) = OrderItemM"
| "model_of (EmailTokenRow _) = EmailTokenM"
| "model_of (ImportTaskRow _) = ImportTaskM"

primrec pk_of :: "row \<Rightarrow> int" where
  "pk_of (UserRow x) = u_id x"
| "pk_of (ShopRow x) = s_id x"
| "pk_of (CategoryRow x) = c_id x"
| "pk_of (CategoryShopRow x) = cs_id x"
| "pk_of (ProductRow x) = p_id x"
| "pk_of (ProductInfoRow x) = pi_id x"
| "pk_of (ParameterRow x) = pa_id x"
| "pk_of (ProductParameterRow x) = pp_id x"
| "pk_of (ContactRow x) = ct_id x"
| "pk_of (OrderRow x) = o_id x"
| "pk_of (OrderItemRow x) = oi_id x"
| "pk_of (EmailTokenRow x) = et_id x"
| "pk_of (ImportTaskRow x) = it_id x"

primrec with_pk :: "int \<Rightarrow> row \<Rightarrow> row" where
  "with_pk k (UserRow x) = UserRow (x\<lparr>u_id := k\<rparr>)"
| "with_pk k (ShopRow x) = ShopRow (x\<lparr>s_id := k\<rparr>)"
| "with_pk k (CategoryRow x) = CategoryRow (x\<lparr>c_id := k\<rparr>)"
| "with_pk k (CategoryShopRow x) = CategoryShopRow (x\<lparr>cs_id := k\<rparr>)"
| "with_pk k (ProductRow x) = ProductRow (x\<lparr>p_id := k\<rparr>)"
| "with_pk k (ProductInfoRow x) = ProductInfoRow (x\<lparr>pi_id := k\<rparr>)"
| "with_pk k (ParameterRow x) = ParameterRow (x\<lparr>pa_id := k\<rparr>)"
| "with_pk k (ProductParameterRow x) = ProductParameterRow (x\<lparr>pp_id := k\<rparr>)"
| "with_pk k (ContactRow x) = ContactRow (x\<lparr>ct_id := k\<rparr>)"
| "with_pk k (OrderRow x) = OrderRow (x\<lparr>o_id := k\<rparr>)"
| "with_pk k (OrderItemRow x) = OrderItemRow (x\<lparr>oi_id := k\<rparr>)"
| "with_pk k (EmailTokenRow x) = EmailTokenRow (x\<lparr>et_id := k\<rparr>)"
| "with_pk k (ImportTaskRow x) = ImportTaskRow (x\<lparr>it_id := k\<rparr>)"

primrec table :: "model \<Rightarrow> database \<Rightarrow> row list" where
  "table UserM d = map UserRow (t_users d)"
| "table ShopM d = map ShopRow (t_shops d)"
| "table CategoryM d = map CategoryRow (t_categories d)"
| "table CategoryShopM d = map CategoryShopRow (t_category_shops d)"
| "table ProductM d = map ProductRow (t_products d)"
| "table ProductInfoM d = map ProductInfoRow (t_product_infos d)"
| "table ParameterM d = map ParameterRow (t_parameters d)"
| "table ProductParameterM d = map ProductParameterRow (t_product_parameters d)"
| "table ContactM d = map ContactRow (t_contacts d)"
| "table OrderM d = map OrderRow (t_orders d)"
| "table OrderItemM d = map OrderItemRow (t_order_items d)"
| "table EmailTokenM d = map EmailTokenRow (t_email_tokens d)"
| "table ImportTaskM d = map ImportTaskRow (t_import_tasks d)"

definition pks :: "model \<Rightarrow> database \<Rightarrow> int list" where
  "pks m d = map pk_of (table m d)"

section \<open>The schema\<close>

text \<open>
  The foreign keys of a row: the model it refers to and the key. A nullable
  foreign key that is \<open>None\<close> refers to nothing.
\<close>

primrec fk_of :: "row \<Rightarrow> (model \<times> int) list" where
  "fk_of (UserRow _) = []"
| "fk_of (ShopRow x) = (case s_user x of None \<Rightarrow> [] | Some k \<Rightarrow> [(UserM, k)])"
| "fk_of (CategoryRow _) = []"
| "fk_of (CategoryShopRow x) = [(CategoryM, cs_category x), (ShopM, cs_shop x)]"
| "fk_of (ProductRow x) = [(CategoryM, p_category x)]"
| "fk_of (ProductInfoRow x) = [(ProductM, pi_product x), (ShopM, pi_shop x)]"
| "fk_of (ParameterRow _) = []"
| "fk_of (ProductParameterRow x) = [(ProductInfoM, pp_info x), (ParameterM, pp_parameter x)]"
| "fk_of (ContactRow x) = [(UserM, ct_user x)]"
| "fk_of (OrderRow x) =
     (UserM, o_user x) # (case o_contact x of None \<Rightarrow> [] | Some k \<Rightarrow> [(ContactM, k)])"
| "fk_of (OrderItemRow x) = [(OrderM, oi_order x), (ProductInfoM, oi_info x)]"
| "fk_of (EmailTokenRow x) = [(UserM, et_user x)]"
| "fk_of (ImportTaskRow _) = []"

text \<open>Two rows that the unique constraints do not allow side by side.\<close>

primrec clash :: "row \<Rightarrow> row \<Rightarrow> bool" where
  "clash (UserRow x) r = (case r of UserRow y \<Rightarrow> u_email x = u_email y | _ \<Rightarrow> False)"
| "clash (ShopRow x) r =
     (case r of ShopRow y \<Rightarrow> s_user x \<noteq> None \<and> s_user x = s_user y | _ \<Rightarrow> False)"
| "clash (CategoryRow x) r = False"
| "clash (CategoryShopRow x) r =
     (case r of CategoryShopRow y \<Rightarrow> cs_category x = cs_category y \<and> cs_shop x = cs_shop y
      | _ \<Rightarrow> False)"
| "clash (ProductRow x) r = False"
| "clash (ProductInfoRow x) r =
     (case r of ProductInfoRow y \<Rightarrow>
        pi_product x = pi_product y \<and> pi_shop x = pi_shop y \<and> pi_external_id x = pi_external_id y
      | _ \<Rightarrow> False)"
| "clash (ParameterRow x) r = False"
| "clash (ProductParameterRow x) r =
     (case r of ProductParameterRow y \<Rightarrow> pp_info x = pp_info y \<and> pp_parameter x = pp_parameter y
      | _ \<Rightarrow> False)"
| "clash (ContactRow x) r = False"
| "clash (OrderRow x) r = False"
| "clash (OrderItemRow x) r =
     (case r of OrderItemRow y \<Rightarrow> oi_order x = oi_order y \<and> oi_info x = oi_info y | _ \<Rightarrow> False)"
| "clash (EmailTokenRow x) r = (case r of EmailTokenRow y \<Rightarrow> et_key x = et_key y | _ \<Rightarrow> False)"
| "clash (ImportTaskRow x) r = False"

text \<open>The columns declared \<^verbatim>\<open>PositiveIntegerField\<close> hold no negative value.\<close>

definition positive_ok :: "row \<Rightarrow> bool" where
  "positive_ok r =
     (case r of
        ProductInfoRow x \<Rightarrow>
          0 \<le> pi_external_id x \<and> 0 \<le> pi_quantity x \<and> 0 \<le> pi_price x \<and> 0 \<le> pi_price_rrc x
      | OrderItemRow x \<Rightarrow> 0 \<le> oi_quantity x
      | ImportTaskRow x \<Rightarrow> 0 \<le> it_products x \<and> 0 \<le> it_categories x \<and> 0 \<le> it_parameters x
      | _ \<Rightarrow> True)"

definition refs_ok :: "row \<Rightarrow> database \<Rightarrow> bool" where
  "refs_ok r d \<longleftrightarrow> list_all (\<lambda>(m, k). k \<in> set (pks m d)) (fk_of r)"

definition unique_ok :: "row \<Rightarrow> database \<Rightarrow> bool" where
  "unique_ok r d \<longleftrightarrow>
     list_all (\<lambda>r'. pk_of r' \<noteq> pk_of r \<longrightarrow> \<not> clash r r') (table (model_of r) d)"

text \<open>The row \<open>r\<close>, under its key, may be stored in \<open>d\<close>.\<close>

definition row_ok :: "row \<Rightarrow> database \<Rightarrow> bool" where
  "row_ok r d \<longleftrightarrow> positive_ok r \<and> refs_ok r d \<and> unique_ok r d"

definition db_ok :: "database \<Rightarrow> bool" where
  "db_ok d \<longleftrightarrow> list_all (\<lambda>m. distinct (pks m d) \<and> list_all (\<lambda>r. row_ok r d) (table m d)) all_models"

section \<open>Changes of one table\<close>

text \<open>\<open>put_row\<close> adds a row at the end of its table.\<close>

primrec put_row :: "row \<Rightarrow> database \<Rightarrow> database" where
  "put_row (UserRow x) d = d\<lparr>t_users := t_users d @ [x]\<rparr>"
| "put_row (ShopRow x) d = d\<lparr>t_shops := t_shops d @ [x]\<rparr>"
| "put_row (CategoryRow x) d = d\<lparr>t_categories := t_categories d @ [x]\<rparr>"
| "put_row (CategoryShopRow x) d = d\<lparr>t_category_shops := t_category_shops d @ [x]\<rparr>"
| "put_row (ProductRow x) d = d\<lparr>t_products := t_products d @ [x]\<rparr>"
| "put_row (ProductInfoRow x) d = d\<lparr>t_product_infos := t_product_infos d @ [x]\<rparr>"
| "put_row (ParameterRow x) d = d\<lparr>t_parameters := t_parameters d @ [x]\<rparr>"
| "put_row (ProductParameterRow x) d = d\<lparr>t_product_parameters := t_product_parameters d @ [x]\<rparr>"
| "put_row (ContactRow x) d = d\<lparr>t_contacts := t_contacts d @ [x]\<rparr>"
| "put_row (OrderRow x) d = d\<lparr>t_orders := t_orders d @ [x]\<rparr>"
| "put_row (OrderItemRow x) d = d\<lparr>t_order_items := t_order_items d @ [x]\<rparr>"
| "put_row (EmailTokenRow x) d = d\<lparr>t_email_tokens := t_email_tokens d @ [x]\<rparr>"
| "put_row (ImportTaskRow x) d = d\<lparr>t_import_tasks := t_import_tasks d @ [x]\<rparr>"

text \<open>\<open>replace_row\<close> overwrites the row with the same key.\<close>

definition replace_by :: "('a \<Rightarrow> int) \<Rightarrow> 'a \<Rightarrow> 'a list \<Rightarrow> 'a list" where
  "replace_by key x xs = map (\<lambda>y. if key y = key x then x else y) xs"

primrec replace_row :: "row \<Rightarrow> database \<Rightarrow> database" where
  "replace_row (UserRow x) d = d\<lparr>t_users := replace_by u_id x (t_users d)\<rparr>"
| "replace_row (ShopRow x) d = d\<lparr>t_shops := replace_by s_id x (t_shops d)\<rparr>"
| "replace_row (CategoryRow x) d = d\<lparr>t_categories := replace_by c_id x (t_categories d)\<rparr>"
| "replace_row (CategoryShopRow x) d =
     d\<lparr>t_category_shops := replace_by cs_id x (t_category_shops d)\<rparr>"
| "replace_row (ProductRow x) d = d\<lparr>t_products := replace_by p_id x (t_products d)\<rparr>"
| "replace_row (ProductInfoRow x) d = d\<lparr>t_product_infos := replace_by pi_id x (t_product_infos d)\<rparr>"
| "replace_row (ParameterRow x) d = d\<lparr>t_parameters := replace_by pa_id x (t_parameters d)\<rparr>"
| "replace_row (ProductParameterRow x) d =
     d\<lparr>t_product_parameters := replace_by pp_id x (t_product_parameters d)\<rparr>"
| "replace_row (ContactRow x) d = d\<lparr>t_contacts := replace_by ct_id x (t_contacts d)\<rparr>"
| "replace_row (OrderRow x) d = d\<lparr>t_orders := replace_by o_id x (t_orders d)\<rparr>"
| "replace_row (OrderItemRow x) d = d\<lparr>t_order_items := replace_by oi_id x (t_order_items d)\<rparr>"
| "replace_row (EmailTokenRow x) d = d\<lparr>t_email_tokens := replace_by et_id x (t_email_tokens d)\<rparr>"
| "replace_row (ImportTaskRow x) d = d\<lparr>t_import_tasks := replace_by it_id x (t_import_tasks d)\<rparr>"

text \<open>\<^verbatim>\<open>save()\<close> updates the row with the instance's key and inserts it where there is none.\<close>

definition save_row :: "row \<Rightarrow> database \<Rightarrow> database" where
  "save_row r d = (if pk_of r \<in> set (pks (model_of r) d) then replace_row r d else put_row r d)"

primrec filter_table :: "model \<Rightarrow> (row \<Rightarrow> bool) \<Rightarrow> database \<Rightarrow> database" where
  "filter_table UserM P d = d\<lparr>t_users := filter (\<lambda>x. P (UserRow x)) (t_users d)\<rparr>"
| "filter_table ShopM P d = d\<lparr>t_shops := filter (\<lambda>x. P (ShopRow x)) (t_shops d)\<rparr>"
| "filter_table CategoryM P d = d\<lparr>t_categories := filter (\<lambda>x. P (CategoryRow x)) (t_categories d)\<rparr>"
| "filter_table CategoryShopM P d =
     d\<lparr>t_category_shops := filter (\<lambda>x. P (CategoryShopRow x)) (t_category_shops d)\<rparr>"
| "filter_table ProductM P d = d\<lparr>t_products := filter (\<lambda>x. P (ProductRow x)) (t_products d)\<rparr>"
| "filter_table ProductInfoM P d =
     d\<lparr>t_product_infos := filter (\<lambda>x. P (ProductInfoRow x)) (t_product_infos d)\<rparr>"
| "filter_table ParameterM P d =
     d\<lparr>t_parameters := filter (\<lambda>x. P (ParameterRow x)) (t_parameters d)\<rparr>"
| "filter_table ProductParameterM P d =
     d\<lparr>t_product_parameters := filter (\<lambda>x. P (ProductParameterRow x)) (t_product_parameters d)\<rparr>"
| "filter_table ContactM P d = d\<lparr>t_contacts := filter (\<lambda>x. P (ContactRow x)) (t_contacts d)\<rparr>"
| "filter_table OrderM P d = d\<lparr>t_orders := filter (\<lambda>x. P (OrderRow x)) (t_orders d)\<rparr>"
| "filter_table OrderItemM P d =
     d\<lparr>t_order_items := filter (\<lambda>x. P (OrderItemRow x)) (t_order_items d)\<rparr>"
| "filter_table EmailTokenM P d =
     d\<lparr>t_email_tokens := filter (\<lambda>x. P (EmailTokenRow x)) (t_email_tokens d)\<rparr>"
| "filter_table ImportTaskM P d =
     d\<lparr>t_import_tasks := filter (\<lambda>x. P (ImportTaskRow x)) (t_import_tasks d)\<rparr>"

text \<open>
  Every foreign key is declared \<^verbatim>\<open>on_delete=models.CASCADE\<close>: deleting rows deletes the
  rows that refer to them. The tables are swept in the order of \<open>all_models\<close>, so a
  row goes when it was selected or when a row it refers to has gone before.
\<close>

definition sweep_table :: "(model \<times> int) list \<Rightarrow> model \<Rightarrow> database \<Rightarrow> database" where
  "sweep_table S m d = filter_table m (\<lambda>r. (m, pk_of r) \<notin> set S \<and> refs_ok r d) d"

definition cascade_delete :: "model \<Rightarrow> int list \<Rightarrow> database \<Rightarrow> database" where
  "cascade_delete m ks d = fold (sweep_table (map (Pair m) ks)) all_models d"

definition db_size :: "database \<Rightarrow> nat" where
  "db_size d = sum_list (map (\<lambda>m. length (table m d)) all_models)"

end
