(* ===== verification/Schema.thy ===== *)
theory Schema
  imports Models
begin

text \<open>
  Generic facts on the tables: what adding, replacing and deleting rows does to each
  table, and that each of them preserves the schema invariant \<open>db_ok\<close>. Everything
  is stated once for \<open>row\<close> and \<open>model\<close>, never per table.
\<close>

section \<open>One table after a change\<close>

lemma table_put_row:
  "table m (put_row r d) = (if m = model_of r then table m d @ [r] else table m d)"
  by (cases r; cases m) simp_all

lemma map_replace_by: "(\<And>x y. c x = c y \<longleftrightarrow> x = y) \<Longrightarrow> (\<And>x. pk_of (c x) = key x) \<Longrightarrow>
   map c (replace_by key x xs) = map (\<lambda>y. if pk_of y = pk_of (c x) then c x else y) (map c xs)"
  by (simp add: replace_by_def)

lemma table_replace_row:
  "table m (replace_row r d) =
     (if m = model_of r then map (\<lambda>y. if pk_of y = pk_of r then r else y) (table m d) else table m d)"
  by (cases r; cases m) (simp_all add: replace_by_def)

lemma table_filter_table:
  "table m (filter_table m' P d) = (if m = m' then filter P (table m d) else table m d)"
  by (cases m'; cases m) (simp_all add: filter_map comp_def)

lemma table_model: "r \<in> set (table m d) \<Longrightarrow> model_of r = m"
  by (cases m) auto

lemma pks_put_row:
  "pks m (put_row r d) = (if m = model_of r then pks m d @ [pk_of r] else pks m d)"
  by (simp add: pks_def table_put_row)

lemma pks_replace_row [simp]: "pks m (replace_row r d) = pks m d"
  by (auto simp: pks_def table_replace_row)

lemma pks_filter_table:
  "pks m (filter_table m' P d) = (if m = m' then map pk_of (filter P (table m d)) else pks m d)"
  by (simp add: pks_def table_filter_table)

lemma pks_typed [simp]:
  "pks UserM d = map u_id (t_users d)"
  "pks ShopM d = map s_id (t_shops d)"
  "pks CategoryM d = map c_id (t_categories d)"
  "pks CategoryShopM d = map cs_id (t_category_shops d)"
  "pks ProductM d = map p_id (t_products d)"
  "pks ProductInfoM d = map pi_id (t_product_infos d)"
  "pks ParameterM d = map pa_id (t_parameters d)"
  "pks ProductParameterM d = map pp_id (t_product_parameters d)"
  "pks ContactM d = map ct_id (t_contacts d)"
  "pks OrderM d = map o_id (t_orders d)"
  "pks OrderItemM d = map oi_id (t_order_items d)"
  "pks EmailTokenM d = map et_id (t_email_tokens d)"
  "pks ImportTaskM d = map it_id (t_import_tasks d)"
  by (simp_all add: pks_def)

lemma in_pks: "r \<in> set (table m d) \<Longrightarrow> pk_of r \<in> set (pks m d)"
  by (simp add: pks_def)

lemma model_with_pk [simp]: "model_of (with_pk k r) = model_of r"
  by (cases r) simp_all

lemma pk_with_pk [simp]: "pk_of (with_pk k r) = k"
  by (cases r) simp_all

lemma in_all_models [simp]: "m \<in> set all_models"
  by (cases m) (simp_all add: all_models_def)

lemma clash_sym: "clash r r' = clash r' r"
  by (cases r; cases r') (simp_all, metis+)

lemma replace_last:
  assumes "key x \<notin> key ` set xs" "key y = key x"
  shows "replace_by key y (xs @ [x]) = xs @ [y]"
proof -
  have "map (\<lambda>z. if key z = key y then y else z) xs = xs"
    using assms by (intro map_idI) (metis image_eqI)
  then show ?thesis using assms(2) by (simp add: replace_by_def)
qed

section \<open>The invariant\<close>

lemma db_ok_iff:
  "db_ok d \<longleftrightarrow> (\<forall>m. distinct (pks m d)) \<and> (\<forall>m. \<forall>r \<in> set (table m d). row_ok r d)"
  by (auto simp: db_ok_def list_all_iff)

lemma db_ok_distinct: "db_ok d \<Longrightarrow> distinct (pks m d)"
  by (simp add: db_ok_iff)

lemma db_ok_row: "db_ok d \<Longrightarrow> r \<in> set (table m d) \<Longrightarrow> row_ok r d"
  by (simp add: db_ok_iff)

lemma db_ok_refs: "db_ok d \<Longrightarrow> r \<in> set (table m d) \<Longrightarrow> refs_ok r d"
  using db_ok_row row_ok_def by blast

lemma refs_ok_mono: "refs_ok r d \<Longrightarrow> (\<And>m. set (pks m d) \<subseteq> set (pks m d')) \<Longrightarrow> refs_ok r d'"
  unfolding refs_ok_def list_all_iff by fast

lemma unique_okD:
  "unique_ok r d \<Longrightarrow> r' \<in> set (table (model_of r) d) \<Longrightarrow> clash r r' \<Longrightarrow> pk_of r' = pk_of r"
  by (auto simp: unique_ok_def list_all_iff)

lemma unique_ok_subset:
  "unique_ok r d \<Longrightarrow> set (table (model_of r) d') \<subseteq> set (table (model_of r) d) \<Longrightarrow> unique_ok r d'"
  by (auto simp: unique_ok_def list_all_iff)

lemma same_pk_same_row:
  "distinct (pks m d) \<Longrightarrow> r \<in> set (table m d) \<Longrightarrow> r' \<in> set (table m d) \<Longrightarrow> pk_of r = pk_of r' \<Longrightarrow> r = r'"
  by (simp add: pks_def distinct_map inj_on_def)

lemma db_ok_put_row:
  assumes "db_ok d" "pk_of r \<notin> set (pks (model_of r) d)" "row_ok r d"
  shows "db_ok (put_row r d)"
  unfolding db_ok_iff
proof (intro conjI allI ballI)
  fix m
  show "distinct (pks m (put_row r d))"
    using assms(1,2) by (simp add: pks_put_row db_ok_distinct)
  fix r' assume r': "r' \<in> set (table m (put_row r d))"
  have mono: "\<And>m. set (pks m d) \<subseteq> set (pks m (put_row r d))"
    by (auto simp: pks_put_row)
  have old: "row_ok r' d"
    using r' assms(1,3) by (auto simp: table_put_row db_ok_row split: if_splits)
  have "unique_ok r' (put_row r d)"
  proof (cases "r' = r")
    case True
    then show ?thesis
      using assms(3) by (auto simp: row_ok_def unique_ok_def list_all_iff table_put_row)
  next
    case False
    then have mem: "r' \<in> set (table m d)" "model_of r' = m"
      using r' table_model [of r' m d] by (auto simp: table_put_row split: if_splits)
    have "unique_ok r d" using assms(3) by (simp add: row_ok_def)
    then have "m = model_of r \<Longrightarrow> clash r' r \<Longrightarrow> pk_of r' = pk_of r"
      using mem unique_okD [of r d r'] clash_sym [of r r'] by auto
    then show ?thesis
      using old mem by (auto simp: row_ok_def unique_ok_def list_all_iff table_put_row)
  qed
  then show "row_ok r' (put_row r d)"
    using old refs_ok_mono [OF _ mono] by (simp add: row_ok_def)
qed

lemma db_ok_replace_row:
  assumes "db_ok d" "row_ok r d"
  shows "db_ok (replace_row r d)"
  unfolding db_ok_iff
proof (intro conjI allI ballI)
  fix m
  show "distinct (pks m (replace_row r d))"
    using assms(1) by (simp add: db_ok_distinct)
  fix r' assume r': "r' \<in> set (table m (replace_row r d))"
  let ?t = "table m (replace_row r d)"
  have old: "row_ok r' d"
    using r' assms by (auto simp: table_replace_row db_ok_row split: if_splits)
  have m: "model_of r' = m" using r' by (rule table_model)
  have "\<not> clash r' r''" if "r'' \<in> set ?t" "pk_of r'' \<noteq> pk_of r'" for r''
  proof
    assume c: "clash r' r''"
    have "r'' \<in> set (table m d) \<or> r'' = r \<and> m = model_of r"
      using that(1) by (auto simp: table_replace_row split: if_splits)
    then consider "r'' \<in> set (table m d)" | "r'' = r" "m = model_of r" by blast
    then show False
    proof cases
      case 1
      then show False
        using old c that(2) m unique_okD [of r' d r''] by (simp add: row_ok_def)
    next
      case 2
      then have "r' \<in> set (table m d)"
        using r' that(2) by (auto simp: table_replace_row split: if_splits)
      then show False
        using assms(2) c that(2) 2 unique_okD [of r d r'] clash_sym [of r r']
        by (auto simp: row_ok_def)
    qed
  qed
  then have "unique_ok r' (replace_row r d)"
    using m by (auto simp: unique_ok_def list_all_iff)
  then show "row_ok r' (replace_row r d)"
    using old by (simp add: row_ok_def refs_ok_def)
qed

lemma db_ok_save_row: "db_ok d \<Longrightarrow> row_ok r d \<Longrightarrow> db_ok (save_row r d)"
  by (simp add: save_row_def db_ok_put_row db_ok_replace_row)

section \<open>Cascading deletes\<close>

text \<open>The position of a class in \<open>all_models\<close>: foreign keys point to earlier classes.\<close>

primrec rank :: "model \<Rightarrow> nat" where
  "rank UserM = 0" | "rank ShopM = 1" | "rank CategoryM = 2" | "rank CategoryShopM = 3"
| "rank ProductM = 4" | "rank ProductInfoM = 5" | "rank ParameterM = 6"
| "rank ProductParameterM = 7" | "rank ContactM = 8" | "rank OrderM = 9"
| "rank OrderItemM = 10" | "rank EmailTokenM = 11" | "rank ImportTaskM = 12"

lemma fk_rank: "(m, k) \<in> set (fk_of r) \<Longrightarrow> rank m < rank (model_of r)"
  by (cases r) (auto split: option.splits)

lemma table_sweep:
  "table m (sweep_table S m' d) =
     (if m = m' then filter (\<lambda>r. (m, pk_of r) \<notin> set S \<and> refs_ok r d) (table m d) else table m d)"
  by (simp add: sweep_table_def table_filter_table)

lemma table_sweep_notin: "m \<notin> set ms \<Longrightarrow> table m (fold (sweep_table S) ms d) = table m d"
  by (induction ms arbitrary: d) (auto simp: table_sweep)

lemma sweep_tables_subset:
  "\<exists>P. table m (fold (sweep_table S) ms d) = filter P (table m d)"
proof (induction ms arbitrary: d)
  case Nil
  have "table m d = filter (\<lambda>_. True) (table m d)" by simp
  then show ?case by (metis fold_Nil id_apply)
next
  case (Cons m' ms)
  from Cons obtain P where
    "table m (fold (sweep_table S) ms (sweep_table S m' d)) = filter P (table m (sweep_table S m' d))"
    by blast
  then show ?case by (auto simp: table_sweep intro: exI)
qed

lemma refs_ok_sweep_later:
  assumes "refs_ok r d" "rank (model_of r) \<le> rank m"
  shows "refs_ok r (sweep_table S m d)"
  unfolding refs_ok_def list_all_iff
proof (intro ballI, clarify)
  fix m' k assume fk: "(m', k) \<in> set (fk_of r)"
  then have "m' \<noteq> m" using fk_rank [of m' k r] assms(2) by auto
  then show "k \<in> set (pks m' (sweep_table S m d))"
    using fk assms(1) by (auto simp: refs_ok_def list_all_iff pks_def table_sweep)
qed

lemma sweep_refs:
  "sorted_wrt (\<lambda>m m'. rank m < rank m') ms \<Longrightarrow> m \<in> set ms \<Longrightarrow>
   r \<in> set (table m (fold (sweep_table S) ms d)) \<Longrightarrow> refs_ok r (fold (sweep_table S) ms d)"
proof (induction ms rule: rev_induct)
  case (snoc m' ms)
  let ?d = "fold (sweep_table S) ms d"
  have r: "r \<in> set (table m (sweep_table S m' ?d))" using snoc.prems(3) by simp
  have mr: "model_of r = m" using r by (rule table_model)
  have "refs_ok r ?d"
    using snoc r by (cases "m = m'") (auto simp: sorted_wrt_append table_sweep)
  moreover have "rank (model_of r) \<le> rank m'"
    using snoc.prems(1,2) mr by (auto simp: sorted_wrt_append)
  ultimately show ?case by (simp add: refs_ok_sweep_later)
qed simp

lemma all_models_sorted: "sorted_wrt (\<lambda>m m'. rank m < rank m') all_models"
  by (simp add: all_models_def)

text \<open>Deleting any rows of any class leaves no dangling reference and no duplicate.\<close>

lemma db_ok_cascade_delete:
  assumes "db_ok d"
  shows "db_ok (cascade_delete m ks d)"
  unfolding db_ok_iff
proof (intro conjI allI ballI)
  let ?d = "cascade_delete m ks d"
  fix m'
  obtain P where P: "table m' ?d = filter P (table m' d)"
    using sweep_tables_subset [of m' "map (Pair m) ks" all_models d]
    by (auto simp: cascade_delete_def)
  show "distinct (pks m' ?d)"
    using assms P distinct_map_filter [of pk_of "table m' d" P]
    by (simp add: pks_def db_ok_iff)
  fix r assume r: "r \<in> set (table m' ?d)"
  then have "row_ok r d" "model_of r = m'"
    using assms P table_model by (auto simp: db_ok_row)
  then show "row_ok r ?d"
    using r P unique_ok_subset [of r d ?d]
      sweep_refs [OF all_models_sorted in_all_models, of r m' "map (Pair m) ks" d]
    by (auto simp: row_ok_def cascade_delete_def)
qed

text \<open>Sweeping tables that hold no selected and no dangling row changes nothing.\<close>

lemma filter_table_id:
  assumes "\<And>r. r \<in> set (table m d) \<Longrightarrow> P r"
  shows "filter_table m P d = d"
  using assms by (cases m) (simp_all add: filter_id_conv)

lemma sweep_fold_id:
  assumes "\<And>m. m \<in> set ms \<Longrightarrow> m \<notin> fst ` set S"
    and "\<And>m r. m \<in> set ms \<Longrightarrow> r \<in> set (table m d) \<Longrightarrow> refs_ok r d"
  shows "fold (sweep_table S) ms d = d"
  using assms
proof (induction ms)
  case (Cons m ms)
  have "sweep_table S m d = d"
    unfolding sweep_table_def
    by (rule filter_table_id) (use Cons.prems in \<open>force\<close>)
  moreover have "fold (sweep_table S) ms d = d"
    by (rule Cons.IH) (use Cons.prems in auto)
  ultimately show ?case by simp
qed simp

lemma selected_iff [simp]: "(m, k) \<in> Pair m ` set ks \<longleftrightarrow> k \<in> set ks"
  by auto

lemma selected_other [simp]: "m \<noteq> m' \<Longrightarrow> (m, k) \<notin> Pair m' ` set ks"
  by auto

lemma sweep_unselected:
  assumes "m \<noteq> m'" "\<And>r. r \<in> set (table m d) \<Longrightarrow> refs_ok r d \<longleftrightarrow> Q r"
  shows "sweep_table (map (Pair m') ks) m d = filter_table m Q d"
  using assms unfolding sweep_table_def by (cases m) (simp_all cong: filter_cong)

lemma sweep_selected:
  assumes "db_ok d"
  shows "sweep_table (map (Pair m) ks) m d = filter_table m (\<lambda>r. pk_of r \<notin> set ks) d"
  using db_ok_refs [OF assms, of _ m] unfolding sweep_table_def
  by (cases m) (simp_all cong: filter_cong)

text \<open>The deletes the application issues, in closed form. Nothing refers to a leaf class.\<close>

definition leaf :: "model \<Rightarrow> bool" where
  "leaf m \<longleftrightarrow> m \<in> {CategoryShopM, ProductParameterM, OrderItemM, EmailTokenM, ImportTaskM}"

lemma fk_not_leaf: "(m, k) \<in> set (fk_of r) \<Longrightarrow> \<not> leaf m"
  by (cases r) (auto simp: leaf_def split: option.splits)

lemma all_models_split:
  obtains pre post where "all_models = pre @ m # post" "m \<notin> set pre" "m \<notin> set post"
proof -
  have "distinct all_models" by (simp add: all_models_def)
  moreover obtain pre post where s: "all_models = pre @ m # post"
    using split_list [OF in_all_models [of m]] by blast
  ultimately have "distinct (pre @ m # post)" by (simp only:)
  then show thesis using that [OF s] by simp
qed

lemma refs_ok_filter_leaf: "leaf m \<Longrightarrow> refs_ok r (filter_table m P d) \<longleftrightarrow> refs_ok r d"
  unfolding refs_ok_def list_all_iff
  by (rule ball_cong) (auto simp: pks_filter_table dest: fk_not_leaf split: if_splits)

lemma cascade_delete_leaf:
  assumes "db_ok d" "leaf m"
  shows "cascade_delete m ks d = filter_table m (\<lambda>r. pk_of r \<notin> set ks) d"
proof -
  let ?f = "fold (sweep_table (map (Pair m) ks))"
  let ?d = "filter_table m (\<lambda>r. pk_of r \<notin> set ks) d"
  obtain pre post where split: "all_models = pre @ m # post" "m \<notin> set pre" "m \<notin> set post"
    by (rule all_models_split)
  have 1: "?f pre d = d"
    by (rule sweep_fold_id) (use split(2) db_ok_refs [OF assms(1)] in auto)
  have 2: "?f post ?d = ?d"
  proof (rule sweep_fold_id)
    fix m' r assume m': "m' \<in> set post" and r: "r \<in> set (table m' ?d)"
    then have "r \<in> set (table m' d)" by (auto simp: table_filter_table split: if_splits)
    then show "refs_ok r ?d"
      using db_ok_refs [OF assms(1)] refs_ok_filter_leaf [OF assms(2)] by blast
  qed (use split(3) in auto)
  show ?thesis
    unfolding cascade_delete_def split(1)
    by (simp add: 1 2 sweep_selected assms(1))
qed

lemma cascade_delete_items:
  "db_ok d \<Longrightarrow> cascade_delete OrderItemM ks d =
     d\<lparr>t_order_items := filter (\<lambda>x. oi_id x \<notin> set ks) (t_order_items d)\<rparr>"
  by (simp add: cascade_delete_leaf leaf_def)

lemma cascade_delete_tokens:
  "db_ok d \<Longrightarrow> cascade_delete EmailTokenM ks d =
     d\<lparr>t_email_tokens := filter (\<lambda>x. et_id x \<notin> set ks) (t_email_tokens d)\<rparr>"
  by (simp add: cascade_delete_leaf leaf_def)

lemma cascade_delete_infos:
  assumes "db_ok d"
  shows "cascade_delete ProductInfoM ks d =
     d\<lparr>t_product_infos := filter (\<lambda>x. pi_id x \<notin> set ks) (t_product_infos d),
       t_product_parameters := filter (\<lambda>x. pp_info x \<notin> set ks) (t_product_parameters d),
       t_order_items := filter (\<lambda>x. oi_info x \<notin> set ks) (t_order_items d)\<rparr>"
proof -
  let ?f = "fold (sweep_table (map (Pair ProductInfoM) ks))"
  let ?pre = "[UserM, ShopM, CategoryM, CategoryShopM, ProductM]"
  let ?d1 = "d\<lparr>t_product_infos := filter (\<lambda>x. pi_id x \<notin> set ks) (t_product_infos d)\<rparr>"
  let ?d2 = "?d1\<lparr>t_product_parameters := filter (\<lambda>x. pp_info x \<notin> set ks) (t_product_parameters d)\<rparr>"
  let ?d3 = "?d2\<lparr>t_order_items := filter (\<lambda>x. oi_info x \<notin> set ks) (t_order_items d)\<rparr>"
  have split: "all_models = ?pre @ [ProductInfoM] @ [ParameterM] @ [ProductParameterM] @
      [ContactM, OrderM] @ [OrderItemM] @ [EmailTokenM, ImportTaskM]"
    by (simp add: all_models_def)
  note refs = db_ok_refs [OF assms]
  have 1: "?f ?pre d = d"
    by (rule sweep_fold_id) (auto intro: refs)
  have 2: "?f [ProductInfoM] d = ?d1"
    by (simp add: sweep_selected assms)
  have 3: "?f [ParameterM] ?d1 = ?d1"
    by (rule sweep_fold_id) (auto simp: refs_ok_def)
  have pp: "r \<in> set (table ProductParameterM ?d1) \<Longrightarrow> refs_ok r ?d1 \<longleftrightarrow>
      (\<forall>x. r = ProductParameterRow x \<longrightarrow> pp_info x \<notin> set ks)" for r
    using refs [of r ProductParameterM] by (auto simp: refs_ok_def)
  have 4: "?f [ProductParameterM] ?d1 = ?d2"
  proof -
    have "sweep_table (map (Pair ProductInfoM) ks) ProductParameterM ?d1 = filter_table ProductParameterM
        (\<lambda>r. \<forall>x. r = ProductParameterRow x \<longrightarrow> pp_info x \<notin> set ks) ?d1"
      by (rule sweep_unselected) (use pp in blast)+
    then show ?thesis by simp
  qed
  have 5: "?f [ContactM, OrderM] ?d2 = ?d2"
  proof (rule sweep_fold_id)
    fix m r assume m: "m \<in> set [ContactM, OrderM]" and r: "r \<in> set (table m ?d2)"
    then have "refs_ok r d" by (intro refs [of r m]) auto
    then show "refs_ok r ?d2"
      using m r by (auto simp: refs_ok_def split: option.splits)
  qed auto
  have oi: "r \<in> set (table OrderItemM ?d2) \<Longrightarrow> refs_ok r ?d2 \<longleftrightarrow>
      (\<forall>x. r = OrderItemRow x \<longrightarrow> oi_info x \<notin> set ks)" for r
    using refs [of r OrderItemM] by (auto simp: refs_ok_def)
  have 6: "?f [OrderItemM] ?d2 = ?d3"
  proof -
    have "sweep_table (map (Pair ProductInfoM) ks) OrderItemM ?d2 = filter_table OrderItemM
        (\<lambda>r. \<forall>x. r = OrderItemRow x \<longrightarrow> oi_info x \<notin> set ks) ?d2"
      by (rule sweep_unselected) (use oi in blast)+
    then show ?thesis by simp
  qed
  have 7: "?f [EmailTokenM, ImportTaskM] ?d3 = ?d3"
  proof (rule sweep_fold_id)
    fix m r assume m: "m \<in> set [EmailTokenM, ImportTaskM]" and r: "r \<in> set (table m ?d3)"
    then have "refs_ok r d" by (intro refs [of r m]) auto
    then show "refs_ok r ?d3"
      using m r by (auto simp: refs_ok_def)
  qed auto
  have "cascade_delete ProductInfoM ks d = ?d3"
    unfolding cascade_delete_def split by (simp only: fold_append comp_apply 1 2 3 4 5 6 7)
  then show ?thesis by simp
qed

text \<open>The tables in \<open>M\<close> are as they were.\<close>

definition frozen :: "model set \<Rightarrow> database \<Rightarrow> database \<Rightarrow> bool" where
  "frozen M d0 d \<longleftrightarrow> (\<forall>m \<in> M. table m d = table m d0)"

end
