(* ===== verification/Orm.thy ===== *)
theory Orm
  imports Schema
begin

text \<open>
  The interface to Django. Django is not part of the repository, so the handlers take
  the operations they call as an argument, a record \<open>orm\<close>; the locale \<open>django\<close> lists
  the documented behaviour they rely on. \<open>sqlite\<close> is a backend over the tables of
  the settings' database engine that provides every law.
\<close>

section \<open>The operations\<close>

text \<open>
  \<open>db_new_pk\<close>: the key the backend gives the next row of a class.
  \<open>db_insert\<close>: \<^verbatim>\<open>save()\<close> of a new instance, or \<^verbatim>\<open>Model.objects.create\<close>, with the
  given key if there is one. \<open>db_save\<close>: \<^verbatim>\<open>save()\<close> of an instance that has a key.
  \<open>db_delete\<close>: \<^verbatim>\<open>delete()\<close> of an instance or a QuerySet, given the selected keys;
  it returns the number of deleted rows, cascades included. \<open>prep_int\<close> and
  \<open>prep_str\<close>: what an integer or character column makes of a value (\<open>None\<close> is
  NULL). \<open>str_of\<close>: Python's \<^verbatim>\<open>str\<close> on a value. \<open>icontains\<close>: the lookup of that name,
  \<open>icontains O needle text\<close>.
\<close>

record orm =
  db_new_pk :: "model \<Rightarrow> database \<Rightarrow> int"
  db_insert :: "int option \<Rightarrow> row \<Rightarrow> (database, int) comp"
  db_save :: "row \<Rightarrow> (database, unit) comp"
  db_delete :: "model \<Rightarrow> int list \<Rightarrow> (database, nat) comp"
  prep_int :: "pyval \<Rightarrow> exn + int option"
  prep_str :: "pyval \<Rightarrow> string option"
  str_of :: "pyval \<Rightarrow> string"
  icontains :: "string \<Rightarrow> string \<Rightarrow> bool"

section \<open>The documented behaviour\<close>

locale django =
  fixes Orm :: orm
  assumes new_pk_fresh: "db_new_pk Orm m d \<notin> set (pks m d)"
    and insert_new_ok: "row_ok (with_pk (db_new_pk Orm (model_of r) d) r) d \<Longrightarrow>
      db_insert Orm None r d =
        (Inr (db_new_pk Orm (model_of r) d), put_row (with_pk (db_new_pk Orm (model_of r) d) r) d)"
    and insert_new_bad: "\<not> row_ok (with_pk (db_new_pk Orm (model_of r) d) r) d \<Longrightarrow>
      db_insert Orm None r d = (Inl IntegrityError, d)"
    and insert_key_ok: "k \<notin> set (pks (model_of r) d) \<Longrightarrow> row_ok (with_pk k r) d \<Longrightarrow>
      db_insert Orm (Some k) r d = (Inr k, put_row (with_pk k r) d)"
    and insert_key_bad: "\<not> (k \<notin> set (pks (model_of r) d) \<and> row_ok (with_pk k r) d) \<Longrightarrow>
      db_insert Orm (Some k) r d = (Inl IntegrityError, d)"
    and save_ok: "row_ok r d \<Longrightarrow> db_save Orm r d = (Inr (), save_row r d)"
    and save_bad: "\<not> row_ok r d \<Longrightarrow> db_save Orm r d = (Inl IntegrityError, d)"
    and delete_cascades: "db_ok d \<Longrightarrow>
      db_delete Orm m ks d =
        (Inr (db_size d - db_size (cascade_delete m ks d)), cascade_delete m ks d)"
    and prep_int_None: "prep_int Orm PNone = Inr None"
    and prep_int_py: "py_int v = Inr n \<Longrightarrow> prep_int Orm v = Inr (Some n)"
    and prep_str_None: "prep_str Orm PNone = None"
    and prep_str_PStr: "prep_str Orm (PStr s) = Some s"
    and prep_str_Some: "v \<noteq> PNone \<Longrightarrow> prep_str Orm v \<noteq> None"
    and str_of_PStr: "str_of Orm (PStr s) = s"
begin

lemma prep_int_PInt: "prep_int Orm (PInt n) = Inr (Some n)"
  by (simp add: prep_int_py)

lemma insert_new_cases:
  obtains k where "k = db_new_pk Orm (model_of r) d" "k \<notin> set (pks (model_of r) d)"
    "row_ok (with_pk k r) d" "db_insert Orm None r d = (Inr k, put_row (with_pk k r) d)"
  | "db_insert Orm None r d = (Inl IntegrityError, d)"
  using insert_new_ok insert_new_bad new_pk_fresh by metis

lemma insert_cases:
  obtains k where "k \<notin> set (pks (model_of r) d)" "row_ok (with_pk k r) d"
    "db_insert Orm p r d = (Inr k, put_row (with_pk k r) d)"
  | "db_insert Orm p r d = (Inl IntegrityError, d)"
  by (metis insert_new_cases insert_key_ok insert_key_bad option.exhaust)

lemma save_cases:
  obtains "row_ok r d" "db_save Orm r d = (Inr (), save_row r d)"
  | "db_save Orm r d = (Inl IntegrityError, d)"
  using save_ok save_bad by blast

text \<open>Every write keeps the schema invariant.\<close>

lemma keeps_insert [keeps_intros]: "keeps db_ok (db_insert Orm p r)"
proof (rule keepsI)
  fix d assume "db_ok d"
  then show "db_ok (snd (db_insert Orm p r d))"
    by (cases rule: insert_cases [of r d p]) (simp_all add: db_ok_put_row)
qed

lemma keeps_save [keeps_intros]: "keeps db_ok (db_save Orm r)"
proof (rule keepsI)
  fix d assume "db_ok d"
  then show "db_ok (snd (db_save Orm r d))"
    by (cases rule: save_cases [of r d]) (simp_all add: db_ok_save_row)
qed

lemma keeps_delete [keeps_intros]: "keeps db_ok (db_delete Orm m ks)"
  by (rule keepsI) (simp add: delete_cascades db_ok_cascade_delete)

end

section \<open>Shortcuts of the manager API\<close>

text \<open>
  These are the compositions the Django documentation gives for the shortcuts:
  \<^verbatim>\<open>get\<close> raises unless exactly one row matches; \<^verbatim>\<open>get_object_or_404\<close> turns
  \<^verbatim>\<open>DoesNotExist\<close> into \<^verbatim>\<open>Http404\<close>; \<^verbatim>\<open>get_or_create\<close> and \<^verbatim>\<open>update_or_create\<close> are a
  \<^verbatim>\<open>get\<close> that creates where nothing matches. The argument is the list of matching rows.
\<close>

definition get_one :: "('s \<Rightarrow> 'a list) \<Rightarrow> ('s, 'a) comp" where
  "get_one sel = (\<lambda>d. case sel d of [] \<Rightarrow> (Inl DoesNotExist, d) | [x] \<Rightarrow> (Inr x, d)
     | _ \<Rightarrow> (Inl MultipleObjectsReturned, d))"

definition get_or_404 :: "('s \<Rightarrow> 'a list) \<Rightarrow> ('s, 'a) comp" where
  "get_or_404 sel = (\<lambda>d. case sel d of [] \<Rightarrow> (Inl Http404, d) | [x] \<Rightarrow> (Inr x, d)
     | _ \<Rightarrow> (Inl MultipleObjectsReturned, d))"

definition get_or_create ::
  "('s \<Rightarrow> 'a list) \<Rightarrow> ('s, 'a) comp \<Rightarrow> ('s, 'a \<times> bool) comp" where
  "get_or_create sel mk = (\<lambda>d. case sel d of
       [] \<Rightarrow> andThen mk (\<lambda>x. ret (x, True)) d
     | [x] \<Rightarrow> (Inr (x, False), d)
     | _ \<Rightarrow> (Inl MultipleObjectsReturned, d))"

definition update_or_create ::
  "(database \<Rightarrow> 'a list) \<Rightarrow> ('a \<Rightarrow> (database, 'a) comp) \<Rightarrow> (database, 'a) comp \<Rightarrow> (database, 'a \<times> bool) comp"
  where
  "update_or_create sel upd mk = (\<lambda>d. case sel d of
       [] \<Rightarrow> andThen mk (\<lambda>x. ret (x, True)) d
     | [x] \<Rightarrow> andThen (upd x) (\<lambda>y. ret (y, False)) d
     | _ \<Rightarrow> (Inl MultipleObjectsReturned, d))"

text \<open>Insert and save of a typed row; a NULL in a column that is not nullable is refused.\<close>

definition create ::
  "orm \<Rightarrow> ('a \<Rightarrow> row) \<Rightarrow> (int \<Rightarrow> 'a \<Rightarrow> 'a) \<Rightarrow> 'a \<Rightarrow> (database, 'a) comp" where
  "create Orm c set_pk x = andThen (db_insert Orm None (c x)) (\<lambda>k. ret (set_pk k x))"

definition not_null :: "'a option \<Rightarrow> (database, 'a) comp" where
  "not_null v = (case v of None \<Rightarrow> raise IntegrityError | Some x \<Rightarrow> ret x)"

definition int_column :: "orm \<Rightarrow> pyval \<Rightarrow> (database, int) comp" where
  "int_column Orm v = andThen (lift_exn (prep_int Orm v)) not_null"

definition str_column :: "orm \<Rightarrow> pyval \<Rightarrow> (database, string) comp" where
  "str_column Orm v = not_null (prep_str Orm v)"

lemma keeps_get_one [keeps_intros]: "keeps I (get_one sel)"
  by (auto simp: keeps_def get_one_def split: list.splits)

lemma keeps_get_or_404 [keeps_intros]: "keeps I (get_or_404 sel)"
  by (auto simp: keeps_def get_or_404_def split: list.splits)

lemma reads_get_one [reads_intros]: "reads (get_one sel)"
  by (rule readsI) (rule keeps_get_one)

lemma reads_get_or_404 [reads_intros]: "reads (get_or_404 sel)"
  by (rule readsI) (rule keeps_get_or_404)

lemma keeps_get_or_create [keeps_intros]: "keeps I mk \<Longrightarrow> keeps I (get_or_create sel mk)"
  using keeps_andThen [of I mk "\<lambda>x. ret (x, True)"]
  by (auto simp: keeps_def get_or_create_def split: list.splits)

lemma keeps_update_or_create [keeps_intros]:
  "keeps I mk \<Longrightarrow> (\<And>x. keeps I (upd x)) \<Longrightarrow> keeps I (update_or_create sel upd mk)"
  using keeps_andThen [of I mk "\<lambda>x. ret (x, True)"]
    keeps_andThen [of I "upd x" "\<lambda>y. ret (y, False)" for x]
  by (auto simp: keeps_def update_or_create_def split: list.splits)

lemma keeps_create [keeps_intros]: "keeps I (db_insert Orm None (c x)) \<Longrightarrow> keeps I (create Orm c f x)"
  unfolding create_def by (intro keeps_intros)

lemma keeps_not_null [keeps_intros]: "keeps I (not_null v)"
  unfolding not_null_def by (intro keeps_intros)

lemma keeps_int_column [keeps_intros]: "keeps I (int_column Orm v)"
  unfolding int_column_def by (intro keeps_intros)

lemma keeps_str_column [keeps_intros]: "keeps I (str_column Orm v)"
  unfolding str_column_def by (intro keeps_intros)

lemma reads_not_null [reads_intros]: "reads (not_null v)"
  by (rule readsI) (rule keeps_not_null)

lemma reads_int_column [reads_intros]: "reads (int_column Orm v)"
  by (rule readsI) (rule keeps_int_column)

lemma reads_str_column [reads_intros]: "reads (str_column Orm v)"
  by (rule readsI) (rule keeps_str_column)

lemma not_null_simps [simp]: "not_null (Some x) = ret x" "not_null None = raise IntegrityError"
  by (simp_all add: not_null_def)

lemma get_one_eq_Inr: "get_one sel d = (Inr x, d') \<longleftrightarrow> sel d = [x] \<and> d' = d"
  by (auto simp: get_one_def split: list.splits)

lemma get_or_404_eq_Inr: "get_or_404 sel d = (Inr x, d') \<longleftrightarrow> sel d = [x] \<and> d' = d"
  by (auto simp: get_or_404_def split: list.splits)

lemma get_one_single [simp]: "sel d = [x] \<Longrightarrow> get_one sel d = (Inr x, d)"
  by (simp add: get_one_def)

lemma get_or_404_single [simp]: "sel d = [x] \<Longrightarrow> get_or_404 sel d = (Inr x, d)"
  by (simp add: get_or_404_def)

lemma get_or_404_none [simp]: "sel d = [] \<Longrightarrow> get_or_404 sel d = (Inl Http404, d)"
  by (simp add: get_or_404_def)

lemma get_or_create_single [simp]: "sel d = [x] \<Longrightarrow> get_or_create sel mk d = (Inr (x, False), d)"
  by (simp add: get_or_create_def)

lemma get_or_create_none [simp]:
  "sel d = [] \<Longrightarrow> get_or_create sel mk d = andThen mk (\<lambda>x. ret (x, True)) d"
  by (simp add: get_or_create_def)

lemma update_or_create_single [simp]:
  "sel d = [x] \<Longrightarrow> update_or_create sel upd mk d = andThen (upd x) (\<lambda>y. ret (y, False)) d"
  by (simp add: update_or_create_def)

lemma update_or_create_none [simp]:
  "sel d = [] \<Longrightarrow> update_or_create sel upd mk d = andThen mk (\<lambda>x. ret (x, True)) d"
  by (simp add: update_or_create_def)

section \<open>A backend\<close>

text \<open>
  The tables of the database engine in \<^verbatim>\<open>settings.DATABASES\<close>: a new row gets the least
  key above all keys in use, a statement that violates the schema changes nothing.
\<close>

definition sqlite_new_pk :: "model \<Rightarrow> database \<Rightarrow> int" where
  "sqlite_new_pk m d = foldr max (pks m d) 0 + 1"

definition sqlite_insert :: "int option \<Rightarrow> row \<Rightarrow> (database, int) comp" where
  "sqlite_insert p r d =
     (let k = (case p of None \<Rightarrow> sqlite_new_pk (model_of r) d | Some k \<Rightarrow> k) in
      if k \<notin> set (pks (model_of r) d) \<and> row_ok (with_pk k r) d
      then (Inr k, put_row (with_pk k r) d) else (Inl IntegrityError, d))"

definition sqlite_save :: "row \<Rightarrow> (database, unit) comp" where
  "sqlite_save r d = (if row_ok r d then (Inr (), save_row r d) else (Inl IntegrityError, d))"

definition sqlite_delete :: "model \<Rightarrow> int list \<Rightarrow> (database, nat) comp" where
  "sqlite_delete m ks d =
     (let d' = cascade_delete m ks d in (Inr (db_size d - db_size d'), d'))"

text \<open>Decimal notation; a float is written as the fraction it denotes.\<close>

fun show_nat :: "nat \<Rightarrow> string" where
  "show_nat n = (if n < 10 then [char_of (48 + n)] else show_nat (n div 10) @ [char_of (48 + n mod 10)])"

declare show_nat.simps [simp del]

definition show_int :: "int \<Rightarrow> string" where
  "show_int n = (if n < 0 then CHR ''-'' # show_nat (nat (- n)) else show_nat (nat n))"

fun show_val :: "pyval \<Rightarrow> string" where
  "show_val PNone = ''None''"
| "show_val (PBool b) = (if b then ''True'' else ''False'')"
| "show_val (PInt n) = show_int n"
| "show_val (PFloat x) = (case quotient_of x of (a, b) \<Rightarrow> show_int a @ ''/'' @ show_int b)"
| "show_val (PStr s) = s"
| "show_val (PList xs) = ''['' @ concat (map (\<lambda>x. show_val x @ '', '') xs) @ '']''"
| "show_val (PDict kvs) =
     ''{'' @ concat (map (\<lambda>(k, v). show_val k @ '': '' @ show_val v @ '', '') kvs) @ ''}''"

definition lower :: "char \<Rightarrow> char" where
  "lower c = (let n = (of_char c :: nat) in if 65 \<le> n \<and> n \<le> 90 then char_of (n + 32) else c)"

definition sqlite :: orm where
  "sqlite = \<lparr>db_new_pk = sqlite_new_pk, db_insert = sqlite_insert, db_save = sqlite_save,
     db_delete = sqlite_delete,
     prep_int = (\<lambda>v. if v = PNone then Inr None else map_sum id Some (py_int v)),
     prep_str = (\<lambda>v. if v = PNone then None else Some (show_val v)),
     str_of = show_val,
     icontains = (\<lambda>s t. is_substring (map lower s) (map lower t))\<rparr>"

lemma foldr_max_bound: "k \<in> set ks \<Longrightarrow> k \<le> foldr max ks (0::int)"
  by (induction ks) (auto simp: le_max_iff_disj)

lemma sqlite_new_pk_fresh: "sqlite_new_pk m d \<notin> set (pks m d)"
  using foldr_max_bound [of "sqlite_new_pk m d" "pks m d"] by (auto simp: sqlite_new_pk_def)

interpretation sqlite: django sqlite
  by unfold_locales
    (auto simp: sqlite_def sqlite_new_pk_fresh sqlite_insert_def sqlite_save_def
      sqlite_delete_def Let_def split: if_splits)

lemmas sqlite_eval = sqlite_def sqlite_insert_def sqlite_save_def sqlite_delete_def
  sqlite_new_pk_def Let_def row_ok_def refs_ok_def unique_ok_def positive_ok_def save_row_def
  replace_by_def

end
