(* ===== verification/Http.thy ===== *)
theory Http
  imports Orm
begin

text \<open>
  Requests, responses and the read-only serializers of
  \<^verbatim>\<open>orders/backend/serializers.py\<close>. The texts of the replies are the constructors of
  \<open>message\<close>. A serializer returns the dictionary it renders, fields in order.
\<close>

section \<open>Requests and responses\<close>

text \<open>
  \<open>rq_user\<close> is the key of the authenticated user, \<open>rq_data\<close> the decoded body, \<open>rq_form\<close> whether it
  is form data (a \<^verbatim>\<open>QueryDict\<close>) and not JSON, \<open>rq_query\<close> the query string, \<open>rq_now\<close> the clock that
  \<^verbatim>\<open>auto_now_add\<close> reads.
\<close>

record request =
  rq_user :: "int option"
  rq_is_staff :: bool
  rq_data :: pyval
  rq_form :: bool
  rq_query :: "(string \<times> string) list"
  rq_now :: int

datatype message =
    Product_and_quantity_required
  | Not_enough_stock
  | Added_to_cart
  | Item_and_quantity_required
  | Removed_from_cart
  | Quantity_updated
  | Item_required
  | Items_must_be_list
  | Items_removed
  | Cart_cleared
  | Order_confirmed
  | Logged_in
  | Registered
  | Import_task_required
  | Import_already_processed
  | Import_task_not_found
  | Import_failed_to_start

datatype body =
    Error message
  | Message message
  | Counted message nat
  | Field_errors "string list"
  | Data pyval

datatype response = Resp int body

text \<open>\<^verbatim>\<open>request.data.get(k, default)\<close> and \<^verbatim>\<open>request.query_params.get(k)\<close>.\<close>

definition data_get :: "request \<Rightarrow> string \<Rightarrow> pyval \<Rightarrow> (database, pyval) comp" where
  "data_get rq k dflt = lift_exn (py_get (rq_data rq) k dflt)"

definition query_get :: "request \<Rightarrow> string \<Rightarrow> pyval" where
  "query_get rq k = (case map_of (rq_query rq) k of None \<Rightarrow> PNone | Some s \<Rightarrow> PStr s)"

text \<open>\<^verbatim>\<open>permission_classes = [IsAuthenticated]\<close>: the handler runs for an authenticated user only.\<close>

definition with_user :: "request \<Rightarrow> (int \<Rightarrow> ('s, 'a) comp) \<Rightarrow> ('s, 'a) comp" where
  "with_user rq f = (case rq_user rq of None \<Rightarrow> raise NotAuthenticated | Some u \<Rightarrow> f u)"

lemma with_user_Some [simp]: "rq_user rq = Some u \<Longrightarrow> with_user rq f = f u"
  by (simp add: with_user_def)

lemma with_user_None [simp]: "rq_user rq = None \<Longrightarrow> with_user rq f = raise NotAuthenticated"
  by (simp add: with_user_def)

lemma keeps_with_user [keeps_intros]: "(\<And>u. rq_user rq = Some u \<Longrightarrow> keeps I (f u)) \<Longrightarrow> keeps I (with_user rq f)"
  unfolding with_user_def by (cases "rq_user rq") (auto intro: keeps_intros)

lemma keeps_data_get [keeps_intros]: "keeps I (data_get rq k dflt)"
  unfolding data_get_def by (intro keeps_intros)

section \<open>Following foreign keys\<close>

text \<open>Access to the object behind a foreign key loads the row with that key.\<close>

definition related :: "('a \<Rightarrow> int) \<Rightarrow> (database \<Rightarrow> 'a list) \<Rightarrow> int \<Rightarrow> (database, 'a) comp" where
  "related key tab k = get_one (\<lambda>d. filter (\<lambda>x. key x = k) (tab d))"

lemma keeps_related [keeps_intros]: "keeps I (related key tab k)"
  unfolding related_def by (intro keeps_intros)

lemma reads_related [reads_intros]: "reads (related key tab k)"
  by (rule readsI) (rule keeps_related)

lemma reads_data_get [reads_intros]: "reads (data_get rq k dflt)"
  by (rule readsI) (rule keeps_data_get)

lemma related_found:
  "distinct (map key (tab d)) \<Longrightarrow> x \<in> set (tab d) \<Longrightarrow> key x = k \<Longrightarrow> related key tab k d = (Inr x, d)"
  by (auto simp: related_def filter_eq_single)

lemma related_eq_Inr:
  "related key tab k d = (Inr x, d') \<longleftrightarrow> filter (\<lambda>x. key x = k) (tab d) = [x] \<and> d' = d"
  by (auto simp: related_def get_one_eq_Inr)

section \<open>Model methods and serializers\<close>

text \<open>
  \<^verbatim>\<open>OrderItem.get_total_price\<close>: a loaded \<^verbatim>\<open>product_info\<close> is a model instance with a price,
  so the method multiplies; its final \<^verbatim>\<open>return 0\<close> is not reached for a stored item.
\<close>

definition get_total_price :: "order_item \<Rightarrow> (database, int) comp" where
  "get_total_price it =
     andThen (related pi_id t_product_infos (oi_info it)) (\<lambda>info. ret (oi_quantity it * pi_price info))"

definition parameter_data :: "parameter \<Rightarrow> pyval" where
  "parameter_data p = PDict [(PStr ''name'', PStr (pa_name p))]"

definition product_data :: "product \<Rightarrow> pyval" where
  "product_data p = PDict [(PStr ''name'', PStr (p_name p))]"

definition shop_data :: "shop \<Rightarrow> pyval" where
  "shop_data s = PDict [(PStr ''name'', PStr (s_name s))]"

definition product_parameter_data :: "product_parameter \<Rightarrow> (database, pyval) comp" where
  "product_parameter_data pp =
     andThen (related pa_id t_parameters (pp_parameter pp)) (\<lambda>p.
     ret (PDict [(PStr ''parameter'', parameter_data p), (PStr ''value'', PStr (pp_value pp))]))"

definition product_info_data :: "product_info \<Rightarrow> (database, pyval) comp" where
  "product_info_data info =
     andThen (related p_id t_products (pi_product info)) (\<lambda>p.
     andThen (related s_id t_shops (pi_shop info)) (\<lambda>s.
     andThen (query (\<lambda>d. filter (\<lambda>pp. pp_info pp = pi_id info) (t_product_parameters d))) (\<lambda>pps.
     andThen (map_each product_parameter_data pps) (\<lambda>ps.
     ret (PDict [(PStr ''id'', PInt (pi_id info)), (PStr ''product'', product_data p),
       (PStr ''shop'', shop_data s), (PStr ''model'', PStr (pi_model info)),
       (PStr ''price'', PInt (pi_price info)), (PStr ''quantity'', PInt (pi_quantity info)),
       (PStr ''product_parameters'', PList ps)])))))"

definition cart_item_data :: "order_item \<Rightarrow> (database, pyval) comp" where
  "cart_item_data it =
     andThen (related pi_id t_product_infos (oi_info it)) (\<lambda>info.
     andThen (product_info_data info) (\<lambda>v.
     andThen (get_total_price it) (\<lambda>total.
     ret (PDict [(PStr ''id'', PInt (oi_id it)), (PStr ''product_info'', v),
       (PStr ''quantity'', PInt (oi_quantity it)), (PStr ''total_price'', PInt total)]))))"

definition order_item_data :: "order_item \<Rightarrow> (database, pyval) comp" where
  "order_item_data it =
     andThen (related pi_id t_product_infos (oi_info it)) (\<lambda>info.
     andThen (product_info_data info) (\<lambda>v.
     andThen (get_total_price it) (\<lambda>total.
     ret (PDict [(PStr ''product_info'', v), (PStr ''quantity'', PInt (oi_quantity it)),
       (PStr ''total_price'', PInt total)]))))"

lemma keeps_get_total_price [keeps_intros]: "keeps I (get_total_price it)"
  unfolding get_total_price_def by (intro keeps_intros)

lemma keeps_product_parameter_data [keeps_intros]: "keeps I (product_parameter_data pp)"
  unfolding product_parameter_data_def by (intro keeps_intros)

lemma keeps_product_info_data [keeps_intros]: "keeps I (product_info_data info)"
  unfolding product_info_data_def by (intro keeps_intros)

lemma keeps_cart_item_data [keeps_intros]: "keeps I (cart_item_data it)"
  unfolding cart_item_data_def by (intro keeps_intros)

lemma keeps_order_item_data [keeps_intros]: "keeps I (order_item_data it)"
  unfolding order_item_data_def by (intro keeps_intros)

lemma reads_serializers [reads_intros]:
  "reads (get_total_price it)" "reads (product_info_data info)"
  "reads (cart_item_data it)" "reads (order_item_data it)"
  by (rule readsI, rule keeps_intros)+

section \<open>On a consistent database serialization succeeds\<close>

lemma related_total:
  assumes "db_ok d" "refs_ok r d" "(m, k) \<in> set (fk_of r)"
    and "pks m d = map key (tab d)"
  obtains x where "x \<in> set (tab d)" "key x = k" "related key tab k d = (Inr x, d)"
proof -
  have "k \<in> set (map key (tab d))" using assms by (auto simp: refs_ok_def list_all_iff)
  then obtain x where "x \<in> set (tab d)" "key x = k" by auto
  then show thesis
    using that related_found [of key tab d x k] db_ok_distinct [OF assms(1), of m] assms(4) by simp
qed

text \<open>\<open>total d m\<close>: on the database \<open>d\<close>, \<open>m\<close> returns and changes nothing.\<close>

definition total :: "database \<Rightarrow> (database, 'a) comp \<Rightarrow> bool" where
  "total d m \<longleftrightarrow> (\<exists>x. m d = (Inr x, d))"

lemma total_ret: "total d (ret x)"
  by (simp add: total_def)

lemma total_andThen: "m d = (Inr x, d) \<Longrightarrow> total d (f x) \<Longrightarrow> total d (andThen m f)"
  by (simp add: total_def)

lemma total_andThen': "total d m \<Longrightarrow> (\<And>x. total d (f x)) \<Longrightarrow> total d (andThen m f)"
  unfolding total_def by (metis andThen_Inr)

lemma total_map_each: "(\<And>x. x \<in> set xs \<Longrightarrow> total d (f x)) \<Longrightarrow> total d (map_each f xs)"
proof (induction xs)
  case (Cons x xs)
  then obtain y ys where "f x d = (Inr y, d)" "map_each f xs d = (Inr ys, d)"
    unfolding total_def by (metis list.set_intros)
  then show ?case by (simp add: total_def)
qed (simp add: total_def)

lemma total_product_info_data:
  assumes "db_ok d" "info \<in> set (t_product_infos d)"
  shows "total d (product_info_data info)"
proof -
  have refs: "refs_ok (ProductInfoRow info) d" using assms db_ok_refs [of d _ ProductInfoM] by simp
  obtain p where p: "related p_id t_products (pi_product info) d = (Inr p, d)"
    using related_total [OF assms(1) refs, of ProductM _ p_id t_products] by auto
  obtain s where s: "related s_id t_shops (pi_shop info) d = (Inr s, d)"
    using related_total [OF assms(1) refs, of ShopM _ s_id t_shops] by auto
  have "total d (product_parameter_data pp)" if "pp \<in> set (t_product_parameters d)" for pp
  proof -
    have refs: "refs_ok (ProductParameterRow pp) d"
      using that assms db_ok_refs [of d _ ProductParameterM] by simp
    obtain pa where "related pa_id t_parameters (pp_parameter pp) d = (Inr pa, d)"
      using related_total [OF assms(1) refs, of ParameterM _ pa_id t_parameters] by auto
    then show ?thesis by (simp add: product_parameter_data_def total_def)
  qed
  then have "total d (map_each product_parameter_data
      (filter (\<lambda>pp. pp_info pp = pi_id info) (t_product_parameters d)))"
    by (intro total_map_each) auto
  then show ?thesis using p s by (auto simp: product_info_data_def total_def)
qed

lemma item_info:
  assumes "db_ok d" "it \<in> set (t_order_items d)"
  obtains info where "info \<in> set (t_product_infos d)" "pi_id info = oi_info it"
    "related pi_id t_product_infos (oi_info it) d = (Inr info, d)"
proof -
  have refs: "refs_ok (OrderItemRow it) d" using assms db_ok_refs [of d _ OrderItemM] by simp
  show thesis
    using related_total [OF assms(1) refs, of ProductInfoM _ pi_id t_product_infos] that by auto
qed

lemma total_cart_item_data:
  assumes "db_ok d" "it \<in> set (t_order_items d)"
  shows "total d (cart_item_data it)"
proof -
  obtain info where "info \<in> set (t_product_infos d)"
    "related pi_id t_product_infos (oi_info it) d = (Inr info, d)"
    using item_info [OF assms] by blast
  moreover from this obtain v where "product_info_data info d = (Inr v, d)"
    using total_product_info_data [OF assms(1)] by (auto simp: total_def)
  ultimately show ?thesis by (simp add: cart_item_data_def get_total_price_def total_def)
qed

lemma total_order_item_data:
  assumes "db_ok d" "it \<in> set (t_order_items d)"
  shows "total d (order_item_data it)"
proof -
  obtain info where "info \<in> set (t_product_infos d)"
    "related pi_id t_product_infos (oi_info it) d = (Inr info, d)"
    using item_info [OF assms] by blast
  moreover from this obtain v where "product_info_data info d = (Inr v, d)"
    using total_product_info_data [OF assms(1)] by (auto simp: total_def)
  ultimately show ?thesis by (simp add: order_item_data_def get_total_price_def total_def)
qed

end
