(* ===== verification/Sample.thy ===== *)
theory Sample
  imports Http
begin

text \<open>
  A small database for the witnesses, in the shape of \<^verbatim>\<open>data/shop1.yaml\<close>: two buyers, a
  shop with two priced products, a contact for each buyer, and an order history.
\<close>

definition sample_user :: "int \<Rightarrow> user" where
  "sample_user k = \<lparr>u_id = k, u_email = [char_of (96 + k)], u_password = ''hash'', u_first_name = ''A'',
     u_last_name = ''B'', u_company = [], u_position = [], u_username = [], u_is_active = True,
     u_is_staff = False, u_is_superuser = False, u_type = Buyer\<rparr>"

definition sample_contact :: "int \<Rightarrow> int \<Rightarrow> contact" where
  "sample_contact k u = \<lparr>ct_id = k, ct_user = u, ct_city = ''Moscow'', ct_street = ''Tverskaya'',
     ct_house = ''3'', ct_structure = [], ct_building = [], ct_apartment = [],
     ct_phone = ''+71234567890''\<rparr>"

definition sample_info :: "int \<Rightarrow> int \<Rightarrow> int \<Rightarrow> int \<Rightarrow> int \<Rightarrow> product_info" where
  "sample_info k ext p price n = \<lparr>pi_id = k, pi_model = ''apple/iphone'', pi_external_id = ext,
     pi_product = p, pi_shop = 1, pi_quantity = n, pi_price = price, pi_price_rrc = price + 6990\<rparr>"

text \<open>Buyer 1 has a basket (order 1) with one item; buyer 2 has a confirmed order (order 2).\<close>

definition sample_db :: database where
  "sample_db = \<lparr>t_users = [sample_user 1, sample_user 2],
     t_shops = [\<lparr>s_id = 1, s_name = ''Svyaznoy'', s_url = None, s_user = None, s_state = True\<rparr>],
     t_categories = [\<lparr>c_id = 224, c_name = ''Smartphones''\<rparr>],
     t_category_shops = [\<lparr>cs_id = 1, cs_category = 224, cs_shop = 1\<rparr>],
     t_products = [\<lparr>p_id = 1, p_name = ''iPhone XS'', p_category = 224\<rparr>,
                   \<lparr>p_id = 2, p_name = ''iPhone XR'', p_category = 224\<rparr>],
     t_product_infos = [sample_info 1 4216292 1 110000 14, sample_info 2 4216313 2 65000 9],
     t_parameters = [\<lparr>pa_id = 1, pa_name = ''Memory''\<rparr>],
     t_product_parameters = [\<lparr>pp_id = 1, pp_info = 1, pp_parameter = 1, pp_value = ''512''\<rparr>],
     t_contacts = [sample_contact 1 1, sample_contact 2 2],
     t_orders = [\<lparr>o_id = 1, o_user = 1, o_dt = 100, o_state = Basket, o_contact = None\<rparr>,
                 \<lparr>o_id = 2, o_user = 2, o_dt = 50, o_state = Confirmed, o_contact = Some 2\<rparr>],
     t_order_items = [\<lparr>oi_id = 1, oi_order = 1, oi_info = 1, oi_quantity = 2\<rparr>,
                      \<lparr>oi_id = 2, oi_order = 2, oi_info = 2, oi_quantity = 3\<rparr>],
     t_email_tokens = [], t_import_tasks = []\<rparr>"

definition sample_request :: "int \<Rightarrow> (pyval \<times> pyval) list \<Rightarrow> request" where
  "sample_request u kvs = \<lparr>rq_user = Some u, rq_is_staff = False, rq_data = PDict kvs,
     rq_form = False, rq_query = [], rq_now = 200\<rparr>"

lemmas sample_eval = sample_db_def sample_user_def sample_contact_def sample_info_def
  sample_request_def

lemma sample_db_ok: "db_ok sample_db"
  by (simp add: db_ok_def all_models_def row_ok_def refs_ok_def unique_ok_def positive_ok_def
      sample_eval)

end
