(* ===== verification/Cart.thy ===== *)
theory Cart
  imports Sample
begin

text \<open>
  The basket endpoints of \<^verbatim>\<open>orders/backend/views.py\<close>: \<^verbatim>\<open>CartView\<close>, \<^verbatim>\<open>DeleteCartItemView\<close>,
  \<^verbatim>\<open>BatchDeleteCartItemView\<close> and \<^verbatim>\<open>ClearCartView\<close>. A basket is the order of a user in
  state \<open>Basket\<close>; its items are the order items that refer to it.
\<close>

section \<open>The handlers\<close>

definition baskets :: "int \<Rightarrow> database \<Rightarrow> order_t list" where
  "baskets u d = filter (\<lambda>b. o_user b = u \<and> o_state b = Basket) (t_orders d)"

text \<open>\<^verbatim>\<open>Order.objects.get_or_create(user=request.user, state='basket')\<close>.\<close>

definition get_or_create_basket :: "orm \<Rightarrow> int \<Rightarrow> int \<Rightarrow> (database, order_t) comp" where
  "get_or_create_basket Orm u now =
     andThen (get_or_create (baskets u)
       (create Orm OrderRow (\<lambda>k. o_id_update (\<lambda>_. k))
          \<lparr>o_id = 0, o_user = u, o_dt = now, o_state = Basket, o_contact = None\<rparr>))
     (\<lambda>(cart, created). ret cart)"

text \<open>\<^verbatim>\<open>get_object_or_404(Order, user=request.user, state='basket')\<close>.\<close>

definition get_basket_or_404 :: "int \<Rightarrow> (database, order_t) comp" where
  "get_basket_or_404 u = get_or_404 (baskets u)"

text \<open>\<^verbatim>\<open>get_object_or_404(OrderItem, id=order_item_id, order=cart)\<close>.\<close>

definition get_cart_item_or_404 :: "orm \<Rightarrow> pyval \<Rightarrow> order_t \<Rightarrow> (database, order_item) comp" where
  "get_cart_item_or_404 Orm v cart =
     andThen (lift_exn (prep_int Orm v)) (\<lambda>k.
     get_or_404 (\<lambda>d. filter (\<lambda>it. Some (oi_id it) = k \<and> oi_order it = o_id cart) (t_order_items d)))"

definition cart_get :: "orm \<Rightarrow> request \<Rightarrow> (database, response) comp" where
  "cart_get Orm rq = with_user rq (\<lambda>u.
     andThen (get_or_create_basket Orm u (rq_now rq)) (\<lambda>cart.
     andThen (query (\<lambda>d. filter (\<lambda>it. oi_order it = o_id cart) (t_order_items d))) (\<lambda>items.
     andThen (map_each cart_item_data items) (\<lambda>data.
     ret (Resp 200 (Data (PDict
       [(PStr ''basket_id'', PInt (o_id cart)), (PStr ''items'', PList data)])))))))"

text \<open>The part of \<^verbatim>\<open>CartView.post\<close> from \<^verbatim>\<open>OrderItem.objects.get_or_create\<close> on.\<close>

definition cart_add :: "orm \<Rightarrow> order_t \<Rightarrow> product_info \<Rightarrow> pyval \<Rightarrow> (database, response) comp" where
  "cart_add Orm cart product_info quantity =
     andThen (get_or_create
       (\<lambda>d. filter (\<lambda>it. oi_order it = o_id cart \<and> oi_info it = pi_id product_info) (t_order_items d))
       (andThen (int_column Orm quantity) (\<lambda>n.
          create Orm OrderItemRow (\<lambda>k. oi_id_update (\<lambda>_. k))
            \<lparr>oi_id = 0, oi_order = o_id cart, oi_info = pi_id product_info, oi_quantity = n\<rparr>)))
     (\<lambda>(order_item, created).
     if created then ret (Resp 201 (Message Added_to_cart))
     else
       andThen (lift_exn (py_int quantity)) (\<lambda>n.
       let order_item' = order_item\<lparr>oi_quantity := oi_quantity order_item + n\<rparr> in
       if oi_quantity order_item' > pi_quantity product_info
       then ret (Resp 400 (Error Not_enough_stock))
       else
         andThen (db_save Orm (OrderItemRow order_item')) (\<lambda>_.
         ret (Resp 201 (Message Added_to_cart)))))"

definition cart_post :: "orm \<Rightarrow> request \<Rightarrow> (database, response) comp" where
  "cart_post Orm rq = with_user rq (\<lambda>u.
     andThen (get_or_create_basket Orm u (rq_now rq)) (\<lambda>cart.
     andThen (data_get rq ''product_info_id'' PNone) (\<lambda>product_info_id.
     andThen (data_get rq ''quantity'' (PInt 1)) (\<lambda>quantity.
     if \<not> py_true product_info_id \<or> \<not> py_true quantity
     then ret (Resp 400 (Error Product_and_quantity_required))
     else
       andThen (lift_exn (prep_int Orm product_info_id)) (\<lambda>k.
       andThen (get_or_404 (\<lambda>d. filter (\<lambda>x. Some (pi_id x) = k) (t_product_infos d))) (\<lambda>product_info.
       andThen (lift_exn (py_gt_int quantity (pi_quantity product_info))) (\<lambda>too_many.
       if too_many then ret (Resp 400 (Error Not_enough_stock))
       else cart_add Orm cart product_info quantity)))))))"

definition cart_put :: "orm \<Rightarrow> request \<Rightarrow> (database, response) comp" where
  "cart_put Orm rq = with_user rq (\<lambda>u.
     andThen (get_basket_or_404 u) (\<lambda>cart.
     andThen (data_get rq ''order_item_id'' PNone) (\<lambda>order_item_id.
     andThen (data_get rq ''quantity'' PNone) (\<lambda>quantity.
     if \<not> py_true order_item_id \<or> quantity = PNone
     then ret (Resp 400 (Error Item_and_quantity_required))
     else
       andThen (get_cart_item_or_404 Orm order_item_id cart) (\<lambda>order_item.
       andThen (related pi_id t_product_infos (oi_info order_item)) (\<lambda>product_info.
       andThen (lift_exn (py_int quantity)) (\<lambda>n.
       if n > pi_quantity product_info then ret (Resp 400 (Error Not_enough_stock))
       else if n \<le> 0 then
         andThen (db_delete Orm OrderItemM [oi_id order_item]) (\<lambda>_.
         ret (Resp 200 (Message Removed_from_cart)))
       else
         andThen (db_save Orm (OrderItemRow (order_item\<lparr>oi_quantity := n\<rparr>))) (\<lambda>_.
         ret (Resp 200 (Message Quantity_updated))))))))))"

text \<open>
  \<^verbatim>\<open>CartView.delete\<close> and \<^verbatim>\<open>DeleteCartItemView.delete\<close> have the same body and differ
  in the status of the reply.
\<close>

definition delete_item :: "orm \<Rightarrow> int \<Rightarrow> request \<Rightarrow> (database, response) comp" where
  "delete_item Orm code rq = with_user rq (\<lambda>u.
     andThen (get_basket_or_404 u) (\<lambda>cart.
     let order_item_id = query_get rq ''order_item_id'' in
     if \<not> py_true order_item_id then ret (Resp 400 (Error Item_required))
     else
       andThen (get_cart_item_or_404 Orm order_item_id cart) (\<lambda>order_item.
       andThen (db_delete Orm OrderItemM [oi_id order_item]) (\<lambda>_.
       ret (Resp code (Message Removed_from_cart))))))"

definition cart_delete :: "orm \<Rightarrow> request \<Rightarrow> (database, response) comp" where
  "cart_delete Orm rq = delete_item Orm 204 rq"

definition delete_cart_item :: "orm \<Rightarrow> request \<Rightarrow> (database, response) comp" where
  "delete_cart_item Orm rq = delete_item Orm 200 rq"

definition batch_delete :: "orm \<Rightarrow> request \<Rightarrow> (database, response) comp" where
  "batch_delete Orm rq = with_user rq (\<lambda>u.
     andThen (get_basket_or_404 u) (\<lambda>cart.
     andThen (data_get rq ''order_item_ids'' PNone) (\<lambda>order_item_ids.
     case order_item_ids of
       PList (v # vs) \<Rightarrow>
         andThen (map_each (\<lambda>x. lift_exn (prep_int Orm x)) (v # vs)) (\<lambda>ks.
         andThen (query (\<lambda>d. map oi_id
           (filter (\<lambda>it. oi_order it = o_id cart \<and> Some (oi_id it) \<in> set ks) (t_order_items d)))) (\<lambda>ids.
         andThen (db_delete Orm OrderItemM ids) (\<lambda>deleted_count.
         ret (Resp 200 (Counted Items_removed deleted_count)))))
     | _ \<Rightarrow> ret (Resp 400 (Error Items_must_be_list)))))"

definition clear_cart :: "orm \<Rightarrow> request \<Rightarrow> (database, response) comp" where
  "clear_cart Orm rq = with_user rq (\<lambda>u.
     andThen (get_basket_or_404 u) (\<lambda>cart.
     andThen (query (\<lambda>d. map oi_id (filter (\<lambda>it. oi_order it = o_id cart) (t_order_items d)))) (\<lambda>ids.
     andThen (db_delete Orm OrderItemM ids) (\<lambda>deleted_count.
     ret (Resp 200 (Counted Cart_cleared deleted_count))))))"

lemmas cart_handlers = cart_get_def cart_add_def cart_post_def cart_put_def delete_item_def cart_delete_def
  delete_cart_item_def batch_delete_def clear_cart_def

end
