(* ===== verification/CartSpec.thy ===== *)
theory CartSpec
  imports Cart
begin

text \<open>
  What the basket endpoints promise. The abstract basket of a user is a map from
  product infos to quantities; \<open>add_to_cart\<close>, \<open>set_quantity\<close> and removal are its
  operations, and the handlers are shown to implement them.
\<close>

section \<open>The abstract basket\<close>

definition cart_items :: "int \<Rightarrow> database \<Rightarrow> order_item list" where
  "cart_items u d = filter (\<lambda>it. oi_order it \<in> set (map o_id (baskets u d))) (t_order_items d)"

definition cart_of :: "int \<Rightarrow> database \<Rightarrow> int \<Rightarrow> int option" where
  "cart_of u d p = (case filter (\<lambda>it. oi_info it = p) (cart_items u d) of
     [] \<Rightarrow> None | it # _ \<Rightarrow> Some (oi_quantity it))"

definition stock_of :: "database \<Rightarrow> int \<Rightarrow> int option" where
  "stock_of d p = (case filter (\<lambda>x. pi_id x = p) (t_product_infos d) of
     [] \<Rightarrow> None | x # _ \<Rightarrow> Some (pi_quantity x))"

definition user_exists :: "int \<Rightarrow> database \<Rightarrow> bool" where
  "user_exists u d \<longleftrightarrow> u \<in> set (map u_id (t_users d))"

text \<open>Every user has at most one basket.\<close>

definition single_baskets :: "database \<Rightarrow> bool" where
  "single_baskets d \<longleftrightarrow> distinct (map o_user (filter (\<lambda>b. o_state b = Basket) (t_orders d)))"

text \<open>Adding \<open>q\<close> pieces of product info \<open>p\<close>, given its stock.\<close>

definition add_to_cart ::
  "int option \<Rightarrow> (int \<Rightarrow> int option) \<Rightarrow> int \<Rightarrow> int \<Rightarrow> (exn + response) \<times> (int \<Rightarrow> int option)" where
  "add_to_cart stock c p q =
     (if p = 0 \<or> q = 0 then (Inr (Resp 400 (Error Product_and_quantity_required)), c)
      else case stock of
        None \<Rightarrow> (Inl Http404, c)
      | Some s \<Rightarrow>
          if q > s then (Inr (Resp 400 (Error Not_enough_stock)), c)
          else
            let n = (case c p of None \<Rightarrow> q | Some m \<Rightarrow> m + q) in
            if n > s then (Inr (Resp 400 (Error Not_enough_stock)), c)
            else if n < 0 then (Inl IntegrityError, c)
            else (Inr (Resp 201 (Message Added_to_cart)), c(p \<mapsto> n)))"

text \<open>Setting the quantity of product info \<open>p\<close>, which is in the basket, to \<open>n\<close>.\<close>

definition set_quantity ::
  "int \<Rightarrow> (int \<Rightarrow> int option) \<Rightarrow> int \<Rightarrow> int \<Rightarrow> response \<times> (int \<Rightarrow> int option)" where
  "set_quantity stock c p n =
     (if n > stock then (Resp 400 (Error Not_enough_stock), c)
      else if n \<le> 0 then (Resp 200 (Message Removed_from_cart), c(p := None))
      else (Resp 200 (Message Quantity_updated), c(p \<mapsto> n)))"

section \<open>Lemmas on baskets\<close>

lemma baskets_in: "b \<in> set (baskets u d) \<Longrightarrow> b \<in> set (t_orders d) \<and> o_user b = u \<and> o_state b = Basket"
  by (simp add: baskets_def)

lemma single_baskets_cases:
  assumes "single_baskets d"
  obtains "baskets u d = []" | b where "baskets u d = [b]"
proof -
  have "baskets u d = filter (\<lambda>b. o_user b = u) (filter (\<lambda>b. o_state b = Basket) (t_orders d))"
    by (simp add: baskets_def conj_commute)
  then have "distinct (map o_user (baskets u d))"
    using assms distinct_map_filter unfolding single_baskets_def by metis
  then have "inj_on o_user (set (baskets u d))" "distinct (baskets u d)"
    by (simp_all add: distinct_map)
  then show thesis
    using that baskets_in at_most_one [of "baskets u d"] by (metis inj_onD)
qed

lemma baskets_upd [simp]:
  "baskets u (d\<lparr>t_order_items := x\<rparr>) = baskets u d"
  by (simp add: baskets_def)

lemma single_baskets_upd [simp]:
  "single_baskets (d\<lparr>t_order_items := x\<rparr>) = single_baskets d"
  by (simp add: single_baskets_def)

lemma stock_of_upd [simp]:
  "stock_of (d\<lparr>t_order_items := x\<rparr>) = stock_of d"
  "stock_of (d\<lparr>t_orders := y\<rparr>) = stock_of d"
  by (rule ext, simp add: stock_of_def)+

lemma user_exists_upd [simp]:
  "user_exists u (d\<lparr>t_order_items := x\<rparr>) = user_exists u d"
  "user_exists u (d\<lparr>t_orders := y\<rparr>) = user_exists u d"
  by (simp_all add: user_exists_def)

lemma cart_items_basket:
  "baskets u d = [b] \<Longrightarrow> cart_items u d = filter (\<lambda>it. oi_order it = o_id b) (t_order_items d)"
  by (simp add: cart_items_def)

lemma cart_of_no_basket: "baskets u d = [] \<Longrightarrow> cart_of u d = Map.empty"
  by (rule ext) (simp add: cart_of_def cart_items_def)

lemma cart_of_basket:
  assumes "baskets u d = [b]"
  shows "cart_of u d p =
    (case filter (\<lambda>it. oi_order it = o_id b \<and> oi_info it = p) (t_order_items d) of
       [] \<Rightarrow> None | it # _ \<Rightarrow> Some (oi_quantity it))"
  using assms by (simp add: cart_of_def cart_items_basket conj_commute)

text \<open>The unique constraint: at most one item per order and product info.\<close>

lemma db_ok_item_unique:
  assumes "db_ok d" "it \<in> set (t_order_items d)" "it' \<in> set (t_order_items d)"
    "oi_order it = oi_order it'" "oi_info it = oi_info it'"
  shows "it = it'"
proof -
  have "unique_ok (OrderItemRow it) d"
    using assms(1,2) db_ok_row [of d "OrderItemRow it" OrderItemM] by (simp add: row_ok_def)
  then have "oi_id it' = oi_id it"
    using assms(3-5) unique_okD [of "OrderItemRow it" d "OrderItemRow it'"] by simp
  then show ?thesis
    using assms(2,3) same_pk_same_row [OF db_ok_distinct [OF assms(1)], of "OrderItemRow it" OrderItemM "OrderItemRow it'"]
    by simp
qed

lemma items_at_most_one:
  assumes "db_ok d"
  obtains "filter (\<lambda>it. oi_order it = k \<and> oi_info it = p) (t_order_items d) = []"
  | it where "filter (\<lambda>it. oi_order it = k \<and> oi_info it = p) (t_order_items d) = [it]"
proof -
  let ?xs = "filter (\<lambda>it. oi_order it = k \<and> oi_info it = p) (t_order_items d)"
  have "distinct ?xs"
    using db_ok_distinct [OF assms, of OrderItemM] by (simp add: distinct_map)
  moreover have "x = y" if "x \<in> set ?xs" "y \<in> set ?xs" for x y
    using that db_ok_item_unique [OF assms] by auto
  ultimately show thesis
    using that by (rule at_most_one) blast+
qed

lemma item_filter_single:
  assumes "db_ok d" "it \<in> set (t_order_items d)" "oi_order it = k" "oi_info it = p"
  shows "filter (\<lambda>x. oi_order x = k \<and> oi_info x = p) (t_order_items d) = [it]"
proof (rule items_at_most_one [OF assms(1), of k p])
  assume "filter (\<lambda>x. oi_order x = k \<and> oi_info x = p) (t_order_items d) = []"
  then show ?thesis using assms by (simp add: filter_empty_conv)
next
  fix it' assume *: "filter (\<lambda>x. oi_order x = k \<and> oi_info x = p) (t_order_items d) = [it']"
  then have "it = it'" using assms db_ok_item_unique [OF assms(1)] by (auto dest!: filter_singletonD)
  with * show ?thesis by simp
qed

section \<open>The handlers implement the abstract basket\<close>

lemma new_order_row_ok:
  "user_exists u d \<Longrightarrow> row_ok (OrderRow \<lparr>o_id = k, o_user = u, o_dt = t, o_state = s, o_contact = None\<rparr>) d"
  by (auto simp: row_ok_def positive_ok_def refs_ok_def unique_ok_def user_exists_def list_all_iff)

lemma item_row_ok:
  assumes "0 \<le> n" "k \<in> o_id ` set (t_orders d)" "p \<in> pi_id ` set (t_product_infos d)"
    and "\<And>it. it \<in> set (t_order_items d) \<Longrightarrow> oi_order it = k \<Longrightarrow> oi_info it = p \<Longrightarrow> oi_id it = i"
  shows "row_ok (OrderItemRow \<lparr>oi_id = i, oi_order = k, oi_info = p, oi_quantity = n\<rparr>) d"
  using assms by (auto simp: row_ok_def positive_ok_def refs_ok_def unique_ok_def list_all_iff)

lemma item_row_bad:
  "n < 0 \<Longrightarrow> \<not> row_ok (OrderItemRow \<lparr>oi_id = i, oi_order = k, oi_info = p, oi_quantity = n\<rparr>) d"
  by (simp add: row_ok_def positive_ok_def)

lemma single_baskets_add:
  assumes "single_baskets d" "baskets (o_user b) d = []"
  shows "single_baskets (d\<lparr>t_orders := t_orders d @ [b]\<rparr>)"
  using assms by (auto simp: single_baskets_def baskets_def filter_empty_conv)

lemma no_items_of_fresh_order:
  assumes "db_ok d" "k \<notin> set (pks OrderM d)"
  shows "filter (\<lambda>it. oi_order it = k \<and> P it) (t_order_items d) = []"
  using assms db_ok_refs [OF assms(1), of _ OrderItemM]
  by (force simp: filter_empty_conv refs_ok_def)

context django
begin

lemma basket_obtained:
  assumes "db_ok d" "single_baskets d" "user_exists u d"
  obtains b d' where "get_or_create_basket Orm u now d = (Inr b, d')"
    "baskets u d' = [b]" "db_ok d'" "single_baskets d'" "cart_of u d' = cart_of u d"
    "d' = d \<or> baskets u d = [] \<and> d' = d\<lparr>t_orders := t_orders d @ [b]\<rparr>"
  using single_baskets_cases [OF assms(2), of u]
proof (cases)
  case 1
  let ?k = "db_new_pk Orm OrderM d"
  let ?b = "\<lparr>o_id = ?k, o_user = u, o_dt = now, o_state = Basket, o_contact = None\<rparr>"
  let ?d = "d\<lparr>t_orders := t_orders d @ [?b]\<rparr>"
  let ?r = "OrderRow \<lparr>o_id = 0, o_user = u, o_dt = now, o_state = Basket, o_contact = None\<rparr>"
  have ok: "row_ok (OrderRow ?b) d" using assms(3) by (rule new_order_row_ok)
  then have "db_insert Orm None ?r d = (Inr ?k, ?d)"
    using insert_new_ok [of ?r d] by simp
  then have run: "get_or_create_basket Orm u now d = (Inr ?b, ?d)"
    using 1 by (simp add: get_or_create_basket_def create_def)
  have bas: "baskets u ?d = [?b]" using 1 by (simp add: baskets_def)
  have fresh: "?k \<notin> set (pks OrderM d)" by (rule new_pk_fresh)
  have "cart_of u ?d = cart_of u d"
    using no_items_of_fresh_order [OF assms(1) fresh]
    by (rule_tac ext) (simp add: cart_of_basket [OF bas] cart_of_no_basket [OF 1])
  moreover have "db_ok ?d"
    using db_ok_put_row [OF assms(1), of "OrderRow ?b"] ok fresh by simp
  moreover have "single_baskets ?d"
    using single_baskets_add [OF assms(2), of ?b] 1 by simp
  ultimately show thesis using that [OF run bas] 1 by blast
next
  case (2 b)
  then have "get_or_create_basket Orm u now d = (Inr b, d)"
    by (simp add: get_or_create_basket_def)
  then show thesis using that 2 assms by blast
qed

end

lemma infos_cases:
  assumes "db_ok d"
  obtains "filter (\<lambda>x. pi_id x = p) (t_product_infos d) = []" "stock_of d p = None"
  | x where "filter (\<lambda>x. pi_id x = p) (t_product_infos d) = [x]" "x \<in> set (t_product_infos d)"
      "pi_id x = p" "stock_of d p = Some (pi_quantity x)"
proof (cases "\<exists>x \<in> set (t_product_infos d). pi_id x = p")
  case True
  then obtain x where x: "x \<in> set (t_product_infos d)" "pi_id x = p" by blast
  then have "filter (\<lambda>x. pi_id x = p) (t_product_infos d) = [x]"
    using filter_eq_single [of pi_id "t_product_infos d" x] db_ok_distinct [OF assms, of ProductInfoM] by simp
  then show thesis using that(2) x by (simp add: stock_of_def)
next
  case False
  then have "filter (\<lambda>x. pi_id x = p) (t_product_infos d) = []" by (simp add: filter_empty_conv)
  then show thesis using that(1) by (simp add: stock_of_def)
qed

lemma cart_of_add_item:
  assumes "baskets u d = [b]" "db_ok d"
    and "filter (\<lambda>it. oi_order it = o_id b \<and> oi_info it = oi_info x) (t_order_items d) = []" "oi_order x = o_id b"
  shows "cart_of u (d\<lparr>t_order_items := t_order_items d @ [x]\<rparr>) = (cart_of u d)(oi_info x \<mapsto> oi_quantity x)"
proof
  fix p
  show "cart_of u (d\<lparr>t_order_items := t_order_items d @ [x]\<rparr>) p = ((cart_of u d)(oi_info x \<mapsto> oi_quantity x)) p"
    using assms(1,3,4) by (auto simp: cart_of_basket [of u "d\<lparr>t_order_items := t_order_items d @ [x]\<rparr>" b] cart_of_basket [of u d b] split: list.splits)
qed

lemma cart_of_change_item:
  assumes "baskets u d = [b]" "db_ok d" "it \<in> set (t_order_items d)" "oi_order it = o_id b"
  shows "cart_of u (d\<lparr>t_order_items := replace_by oi_id (it\<lparr>oi_quantity := n\<rparr>) (t_order_items d)\<rparr>) =
    (cart_of u d)(oi_info it \<mapsto> n)"
proof
  fix p
  let ?f = "\<lambda>y. if oi_id y = oi_id it then it\<lparr>oi_quantity := n\<rparr> else y"
  let ?d = "d\<lparr>t_order_items := replace_by oi_id (it\<lparr>oi_quantity := n\<rparr>) (t_order_items d)\<rparr>"
  have same: "y = it" if "y \<in> set (t_order_items d)" "oi_id y = oi_id it" for y
    using that assms(3) same_pk_same_row [OF db_ok_distinct [OF assms(2)], of "OrderItemRow y" OrderItemM "OrderItemRow it"]
    by simp
  let ?P = "\<lambda>y. oi_order y = o_id b \<and> oi_info y = p"
  have "filter ?P (map ?f (t_order_items d)) = map ?f (filter (?P \<circ> ?f) (t_order_items d))"
    by (simp add: filter_map)
  also have "filter (?P \<circ> ?f) (t_order_items d) = filter ?P (t_order_items d)"
    by (rule filter_cong) (auto dest: same)
  finally have flt: "filter ?P (t_order_items ?d) = map ?f (filter ?P (t_order_items d))"
    by (simp add: replace_by_def)
  show "cart_of u ?d p = ((cart_of u d)(oi_info it \<mapsto> n)) p"
  proof (cases "p = oi_info it")
    case True
    then have "filter ?P (t_order_items d) = [it]"
      using item_filter_single [OF assms(2,3,4)] by simp
    then show ?thesis
      using True flt assms(1) by (simp add: cart_of_basket [of u ?d b])
  next
    case False
    then have "map ?f (filter ?P (t_order_items d)) = filter ?P (t_order_items d)"
      by (intro map_idI) (auto dest: same)
    then show ?thesis
      using False flt assms(1) by (simp add: cart_of_basket [of u ?d b] cart_of_basket [of u d b])
  qed
qed

lemma clash_requantify: "clash (OrderItemRow (it\<lparr>oi_quantity := n\<rparr>)) r = clash (OrderItemRow it) r"
  by (cases r) simp_all

lemma item_requantify_ok:
  "row_ok (OrderItemRow it) d \<Longrightarrow> 0 \<le> n \<Longrightarrow> row_ok (OrderItemRow (it\<lparr>oi_quantity := n\<rparr>)) d"
  unfolding row_ok_def unique_ok_def clash_requantify by (simp add: positive_ok_def refs_ok_def)

context django
begin

lemma cart_post_spec:
  assumes "db_ok d" "single_baskets d" "user_exists u d" "rq_user rq = Some u"
    and p: "py_get (rq_data rq) ''product_info_id'' PNone = Inr (PInt p)"
    and q: "py_get (rq_data rq) ''quantity'' (PInt 1) = Inr (PInt q)"
    and post: "cart_post Orm rq d = (r, d')"
  shows "(r, cart_of u d') = add_to_cart (stock_of d p) (cart_of u d) p q"
proof -
  obtain b d1 where run: "get_or_create_basket Orm u (rq_now rq) d = (Inr b, d1)"
    and bas: "baskets u d1 = [b]" and d1: "db_ok d1" and cart: "cart_of u d1 = cart_of u d"
    and "d1 = d \<or> baskets u d = [] \<and> d1 = d\<lparr>t_orders := t_orders d @ [b]\<rparr>"
    using basket_obtained [OF assms(1-3)] by metis
  then have stock: "stock_of d1 = stock_of d" by auto
  have b: "b \<in> set (t_orders d1)" using bas baskets_in [of b u d1] by simp
  note ev = cart_post_def cart_add_def assms(4) run data_get_def p q prep_int_PInt int_column_def create_def
  show ?thesis
  proof (cases "p = 0 \<or> q = 0")
    case True
    then show ?thesis using post cart by (auto simp: ev add_to_cart_def)
  next
    case pq: False
    show ?thesis
    proof (rule infos_cases [OF d1, of p])
      assume "filter (\<lambda>x. pi_id x = p) (t_product_infos d1) = []" "stock_of d1 p = None"
      then show ?thesis using post pq cart stock by (auto simp: ev add_to_cart_def)
    next
      fix x assume x: "filter (\<lambda>x. pi_id x = p) (t_product_infos d1) = [x]" "x \<in> set (t_product_infos d1)"
        "pi_id x = p" "stock_of d1 p = Some (pi_quantity x)"
      show ?thesis
      proof (rule items_at_most_one [OF d1, of "o_id b" p])
        assume none: "filter (\<lambda>it. oi_order it = o_id b \<and> oi_info it = p) (t_order_items d1) = []"
        let ?r = "OrderItemRow \<lparr>oi_id = 0, oi_order = o_id b, oi_info = p, oi_quantity = q\<rparr>"
        have "cart_of u d p = None" using none cart_of_basket [OF bas] cart by simp
        moreover have "0 \<le> q \<Longrightarrow> row_ok (with_pk (db_new_pk Orm OrderItemM d1) ?r) d1"
          using none b x by (auto simp: filter_empty_conv intro!: item_row_ok)
        moreover have "q < 0 \<Longrightarrow> \<not> row_ok (with_pk (db_new_pk Orm OrderItemM d1) ?r) d1"
          using item_row_bad by simp
        ultimately show ?thesis
          using post pq cart stock x none insert_new_ok [of ?r d1] insert_new_bad [of ?r d1]
            cart_of_add_item [OF bas d1, of "\<lparr>oi_id = db_new_pk Orm OrderItemM d1, oi_order = o_id b, oi_info = p, oi_quantity = q\<rparr>"]
          by (cases "q < 0") (auto simp: ev add_to_cart_def split: if_splits)
      next
        fix it assume one: "filter (\<lambda>it. oi_order it = o_id b \<and> oi_info it = p) (t_order_items d1) = [it]"
        then have it: "it \<in> set (t_order_items d1)" "oi_order it = o_id b" "oi_info it = p"
          by (auto dest: filter_singletonD)
        let ?it = "it\<lparr>oi_quantity := oi_quantity it + q\<rparr>"
        have old: "cart_of u d p = Some (oi_quantity it)" using one cart_of_basket [OF bas] cart by simp
        have "0 \<le> oi_quantity it + q \<Longrightarrow> row_ok (OrderItemRow ?it) d1"
          using db_ok_row [OF d1, of "OrderItemRow it" OrderItemM] it item_requantify_ok by simp
        moreover have "oi_quantity it + q < 0 \<Longrightarrow> \<not> row_ok (OrderItemRow ?it) d1"
          by (simp add: row_ok_def positive_ok_def)
        moreover have "save_row (OrderItemRow ?it) d1 = d1\<lparr>t_order_items := replace_by oi_id ?it (t_order_items d1)\<rparr>"
          using it by (simp add: save_row_def)
        ultimately show ?thesis
          using post pq cart stock x one old save_ok [of "OrderItemRow ?it" d1] save_bad [of "OrderItemRow ?it" d1]
            cart_of_change_item [OF bas d1 it(1,2), of "oi_quantity it + q"] it(3)
          by (cases "oi_quantity it + q < 0") (auto simp: ev add_to_cart_def Let_def split: if_splits)
      qed
    qed
  qed
qed

end

lemma cart_of_remove_items:
  assumes "baskets u d = [b]" "db_ok d"
  shows "cart_of u (d\<lparr>t_order_items := filter (\<lambda>it. oi_id it \<notin> set ks) (t_order_items d)\<rparr>) =
    cart_of u d |` (- oi_info ` {it \<in> set (cart_items u d). oi_id it \<in> set ks})"
proof
  fix p
  let ?d = "d\<lparr>t_order_items := filter (\<lambda>it. oi_id it \<notin> set ks) (t_order_items d)\<rparr>"
  let ?P = "\<lambda>it. oi_order it = o_id b \<and> oi_info it = p"
  have flt: "filter ?P (t_order_items ?d) = filter (\<lambda>it. oi_id it \<notin> set ks) (filter ?P (t_order_items d))"
    by (simp add: conj_ac)
  show "cart_of u ?d p = (cart_of u d |` (- oi_info ` {it \<in> set (cart_items u d). oi_id it \<in> set ks})) p"
  proof (rule items_at_most_one [OF assms(2), of "o_id b" p])
    assume "filter ?P (t_order_items d) = []"
    then show ?thesis
      using assms(1) flt by (simp add: cart_of_basket [of u ?d b] cart_of_basket [of u d b] restrict_map_def)
  next
    fix it assume one: "filter ?P (t_order_items d) = [it]"
    then have it: "it \<in> set (cart_items u d)" "oi_info it = p"
      using assms(1) by (auto simp: cart_items_basket dest: filter_singletonD)
    have same: "it' = it" if "it' \<in> set (cart_items u d)" "oi_info it' = p" for it'
    proof -
      have "it' \<in> set (filter ?P (t_order_items d))" using that assms(1) by (simp add: cart_items_basket)
      then show ?thesis using one by simp
    qed
    have "p \<in> oi_info ` {it \<in> set (cart_items u d). oi_id it \<in> set ks} \<longleftrightarrow> oi_id it \<in> set ks"
    proof
      assume "p \<in> oi_info ` {it \<in> set (cart_items u d). oi_id it \<in> set ks}"
      then obtain it' where "it' \<in> set (cart_items u d)" "oi_id it' \<in> set ks" "oi_info it' = p" by blast
      then show "oi_id it \<in> set ks" using same by blast
    qed (use it in blast)
    then show ?thesis
      using assms(1) flt one by (simp add: cart_of_basket [of u ?d b] cart_of_basket [of u d b] restrict_map_def)
  qed
qed

lemma cart_of_remove_item:
  assumes "baskets u d = [b]" "db_ok d" "it \<in> set (t_order_items d)" "oi_order it = o_id b"
  shows "cart_of u (d\<lparr>t_order_items := filter (\<lambda>x. oi_id x \<noteq> oi_id it) (t_order_items d)\<rparr>) =
    (cart_of u d)(oi_info it := None)"
proof -
  have same: "y = it" if "y \<in> set (t_order_items d)" "oi_id y = oi_id it" for y
    using that assms(3) same_pk_same_row [OF db_ok_distinct [OF assms(2)], of "OrderItemRow y" OrderItemM "OrderItemRow it"]
    by simp
  have "{x \<in> set (cart_items u d). oi_id x \<in> set [oi_id it]} = {it}"
    using assms(1,3,4) same by (auto simp: cart_items_basket)
  then show ?thesis
    using cart_of_remove_items [OF assms(1,2), of "[oi_id it]"]
    by (simp add: fun_eq_iff restrict_map_def)
qed

lemma cart_item_cases:
  assumes "baskets u d = [b]" "db_ok d"
  obtains "filter (\<lambda>it. oi_id it = k \<and> oi_order it = o_id b) (t_order_items d) = []"
      "\<forall>it \<in> set (cart_items u d). oi_id it \<noteq> k"
  | it where "filter (\<lambda>it. oi_id it = k \<and> oi_order it = o_id b) (t_order_items d) = [it]"
      "it \<in> set (t_order_items d)" "it \<in> set (cart_items u d)" "oi_id it = k" "oi_order it = o_id b"
proof (cases "\<exists>it \<in> set (cart_items u d). oi_id it = k")
  case True
  then obtain it where it: "it \<in> set (t_order_items d)" "oi_id it = k" "oi_order it = o_id b"
    using assms(1) by (auto simp: cart_items_basket)
  then have "filter (\<lambda>x. oi_id x = k) (t_order_items d) = [it]"
    using filter_eq_single [of oi_id "t_order_items d" it] db_ok_distinct [OF assms(2), of OrderItemM] by simp
  then have "filter (\<lambda>x. oi_order x = o_id b) (filter (\<lambda>x. oi_id x = k) (t_order_items d)) = [it]"
    using it by simp
  then show thesis using that(2) it assms(1) by (simp add: cart_items_basket)
next
  case False
  then show thesis using that(1) assms(1) by (auto simp: cart_items_basket filter_empty_conv)
qed

lemma db_size_items:
  "db_size d - db_size (d\<lparr>t_order_items := filter (\<lambda>it. \<not> P it) (t_order_items d)\<rparr>) =
     length (filter P (t_order_items d))"
  using sum_length_filter_compl [of P "t_order_items d"] by (simp add: db_size_def all_models_def)

context django
begin

lemma get_cart_item:
  "prep_int Orm v = Inr (Some k) \<Longrightarrow> get_cart_item_or_404 Orm v cart =
     get_or_404 (\<lambda>d. filter (\<lambda>it. oi_id it = k \<and> oi_order it = o_id cart) (t_order_items d))"
  by (rule ext) (simp add: get_cart_item_or_404_def)

lemma cart_put_spec:
  assumes "db_ok d" "single_baskets d" "rq_user rq = Some u"
    and id: "py_get (rq_data rq) ''order_item_id'' PNone = Inr (PInt k)" "k \<noteq> 0"
    and q: "py_get (rq_data rq) ''quantity'' PNone = Inr v" "py_int v = Inr n"
    and put: "cart_put Orm rq d = (r, d')"
  shows "(case filter (\<lambda>it. oi_id it = k) (cart_items u d) of
       [] \<Rightarrow> r = Inl Http404 \<and> d' = d
     | it # _ \<Rightarrow> (\<exists>resp stock. stock_of d (oi_info it) = Some stock \<and> r = Inr resp \<and>
         (resp, cart_of u d') = set_quantity stock (cart_of u d) (oi_info it) n))"
proof -
  have v: "v \<noteq> PNone" using q(2) by auto
  note ev = cart_put_def assms(3) get_basket_or_404_def data_get_def id q v
    get_cart_item [OF prep_int_PInt]
  show ?thesis
    using single_baskets_cases [OF assms(2), of u]
  proof cases
    case 1
    then show ?thesis using put by (simp add: ev cart_items_def)
  next
    case (2 b)
    show ?thesis
      using cart_item_cases [OF 2 assms(1), of k]
    proof cases
      case 1
      then show ?thesis using put 2 by (simp add: ev filter_empty_conv)
    next
      case it: (2 it)
      obtain x where x: "x \<in> set (t_product_infos d)" "pi_id x = oi_info it"
        "related pi_id t_product_infos (oi_info it) d = (Inr x, d)"
        using item_info [OF assms(1) it(2)] by blast
      have stock: "stock_of d (oi_info it) = Some (pi_quantity x)"
        using x filter_eq_single [of pi_id "t_product_infos d" x] db_ok_distinct [OF assms(1), of ProductInfoM]
        by (simp add: stock_of_def)
      have "filter (\<lambda>it. oi_id it = k) (cart_items u d) = [it]"
        using it(1) 2 by (simp add: cart_items_basket conj_commute)
      moreover have "\<not> n \<le> 0 \<Longrightarrow> db_save Orm (OrderItemRow (it\<lparr>oi_quantity := n\<rparr>)) d =
          (Inr (), d\<lparr>t_order_items := replace_by oi_id (it\<lparr>oi_quantity := n\<rparr>) (t_order_items d)\<rparr>)"
        using it(2) db_ok_row [OF assms(1), of "OrderItemRow it" OrderItemM] item_requantify_ok [of it d n]
        by (simp add: save_ok save_row_def)
      ultimately show ?thesis
        using put 2 it x stock cart_of_change_item [OF 2 assms(1) it(2,5), of n]
          cart_of_remove_item [OF 2 assms(1) it(2,5)]
        by (auto simp: ev set_quantity_def delete_cascades [OF assms(1)] cascade_delete_items [OF assms(1)]
            split: if_splits)
    qed
  qed
qed

lemma delete_item_spec:
  assumes "db_ok d" "single_baskets d" "rq_user rq = Some u"
    and id: "map_of (rq_query rq) ''order_item_id'' = Some s" "s \<noteq> []" "prep_int Orm (PStr s) = Inr (Some k)"
    and del: "delete_item Orm code rq d = (r, d')"
  shows "(case filter (\<lambda>it. oi_id it = k) (cart_items u d) of
       [] \<Rightarrow> r = Inl Http404 \<and> d' = d
     | it # _ \<Rightarrow> r = Inr (Resp code (Message Removed_from_cart)) \<and>
         cart_of u d' = (cart_of u d)(oi_info it := None))"
proof -
  note ev = delete_item_def assms(3) get_basket_or_404_def query_get_def id
    get_cart_item [OF id(3)]
  show ?thesis
    using single_baskets_cases [OF assms(2), of u]
  proof cases
    case 1
    then show ?thesis using del by (simp add: ev cart_items_def)
  next
    case (2 b)
    show ?thesis
      using cart_item_cases [OF 2 assms(1), of k]
    proof cases
      case 1
      then show ?thesis using del 2 by (simp add: ev filter_empty_conv)
    next
      case it: (2 it)
      have "filter (\<lambda>it. oi_id it = k) (cart_items u d) = [it]"
        using it(1) 2 by (simp add: cart_items_basket conj_commute)
      then show ?thesis
        using del 2 it cart_of_remove_item [OF 2 assms(1) it(2,5)]
        by (auto simp: ev delete_cascades [OF assms(1)] cascade_delete_items [OF assms(1)])
    qed
  qed
qed

lemma remove_ids:
  assumes "db_ok d"
  shows "filter (\<lambda>it. oi_id it \<notin> set (map oi_id (filter P (t_order_items d)))) (t_order_items d) =
    filter (\<lambda>it. \<not> P it) (t_order_items d)"
proof (rule filter_cong)
  fix it assume it: "it \<in> set (t_order_items d)"
  have "y = it" if "y \<in> set (t_order_items d)" "oi_id y = oi_id it" for y
    using that it same_pk_same_row [OF db_ok_distinct [OF assms], of "OrderItemRow y" OrderItemM "OrderItemRow it"]
    by simp
  then show "oi_id it \<notin> set (map oi_id (filter P (t_order_items d))) \<longleftrightarrow> \<not> P it"
    using it by auto
qed simp

lemma delete_selected_items:
  assumes "db_ok d"
  shows "db_delete Orm OrderItemM (map oi_id (filter P (t_order_items d))) d =
    (Inr (length (filter P (t_order_items d))),
     d\<lparr>t_order_items := filter (\<lambda>it. \<not> P it) (t_order_items d)\<rparr>)"
  using db_size_items [of d P]
  by (simp only: delete_cascades [OF assms] cascade_delete_items [OF assms] remove_ids [OF assms])

lemma clear_cart_spec:
  assumes "db_ok d" "single_baskets d" "rq_user rq = Some u"
    and run: "clear_cart Orm rq d = (r, d')"
  shows "(if baskets u d = [] then r = Inl Http404 \<and> d' = d
     else r = Inr (Resp 200 (Counted Cart_cleared (length (cart_items u d)))) \<and> cart_items u d' = [] \<and>
       d' = d\<lparr>t_order_items := filter (\<lambda>it. it \<notin> set (cart_items u d)) (t_order_items d)\<rparr>)"
  using single_baskets_cases [OF assms(2), of u]
proof cases
  case 1
  then show ?thesis using run by (simp add: clear_cart_def assms(3) get_basket_or_404_def)
next
  case (2 b)
  let ?d = "d\<lparr>t_order_items := filter (\<lambda>it. oi_order it \<noteq> o_id b) (t_order_items d)\<rparr>"
  have "r = Inr (Resp 200 (Counted Cart_cleared (length (cart_items u d)))) \<and> d' = ?d"
    using run 2 by (auto simp: clear_cart_def assms(3) get_basket_or_404_def cart_items_basket
        delete_selected_items [OF assms(1)])
  moreover have "cart_items u ?d = []"
    using 2 by (simp add: cart_items_basket [of u ?d b])
  moreover have "filter (\<lambda>it. it \<notin> set (cart_items u d)) (t_order_items d) =
      filter (\<lambda>it. oi_order it \<noteq> o_id b) (t_order_items d)"
    using 2 by (auto simp: cart_items_basket intro: filter_cong)
  ultimately show ?thesis using 2 by simp
qed

lemma map_each_prep_ints: "map_each (\<lambda>x. lift_exn (prep_int Orm x)) (map PInt ks) d = (Inr (map Some ks), d)"
  by (induction ks) (simp_all add: prep_int_PInt)

lemma batch_delete_spec:
  assumes "db_ok d" "single_baskets d" "rq_user rq = Some u"
    and ids: "py_get (rq_data rq) ''order_item_ids'' PNone = Inr (PList (map PInt ks))" "ks \<noteq> []"
    and run: "batch_delete Orm rq d = (r, d')"
  shows "(if baskets u d = [] then r = Inl Http404 \<and> d' = d
     else r = Inr (Resp 200 (Counted Items_removed (length (filter (\<lambda>it. oi_id it \<in> set ks) (cart_items u d))))) \<and>
       d' = d\<lparr>t_order_items := filter (\<lambda>it. \<not> (it \<in> set (cart_items u d) \<and> oi_id it \<in> set ks)) (t_order_items d)\<rparr>)"
  using single_baskets_cases [OF assms(2), of u]
proof cases
  case 1
  then show ?thesis using run by (simp add: batch_delete_def assms(3) get_basket_or_404_def)
next
  case (2 b)
  obtain k ks' where ks: "ks = k # ks'" using ids(2) by (cases ks) auto
  let ?P = "\<lambda>it. oi_order it = o_id b \<and> oi_id it \<in> set ks"
  have m: "map_each (\<lambda>x. lift_exn (prep_int Orm x)) (PInt k # map PInt ks') d = (Inr (map Some ks), d)"
    using map_each_prep_ints [of ks d] ks by simp
  have some: "(\<lambda>it. oi_order it = o_id b \<and> Some (oi_id it) \<in> set (map Some ks)) = ?P"
    by (rule ext) auto
  have ps: "PList (map PInt ks) = PList (PInt k # map PInt ks')" using ks by simp
  have "batch_delete Orm rq d = (Inr (Resp 200 (Counted Items_removed (length (filter ?P (t_order_items d))))),
      d\<lparr>t_order_items := filter (\<lambda>it. \<not> ?P it) (t_order_items d)\<rparr>)"
    unfolding batch_delete_def with_user_Some [OF assms(3)]
    using 2 ids(1) by (simp add: get_basket_or_404_def data_get_def ps m some delete_selected_items [OF assms(1)] del: map_each.simps set_map)
  moreover have "filter ?P (t_order_items d) = filter (\<lambda>it. oi_id it \<in> set ks) (cart_items u d)"
    using 2 by (simp add: cart_items_basket conj_commute)
  moreover have "filter (\<lambda>it. \<not> (it \<in> set (cart_items u d) \<and> oi_id it \<in> set ks)) (t_order_items d) =
      filter (\<lambda>it. \<not> ?P it) (t_order_items d)"
    using 2 by (auto simp: cart_items_basket intro: filter_cong)
  ultimately show ?thesis using 2 run by simp
qed

end

end
