(* ===== verification/CartSteps.thy ===== *)
theory CartSteps
  imports CartSpec
begin

text \<open>
  The basket endpoints as a state machine. A step of user \<open>u\<close> opens the basket, adds an
  item, sets a quantity or drops items of that basket, never beyond the stock; every
  handler, on any request, moves the database by such steps. Isolation, the stock bound
  and the schema invariant follow by rule induction.
\<close>

section \<open>Basket steps\<close>

definition in_stock :: "database \<Rightarrow> int \<Rightarrow> int \<Rightarrow> bool" where
  "in_stock d p n \<longleftrightarrow> (case stock_of d p of None \<Rightarrow> False | Some s \<Rightarrow> n \<le> s)"

inductive cart_step :: "int \<Rightarrow> database \<Rightarrow> database \<Rightarrow> bool" where
  open_basket: "baskets u d = [] \<Longrightarrow> o_user b = u \<Longrightarrow> o_state b = Basket \<Longrightarrow> row_ok (OrderRow b) d \<Longrightarrow>
    o_id b \<notin> set (pks OrderM d) \<Longrightarrow> o_contact b = None \<Longrightarrow> cart_step u d (d\<lparr>t_orders := t_orders d @ [b]\<rparr>)"
| add_item: "oi_order x \<in> o_id ` set (baskets u d) \<Longrightarrow> row_ok (OrderItemRow x) d \<Longrightarrow>
    oi_id x \<notin> set (pks OrderItemM d) \<Longrightarrow> in_stock d (oi_info x) (oi_quantity x) \<Longrightarrow>
    cart_step u d (d\<lparr>t_order_items := t_order_items d @ [x]\<rparr>)"
| set_item: "it \<in> set (cart_items u d) \<Longrightarrow> row_ok (OrderItemRow (it\<lparr>oi_quantity := n\<rparr>)) d \<Longrightarrow>
    in_stock d (oi_info it) n \<Longrightarrow>
    cart_step u d (d\<lparr>t_order_items := replace_by oi_id (it\<lparr>oi_quantity := n\<rparr>) (t_order_items d)\<rparr>)"
| drop_items: "set ks \<subseteq> oi_id ` set (cart_items u d) \<Longrightarrow>
    cart_step u d (d\<lparr>t_order_items := filter (\<lambda>it. oi_id it \<notin> set ks) (t_order_items d)\<rparr>)"

inductive_cases cart_stepE: "cart_step u d d'"

lemma py_gt_int_False:
  assumes "py_gt_int v s = Inr False"
  obtains n where "py_int v = Inr n" "n \<le> s"
proof (cases v)
  case (PFloat x)
  then have "x \<le> of_int s" using assms by simp
  then have "\<lfloor>x\<rfloor> \<le> s" "\<lceil>x\<rceil> \<le> s" by (simp_all add: floor_le_iff ceiling_le_iff)
  then show thesis using that PFloat by simp
qed (use assms that in \<open>auto split: if_splits\<close>)

lemma in_stockI: "x \<in> set (t_product_infos d) \<Longrightarrow> db_ok d \<Longrightarrow> n \<le> pi_quantity x \<Longrightarrow> in_stock d (pi_id x) n"
  using filter_eq_single [of pi_id "t_product_infos d" x] db_ok_distinct [of d ProductInfoM]
  by (simp add: in_stock_def stock_of_def)

lemma db_ok_cart_step:
  assumes "cart_step u d d'" "db_ok d"
  shows "db_ok d'"
  using assms
proof cases
  case (open_basket b)
  then show ?thesis using db_ok_put_row [OF assms(2), of "OrderRow b"] by simp
next
  case (add_item x)
  then show ?thesis using db_ok_put_row [OF assms(2), of "OrderItemRow x"] by simp
next
  case (set_item it n)
  then show ?thesis using db_ok_replace_row [OF assms(2), of "OrderItemRow (it\<lparr>oi_quantity := n\<rparr>)"] by simp
next
  case (drop_items ks)
  then show ?thesis using db_ok_cascade_delete [OF assms(2), of OrderItemM ks] cascade_delete_items [OF assms(2), of ks] by simp
qed

lemma single_baskets_cart_step: "cart_step u d d' \<Longrightarrow> single_baskets d \<Longrightarrow> single_baskets d'"
  by (erule cart_stepE) (auto simp: single_baskets_add)

lemma stock_cart_step: "cart_step u d d' \<Longrightarrow> stock_of d' = stock_of d"
  by (erule cart_stepE) auto

section \<open>What a step leaves alone\<close>

lemma rows_same_pk:
  assumes "db_ok d" "it \<in> set (t_order_items d)" "y \<in> set (t_order_items d)" "oi_id y = oi_id it"
  shows "y = it"
  using assms same_pk_same_row [OF db_ok_distinct [OF assms(1)], of "OrderItemRow y" OrderItemM "OrderItemRow it"]
  by simp

text \<open>Everything that is not the basket of \<open>u\<close>.\<close>

definition outside_cart :: "int \<Rightarrow> database \<Rightarrow> database" where
  "outside_cart u d = d\<lparr>
     t_orders := filter (\<lambda>b. \<not> (o_user b = u \<and> o_state b = Basket)) (t_orders d),
     t_order_items := filter (\<lambda>it. oi_order it \<notin> o_id ` set (baskets u d)) (t_order_items d)\<rparr>"

lemma outside_cart_items:
  "filter (\<lambda>it. oi_order it \<notin> o_id ` set (baskets u d)) xs =
     filter (\<lambda>it. oi_order it \<notin> o_id ` set (baskets u d)) (t_order_items d) \<Longrightarrow>
   outside_cart u (d\<lparr>t_order_items := xs\<rparr>) = outside_cart u d"
  by (simp add: outside_cart_def)

lemma outside_cart_step:
  assumes "cart_step u d d'" "db_ok d"
  shows "outside_cart u d' = outside_cart u d"
  using assms(1)
proof cases
  case (open_basket b)
  have "oi_order it \<noteq> o_id b" if "it \<in> set (t_order_items d)" for it
    using that no_items_of_fresh_order [OF assms(2) open_basket(6), of "\<lambda>_. True"]
    by (auto simp: filter_empty_conv)
  then have "filter (\<lambda>it. oi_order it \<notin> o_id ` set [b]) (t_order_items d) = t_order_items d"
    by (intro filter_True) simp
  moreover have "baskets u (d\<lparr>t_orders := t_orders d @ [b]\<rparr>) = [b]"
    using open_basket by (simp add: baskets_def)
  ultimately show ?thesis using open_basket by (simp add: outside_cart_def)
next
  case (add_item x)
  then show ?thesis by (simp add: outside_cart_def)
next
  case (set_item it n)
  have it: "it \<in> set (t_order_items d)" "oi_order it \<in> o_id ` set (baskets u d)"
    using set_item(2) by (auto simp: cart_items_def)
  let ?f = "\<lambda>y. if oi_id y = oi_id it then it\<lparr>oi_quantity := n\<rparr> else y"
  let ?P = "\<lambda>y. oi_order y \<notin> o_id ` set (baskets u d)"
  have "filter ?P (map ?f (t_order_items d)) = map ?f (filter (?P \<circ> ?f) (t_order_items d))"
    by (simp add: filter_map)
  also have "filter (?P \<circ> ?f) (t_order_items d) = filter ?P (t_order_items d)"
    by (rule filter_cong) (use it in \<open>auto dest: rows_same_pk [OF assms(2) it(1)]\<close>)
  also have "map ?f (filter ?P (t_order_items d)) = filter ?P (t_order_items d)"
    by (intro map_idI) (use it in \<open>auto dest: rows_same_pk [OF assms(2) it(1)]\<close>)
  finally show ?thesis
    unfolding set_item(1) by (intro outside_cart_items) (simp add: replace_by_def)
next
  case (drop_items ks)
  have "oi_order it \<in> o_id ` set (baskets u d)" if "it \<in> set (t_order_items d)" "oi_id it \<in> set ks" for it
  proof -
    have "oi_id it \<in> oi_id ` set (cart_items u d)" using drop_items(2) that(2) by blast
    then obtain it' where "it' \<in> set (cart_items u d)" "oi_id it' = oi_id it" by (metis imageE)
    then show ?thesis using rows_same_pk [OF assms(2) that(1), of it'] by (auto simp: cart_items_def)
  qed
  then show ?thesis
    unfolding drop_items(1) by (intro outside_cart_items) (auto intro: filter_cong)
qed

definition cart_in_stock :: "int \<Rightarrow> database \<Rightarrow> bool" where
  "cart_in_stock u d \<longleftrightarrow> list_all (\<lambda>it. in_stock d (oi_info it) (oi_quantity it)) (cart_items u d)"

lemma in_stock_upd [simp]:
  "in_stock (d\<lparr>t_order_items := x\<rparr>) = in_stock d"
  "in_stock (d\<lparr>t_orders := y\<rparr>) = in_stock d"
  by (rule ext, rule ext, simp add: in_stock_def)+

lemma cart_in_stock_step:
  assumes "cart_step u d d'" "db_ok d" "cart_in_stock u d"
  shows "cart_in_stock u d'"
  using assms(1)
proof cases
  case (open_basket b)
  have "cart_items u (d\<lparr>t_orders := t_orders d @ [b]\<rparr>) = []"
    using open_basket no_items_of_fresh_order [OF assms(2) open_basket(6), of "\<lambda>_. True"]
    by (auto simp: cart_items_def baskets_def filter_empty_conv)
  then show ?thesis using open_basket by (simp add: cart_in_stock_def)
qed (use assms(3) in \<open>auto simp: cart_in_stock_def cart_items_def list_all_iff replace_by_def\<close>)

section \<open>Every handler moves by basket steps\<close>

text \<open>\<open>moves u d m d1\<close>: running \<open>m\<close> from \<open>d1\<close> ends in a state that basket steps reach from \<open>d\<close>.\<close>

abbreviation cart_moves :: "int \<Rightarrow> database \<Rightarrow> (database, 'a) comp \<Rightarrow> bool" where
  "cart_moves u d m \<equiv> ends_in ((cart_step u)\<^sup>*\<^sup>* d) m d"

lemma ends_in_converse:
  "R d d1 \<Longrightarrow> ends_in (R\<^sup>*\<^sup>* d1) m d1 \<Longrightarrow> ends_in (R\<^sup>*\<^sup>* d) m d1"
  unfolding ends_in_def by (rule converse_rtranclp_into_rtranclp)

lemma ends_in_case_prod: "(\<And>a b. p = (a, b) \<Longrightarrow> ends_in I (f a b) s) \<Longrightarrow> ends_in I (case p of (a, b) \<Rightarrow> f a b) s"
  by (cases p) simp

context django
begin

lemma create_moves:
  assumes "\<And>k. k \<notin> set (pks (model_of (c x)) d) \<Longrightarrow> row_ok (with_pk k (c x)) d \<Longrightarrow>
    create Orm c f x d = (Inr (f k x), put_row (with_pk k (c x)) d) \<Longrightarrow>
    ends_in I (g (f k x)) (put_row (with_pk k (c x)) d)"
    and "I d"
  shows "ends_in I (andThen (create Orm c f x) g) d"
proof (cases rule: insert_cases [of "c x" d None])
  case (1 k)
  then have "create Orm c f x d = (Inr (f k x), put_row (with_pk k (c x)) d)"
    by (simp add: create_def)
  then show ?thesis using assms(1) [OF 1(1,2)] by (simp add: ends_in_def)
next
  case 2
  then show ?thesis using assms(2) by (simp add: create_def ends_in_def)
qed

lemma save_moves:
  assumes "row_ok r d \<Longrightarrow> ends_in I (g ()) (save_row r d)" "I d"
  shows "ends_in I (andThen (db_save Orm r) g) d"
  using assms by (cases rule: save_cases [of r d]) (simp_all add: ends_in_def)

lemma get_or_create_moves:
  assumes "\<And>x. sel d = [x] \<Longrightarrow> ends_in I (g (x, False)) d"
    and "sel d = [] \<Longrightarrow> ends_in I (andThen mk (\<lambda>x. g (x, True))) d" and "I d"
  shows "ends_in I (andThen (get_or_create sel mk) g) d"
proof -
  consider "sel d = []" | x where "sel d = [x]" | x y zs where "sel d = x # y # zs"
    by (metis list.exhaust)
  then show ?thesis
  proof cases
    case 1
    have "andThen (get_or_create sel mk) g d = andThen mk (\<lambda>x. g (x, True)) d"
      using 1 by (auto simp: andThen_def split: prod.splits sum.splits)
    then show ?thesis using assms(2) [OF 1] by (simp add: ends_in_def)
  next
    case (2 x)
    then show ?thesis using assms(1) [OF 2] by (simp add: ends_in_def)
  next
    case 3
    then show ?thesis using assms(3) by (simp add: ends_in_def get_or_create_def andThen_def)
  qed
qed

lemma basket_moves:
  assumes "db_ok d"
    and g: "\<And>b d1. db_ok d1 \<Longrightarrow> baskets u d1 = [b] \<Longrightarrow> ends_in ((cart_step u)\<^sup>*\<^sup>* d1) (g b) d1"
  shows "cart_moves u d (andThen (get_or_create_basket Orm u now) g)"
  unfolding get_or_create_basket_def andThen_assoc
proof (rule get_or_create_moves)
  fix b assume "baskets u d = [b]"
  then show "cart_moves u d (andThen (case (b, False) of (cart, created) \<Rightarrow> ret cart) g)"
    using g [OF assms(1)] by simp
next
  assume none: "baskets u d = []"
  show "cart_moves u d (andThen (create Orm OrderRow (\<lambda>k. o_id_update (\<lambda>_. k))
      \<lparr>o_id = 0, o_user = u, o_dt = now, o_state = Basket, o_contact = None\<rparr>)
      (\<lambda>x. andThen (case (x, True) of (cart, created) \<Rightarrow> ret cart) g))"
  proof (rule create_moves)
    fix k
    let ?b = "\<lparr>o_id = 0, o_user = u, o_dt = now, o_state = Basket, o_contact = None\<rparr>"
    let ?d = "put_row (with_pk k (OrderRow ?b)) d"
    assume k: "k \<notin> set (pks (model_of (OrderRow ?b)) d)" "row_ok (with_pk k (OrderRow ?b)) d"
    have step: "cart_step u d ?d"
      using cart_step.open_basket [OF none, of "?b\<lparr>o_id := k\<rparr>"] k by simp
    then have "db_ok ?d" using db_ok_cart_step assms(1) by blast
    then have "ends_in ((cart_step u)\<^sup>*\<^sup>* ?d) (g (?b\<lparr>o_id := k\<rparr>)) ?d"
      by (rule g) (use none in \<open>simp add: baskets_def\<close>)
    then show "ends_in ((cart_step u)\<^sup>*\<^sup>* d)
        (andThen (case (?b\<lparr>o_id := k\<rparr>, True) of (cart, created) \<Rightarrow> ret cart) g) ?d"
      using ends_in_converse [of "cart_step u", OF step] by simp
  qed simp
qed simp

lemma cart_get_moves:
  assumes "db_ok d" "rq_user rq = Some u"
  shows "cart_moves u d (cart_get Orm rq)"
  unfolding cart_get_def with_user_Some [OF assms(2)]
  by (intro basket_moves [OF assms(1)] ends_in_reads reads_intros) simp

lemma delete_moves:
  assumes "db_ok d" "set ks \<subseteq> oi_id ` set (cart_items u d)"
  shows "cart_moves u d (andThen (db_delete Orm OrderItemM ks) (\<lambda>n. ret (f n)))"
  using cart_step.drop_items [OF assms(2)]
  by (simp add: ends_in_def delete_cascades [OF assms(1)] cascade_delete_items [OF assms(1)] r_into_rtranclp)

lemma item_of_cart:
  "get_cart_item_or_404 Orm v b d = (Inr it, d') \<Longrightarrow> baskets u d = [b] \<Longrightarrow> it \<in> set (cart_items u d)"
  by (auto simp: get_cart_item_or_404_def andThen_eq_Inr get_or_404_eq_Inr cart_items_basket
      dest!: filter_singletonD)

lemma reads_get_cart_item [reads_intros]: "reads (get_cart_item_or_404 Orm v b)"
  unfolding get_cart_item_or_404_def by (intro reads_intros)

lemma get_basket_moves:
  assumes "\<And>b. baskets u d = [b] \<Longrightarrow> cart_moves u d (g b)"
  shows "cart_moves u d (andThen (get_basket_or_404 u) g)"
  unfolding get_basket_or_404_def
  by (rule ends_in_after_read) (auto intro: assms reads_get_or_404 simp: get_or_404_eq_Inr)

lemma delete_item_moves:
  assumes "db_ok d" "rq_user rq = Some u"
  shows "cart_moves u d (delete_item Orm code rq)"
  unfolding delete_item_def with_user_Some [OF assms(2)] Let_def
proof (intro get_basket_moves ends_in_if)
  fix b assume "baskets u d = [b]"
  then show "cart_moves u d (andThen (get_cart_item_or_404 Orm (query_get rq ''order_item_id'') b)
      (\<lambda>it. andThen (db_delete Orm OrderItemM [oi_id it])
        (\<lambda>_. ret (Resp code (Message Removed_from_cart)))))"
    by (intro ends_in_after_read reads_get_cart_item delete_moves [OF assms(1)])
      (auto dest: item_of_cart)
qed simp

end

context django
begin

lemmas step_over = ends_in_after_read [OF reads_data_get] ends_in_after_read [OF reads_get_cart_item]
  ends_in_after_read [OF reads_related] ends_in_after_read [OF reads_lift_exn]
  ends_in_after_read [OF reads_get_or_404]

lemma clear_cart_moves:
  assumes "db_ok d" "rq_user rq = Some u"
  shows "cart_moves u d (clear_cart Orm rq)"
  unfolding clear_cart_def with_user_Some [OF assms(2)] andThen_query
proof (rule get_basket_moves)
  fix b assume b: "baskets u d = [b]"
  show "cart_moves u d (\<lambda>d. andThen
      (db_delete Orm OrderItemM (map oi_id (filter (\<lambda>it. oi_order it = o_id b) (t_order_items d))))
      (\<lambda>n. ret (Resp 200 (Counted Cart_cleared n))) d)"
    using delete_moves [OF assms(1), of "map oi_id (filter (\<lambda>it. oi_order it = o_id b) (t_order_items d))" u]
      b by (simp add: ends_in_def cart_items_basket)
qed

lemma batch_delete_moves:
  assumes "db_ok d" "rq_user rq = Some u"
  shows "cart_moves u d (batch_delete Orm rq)"
  unfolding batch_delete_def with_user_Some [OF assms(2)] andThen_query
proof (intro get_basket_moves ends_in_after_read reads_intros)
  fix b v assume b: "baskets u d = [b]"
  have "cart_moves u d (andThen (map_each (\<lambda>x. lift_exn (prep_int Orm x)) vs)
      (\<lambda>ks d. andThen (db_delete Orm OrderItemM (map oi_id (filter
          (\<lambda>it. oi_order it = o_id b \<and> Some (oi_id it) \<in> set ks) (t_order_items d))))
        (\<lambda>n. ret (Resp 200 (Counted Items_removed n))) d))" for vs
  proof (intro ends_in_after_read reads_intros)
    fix ks
    show "cart_moves u d (\<lambda>d. andThen (db_delete Orm OrderItemM (map oi_id (filter
          (\<lambda>it. oi_order it = o_id b \<and> Some (oi_id it) \<in> set ks) (t_order_items d))))
        (\<lambda>n. ret (Resp 200 (Counted Items_removed n))) d)"
      unfolding ends_in_def
      by (rule delete_moves [OF assms(1), unfolded ends_in_def]) (use b in \<open>auto simp: cart_items_basket\<close>)
  qed simp
  then show "cart_moves u d (case v of PList (v # vs) \<Rightarrow>
        andThen (map_each (\<lambda>x. lift_exn (prep_int Orm x)) (v # vs))
          (\<lambda>ks d. andThen (db_delete Orm OrderItemM (map oi_id (filter
            (\<lambda>it. oi_order it = o_id b \<and> Some (oi_id it) \<in> set ks) (t_order_items d))))
          (\<lambda>n. ret (Resp 200 (Counted Items_removed n))) d)
      | _ \<Rightarrow> ret (Resp 400 (Error Items_must_be_list)))"
    by (cases v) (auto split: list.splits simp del: map_each.simps)
qed simp

lemma set_item_moves:
  assumes "it \<in> set (cart_items u d)" "in_stock d (oi_info it) n"
  shows "cart_moves u d (andThen (db_save Orm (OrderItemRow (it\<lparr>oi_quantity := n\<rparr>))) (\<lambda>_. ret x))"
proof (rule save_moves)
  assume "row_ok (OrderItemRow (it\<lparr>oi_quantity := n\<rparr>)) d"
  then show "ends_in ((cart_step u)\<^sup>*\<^sup>* d) (ret x) (save_row (OrderItemRow (it\<lparr>oi_quantity := n\<rparr>)) d)"
    using cart_step.set_item [OF assms(1) _ assms(2)] assms(1)
    by (auto simp: save_row_def cart_items_def r_into_rtranclp)
qed simp

lemma cart_put_moves:
  assumes "db_ok d" "rq_user rq = Some u"
  shows "cart_moves u d (cart_put Orm rq)"
  unfolding cart_put_def with_user_Some [OF assms(2)]
proof (intro get_basket_moves step_over ends_in_if)
  fix b k v it x n
  assume b: "baskets u d = [b]" and it: "get_cart_item_or_404 Orm k b d = (Inr it, d)"
    and x: "related pi_id t_product_infos (oi_info it) d = (Inr x, d)" and n: "\<not> n > pi_quantity x"
  have "in_stock d (oi_info it) n"
    using in_stockI [of x d n] assms(1) x n by (auto simp: related_eq_Inr dest: filter_singletonD)
  then show "cart_moves u d (andThen (db_save Orm (OrderItemRow (it\<lparr>oi_quantity := n\<rparr>)))
      (\<lambda>_. ret (Resp 200 (Message Quantity_updated))))"
    using item_of_cart [OF it b] by (intro set_item_moves)
next
  fix b k it assume "baskets u d = [b]" "get_cart_item_or_404 Orm k b d = (Inr it, d)"
  then show "cart_moves u d (andThen (db_delete Orm OrderItemM [oi_id it])
      (\<lambda>_. ret (Resp 200 (Message Removed_from_cart))))"
    by (intro delete_moves [OF assms(1)]) (auto dest: item_of_cart)
qed simp_all

lemma add_moves:
  assumes "db_ok d" "baskets u d = [b]" "x \<in> set (t_product_infos d)"
    and q: "py_gt_int q (pi_quantity x) = Inr False"
  shows "cart_moves u d (cart_add Orm b x q)"
  unfolding cart_add_def Let_def
proof (rule get_or_create_moves, goal_cases)
  case (1 it)
  then have it: "it \<in> set (cart_items u d)" "oi_info it = pi_id x"
    using assms(2) by (auto simp: cart_items_basket dest: filter_singletonD)
  show ?case unfolding prod.case if_False
  proof (intro step_over ends_in_if, goal_cases)
    case (3 n)
    then have "in_stock d (oi_info it) (oi_quantity it + n)"
      using in_stockI [OF assms(3,1)] it by simp
    then show ?case by (rule set_item_moves [OF it(1)])
  qed simp_all
next
  case 2
  obtain n where n: "py_int q = Inr n" "n \<le> pi_quantity x" using py_gt_int_False [OF q] .
  let ?x = "\<lparr>oi_id = 0, oi_order = o_id b, oi_info = pi_id x, oi_quantity = n\<rparr>"
  have "cart_moves u d (andThen (create Orm OrderItemRow (\<lambda>k. oi_id_update (\<lambda>_. k)) ?x)
      (\<lambda>it. ret (Resp 201 (Message Added_to_cart))))"
  proof (rule create_moves)
    fix k assume "k \<notin> set (pks (model_of (OrderItemRow ?x)) d)" "row_ok (with_pk k (OrderItemRow ?x)) d"
    then show "ends_in ((cart_step u)\<^sup>*\<^sup>* d) (ret (Resp 201 (Message Added_to_cart)))
        (put_row (with_pk k (OrderItemRow ?x)) d)"
      using cart_step.add_item [of "?x\<lparr>oi_id := k\<rparr>" u d] assms(2) in_stockI [OF assms(3,1) n(2)]
      by (simp add: r_into_rtranclp)
  qed simp
  then show ?case
    using n(1) by (simp add: int_column_def prep_int_py andThen_assoc ends_in_def)
qed simp

lemma cart_post_moves:
  assumes "db_ok d" "rq_user rq = Some u"
  shows "cart_moves u d (cart_post Orm rq)"
  unfolding cart_post_def with_user_Some [OF assms(2)]
proof (intro basket_moves [OF assms(1)] step_over ends_in_if)
  fix b d1 p q k x c
  assume d1: "db_ok d1" and b: "baskets u d1 = [b]"
    and x: "get_or_404 (\<lambda>d. filter (\<lambda>x. Some (pi_id x) = k) (t_product_infos d)) d1 = (Inr x, d1)"
    and q: "lift_exn (py_gt_int q (pi_quantity x)) d1 = (Inr c, d1)" "\<not> c"
  have "x \<in> set (t_product_infos d1)" using x by (auto simp: get_or_404_eq_Inr dest: filter_singletonD)
  with q show "cart_moves u d1 (cart_add Orm b x q)"
    by (intro add_moves [OF d1 b]) simp_all
qed simp_all

end

section \<open>Runs of requests\<close>

datatype cart_op = CartGet | CartPost | CartPut | CartDelete | DeleteCartItem | BatchDelete | ClearCart

primrec run_cart_op :: "cart_op \<Rightarrow> orm \<Rightarrow> request \<Rightarrow> (database, response) comp" where
  "run_cart_op CartGet Orm rq = cart_get Orm rq"
| "run_cart_op CartPost Orm rq = cart_post Orm rq"
| "run_cart_op CartPut Orm rq = cart_put Orm rq"
| "run_cart_op CartDelete Orm rq = cart_delete Orm rq"
| "run_cart_op DeleteCartItem Orm rq = delete_cart_item Orm rq"
| "run_cart_op BatchDelete Orm rq = batch_delete Orm rq"
| "run_cart_op ClearCart Orm rq = clear_cart Orm rq"

definition serve_cart :: "orm \<Rightarrow> int \<Rightarrow> cart_op \<times> request \<Rightarrow> database \<Rightarrow> database" where
  "serve_cart Orm u q d = snd (run_cart_op (fst q) Orm (snd q\<lparr>rq_user := Some u\<rparr>) d)"

lemma cart_steps_keep:
  assumes "(cart_step u)\<^sup>*\<^sup>* d d'" "db_ok d"
  shows "db_ok d' \<and> outside_cart u d' = outside_cart u d \<and> stock_of d' = stock_of d \<and>
    (single_baskets d \<longrightarrow> single_baskets d') \<and> (cart_in_stock u d \<longrightarrow> cart_in_stock u d')"
  using assms
proof (induction rule: rtranclp_induct)
  case (step d1 d2)
  then show ?case
    using db_ok_cart_step outside_cart_step stock_cart_step single_baskets_cart_step cart_in_stock_step
    by metis
qed simp

lemma outside_cart_other:
  assumes "db_ok d" "u \<noteq> v"
  shows "cart_items v d = cart_items v (outside_cart u d)" "baskets v d = baskets v (outside_cart u d)"
proof -
  show b: "baskets v d = baskets v (outside_cart u d)"
    using assms(2) by (auto simp: baskets_def outside_cart_def intro: filter_cong)
  have "oi_order it \<notin> o_id ` set (baskets u d)" if "oi_order it \<in> o_id ` set (baskets v d)" for it
  proof
    assume "oi_order it \<in> o_id ` set (baskets u d)"
    then obtain a b where ab: "a \<in> set (baskets u d)" "b \<in> set (baskets v d)" "o_id a = o_id b"
      using \<open>oi_order it \<in> o_id ` set (baskets v d)\<close> by (metis imageE)
    then have "a = b"
      using same_pk_same_row [OF db_ok_distinct [OF assms(1)], of "OrderRow a" OrderM "OrderRow b"]
      by (simp add: baskets_def)
    then show False using ab assms(2) by (simp add: baskets_def)
  qed
  then show "cart_items v d = cart_items v (outside_cart u d)"
    unfolding cart_items_def b [symmetric] by (auto simp: outside_cart_def intro: filter_cong)
qed

lemma cart_of_items: "cart_items v d = cart_items v d' \<Longrightarrow> cart_of v d = cart_of v d'"
  by (rule ext) (simp add: cart_of_def)

context django
begin

lemma run_cart_op_moves:
  assumes "db_ok d" "rq_user rq = Some u"
  shows "cart_moves u d (run_cart_op op Orm rq)"
  using cart_get_moves [OF assms] cart_post_moves [OF assms] cart_put_moves [OF assms]
    delete_item_moves [OF assms] batch_delete_moves [OF assms] clear_cart_moves [OF assms]
  by (cases op) (simp_all add: cart_delete_def delete_cart_item_def)

lemma serve_cart_moves: "db_ok d \<Longrightarrow> (cart_step u)\<^sup>*\<^sup>* d (serve_cart Orm u q d)"
  using run_cart_op_moves [of d "snd q\<lparr>rq_user := Some u\<rparr>" u "fst q"]
  by (simp add: serve_cart_def ends_in_def)

lemmas serve_cart_keeps = cart_steps_keep [OF serve_cart_moves]

end

section \<open>The contract of a basket service\<close>

locale cart_service =
  fixes good :: "'d \<Rightarrow> bool"
    and serve :: "int \<Rightarrow> 'q \<Rightarrow> 'd \<Rightarrow> 'd"
    and cart :: "int \<Rightarrow> 'd \<Rightarrow> 'c"
    and stocked :: "int \<Rightarrow> 'd \<Rightarrow> bool"
  assumes serve_good: "good d \<Longrightarrow> good (serve u q d)"
    and serve_other: "good d \<Longrightarrow> u \<noteq> v \<Longrightarrow> cart v (serve u q d) = cart v d"
    and serve_stocked: "good d \<Longrightarrow> stocked v d \<Longrightarrow> stocked v (serve u q d)"
begin

lemma run_good: "good d \<Longrightarrow> good (fold (\<lambda>(u, q). serve u q) rqs d)"
  by (induction rqs arbitrary: d) (auto simp: serve_good)

lemma run_stocked: "good d \<Longrightarrow> stocked v d \<Longrightarrow> stocked v (fold (\<lambda>(u, q). serve u q) rqs d)"
  by (induction rqs arbitrary: d) (auto simp: serve_good serve_stocked)

lemma run_others:
  "good d \<Longrightarrow> v \<notin> fst ` set rqs \<Longrightarrow> cart v (fold (\<lambda>(u, q). serve u q) rqs d) = cart v d"
  by (induction rqs arbitrary: d) (auto simp: serve_good serve_other)

end

context django
begin

lemma serve_cart_other:
  assumes "db_ok d" "u \<noteq> v"
  shows "cart_of v (serve_cart Orm u q d) = cart_of v d"
proof (rule cart_of_items)
  let ?d = "serve_cart Orm u q d"
  have keep: "db_ok ?d" "outside_cart u ?d = outside_cart u d" using serve_cart_keeps [OF assms(1) assms(1)] by auto
  show "cart_items v ?d = cart_items v d"
    using outside_cart_other(1) [OF keep(1) assms(2)] outside_cart_other(1) [OF assms] keep(2) by simp
qed

lemma serve_cart_stocked:
  assumes "db_ok d" "cart_in_stock v d"
  shows "cart_in_stock v (serve_cart Orm u q d)"
proof (cases "u = v")
  case True
  then show ?thesis using serve_cart_keeps [OF assms(1) assms(1)] assms(2) by blast
next
  case False
  let ?d = "serve_cart Orm u q d"
  have keep: "db_ok ?d" "outside_cart u ?d = outside_cart u d" "stock_of ?d = stock_of d"
    using serve_cart_keeps [OF assms(1) assms(1)] by auto
  have "cart_items v ?d = cart_items v d"
    using outside_cart_other(1) [OF keep(1) False] outside_cart_other(1) [OF assms(1) False] keep(2) by simp
  then show ?thesis using assms(2) keep(3) by (simp add: cart_in_stock_def in_stock_def)
qed

end

sublocale django \<subseteq> cart: cart_service db_ok "serve_cart Orm" cart_of cart_in_stock
  using serve_cart_keeps serve_cart_other serve_cart_stocked by unfold_locales blast+

context django
begin

lemma cart_runs:
  "db_ok d \<Longrightarrow> cart_in_stock v d \<Longrightarrow> db_ok (fold (\<lambda>(u, q). serve_cart Orm u q) rqs d) \<and>
    cart_in_stock v (fold (\<lambda>(u, q). serve_cart Orm u q) rqs d)"
  using cart.run_good cart.run_stocked by blast

lemma cart_runs_others:
  "db_ok d \<Longrightarrow> v \<notin> fst ` set rqs \<Longrightarrow> cart_of v (fold (\<lambda>(u, q). serve_cart Orm u q) rqs d) = cart_of v d"
  by (rule cart.run_others)

end

interpretation sqlite_cart: cart_service db_ok "serve_cart sqlite" cart_of cart_in_stock
  by (rule sqlite.cart.cart_service_axioms)

section \<open>Rendering the basket\<close>

definition price_of :: "database \<Rightarrow> int \<Rightarrow> int" where
  "price_of d p = (case filter (\<lambda>x. pi_id x = p) (t_product_infos d) of [] \<Rightarrow> 0 | x # _ \<Rightarrow> pi_price x)"

lemma cart_item_rendered:
  assumes "db_ok d" "it \<in> set (t_order_items d)"
  obtains v where "cart_item_data it d = (Inr v, d)"
    "py_index v ''total_price'' = Inr (PInt (oi_quantity it * price_of d (oi_info it)))"
    "py_index v ''quantity'' = Inr (PInt (oi_quantity it))"
proof -
  obtain info where info: "info \<in> set (t_product_infos d)" "pi_id info = oi_info it"
    "related pi_id t_product_infos (oi_info it) d = (Inr info, d)"
    using item_info [OF assms] by blast
  moreover from this obtain v where "product_info_data info d = (Inr v, d)"
    using total_product_info_data [OF assms(1)] by (auto simp: total_def)
  moreover have "price_of d (oi_info it) = pi_price info"
    using info(3) by (auto simp: related_eq_Inr price_of_def)
  ultimately show thesis using that by (simp add: cart_item_data_def get_total_price_def)
qed

lemma cart_items_rendered:
  assumes "db_ok d" "set its \<subseteq> set (t_order_items d)"
  obtains data where "map_each cart_item_data its d = (Inr data, d)"
    "map (\<lambda>v. py_index v ''total_price'') data = map (\<lambda>it. Inr (PInt (oi_quantity it * price_of d (oi_info it)))) its"
    "map (\<lambda>v. py_index v ''quantity'') data = map (\<lambda>it. Inr (PInt (oi_quantity it))) its"
proof -
  have "\<forall>it \<in> set its. \<exists>v. cart_item_data it d = (Inr v, d) \<and>
      py_index v ''total_price'' = Inr (PInt (oi_quantity it * price_of d (oi_info it))) \<and>
      py_index v ''quantity'' = Inr (PInt (oi_quantity it))"
  proof
    fix it assume "it \<in> set its"
    then have "it \<in> set (t_order_items d)" using assms(2) by blast
    from cart_item_rendered [OF assms(1) this]
    show "\<exists>v. cart_item_data it d = (Inr v, d) \<and>
      py_index v ''total_price'' = Inr (PInt (oi_quantity it * price_of d (oi_info it))) \<and>
      py_index v ''quantity'' = Inr (PInt (oi_quantity it))" by blast
  qed
  from bchoice [OF this] obtain f where f: "\<forall>it \<in> set its. cart_item_data it d = (Inr (f it), d) \<and>
      py_index (f it) ''total_price'' = Inr (PInt (oi_quantity it * price_of d (oi_info it))) \<and>
      py_index (f it) ''quantity'' = Inr (PInt (oi_quantity it))" ..
  show thesis
    by (rule that [of "map f its"]) (use f in \<open>auto intro: map_each_total\<close>)
qed

context django
begin

lemma cart_get_spec:
  assumes "db_ok d" "single_baskets d" "user_exists u d" "rq_user rq = Some u"
  shows "\<exists>b data d'. cart_get Orm rq d =
      (Inr (Resp 200 (Data (PDict [(PStr ''basket_id'', PInt b), (PStr ''items'', PList data)]))), d') \<and>
    map (\<lambda>v. py_index v ''total_price'') data =
      map (\<lambda>it. Inr (PInt (oi_quantity it * price_of d (oi_info it)))) (cart_items u d) \<and>
    map (\<lambda>v. py_index v ''quantity'') data = map (\<lambda>it. Inr (PInt (oi_quantity it))) (cart_items u d) \<and>
    cart_of u d' = cart_of u d \<and> outside_cart u d' = outside_cart u d"
proof -
  obtain b d1 where run: "get_or_create_basket Orm u (rq_now rq) d = (Inr b, d1)"
    and bas: "baskets u d1 = [b]" and d1: "db_ok d1" and cart: "cart_of u d1 = cart_of u d"
    and or: "d1 = d \<or> baskets u d = [] \<and> d1 = d\<lparr>t_orders := t_orders d @ [b]\<rparr>"
    using basket_obtained [OF assms(1-3)] by metis
  let ?its = "filter (\<lambda>it. oi_order it = o_id b) (t_order_items d1)"
  obtain data where data: "map_each cart_item_data ?its d1 = (Inr data, d1)"
    "map (\<lambda>v. py_index v ''total_price'') data = map (\<lambda>it. Inr (PInt (oi_quantity it * price_of d1 (oi_info it)))) ?its"
    "map (\<lambda>v. py_index v ''quantity'') data = map (\<lambda>it. Inr (PInt (oi_quantity it))) ?its"
    using cart_items_rendered [OF d1, of ?its] by auto
  have "cart_items u d1 = cart_items u d"
    using or
  proof
    assume new: "baskets u d = [] \<and> d1 = d\<lparr>t_orders := t_orders d @ [b]\<rparr>"
    then have "o_id b \<notin> set (pks OrderM d)" using db_ok_distinct [OF d1, of OrderM] by auto
    then have "filter (\<lambda>it. oi_order it = o_id b) (t_order_items d) = []"
      using no_items_of_fresh_order [OF assms(1), of "o_id b" "\<lambda>_. True"] by simp
    then show ?thesis using new bas by (simp add: cart_items_basket [OF bas]) (simp add: cart_items_def)
  qed simp
  moreover have "price_of d1 = price_of d" using or by (auto simp: price_of_def fun_eq_iff)
  moreover have "cart_get Orm rq d =
      (Inr (Resp 200 (Data (PDict [(PStr ''basket_id'', PInt (o_id b)), (PStr ''items'', PList data)]))), d1)"
    using run data(1) assms(4) by (simp add: cart_get_def)
  moreover from this have "(cart_step u)\<^sup>*\<^sup>* d d1"
    using cart_get_moves [OF assms(1,4)] by (simp add: ends_in_def)
  then have "outside_cart u d1 = outside_cart u d" using cart_steps_keep assms(1) by blast
  ultimately show ?thesis
    using data(2,3) cart by (intro exI conjI) (assumption | simp add: cart_items_basket [OF bas])+
qed
end

end
