(* ===== verification/CartProps.thy ===== *)
theory CartProps
  imports CartSteps
begin

text \<open>
  The properties of the basket endpoints, stated for every backend with the laws of
  \<open>django\<close>, each with an instance on the sample database.
\<close>

section \<open>Refinement of the abstract basket\<close>

text \<open>C1: Adding to the basket. On a consistent database a POST with the product info \<open>p\<close> and the
  quantity \<open>q\<close> does to the basket of its user, and replies, what \<open>add_to_cart\<close> says: the
  missing-argument and stock refusals, the 404, the database's refusal of a negative sum and
  the new quantity.\<close>

theorem cart_post_refines:
  assumes "django Orm" "db_ok d" "single_baskets d" "user_exists u d" "rq_user rq = Some u"
    and "py_get (rq_data rq) ''product_info_id'' PNone = Inr (PInt p)"
    and "py_get (rq_data rq) ''quantity'' (PInt 1) = Inr (PInt q)"
    and "cart_post Orm rq d = (r, d')"
  shows "(r, cart_of u d') = add_to_cart (stock_of d p) (cart_of u d) p q"
  by (rule django.cart_post_spec [OF assms])

lemma sample_facts:
  "single_baskets sample_db" "user_exists 1 sample_db" "user_exists 2 sample_db"
  "stock_of sample_db 1 = Some 14" "stock_of sample_db 2 = Some 9"
  "cart_of 1 sample_db = [1 \<mapsto> 2]" "cart_of 2 sample_db = Map.empty"
  by (auto simp: single_baskets_def user_exists_def stock_of_def cart_of_def cart_items_def
      baskets_def sample_eval)

theorem cart_post_refines_witness:
  "case cart_post sqlite (sample_request 1 [(PStr ''product_info_id'', PInt 1), (PStr ''quantity'', PInt 5)]) sample_db
   of (r, d') \<Rightarrow> r = Inr (Resp 201 (Message Added_to_cart)) \<and> cart_of 1 d' = [1 \<mapsto> 7]"
proof -
  obtain r d' where run: "cart_post sqlite (sample_request 1
      [(PStr ''product_info_id'', PInt 1), (PStr ''quantity'', PInt 5)]) sample_db = (r, d')"
    by fastforce
  show ?thesis
    using cart_post_refines [OF sqlite.django_axioms sample_db_ok sample_facts(1,2) _ _ _ run] run
    by (simp add: sample_request_def add_to_cart_def sample_facts)
qed

text \<open>C20: Changing a quantity. A PUT for the item \<open>k\<close> of the user's basket replies and changes the
  basket as \<open>set_quantity\<close> says for any value that \<^verbatim>\<open>int\<close> accepts; an item that is not in the
  user's basket is a 404 and changes nothing.\<close>

theorem cart_put_refines:
  assumes "django Orm" "db_ok d" "single_baskets d" "rq_user rq = Some u"
    and "py_get (rq_data rq) ''order_item_id'' PNone = Inr (PInt k)" "k \<noteq> 0"
    and "py_get (rq_data rq) ''quantity'' PNone = Inr v" "py_int v = Inr n"
    and "cart_put Orm rq d = (r, d')"
  shows "(case filter (\<lambda>it. oi_id it = k) (cart_items u d) of
       [] \<Rightarrow> r = Inl Http404 \<and> d' = d
     | it # _ \<Rightarrow> (\<exists>resp stock. stock_of d (oi_info it) = Some stock \<and> r = Inr resp \<and>
         (resp, cart_of u d') = set_quantity stock (cart_of u d) (oi_info it) n))"
  by (rule django.cart_put_spec [OF assms])

lemma sample_items:
  "cart_items 1 sample_db = [\<lparr>oi_id = 1, oi_order = 1, oi_info = 1, oi_quantity = 2\<rparr>]"
  "cart_items 2 sample_db = []"
  by (simp_all add: cart_items_def baskets_def sample_eval)

theorem cart_put_refines_witness:
  "case cart_put sqlite (sample_request 1 [(PStr ''order_item_id'', PInt 1), (PStr ''quantity'', PStr ''0'')]) sample_db
   of (r, d') \<Rightarrow> r = Inr (Resp 200 (Message Removed_from_cart)) \<and> cart_of 1 d' = Map.empty"
proof -
  let ?rq = "sample_request 1 [(PStr ''order_item_id'', PInt 1), (PStr ''quantity'', PStr ''0'')]"
  obtain r d' where run: "cart_put sqlite ?rq sample_db = (r, d')" by fastforce
  have "py_int (PStr ''0'') = Inr 0" by code_simp
  then show ?thesis
    using cart_put_refines [OF sqlite.django_axioms sample_db_ok sample_facts(1) _ _ _ _ _ run, where u = 1 and k = 1 and v = "PStr ''0''" and n = 0] run
    by (simp add: sample_request_def set_quantity_def sample_facts sample_items)
qed

text \<open>Removing an item. DELETE with the item id in the query string takes exactly that item's
  product out of the basket, under both URLs; an item outside the user's basket is a 404 and
  nothing is removed.\<close>

theorem delete_item_refines:
  assumes "django Orm" "db_ok d" "single_baskets d" "rq_user rq = Some u"
    and "map_of (rq_query rq) ''order_item_id'' = Some s" "s \<noteq> []"
    and id: "int_of_str s = Inr k"
    and del: "delete_item Orm code rq d = (r, d')"
  shows "(case filter (\<lambda>it. oi_id it = k) (cart_items u d) of
       [] \<Rightarrow> r = Inl Http404 \<and> d' = d
     | it # _ \<Rightarrow> r = Inr (Resp code (Message Removed_from_cart)) \<and>
         cart_of u d' = (cart_of u d)(oi_info it := None))"
  using django.delete_item_spec [OF assms(1-6) _ del] django.prep_int_py [OF assms(1), of "PStr s" k] id
  by simp

theorem delete_item_refines_witness:
  "case delete_item sqlite 204 ((sample_request 1 [])\<lparr>rq_query := [(''order_item_id'', ''1'')]\<rparr>) sample_db
   of (r, d') \<Rightarrow> r = Inr (Resp 204 (Message Removed_from_cart)) \<and> cart_of 1 d' = Map.empty"
proof -
  let ?rq = "(sample_request 1 [])\<lparr>rq_query := [(''order_item_id'', ''1'')]\<rparr>"
  obtain r d' where run: "delete_item sqlite 204 ?rq sample_db = (r, d')" by fastforce
  have "int_of_str ''1'' = Inr 1" by code_simp
  then show ?thesis
    using delete_item_refines [OF sqlite.django_axioms sample_db_ok sample_facts(1) _ _ _ _ run, where u = 1 and s = "''1''" and k = 1] run
    by (simp add: sample_request_def sample_facts sample_items)
qed

text \<open>Removing several items. A POST of a non-empty list of item ids removes from the database
  exactly the items of the user's basket whose id is listed, and reports their number; ids of
  other people's items and unknown ids are ignored.\<close>

theorem batch_delete_removes:
  assumes "django Orm" "db_ok d" "single_baskets d" "rq_user rq = Some u"
    and "py_get (rq_data rq) ''order_item_ids'' PNone = Inr (PList (map PInt ks))" "ks \<noteq> []"
    and "batch_delete Orm rq d = (r, d')"
  shows "(if baskets u d = [] then r = Inl Http404 \<and> d' = d
     else r = Inr (Resp 200 (Counted Items_removed (length (filter (\<lambda>it. oi_id it \<in> set ks) (cart_items u d))))) \<and>
       d' = d\<lparr>t_order_items := filter (\<lambda>it. \<not> (it \<in> set (cart_items u d) \<and> oi_id it \<in> set ks)) (t_order_items d)\<rparr>)"
  by (rule django.batch_delete_spec [OF assms])

lemma sample_baskets:
  "baskets 1 sample_db = [\<lparr>o_id = 1, o_user = 1, o_dt = 100, o_state = Basket, o_contact = None\<rparr>]"
  "baskets 2 sample_db = []"
  by (simp_all add: baskets_def sample_eval)

text \<open>Item 2 belongs to another buyer's order and stays.\<close>

theorem batch_delete_removes_witness:
  "case batch_delete sqlite (sample_request 1 [(PStr ''order_item_ids'', PList [PInt 1, PInt 2, PInt 7])]) sample_db
   of (r, d') \<Rightarrow> r = Inr (Resp 200 (Counted Items_removed 1)) \<and> map oi_id (t_order_items d') = [2]"
proof -
  let ?rq = "sample_request 1 [(PStr ''order_item_ids'', PList [PInt 1, PInt 2, PInt 7])]"
  obtain r d' where run: "batch_delete sqlite ?rq sample_db = (r, d')" by fastforce
  have items: "map oi_id (filter (\<lambda>it. \<not> (it = \<lparr>oi_id = 1, oi_order = 1, oi_info = 1, oi_quantity = 2\<rparr> \<and>
      (oi_id it = 1 \<or> oi_id it = 2 \<or> oi_id it = 7))) (t_order_items sample_db)) = [2]"
    by (simp add: sample_db_def)
  show ?thesis
    using batch_delete_removes [OF sqlite.django_axioms sample_db_ok sample_facts(1) _ _ _ run, where u = 1 and ks = "[1, 2, 7]"] run items
    by (simp add: sample_request_def sample_items sample_baskets)
qed

text \<open>Clearing the basket removes exactly the user's basket items and reports their number;
  without a basket it is a 404.\<close>

theorem clear_cart_removes:
  assumes "django Orm" "db_ok d" "single_baskets d" "rq_user rq = Some u"
    and "clear_cart Orm rq d = (r, d')"
  shows "(if baskets u d = [] then r = Inl Http404 \<and> d' = d
     else r = Inr (Resp 200 (Counted Cart_cleared (length (cart_items u d)))) \<and> cart_items u d' = [] \<and>
       d' = d\<lparr>t_order_items := filter (\<lambda>it. it \<notin> set (cart_items u d)) (t_order_items d)\<rparr>)"
  by (rule django.clear_cart_spec [OF assms])

theorem clear_cart_removes_witness:
  "case clear_cart sqlite (sample_request 1 []) sample_db
   of (r, d') \<Rightarrow> r = Inr (Resp 200 (Counted Cart_cleared 1)) \<and> cart_items 1 d' = []"
proof -
  obtain r d' where run: "clear_cart sqlite (sample_request 1 []) sample_db = (r, d')" by fastforce
  have u: "rq_user (sample_request 1 []) = Some 1" by (simp add: sample_request_def)
  have some: "baskets 1 sample_db \<noteq> []" by (simp add: sample_baskets)
  have "r = Inr (Resp 200 (Counted Cart_cleared (length (cart_items 1 sample_db)))) \<and> cart_items 1 d' = []"
    using clear_cart_removes [OF sqlite.django_axioms sample_db_ok sample_facts(1) u run]
    unfolding if_not_P [OF some] by blast
  then show ?thesis unfolding run by (simp add: sample_items)
qed

section \<open>Isolation and the stock bound\<close>

text \<open>C25: Isolation. Whatever the request, well-formed or not, a basket endpoint changes nothing but
  the basket of the user who sent it: all other tables, all other orders and all items of other
  orders are as before, also when the handler raises.\<close>

theorem cart_op_isolated:
  assumes "django Orm" "db_ok d" "rq_user rq = Some u"
  shows "outside_cart u (snd (run_cart_op op Orm rq d)) = outside_cart u d"
  using django.run_cart_op_moves [OF assms] cart_steps_keep assms(2) unfolding ends_in_def by blast

theorem cart_op_isolated_witness:
  "outside_cart 1 (snd (run_cart_op CartPost sqlite
     (sample_request 1 [(PStr ''product_info_id'', PInt 2), (PStr ''quantity'', PStr ''3'')]) sample_db)) =
   outside_cart 1 sample_db"
  by (rule cart_op_isolated [OF sqlite.django_axioms sample_db_ok]) (simp add: sample_request_def)

text \<open>C26: The stock bound. In every interleaving of basket requests of any users, the schema holds
  and no basket that was within the stock gets an item with a quantity above the stock of its
  product.\<close>

theorem cart_runs_in_stock:
  assumes "django Orm" "db_ok d" "cart_in_stock v d"
  shows "db_ok (fold (\<lambda>(u, q). serve_cart Orm u q) rqs d) \<and>
    cart_in_stock v (fold (\<lambda>(u, q). serve_cart Orm u q) rqs d)"
  using django.cart_runs [OF assms] .

theorem cart_runs_in_stock_witness:
  "let d' = fold (\<lambda>(u, q). serve_cart sqlite u q)
      [(2, CartPost, sample_request 2 [(PStr ''product_info_id'', PInt 1), (PStr ''quantity'', PInt 14)]),
       (1, CartPost, sample_request 1 [(PStr ''product_info_id'', PInt 1), (PStr ''quantity'', PInt 13)])] sample_db
   in db_ok d' \<and> cart_in_stock 1 d'"
  unfolding Let_def
  by (rule cart_runs_in_stock [OF sqlite.django_axioms sample_db_ok])
    (simp add: cart_in_stock_def sample_items in_stock_def sample_facts)

text \<open>No interference. A run of basket requests in which \<open>v\<close> takes no part leaves the basket of
  \<open>v\<close> as it was.\<close>

theorem cart_runs_of_others:
  assumes "django Orm" "db_ok d" "v \<notin> fst ` set rqs"
  shows "cart_of v (fold (\<lambda>(u, q). serve_cart Orm u q) rqs d) = cart_of v d"
  using django.cart_runs_others [OF assms] .

theorem cart_runs_of_others_witness:
  "cart_of 1 (fold (\<lambda>(u, q). serve_cart sqlite u q)
     [(2, CartPost, sample_request 2 [(PStr ''product_info_id'', PInt 1), (PStr ''quantity'', PInt 14)]),
      (2, ClearCart, sample_request 2 [])] sample_db) = [1 \<mapsto> 2]"
  using cart_runs_of_others [OF sqlite.django_axioms sample_db_ok, of 1 "[(2, CartPost, sample_request 2 [(PStr ''product_info_id'', PInt 1), (PStr ''quantity'', PInt 14)]),
      (2, ClearCart, sample_request 2 [])]"]
  by (simp add: sample_facts)

section \<open>Showing the basket\<close>

text \<open>Showing the basket succeeds on every consistent database and renders every item of the
  user's basket with the total price quantity times the current price; it opens a basket if there
  is none and changes nothing else.\<close>

theorem cart_get_renders:
  assumes "django Orm" "db_ok d" "single_baskets d" "user_exists u d" "rq_user rq = Some u"
  shows "\<exists>b data d'. cart_get Orm rq d =
      (Inr (Resp 200 (Data (PDict [(PStr ''basket_id'', PInt b), (PStr ''items'', PList data)]))), d') \<and>
    map (\<lambda>v. py_index v ''total_price'') data =
      map (\<lambda>it. Inr (PInt (oi_quantity it * price_of d (oi_info it)))) (cart_items u d) \<and>
    map (\<lambda>v. py_index v ''quantity'') data = map (\<lambda>it. Inr (PInt (oi_quantity it))) (cart_items u d) \<and>
    cart_of u d' = cart_of u d \<and> outside_cart u d' = outside_cart u d"
  using django.cart_get_spec [OF assms] .

theorem cart_get_renders_witness:
  "\<exists>b data d'. cart_get sqlite (sample_request 1 []) sample_db =
      (Inr (Resp 200 (Data (PDict [(PStr ''basket_id'', PInt b), (PStr ''items'', PList data)]))), d') \<and>
    map (\<lambda>v. py_index v ''total_price'') data = [Inr (PInt 220000)]"
proof -
  have "price_of sample_db 1 = 110000" by (simp add: price_of_def sample_eval)
  then show ?thesis
    using cart_get_renders [OF sqlite.django_axioms sample_db_ok sample_facts(1,2), of "sample_request 1 []"]
    by (auto simp: sample_request_def sample_items)
qed

end
