(* ===== verification/World.thy ===== *)
theory World
  imports Sample
begin

text \<open>
  What the handlers use besides the database: the Celery queue, the mail server, sessions,
  password hashing and the field validation of Django REST framework. All of it is third
  party code and enters as arguments (\<open>services\<close>, \<open>drf\<close>); the state they act on is part of
  \<open>world\<close>.
\<close>

section \<open>The state\<close>

datatype task =
    Registration_mail string int
  | Order_mail int int
  | Import pyval

text \<open>
  The letters of \<^verbatim>\<open>tasks.py\<close> and, in the last three, of the reference application's \<^verbatim>\<open>signals.py\<close>:
  recipient and what the text is built from.
\<close>

datatype mail =
    Registration_letter string string
  | Order_letter string int order_state
  | Token_letter string string
  | Reset_letter string string
  | New_order_letter string

record world =
  w_db :: database
  w_queue :: "task list"
  w_mails :: "mail list"
  w_sessions :: "int list"
  w_tokens :: "(int \<times> string) list"

definition on_db :: "(database, 'a) comp \<Rightarrow> (world, 'a) comp" where
  "on_db m = (\<lambda>w. case m (w_db w) of (r, d) \<Rightarrow> (r, w\<lparr>w_db := d\<rparr>))"

definition update_world :: "(world \<Rightarrow> world) \<Rightarrow> (world, unit) comp" where
  "update_world f = (\<lambda>w. (Inr (), f w))"

section \<open>Services\<close>

text \<open>
  \<open>broker\<close>: whether the broker takes a message, and the id of the task. \<open>mailer\<close>: the outcome
  of \<^verbatim>\<open>send_mail\<close>. \<open>make_password\<close>, \<open>check_password\<close> and \<open>authenticate\<close> are those of
  \<^verbatim>\<open>django.contrib.auth\<close>. \<open>generate_token\<close>: the next random token. \<open>read_file\<close>: the bytes of a stored
  upload, \<open>open_file\<close> and \<open>open_url\<close> those of a path or URL; \<open>yaml_load\<close> is \<^verbatim>\<open>yaml.safe_load\<close>.
  \<open>url_parts\<close> gives scheme and network location of \<^verbatim>\<open>urlparse\<close>, \<open>url_valid\<close> is \<^verbatim>\<open>URLValidator\<close>.
  The last eight are used by the reference application only: \<open>url_check\<close> is \<^verbatim>\<open>URLValidator\<close> on
  arbitrary values, then \<open>validate_password\<close> of \<^verbatim>\<open>django.contrib.auth\<close>, \<open>login_values\<close>
  (\<open>authenticate\<close> on arbitrary values), the next key of \<^verbatim>\<open>authtoken\<close>, \<^verbatim>\<open>ujson.loads\<close>, \<^verbatim>\<open>requests.get\<close>, \<^verbatim>\<open>yaml.load\<close> with the full loader, and the page
  that a list view makes of its results.
\<close>

record services =
  broker :: "task \<Rightarrow> exn + string"
  mailer :: "mail \<Rightarrow> exn + unit"
  generate_token :: "world \<Rightarrow> string"
  make_password :: "string option \<Rightarrow> string"
  check_password :: "string \<Rightarrow> string \<Rightarrow> bool"
  authenticate :: "database \<Rightarrow> string \<Rightarrow> string \<Rightarrow> user option"
  normalize_email :: "string \<Rightarrow> string"
  read_file :: "string \<Rightarrow> exn + string"
  open_file :: "string \<Rightarrow> exn + string"
  open_url :: "string \<Rightarrow> exn + string"
  yaml_load :: "string \<Rightarrow> exn + pyval"
  url_parts :: "string \<Rightarrow> exn + string \<times> string"
  url_valid :: "string \<Rightarrow> exn + unit"
  url_check :: "pyval \<Rightarrow> exn + unit"
  validate_password :: "pyval \<Rightarrow> exn + unit"
  login_values :: "database \<Rightarrow> pyval \<Rightarrow> pyval \<Rightarrow> exn + user option"
  new_auth_key :: "world \<Rightarrow> string"
  load_json :: "pyval \<Rightarrow> exn + pyval"
  http_get :: "pyval \<Rightarrow> exn + string"
  yaml_load_full :: "string \<Rightarrow> exn + pyval"
  page_of :: "request \<Rightarrow> pyval list \<Rightarrow> exn + pyval"

text \<open>\<^verbatim>\<open>task.delay(...)\<close>: the message is queued, or the broker is unreachable and it raises.\<close>

definition delay :: "services \<Rightarrow> task \<Rightarrow> (world, string) comp" where
  "delay Srv t =
     andThen (lift_exn (broker Srv t)) (\<lambda>k.
     andThen (update_world (\<lambda>w. w\<lparr>w_queue := w_queue w @ [t]\<rparr>)) (\<lambda>_. ret k))"

definition send_mail :: "services \<Rightarrow> mail \<Rightarrow> (world, unit) comp" where
  "send_mail Srv m =
     andThen (lift_exn (mailer Srv m)) (\<lambda>_.
     update_world (\<lambda>w. w\<lparr>w_mails := w_mails w @ [m]\<rparr>))"

section \<open>Field validation\<close>

text \<open>
  The \<^verbatim>\<open>run_validation\<close> of a serializer field: the cleaned value, or nothing when the field
  reports an error. \<open>char_field\<close> takes \<^verbatim>\<open>max_length\<close> and \<^verbatim>\<open>allow_blank\<close>.
\<close>

record drf =
  char_field :: "nat option \<Rightarrow> bool \<Rightarrow> pyval \<Rightarrow> string option"
  email_field :: "pyval \<Rightarrow> string option"
  int_field :: "pyval \<Rightarrow> int option"

locale rest_framework =
  fixes Drf :: drf
  assumes int_field_int: "int_field Drf (PInt k) = Some k"
    and char_field_length: "char_field Drf (Some n) blank v = Some s \<Longrightarrow> length s \<le> n"
    and email_field_blank: "email_field Drf v = Some e \<Longrightarrow> e \<noteq> []"
    and char_field_blank: "char_field Drf limit False v = Some s \<Longrightarrow> s \<noteq> []"

text \<open>A serializer reads its input from a mapping; a missing field is an error if it is required.\<close>

definition field_value :: "(pyval \<Rightarrow> 'a option) \<Rightarrow> pyval option \<Rightarrow> 'a option" where
  "field_value f v = Option.bind v f"

definition rest_impl :: drf where
  "rest_impl = \<lparr>char_field = (\<lambda>n blank v. case v of
       PStr s \<Rightarrow> (let t = strip s in
         if (t = [] \<and> \<not> blank) \<or> (case n of None \<Rightarrow> False | Some k \<Rightarrow> length t > k) then None else Some t)
     | _ \<Rightarrow> None),
     email_field = (\<lambda>v. case v of PStr s \<Rightarrow> (let t = strip s in
       if CHR 0x40 \<in> set t then Some t else None) | _ \<Rightarrow> None),
     int_field = (\<lambda>v. case v of PInt n \<Rightarrow> Some n
       | PStr s \<Rightarrow> (case int_of_str s of Inl e \<Rightarrow> None | Inr n \<Rightarrow> Some n) | _ \<Rightarrow> None)\<rparr>"

interpretation rest_impl: rest_framework rest_impl
  by unfold_locales (auto simp: rest_impl_def Let_def split: pyval.splits option.splits if_splits)

definition test_services :: services where
  "test_services = \<lparr>broker = (\<lambda>t. Inr ''task''), mailer = (\<lambda>m. Inr ()),
     generate_token = (\<lambda>w. replicate (length (t_email_tokens (w_db w)) + 1) (CHR ''t'')),
     make_password = (\<lambda>p. case p of None \<Rightarrow> ''!'' | Some s \<Rightarrow> CHR ''#'' # s),
     check_password = (\<lambda>p h. h = CHR ''#'' # p),
     authenticate = (\<lambda>d e p. find (\<lambda>x. u_email x = e \<and> u_password x = CHR ''#'' # p \<and> u_is_active x) (t_users d)),
     normalize_email = (\<lambda>s. s), read_file = (\<lambda>s. Inr s), open_file = (\<lambda>s. Inr s), open_url = (\<lambda>s. Inr s),
     yaml_load = (\<lambda>s. Inr PNone), url_parts = (\<lambda>s. Inr ([], [])), url_valid = (\<lambda>s. Inr ()),
     url_check = (\<lambda>v. Inr ()),
     validate_password = (\<lambda>v. case v of PStr s \<Rightarrow> if length s < 8 then Inl ValidationError else Inr () | _ \<Rightarrow> Inl TypeError),
     login_values = (\<lambda>d e p. case (e, p) of
         (PStr e, PStr p) \<Rightarrow>
           Inr (find (\<lambda>x. u_email x = e \<and> u_password x = CHR ''#'' # p \<and> u_is_active x) (t_users d))
       | _ \<Rightarrow> Inr None),
     new_auth_key = (\<lambda>w. replicate (foldr max (map (length \<circ> snd) (w_tokens w)) 0 + 1) (CHR ''k'')),
     load_json = (\<lambda>v. Inl ValueError), http_get = (\<lambda>v. Inr []), yaml_load_full = (\<lambda>s. Inr PNone),
     page_of = (\<lambda>rq vs. Inr (PList vs))\<rparr>"

definition sample_world :: world where
  "sample_world = \<lparr>w_db = sample_db, w_queue = [], w_mails = [], w_sessions = [], w_tokens = []\<rparr>"

section \<open>Lemmas\<close>

lemma on_db_apply [simp]: "m (w_db w) = (r, d) \<Longrightarrow> on_db m w = (r, w\<lparr>w_db := d\<rparr>)"
  by (simp add: on_db_def)

lemma on_db_state [simp]: "snd (on_db m w) = w\<lparr>w_db := snd (m (w_db w))\<rparr>"
  by (simp add: on_db_def split: prod.splits)

lemma on_db_result [simp]: "fst (on_db m w) = fst (m (w_db w))"
  by (simp add: on_db_def split: prod.splits)

lemma update_world_apply [simp]: "update_world f w = (Inr (), f w)"
  by (simp add: update_world_def)

lemma send_mail_Inr:
  "send_mail Srv m w = (Inr y, w') \<longleftrightarrow> mailer Srv m = Inr () \<and> w' = w\<lparr>w_mails := w_mails w @ [m]\<rparr>"
  by (cases "mailer Srv m") (auto simp: send_mail_def)

lemma on_db_Inr: "on_db m w = (Inr y, w') \<longleftrightarrow> (\<exists>d. m (w_db w) = (Inr y, d) \<and> w' = w\<lparr>w_db := d\<rparr>)"
  by (auto simp: on_db_def split: prod.splits)

text \<open>Database invariants lift to the world.\<close>

abbreviation (input) in_db :: "(database \<Rightarrow> bool) \<Rightarrow> world \<Rightarrow> bool" where
  "in_db I w \<equiv> I (w_db w)"

lemma keeps_on_db [keeps_intros]: "keeps I m \<Longrightarrow> keeps (in_db I) (on_db m)"
  by (simp add: keeps_def)

lemma keeps_update_world: "(\<And>w. I w \<Longrightarrow> I (f w)) \<Longrightarrow> keeps I (update_world f)"
  by (simp add: keeps_def)

lemma keeps_delay [keeps_intros]: "keeps (in_db I) (delay Srv t)"
  unfolding delay_def by (intro keeps_intros keeps_update_world) simp

lemma keeps_send_mail [keeps_intros]: "keeps (in_db I) (send_mail Srv m)"
  unfolding send_mail_def by (intro keeps_intros keeps_update_world) simp

lemma reads_on_db [reads_intros]: "reads m \<Longrightarrow> reads (on_db m)"
  by (simp add: reads_def)

end
