(* ===== verification/Contacts.thy ===== *)
theory Contacts
  imports World
begin

text \<open>
  The contact endpoints of \<^verbatim>\<open>orders/backend/views.py\<close> (\<^verbatim>\<open>AddContactView\<close>, \<^verbatim>\<open>ContactListView\<close>,
  \<^verbatim>\<open>DetailedContactListView\<close>, \<^verbatim>\<open>ContactDetailView\<close>) with \<^verbatim>\<open>AddContactSerializer\<close>, and their
  lemmas: a contact belongs to the user who added it, and only the owner is shown it.
\<close>

section \<open>The serializer\<close>

text \<open>The writable fields with \<^verbatim>\<open>max_length\<close> and \<^verbatim>\<open>blank\<close>; a blank field may be missing.\<close>

definition contact_fields :: "(string \<times> nat \<times> bool) list" where
  "contact_fields = [(''city'', 50, False), (''street'', 100, False), (''house'', 15, True),
     (''structure'', 15, True), (''building'', 15, True), (''apartment'', 15, True),
     (''phone'', 20, False)]"

definition contact_value :: "drf \<Rightarrow> (pyval \<times> pyval) list \<Rightarrow> string \<times> nat \<times> bool \<Rightarrow> string option" where
  "contact_value Drf kvs f = (case f of (name, n, blank) \<Rightarrow>
     (case map_of kvs (PStr name) of
        None \<Rightarrow> if blank then Some [] else None
      | Some v \<Rightarrow> char_field Drf (Some n) blank v))"

text \<open>\<^verbatim>\<open>is_valid\<close>: the names of the fields with an error, or the values in order.\<close>

definition validate_contact :: "drf \<Rightarrow> pyval \<Rightarrow> string list + string list" where
  "validate_contact Drf data = (case data of
       PDict kvs \<Rightarrow>
         (let bad = map fst (filter (\<lambda>f. contact_value Drf kvs f = None) contact_fields) in
          if bad \<noteq> [] then Inl bad
          else Inr (map (\<lambda>f. case contact_value Drf kvs f of None \<Rightarrow> [] | Some s \<Rightarrow> s) contact_fields))
     | _ \<Rightarrow> Inl [''non_field_errors''])"

fun contact_row :: "int \<Rightarrow> string list \<Rightarrow> contact" where
  "contact_row u [city, street, house, structure, building, apartment, phone] =
     \<lparr>ct_id = 0, ct_user = u, ct_city = city, ct_street = street, ct_house = house,
      ct_structure = structure, ct_building = building, ct_apartment = apartment, ct_phone = phone\<rparr>"
| "contact_row u _ =
     \<lparr>ct_id = 0, ct_user = u, ct_city = [], ct_street = [], ct_house = [], ct_structure = [],
      ct_building = [], ct_apartment = [], ct_phone = []\<rparr>"

definition contact_data :: "contact \<Rightarrow> pyval" where
  "contact_data c = PDict [(PStr ''contact_id'', PInt (ct_id c)), (PStr ''city'', PStr (ct_city c)),
     (PStr ''street'', PStr (ct_street c)), (PStr ''house'', PStr (ct_house c)),
     (PStr ''structure'', PStr (ct_structure c)), (PStr ''building'', PStr (ct_building c)),
     (PStr ''apartment'', PStr (ct_apartment c)), (PStr ''phone'', PStr (ct_phone c))]"

section \<open>The handlers\<close>

definition add_contact :: "orm \<Rightarrow> drf \<Rightarrow> request \<Rightarrow> (database, response) comp" where
  "add_contact Orm Drf rq = with_user rq (\<lambda>u.
     case validate_contact Drf (rq_data rq) of
       Inl names \<Rightarrow> ret (Resp 400 (Field_errors names))
     | Inr values \<Rightarrow>
         andThen (create Orm ContactRow (\<lambda>k. ct_id_update (\<lambda>_. k)) (contact_row u values)) (\<lambda>c.
         ret (Resp 201 (Data (PDict [(PStr ''contact_id'', PInt (ct_id c))])))))"

definition contacts_of :: "int \<Rightarrow> database \<Rightarrow> contact list" where
  "contacts_of u d = filter (\<lambda>c. ct_user c = u) (t_contacts d)"

definition contact_list :: "request \<Rightarrow> (database, response) comp" where
  "contact_list rq = with_user rq (\<lambda>u.
     andThen (query (contacts_of u)) (\<lambda>cs.
     ret (Resp 200 (Data (PList (map contact_data cs))))))"

definition detailed_contacts :: "orm \<Rightarrow> request \<Rightarrow> (database, response) comp" where
  "detailed_contacts Orm rq = with_user rq (\<lambda>u.
     andThen (query (contacts_of u)) (\<lambda>contacts.
     let city = query_get rq ''city'';
         contacts = (case city of PStr s \<Rightarrow>
             if py_true city then filter (\<lambda>c. icontains Orm s (ct_city c)) contacts else contacts
           | _ \<Rightarrow> contacts);
         phone = query_get rq ''phone'';
         contacts = (case phone of PStr s \<Rightarrow>
             if py_true phone then filter (\<lambda>c. icontains Orm s (ct_phone c)) contacts else contacts
           | _ \<Rightarrow> contacts)
     in ret (Resp 200 (Data (PDict [(PStr ''contacts'', PList (map contact_data contacts)),
          (PStr ''total'', PInt (int (length contacts)))])))))"

text \<open>The contact id is the keyword argument of the route, \<open>None\<close> if the route has none.\<close>

definition contact_detail :: "int option \<Rightarrow> request \<Rightarrow> (database, response) comp" where
  "contact_detail contact_id rq = with_user rq (\<lambda>u.
     andThen (get_or_404 (\<lambda>d. filter (\<lambda>c. Some (ct_id c) = contact_id) (contacts_of u d))) (\<lambda>c.
     ret (Resp 200 (Data (contact_data c)))))"

section \<open>What the handlers do\<close>

lemma validate_contact_values:
  assumes "validate_contact Drf data = Inr values"
  obtains kvs where "data = PDict kvs"
    "map (contact_value Drf kvs) contact_fields = map Some values" "length values = 7"
proof -
  obtain kvs where data: "data = PDict kvs"
    using assms by (cases data) (simp_all add: validate_contact_def)
  with assms have bad: "filter (\<lambda>f. contact_value Drf kvs f = None) contact_fields = []"
    and vals: "values = map (\<lambda>f. case contact_value Drf kvs f of None \<Rightarrow> [] | Some s \<Rightarrow> s) contact_fields"
    by (auto simp: validate_contact_def Let_def split: if_splits)
  have "map (contact_value Drf kvs) contact_fields = map Some values"
    using bad unfolding vals by (auto simp: filter_empty_conv)
  moreover have "length values = 7" unfolding vals by (simp add: contact_fields_def)
  ultimately show thesis using that data by blast
qed

lemma contact_row_user: "ct_user (contact_row u values) = u"
  by (cases "(u, values)" rule: contact_row.cases) simp_all

lemma contact_row_ok: "u \<in> set (pks UserM d) \<Longrightarrow> ct_user c = u \<Longrightarrow> row_ok (ContactRow c) d"
  by (auto simp: row_ok_def positive_ok_def refs_ok_def unique_ok_def list_all_iff)

context django
begin

lemma add_contact_valid:
  assumes "rq_user rq = Some u" "u \<in> set (pks UserM d)" "validate_contact Drf (rq_data rq) = Inr values"
  obtains k where "k \<notin> set (pks ContactM d)"
    "add_contact Orm Drf rq d = (Inr (Resp 201 (Data (PDict [(PStr ''contact_id'', PInt k)]))),
       d\<lparr>t_contacts := t_contacts d @ [contact_row u values\<lparr>ct_id := k\<rparr>]\<rparr>)"
proof -
  let ?k = "db_new_pk Orm ContactM d"
  have "row_ok (ContactRow (contact_row u values\<lparr>ct_id := ?k\<rparr>)) d"
    using contact_row_ok [OF assms(2)] contact_row_user by simp
  then have "db_insert Orm None (ContactRow (contact_row u values)) d =
      (Inr ?k, d\<lparr>t_contacts := t_contacts d @ [contact_row u values\<lparr>ct_id := ?k\<rparr>]\<rparr>)"
    using insert_new_ok [of "ContactRow (contact_row u values)" d] by simp
  then show thesis
    using that [of ?k] new_pk_fresh [of ContactM d] assms by (simp add: add_contact_def create_def)
qed

lemma add_contact_invalid:
  "rq_user rq = Some u \<Longrightarrow> validate_contact Drf (rq_data rq) = Inl names \<Longrightarrow>
   add_contact Orm Drf rq d = (Inr (Resp 400 (Field_errors names)), d)"
  by (simp add: add_contact_def)

lemma keeps_add_contact [keeps_intros]: "keeps db_ok (add_contact Orm Drf rq)"
  unfolding add_contact_def
  by (intro keeps_intros) (auto split: sum.splits intro!: keeps_intros)

end

lemma reads_contact_list [reads_intros]: "reads (contact_list rq)"
  by (simp add: contact_list_def reads_def with_user_def split: option.splits)

lemma reads_detailed_contacts [reads_intros]: "reads (detailed_contacts Orm rq)"
  by (simp add: detailed_contacts_def reads_def with_user_def Let_def split: option.splits)

lemma reads_contact_detail [reads_intros]: "reads (contact_detail k rq)"
  unfolding contact_detail_def with_user_def by (auto intro!: reads_intros split: option.splits)

lemma contact_detail_spec:
  assumes "db_ok d" "rq_user rq = Some u"
  shows "contact_detail (Some k) rq d =
    ((case filter (\<lambda>c. ct_user c = u \<and> ct_id c = k) (t_contacts d) of
        [] \<Rightarrow> Inl Http404 | c # _ \<Rightarrow> Inr (Resp 200 (Data (contact_data c)))), d)"
proof (cases "\<exists>c \<in> set (t_contacts d). ct_id c = k")
  case True
  then obtain c where c: "c \<in> set (t_contacts d)" "ct_id c = k" by blast
  then have one: "filter (\<lambda>x. ct_id x = k) (t_contacts d) = [c]"
    using filter_eq_single [of ct_id "t_contacts d" c] db_ok_distinct [OF assms(1), of ContactM] by simp
  have "filter (\<lambda>c. ct_user c = u \<and> ct_id c = k) (t_contacts d) =
      filter (\<lambda>c. ct_user c = u) (filter (\<lambda>x. ct_id x = k) (t_contacts d))"
    by (simp add: conj_commute)
  then have "filter (\<lambda>c. ct_user c = u \<and> ct_id c = k) (t_contacts d) = (if ct_user c = u then [c] else [])"
    unfolding one by simp
  then show ?thesis
    using assms(2) by (cases "ct_user c = u") (simp_all add: contact_detail_def contacts_of_def)
next
  case False
  then have none: "filter (\<lambda>c. ct_user c = u \<and> ct_id c = k) (t_contacts d) = []"
    by (auto simp: filter_empty_conv)
  then show ?thesis
    using assms(2) by (simp add: contact_detail_def contacts_of_def)
qed

end
