(* ===== verification/Orders.thy ===== *)
theory Orders
  imports Contacts Cart
begin

text \<open>
  Confirming an order and the order history: \<^verbatim>\<open>OrderConfirmationSerializer\<close>,
  \<^verbatim>\<open>OrderConfirmationView\<close>, \<^verbatim>\<open>OrderHistorySerializer\<close>, \<^verbatim>\<open>OrderHistoryView\<close>, and the Celery task
  \<^verbatim>\<open>send_order_confirmation_email\<close>.
\<close>

section \<open>The confirmation serializer\<close>

text \<open>
  \<^verbatim>\<open>validate_basket_id\<close> and \<^verbatim>\<open>validate_contact_id\<close>: \<^verbatim>\<open>DoesNotExist\<close> becomes a validation error of
  the field, any other exception passes.
\<close>

definition field_error_if_missing :: "(database, 'a) comp \<Rightarrow> (database, 'a option) comp" where
  "field_error_if_missing m =
     try_except (andThen m (\<lambda>x. ret (Some x))) (\<lambda>e. if e = DoesNotExist then ret None else raise e)"

definition validate_basket_id :: "int \<Rightarrow> int \<Rightarrow> (database, order_t option) comp" where
  "validate_basket_id u k = field_error_if_missing
     (get_one (\<lambda>d. filter (\<lambda>b. o_id b = k \<and> o_user b = u \<and> o_state b = Basket) (t_orders d)))"

definition validate_contact_id :: "int \<Rightarrow> int \<Rightarrow> (database, contact option) comp" where
  "validate_contact_id u k = field_error_if_missing
     (get_one (\<lambda>d. filter (\<lambda>c. ct_id c = k \<and> ct_user c = u) (t_contacts d)))"

text \<open>A required integer field with a validator.\<close>

definition checked_field ::
  "drf \<Rightarrow> (pyval \<times> pyval) list \<Rightarrow> string \<Rightarrow> (int \<Rightarrow> (database, 'a option) comp) \<Rightarrow> (database, 'a option) comp"
  where
  "checked_field Drf kvs name f =
     (case field_value (int_field Drf) (map_of kvs (PStr name)) of None \<Rightarrow> ret None | Some k \<Rightarrow> f k)"

section \<open>The handlers\<close>

definition order_confirm :: "orm \<Rightarrow> drf \<Rightarrow> services \<Rightarrow> request \<Rightarrow> (world, response) comp" where
  "order_confirm Orm Drf Srv rq = with_user rq (\<lambda>u.
     case rq_data rq of
       PDict kvs \<Rightarrow>
         andThen (on_db (checked_field Drf kvs ''basket_id'' (validate_basket_id u))) (\<lambda>b.
         andThen (on_db (checked_field Drf kvs ''contact_id'' (validate_contact_id u))) (\<lambda>c.
         case (b, c) of
           (Some basket, Some contact) \<Rightarrow>
             andThen (on_db (db_save Orm
               (OrderRow (basket\<lparr>o_state := Confirmed, o_contact := Some (ct_id contact)\<rparr>)))) (\<lambda>_.
             andThen (delay Srv (Order_mail (o_id basket) (ct_id contact))) (\<lambda>task.
             ret (Resp 200 (Message Order_confirmed))))
         | _ \<Rightarrow> ret (Resp 400 (Field_errors
             ((case b of None \<Rightarrow> [''basket_id''] | Some _ \<Rightarrow> []) @
              (case c of None \<Rightarrow> [''contact_id''] | Some _ \<Rightarrow> []))))))
     | _ \<Rightarrow> ret (Resp 400 (Field_errors [''non_field_errors''])))"

definition items_of :: "int \<Rightarrow> database \<Rightarrow> order_item list" where
  "items_of k d = filter (\<lambda>it. oi_order it = k) (t_order_items d)"

text \<open>\<^verbatim>\<open>OrderHistorySerializer.get_total_price\<close>.\<close>

definition order_total_price :: "order_t \<Rightarrow> (database, int) comp" where
  "order_total_price b =
     andThen (query (items_of (o_id b))) (\<lambda>items.
     fold_each (\<lambda>total it. andThen (get_total_price it) (\<lambda>p. ret (total + p))) 0 items)"

definition order_history_data :: "order_t \<Rightarrow> (database, pyval) comp" where
  "order_history_data b =
     andThen (query (items_of (o_id b))) (\<lambda>items.
     andThen (map_each order_item_data items) (\<lambda>data.
     andThen (order_total_price b) (\<lambda>total.
     ret (PDict [(PStr ''id'', PInt (o_id b)), (PStr ''dt'', PInt (o_dt b)),
       (PStr ''state'', PStr (state_code (o_state b))), (PStr ''ordered_items'', PList data),
       (PStr ''total_price'', PInt total)]))))"

definition placed_orders :: "int \<Rightarrow> database \<Rightarrow> order_t list" where
  "placed_orders u d =
     sort_key (\<lambda>b. - o_dt b) (filter (\<lambda>b. o_user b = u \<and> o_state b \<noteq> Basket) (t_orders d))"

definition order_history :: "request \<Rightarrow> (database, response) comp" where
  "order_history rq = with_user rq (\<lambda>u.
     andThen (query (placed_orders u)) (\<lambda>bs.
     andThen (map_each order_history_data bs) (\<lambda>data.
     ret (Resp 200 (Data (PList data))))))"

section \<open>The mail task\<close>

text \<open>Every exception ends in \<^verbatim>\<open>return False\<close>.\<close>

definition send_order_confirmation_email :: "services \<Rightarrow> int \<Rightarrow> int \<Rightarrow> (world, bool) comp" where
  "send_order_confirmation_email Srv order_id contact_id =
     try_except
       (andThen (on_db (get_one (\<lambda>d. filter (\<lambda>b. o_id b = order_id) (t_orders d)))) (\<lambda>order.
        andThen (on_db (related u_id t_users (o_user order))) (\<lambda>user.
        andThen (send_mail Srv (Order_letter (u_email user) (o_id order) (o_state order))) (\<lambda>_.
        ret True))))
       (\<lambda>e. ret False)"

end
