(* ===== verification/OrdersSpec.thy ===== *)
theory OrdersSpec
  imports Orders CartSteps
begin

text \<open>
  What confirming an order and showing the history do: \<open>confirm_spec\<close> is the specification of
  a confirmation, \<open>confirm_step\<close> the only change it can make to the database, \<open>orders_owned\<close> the
  ownership invariant of orders and contacts. The history lists the placed orders of the user,
  newest first, with the sum of the item prices.
\<close>

section \<open>The specification of a confirmation\<close>

definition own_basket :: "int \<Rightarrow> int \<Rightarrow> database \<Rightarrow> order_t option" where
  "own_basket u k d = find (\<lambda>b. o_id b = k \<and> o_user b = u \<and> o_state b = Basket) (t_orders d)"

definition own_contact :: "int \<Rightarrow> int \<Rightarrow> database \<Rightarrow> contact option" where
  "own_contact u k d = find (\<lambda>c. ct_id c = k \<and> ct_user c = u) (t_contacts d)"

definition confirmed_db :: "order_t \<Rightarrow> int \<Rightarrow> database \<Rightarrow> database" where
  "confirmed_db b k d = d\<lparr>t_orders :=
     replace_by o_id (b\<lparr>o_state := Confirmed, o_contact := Some k\<rparr>) (t_orders d)\<rparr>"

definition confirm_spec :: "services \<Rightarrow> int \<Rightarrow> int \<Rightarrow> int \<Rightarrow> world \<Rightarrow> (exn + response) \<times> world" where
  "confirm_spec Srv u k c w = (case (own_basket u k (w_db w), own_contact u c (w_db w)) of
       (Some b, Some ct) \<Rightarrow>
         (let w' = w\<lparr>w_db := confirmed_db b c (w_db w)\<rparr> in
          case broker Srv (Order_mail k c) of
            Inl e \<Rightarrow> (Inl e, w')
          | Inr _ \<Rightarrow> (Inr (Resp 200 (Message Order_confirmed)),
              w'\<lparr>w_queue := w_queue w @ [Order_mail k c]\<rparr>))
     | (None, Some _) \<Rightarrow> (Inr (Resp 400 (Field_errors [''basket_id''])), w)
     | (Some _, None) \<Rightarrow> (Inr (Resp 400 (Field_errors [''contact_id''])), w)
     | (None, None) \<Rightarrow> (Inr (Resp 400 (Field_errors [''basket_id'', ''contact_id''])), w))"

lemma keyed_filter_cases:
  assumes "distinct (map key xs)"
  obtains "filter (\<lambda>x. key x = k \<and> P x) xs = []"
  | x where "filter (\<lambda>x. key x = k \<and> P x) xs = [x]" "x \<in> set xs" "key x = k" "P x"
proof -
  let ?ys = "filter (\<lambda>x. key x = k \<and> P x) xs"
  have "distinct ?ys" using assms by (simp add: distinct_map)
  moreover have "x = y" if "x \<in> set ?ys" "y \<in> set ?ys" for x y
    using that assms by (auto simp: distinct_map inj_on_def)
  ultimately consider "?ys = []" | x where "?ys = [x]"
    by (rule at_most_one) blast+
  then show thesis
    using that by cases (auto dest: filter_singletonD)
qed

lemma field_error_if_missing_get:
  assumes "sel d = [] \<or> (\<exists>x. sel d = [x])"
  shows "field_error_if_missing (get_one sel) d = (Inr (case sel d of [] \<Rightarrow> None | x # _ \<Rightarrow> Some x), d)"
  using assms by (auto simp: field_error_if_missing_def get_one_def try_except_def andThen_def)

lemma validate_basket_id_eq:
  assumes "db_ok d"
  shows "validate_basket_id u k d = (Inr (own_basket u k d), d)"
  unfolding validate_basket_id_def own_basket_def find_filter
  by (rule field_error_if_missing_get)
    (rule keyed_filter_cases [OF db_ok_distinct [OF assms, of OrderM, simplified], of k "\<lambda>b. o_user b = u \<and> o_state b = Basket"]; blast)

lemma validate_contact_id_eq:
  assumes "db_ok d"
  shows "validate_contact_id u k d = (Inr (own_contact u k d), d)"
  unfolding validate_contact_id_def own_contact_def find_filter
  by (rule field_error_if_missing_get)
    (rule keyed_filter_cases [OF db_ok_distinct [OF assms, of ContactM, simplified], of k "\<lambda>b. ct_user b = u"]; blast)

lemma own_basketD: "own_basket u k d = Some b \<Longrightarrow> b \<in> set (t_orders d) \<and> o_id b = k \<and> o_user b = u \<and> o_state b = Basket"
  unfolding own_basket_def by (drule find_SomeD) simp

lemma own_contactD: "own_contact u k d = Some c \<Longrightarrow> c \<in> set (t_contacts d) \<and> ct_id c = k \<and> ct_user c = u"
  unfolding own_contact_def by (drule find_SomeD) simp

lemma confirm_row_ok:
  assumes "db_ok d" "b \<in> set (t_orders d)" "c \<in> set (pks ContactM d)"
  shows "row_ok (OrderRow (b\<lparr>o_state := s, o_contact := Some c\<rparr>)) d"
  using db_ok_refs [OF assms(1), of "OrderRow b" OrderM] assms(2,3)
  by (auto simp: row_ok_def positive_ok_def refs_ok_def unique_ok_def list_all_iff)

context django
begin

lemma order_confirm_save:
  assumes "db_ok d" "own_basket u k d = Some b" "own_contact u c d = Some ct"
  shows "db_save Orm (OrderRow (b\<lparr>o_state := Confirmed, o_contact := Some (ct_id ct)\<rparr>)) d =
    (Inr (), confirmed_db b c d)"
proof -
  have "row_ok (OrderRow (b\<lparr>o_state := Confirmed, o_contact := Some c\<rparr>)) d"
    using own_basketD [OF assms(2)] own_contactD [OF assms(3)]
    by (intro confirm_row_ok [OF assms(1)]) auto
  moreover have "o_id b \<in> o_id ` set (t_orders d)" using own_basketD [OF assms(2)] by blast
  ultimately show ?thesis
    using own_contactD [OF assms(3)] by (simp add: save_ok save_row_def confirmed_db_def)
qed

text \<open>A valid pair of ids; other field values are errors of their field.\<close>

lemma order_confirm_spec:
  assumes "rest_framework Drf" "db_ok (w_db w)" "rq_user rq = Some u" "rq_data rq = PDict kvs"
    and "map_of kvs (PStr ''basket_id'') = Some (PInt k)" "map_of kvs (PStr ''contact_id'') = Some (PInt c)"
  shows "order_confirm Orm Drf Srv rq w = confirm_spec Srv u k c w"
proof -
  have b: "checked_field Drf kvs ''basket_id'' (validate_basket_id u) (w_db w) = (Inr (own_basket u k (w_db w)), w_db w)"
    using assms by (simp add: checked_field_def field_value_def rest_framework.int_field_int [OF assms(1)] validate_basket_id_eq)
  have c: "checked_field Drf kvs ''contact_id'' (validate_contact_id u) (w_db w) = (Inr (own_contact u c (w_db w)), w_db w)"
    using assms by (simp add: checked_field_def field_value_def rest_framework.int_field_int [OF assms(1)] validate_contact_id_eq)
  show ?thesis
  proof (cases "own_basket u k (w_db w)")
    case None
    then show ?thesis
      using assms(3,4) b c by (cases "own_contact u c (w_db w)") (simp_all add: order_confirm_def confirm_spec_def)
  next
    case (Some bo)
    note bo = this
    show ?thesis
    proof (cases "own_contact u c (w_db w)")
      case None
      then show ?thesis using assms(3,4) b c bo by (simp add: order_confirm_def confirm_spec_def)
    next
      case (Some ct)
      then show ?thesis
        using assms(3,4) b c bo order_confirm_save [OF assms(2) bo Some] own_basketD [OF bo] own_contactD [OF Some]
        by (cases "broker Srv (Order_mail k c)")
          (simp_all add: order_confirm_def confirm_spec_def delay_def Let_def)
    qed
  qed
qed

end

section \<open>A confirmation as a step\<close>

text \<open>The only change of an order: a basket is confirmed with a contact of its owner.\<close>

inductive confirm_step :: "int \<Rightarrow> database \<Rightarrow> database \<Rightarrow> bool" where
  confirm: "own_basket u k d = Some b \<Longrightarrow> own_contact u c d = Some ct \<Longrightarrow>
    confirm_step u d (confirmed_db b c d)"

inductive_cases confirm_stepE: "confirm_step u d d'"

lemma ends_in_on_db_read:
  assumes "reads m" "I w" "\<And>x. m (w_db w) = (Inr x, w_db w) \<Longrightarrow> ends_in I (f x) w"
  shows "ends_in I (andThen (on_db m) f) w"
proof (rule ends_in_after_read)
  show "reads (on_db m)" using assms(1) by (rule reads_on_db)
next
  fix x assume "on_db m w = (Inr x, w)"
  then have "m (w_db w) = (Inr x, w_db w)"
    using reads_def [of m] assms(1) by (metis on_db_result prod.collapse fst_conv)
  then show "ends_in I (f x) w" by (rule assms(3))
qed (rule assms(2))

lemma reads_field_error_if_missing [reads_intros]:
  assumes "reads m"
  shows "reads (field_error_if_missing m)"
proof (rule readsI)
  fix s0 :: database
  have m: "keeps (\<lambda>s. s = s0) m" using assms unfolding reads_keeps by (rule spec)
  show "keeps (\<lambda>s. s = s0) (field_error_if_missing m)"
    unfolding field_error_if_missing_def by (intro keeps_intros m)
qed

lemma reads_checked_field [reads_intros]: "(\<And>k. reads (f k)) \<Longrightarrow> reads (checked_field Drf kvs name f)"
  by (cases "field_value (int_field Drf) (map_of kvs (PStr name))")
    (simp_all add: checked_field_def reads_ret)

lemma reads_validators [reads_intros]: "reads (validate_basket_id u k)" "reads (validate_contact_id u k)"
  unfolding validate_basket_id_def validate_contact_id_def by (intro reads_intros)+

lemma checked_field_Some:
  assumes "checked_field Drf kvs name f d = (Inr (Some x), d)"
  obtains k where "f k d = (Inr (Some x), d)"
  using assms by (auto simp: checked_field_def split: option.splits)

lemma delay_db: "w_db (snd (delay Srv t w)) = w_db w"
  by (cases "broker Srv t") (simp_all add: delay_def)

lemma ends_in_confirmed:
  assumes "save (w_db w) = (Inr (), d)" "confirm_step u (w_db w) d"
  shows "ends_in (\<lambda>w'. w_db w' = w_db w \<or> confirm_step u (w_db w) (w_db w'))
    (andThen (on_db save) (\<lambda>_. andThen (delay Srv t) (\<lambda>task. ret x))) w"
  using assms by (cases "broker Srv t") (simp_all add: ends_in_def delay_def)

context django
begin

lemma order_confirm_steps:
  assumes "db_ok (w_db w)" "rq_user rq = Some u"
  shows "ends_in (\<lambda>w'. w_db w' = w_db w \<or> confirm_step u (w_db w) (w_db w')) (order_confirm Orm Drf Srv rq) w"
    (is "ends_in ?I _ w")
proof (cases "rq_data rq")
  case (PDict kvs)
  have "ends_in ?I
      (andThen (on_db (checked_field Drf kvs ''basket_id'' (validate_basket_id u))) (\<lambda>b.
         andThen (on_db (checked_field Drf kvs ''contact_id'' (validate_contact_id u))) (\<lambda>c.
         case (b, c) of
           (Some basket, Some contact) \<Rightarrow>
             andThen (on_db (db_save Orm
               (OrderRow (basket\<lparr>o_state := Confirmed, o_contact := Some (ct_id contact)\<rparr>)))) (\<lambda>_.
             andThen (delay Srv (Order_mail (o_id basket) (ct_id contact))) (\<lambda>task.
             ret (Resp 200 (Message Order_confirmed))))
         | _ \<Rightarrow> ret (Resp 400 (Field_errors
             ((case b of None \<Rightarrow> [''basket_id''] | Some _ \<Rightarrow> []) @
              (case c of None \<Rightarrow> [''contact_id''] | Some _ \<Rightarrow> []))))))) w"
  proof (intro ends_in_on_db_read reads_intros)
    fix b c
    assume b: "checked_field Drf kvs ''basket_id'' (validate_basket_id u) (w_db w) = (Inr b, w_db w)"
      and c: "checked_field Drf kvs ''contact_id'' (validate_contact_id u) (w_db w) = (Inr c, w_db w)"
    show "ends_in ?I (case (b, c) of
           (Some basket, Some contact) \<Rightarrow>
             andThen (on_db (db_save Orm
               (OrderRow (basket\<lparr>o_state := Confirmed, o_contact := Some (ct_id contact)\<rparr>)))) (\<lambda>_.
             andThen (delay Srv (Order_mail (o_id basket) (ct_id contact))) (\<lambda>task.
             ret (Resp 200 (Message Order_confirmed))))
         | _ \<Rightarrow> ret (Resp 400 (Field_errors
             ((case b of None \<Rightarrow> [''basket_id''] | Some _ \<Rightarrow> []) @
              (case c of None \<Rightarrow> [''contact_id''] | Some _ \<Rightarrow> []))))) w"
    proof (cases "b = None \<or> c = None")
      case True
      then show ?thesis by (auto split: option.splits)
    next
      case False
      then obtain bo ct where bc: "b = Some bo" "c = Some ct" by auto
      obtain k where k: "own_basket u k (w_db w) = Some bo"
        using b bc by (auto elim!: checked_field_Some simp: validate_basket_id_eq [OF assms(1)])
      obtain k' where k': "own_contact u k' (w_db w) = Some ct"
        using c bc by (auto elim!: checked_field_Some simp: validate_contact_id_eq [OF assms(1)])
      have "confirm_step u (w_db w) (confirmed_db bo k' (w_db w))"
        using k k' by (rule confirm_step.confirm)
      from ends_in_confirmed [of "db_save Orm (OrderRow (bo\<lparr>o_state := Confirmed, o_contact := Some (ct_id ct)\<rparr>))"
          w "confirmed_db bo k' (w_db w)" u, OF order_confirm_save [OF assms(1) k k'] this]
      show ?thesis unfolding bc by simp
    qed
  qed simp_all
  then show ?thesis using PDict assms(2) by (simp add: order_confirm_def)
qed (use assms(2) in \<open>simp_all add: order_confirm_def ends_in_def\<close>)

end

text \<open>What a confirmation keeps and changes.\<close>

lemma db_ok_confirmed:
  assumes "db_ok d" "own_basket u k d = Some b" "own_contact u c d = Some ct"
  shows "db_ok (confirmed_db b c d)"
proof -
  have "row_ok (OrderRow (b\<lparr>o_state := Confirmed, o_contact := Some c\<rparr>)) d"
    using own_basketD [OF assms(2)] own_contactD [OF assms(3)]
    by (intro confirm_row_ok [OF assms(1)]) auto
  from db_ok_replace_row [OF assms(1) this] show ?thesis
    using own_basketD [OF assms(2)] by (auto simp: confirmed_db_def)
qed

lemma confirmed_orders:
  assumes "db_ok d" "own_basket u k d = Some b"
  shows "t_orders (confirmed_db b c d) =
    map (\<lambda>x. if x = b then b\<lparr>o_state := Confirmed, o_contact := Some c\<rparr> else x) (t_orders d)"
proof -
  have "o_id x = o_id b \<longleftrightarrow> x = b" if "x \<in> set (t_orders d)" for x
    using that own_basketD [OF assms(2)]
      same_pk_same_row [OF db_ok_distinct [OF assms(1)], of "OrderRow x" OrderM "OrderRow b"] by auto
  then show ?thesis by (auto simp: confirmed_db_def replace_by_def)
qed

lemma filter_map_other:
  "\<not> P (f b) \<Longrightarrow> filter P (map (\<lambda>x. if x = b then f b else x) xs) = filter (\<lambda>x. P x \<and> x \<noteq> b) xs"
  by (induction xs) auto

lemma baskets_confirmed:
  assumes "db_ok d" "own_basket u k d = Some b"
  shows "filter (\<lambda>x. o_state x = Basket) (t_orders (confirmed_db b c d)) =
    filter (\<lambda>x. o_state x = Basket \<and> x \<noteq> b) (t_orders d)"
  unfolding confirmed_orders [OF assms]
  by (rule filter_map_other [where f = "\<lambda>b. b\<lparr>o_state := Confirmed, o_contact := Some c\<rparr>"]) simp

lemma single_baskets_confirmed:
  assumes "db_ok d" "own_basket u k d = Some b" "single_baskets d"
  shows "single_baskets (confirmed_db b c d)" "baskets u (confirmed_db b c d) = []"
proof -
  have b: "b \<in> set (baskets u d)" using own_basketD [OF assms(2)] by (simp add: baskets_def)
  have eq: "filter (\<lambda>x. o_state x = Basket \<and> x \<noteq> b) (t_orders d) =
      filter (\<lambda>x. x \<noteq> b) (filter (\<lambda>x. o_state x = Basket) (t_orders d))" by (simp add: conj_commute)
  show "single_baskets (confirmed_db b c d)"
    using assms(3) distinct_map_filter unfolding single_baskets_def baskets_confirmed [OF assms(1,2)] eq by blast
  have "baskets u d = [b]" using b by (cases rule: single_baskets_cases [OF assms(3), of u]) auto
  have "baskets u (confirmed_db b c d) = filter (\<lambda>x. o_user x = u) (filter (\<lambda>x. o_state x = Basket) (t_orders (confirmed_db b c d)))"
    by (simp add: baskets_def conj_commute)
  also have "\<dots> = filter (\<lambda>x. x \<noteq> b) (baskets u d)"
    unfolding baskets_confirmed [OF assms(1,2)] by (simp add: baskets_def conj_ac)
  finally show "baskets u (confirmed_db b c d) = []" using \<open>baskets u d = [b]\<close> by simp
qed

section \<open>Ownership\<close>

text \<open>A basket has no contact, a placed order that has one has a contact of its own user.\<close>

definition owned :: "contact list \<Rightarrow> order_t \<Rightarrow> bool" where
  "owned cs b = (case o_contact b of None \<Rightarrow> True
     | Some k \<Rightarrow> o_state b \<noteq> Basket \<and> list_ex (\<lambda>c. ct_id c = k \<and> ct_user c = o_user b) cs)"

definition orders_owned :: "database \<Rightarrow> bool" where
  "orders_owned d \<longleftrightarrow> list_all (owned (t_contacts d)) (t_orders d)"

lemma owned_mono: "owned cs b \<Longrightarrow> set cs \<subseteq> set cs' \<Longrightarrow> owned cs' b"
  by (auto simp: owned_def list_ex_iff split: option.splits)

lemma orders_owned_mono:
  "orders_owned d \<Longrightarrow> t_orders d' = t_orders d \<Longrightarrow> set (t_contacts d) \<subseteq> set (t_contacts d') \<Longrightarrow> orders_owned d'"
  unfolding orders_owned_def list_all_iff using owned_mono by metis

lemma orders_owned_confirmed:
  assumes "db_ok d" "own_basket u k d = Some b" "own_contact u c d = Some ct" "orders_owned d"
  shows "orders_owned (confirmed_db b c d)"
proof -
  have cs: "t_contacts (confirmed_db b c d) = t_contacts d" by (simp add: confirmed_db_def)
  have "owned (t_contacts d) (b\<lparr>o_state := Confirmed, o_contact := Some c\<rparr>)"
    using own_basketD [OF assms(2)] own_contactD [OF assms(3)] by (auto simp: owned_def list_ex_iff)
  then show ?thesis
    using assms(4) unfolding orders_owned_def cs confirmed_orders [OF assms(1,2)] by (auto simp: list_all_iff)
qed

lemma orders_owned_cart_step: "cart_step u d d' \<Longrightarrow> orders_owned d \<Longrightarrow> orders_owned d'"
  by (erule cart_stepE) (simp_all add: orders_owned_def owned_def)

section \<open>The history\<close>

definition order_price :: "order_t \<Rightarrow> database \<Rightarrow> int" where
  "order_price b d = sum_list (map (\<lambda>it. oi_quantity it * price_of d (oi_info it)) (items_of (o_id b) d))"

lemma get_total_price_eq:
  assumes "db_ok d" "it \<in> set (t_order_items d)"
  shows "get_total_price it d = (Inr (oi_quantity it * price_of d (oi_info it)), d)"
proof -
  obtain info where info: "related pi_id t_product_infos (oi_info it) d = (Inr info, d)"
    using item_info [OF assms] by blast
  then have "price_of d (oi_info it) = pi_price info" by (auto simp: related_eq_Inr price_of_def)
  then show ?thesis using info by (simp add: get_total_price_def)
qed

lemma fold_total:
  assumes "\<And>it. it \<in> set its \<Longrightarrow> get_total_price it d = (Inr (f it), d)"
  shows "fold_each (\<lambda>total it. andThen (get_total_price it) (\<lambda>p. ret (total + p))) n its d =
    (Inr (n + sum_list (map f its)), d)"
  using assms by (induction its arbitrary: n) (simp_all add: add.assoc)

lemma order_total_price_eq:
  assumes "db_ok d"
  shows "order_total_price b d = (Inr (order_price b d), d)"
  using fold_total [of "items_of (o_id b) d" d "\<lambda>it. oi_quantity it * price_of d (oi_info it)" 0]
    get_total_price_eq [OF assms]
  by (simp add: order_total_price_def order_price_def items_of_def)

lemma order_history_data_total:
  assumes "db_ok d"
  obtains v where "order_history_data b d = (Inr v, d)"
    "py_index v ''id'' = Inr (PInt (o_id b))"
    "py_index v ''state'' = Inr (PStr (state_code (o_state b)))"
    "py_index v ''total_price'' = Inr (PInt (order_price b d))"
proof -
  have "total d (map_each order_item_data (items_of (o_id b) d))"
    by (intro total_map_each total_order_item_data [OF assms]) (simp add: items_of_def)
  then obtain vs where "map_each order_item_data (items_of (o_id b) d) d = (Inr vs, d)"
    by (auto simp: total_def)
  then show thesis
    using that by (simp add: order_history_data_def order_total_price_eq [OF assms])
qed

lemma order_history_spec:
  assumes "db_ok d" "rq_user rq = Some u"
  shows "\<exists>data. order_history rq d = (Inr (Resp 200 (Data (PList data))), d) \<and>
    map (\<lambda>v. py_index v ''id'') data = map (\<lambda>b. Inr (PInt (o_id b))) (placed_orders u d) \<and>
    map (\<lambda>v. py_index v ''state'') data = map (\<lambda>b. Inr (PStr (state_code (o_state b)))) (placed_orders u d) \<and>
    map (\<lambda>v. py_index v ''total_price'') data = map (\<lambda>b. Inr (PInt (order_price b d))) (placed_orders u d)"
proof -
  have "\<forall>b. \<exists>v. order_history_data b d = (Inr v, d) \<and>
    py_index v ''id'' = Inr (PInt (o_id b)) \<and>
    py_index v ''state'' = Inr (PStr (state_code (o_state b))) \<and>
    py_index v ''total_price'' = Inr (PInt (order_price b d))"
    using order_history_data_total [OF assms(1)] by blast
  from choice [OF this] obtain f where f: "\<forall>b. order_history_data b d = (Inr (f b), d) \<and>
    py_index (f b) ''id'' = Inr (PInt (o_id b)) \<and>
    py_index (f b) ''state'' = Inr (PStr (state_code (o_state b))) \<and>
    py_index (f b) ''total_price'' = Inr (PInt (order_price b d))" ..
  have "map_each order_history_data (placed_orders u d) d = (Inr (map f (placed_orders u d)), d)"
    by (rule map_each_total) (use f in blast)
  then show ?thesis
    using assms(2) f by (intro exI [of _ "map f (placed_orders u d)"]) (simp add: order_history_def)
qed

lemma placed_orders_sorted: "sorted (map (\<lambda>b. - o_dt b) (placed_orders u d))"
  by (simp add: placed_orders_def)

lemma placed_orders_set: "set (placed_orders u d) = {b \<in> set (t_orders d). o_user b = u \<and> o_state b \<noteq> Basket}"
  by (auto simp: placed_orders_def)

section \<open>The mail task\<close>

lemma order_mail_spec:
  assumes "db_ok (w_db w)" "b \<in> set (t_orders (w_db w))"
  obtains user where "user \<in> set (t_users (w_db w))" "u_id user = o_user b"
    "send_order_confirmation_email Srv (o_id b) c w =
      (case mailer Srv (Order_letter (u_email user) (o_id b) (o_state b)) of
         Inl e \<Rightarrow> (Inr False, w)
       | Inr _ \<Rightarrow> (Inr True, w\<lparr>w_mails := w_mails w @ [Order_letter (u_email user) (o_id b) (o_state b)]\<rparr>))"
proof -
  have refs: "refs_ok (OrderRow b) (w_db w)" using assms db_ok_refs [of "w_db w" _ OrderM] by simp
  obtain user where user: "user \<in> set (t_users (w_db w))" "u_id user = o_user b"
    "related u_id t_users (o_user b) (w_db w) = (Inr user, w_db w)"
    using related_total [OF assms(1) refs, of UserM _ u_id t_users] by auto
  have "filter (\<lambda>x. o_id x = o_id b) (t_orders (w_db w)) = [b]"
    using filter_eq_single [of o_id "t_orders (w_db w)" b] assms db_ok_distinct [OF assms(1), of OrderM] by simp
  then show thesis
    using that [OF user(1,2)] user(3)
    by (cases "mailer Srv (Order_letter (u_email user) (o_id b) (o_state b))")
      (simp_all add: send_order_confirmation_email_def send_mail_def)
qed

lemma order_mail_missing:
  "filter (\<lambda>b. o_id b = k) (t_orders (w_db w)) = [] \<Longrightarrow> send_order_confirmation_email Srv k c w = (Inr False, w)"
  by (simp add: send_order_confirmation_email_def get_one_def)

end
