(* ===== verification/OrderProps.thy ===== *)
theory OrderProps
  imports OrdersSpec CartProps
begin

text \<open>The properties of contacts, order confirmation, the history and the order mail.\<close>

section \<open>Confirmation\<close>


definition sample_confirm :: request where
  "sample_confirm = sample_request 1 [(PStr ''basket_id'', PInt 1), (PStr ''contact_id'', PInt 1)]"

lemma sample_worlds:
  "w_db sample_world = sample_db" "w_mails sample_world = []" "w_queue sample_world = []"
  "mailer test_services m = Inr ()" "broker test_services t = Inr ''task''"
  by (simp_all add: sample_world_def test_services_def)

lemma sample_confirm_facts:
  "rq_user sample_confirm = Some 1"
  "rq_data sample_confirm = PDict [(PStr ''basket_id'', PInt 1), (PStr ''contact_id'', PInt 1)]"
  by (simp_all add: sample_confirm_def sample_request_def)


text \<open>No other change. Whatever the request, confirming either leaves the database as it was or
  turns exactly one basket of the requesting user into a confirmed order with a contact of that
  user; the schema and the ownership of orders and contacts hold afterwards, and the stock is not
  touched.\<close>

theorem order_confirm_safe:
  assumes "django Orm" "db_ok (w_db w)" "orders_owned (w_db w)" "rq_user rq = Some u"
    and "order_confirm Orm Drf Srv rq w = (r, w')"
  shows "(w_db w' = w_db w \<or>
      (\<exists>k b c ct. own_basket u k (w_db w) = Some b \<and> own_contact u c (w_db w) = Some ct \<and>
         w_db w' = confirmed_db b c (w_db w))) \<and>
    db_ok (w_db w') \<and> orders_owned (w_db w') \<and> stock_of (w_db w') = stock_of (w_db w)"
proof -
  have "w_db w' = w_db w \<or> confirm_step u (w_db w) (w_db w')"
    using django.order_confirm_steps [OF assms(1,2,4), of Drf Srv] assms(5) by (simp add: ends_in_def)
  then show ?thesis
  proof
    assume "confirm_step u (w_db w) (w_db w')"
    then obtain k b c ct where step: "own_basket u k (w_db w) = Some b" "own_contact u c (w_db w) = Some ct"
      "w_db w' = confirmed_db b c (w_db w)" by (elim confirm_stepE) blast
    then have "db_ok (w_db w')" "orders_owned (w_db w')"
      using db_ok_confirmed [OF assms(2)] orders_owned_confirmed [OF assms(2) _ _ assms(3)] by auto
    moreover have "stock_of (w_db w') = stock_of (w_db w)" using step(3) by (simp add: confirmed_db_def)
    ultimately show ?thesis using step by blast
  qed (use assms(2,3) in simp)
qed

lemma sample_owned: "orders_owned sample_db"
  by (simp add: orders_owned_def owned_def sample_eval)

theorem order_confirm_safe_witness:
  "case order_confirm sqlite rest_impl test_services (sample_request 2
      [(PStr ''basket_id'', PInt 1), (PStr ''contact_id'', PInt 2)]) sample_world of (r, w') \<Rightarrow>
     db_ok (w_db w') \<and> orders_owned (w_db w') \<and> stock_of (w_db w') = stock_of sample_db"
proof -
  obtain r w' where run: "order_confirm sqlite rest_impl test_services (sample_request 2
      [(PStr ''basket_id'', PInt 1), (PStr ''contact_id'', PInt 2)]) sample_world = (r, w')" by fastforce
  show ?thesis
    using order_confirm_safe [OF sqlite.django_axioms _ _ _ run, of 2] sample_db_ok sample_owned run
    by (simp add: sample_request_def sample_world_def)
qed

text \<open>Confirmation mail. When the worker runs the task a successful confirmation queued, the mail
  server gets one letter, to the owner of the order, that names the order and its state, and the
  task reports success exactly if the mail server took it.\<close>

theorem confirmed_order_mailed:
  assumes "django Orm" "rest_framework Drf" "db_ok (w_db w)" "rq_user rq = Some u" "rq_data rq = PDict kvs"
    and "map_of kvs (PStr ''basket_id'') = Some (PInt k)" "map_of kvs (PStr ''contact_id'') = Some (PInt c)"
    and "order_confirm Orm Drf Srv rq w = (Inr (Resp 200 (Message Order_confirmed)), w1)"
    and "send_order_confirmation_email Srv k c w1 = (r, w2)"
  shows "w_queue w1 = w_queue w @ [Order_mail k c] \<and>
    (\<exists>user \<in> set (t_users (w_db w)). u_id user = u \<and>
      (let letter = Order_letter (u_email user) k Confirmed in
       case mailer Srv letter of Inl e \<Rightarrow> r = Inr False \<and> w2 = w1
       | Inr _ \<Rightarrow> r = Inr True \<and> w2 = w1\<lparr>w_mails := w_mails w @ [letter]\<rparr>))"
proof -
  have spec: "confirm_spec Srv u k c w = (Inr (Resp 200 (Message Order_confirmed)), w1)"
    using django.order_confirm_spec [OF assms(1-7)] assms(8) by simp
  then obtain b ct where own: "own_basket u k (w_db w) = Some b" "own_contact u c (w_db w) = Some ct"
    by (auto simp: confirm_spec_def split: option.splits)
  let ?b = "b\<lparr>o_state := Confirmed, o_contact := Some c\<rparr>"
  have w1: "w_db w1 = confirmed_db b c (w_db w)" "w_mails w1 = w_mails w"
    "w_queue w1 = w_queue w @ [Order_mail k c]"
    using own spec by (auto simp: confirm_spec_def Let_def split: sum.splits)
  have b: "o_id b = k" "o_user b = u" "b \<in> set (t_orders (w_db w))" using own_basketD [OF own(1)] by auto
  have "?b \<in> set (t_orders (w_db w1))"
    using b(3) unfolding w1 confirmed_orders [OF assms(3) own(1)] by force
  then obtain user where user: "user \<in> set (t_users (w_db w1))" "u_id user = o_user ?b"
    "send_order_confirmation_email Srv (o_id ?b) c w1 =
      (case mailer Srv (Order_letter (u_email user) (o_id ?b) (o_state ?b)) of
         Inl e \<Rightarrow> (Inr False, w1)
       | Inr _ \<Rightarrow> (Inr True, w1\<lparr>w_mails := w_mails w1 @ [Order_letter (u_email user) (o_id ?b) (o_state ?b)]\<rparr>))"
    using order_mail_spec [of w1 ?b] db_ok_confirmed [OF assms(3) own] unfolding w1 by metis
  moreover have "t_users (w_db w1) = t_users (w_db w)" by (simp add: w1 confirmed_db_def)
  ultimately show ?thesis
    using assms(9) b w1(2,3)
    by (intro conjI bexI [of _ user]) (auto simp: Let_def split: sum.splits)
qed

theorem confirmed_order_mailed_witness:
  "let w1 = snd (order_confirm sqlite rest_impl test_services sample_confirm sample_world)
   in w_queue w1 = [Order_mail 1 1] \<and>
     w_mails (snd (send_order_confirmation_email test_services 1 1 w1)) = [Order_letter ''a'' 1 Confirmed]"
proof -
  let ?w1 = "snd (order_confirm sqlite rest_impl test_services sample_confirm sample_world)"
  obtain r w2 where run: "send_order_confirmation_email test_services 1 1 ?w1 = (r, w2)" by fastforce
  have "fst (order_confirm sqlite rest_impl test_services sample_confirm sample_world) =
      Inr (Resp 200 (Message Order_confirmed))" by code_simp
  then have conf: "order_confirm sqlite rest_impl test_services sample_confirm sample_world =
      (Inr (Resp 200 (Message Order_confirmed)), ?w1)"
    by (metis prod.collapse)
  have emails: "\<forall>user \<in> set (t_users sample_db). u_id user = 1 \<longrightarrow> u_email user = ''a''"
    by (simp add: sample_eval char_of_def)
  have "w_queue ?w1 = [] @ [Order_mail 1 1] \<and> (\<exists>user \<in> set (t_users sample_db). u_id user = 1 \<and>
      w2 = ?w1\<lparr>w_mails := [Order_letter (u_email user) 1 Confirmed]\<rparr>)"
    using confirmed_order_mailed [OF sqlite.django_axioms rest_impl.rest_framework_axioms _ _ _ _ _ conf run,
        where u = 1 and kvs = "[(PStr ''basket_id'', PInt 1), (PStr ''contact_id'', PInt 1)]"]
    by (auto simp: sample_worlds sample_db_ok sample_confirm_facts Let_def)
  then show ?thesis using emails by (auto simp: run Let_def)
qed

section \<open>History\<close>

text \<open>The order history succeeds on every consistent database, changes nothing, and lists exactly
  the orders of the user that are not baskets, newest first, each with its state and the sum of
  quantity times current price over its items.\<close>

theorem order_history_lists:
  assumes "db_ok d" "rq_user rq = Some u"
  shows "\<exists>data. order_history rq d = (Inr (Resp 200 (Data (PList data))), d) \<and>
    map (\<lambda>v. py_index v ''id'') data = map (\<lambda>b. Inr (PInt (o_id b))) (placed_orders u d) \<and>
    map (\<lambda>v. py_index v ''state'') data = map (\<lambda>b. Inr (PStr (state_code (o_state b)))) (placed_orders u d) \<and>
    map (\<lambda>v. py_index v ''total_price'') data = map (\<lambda>b. Inr (PInt (order_price b d))) (placed_orders u d) \<and>
    sorted (map (\<lambda>b. - o_dt b) (placed_orders u d)) \<and>
    set (placed_orders u d) = {b \<in> set (t_orders d). o_user b = u \<and> o_state b \<noteq> Basket}"
  using order_history_spec [OF assms] placed_orders_sorted placed_orders_set by blast

theorem order_history_lists_witness:
  "\<exists>data. order_history (sample_request 2 []) sample_db = (Inr (Resp 200 (Data (PList data))), sample_db) \<and>
    map (\<lambda>v. py_index v ''total_price'') data = [Inr (PInt 195000)]"
proof -
  have "map (\<lambda>b. order_price b sample_db) (placed_orders 2 sample_db) = [195000]"
    by (simp add: placed_orders_def order_price_def items_of_def price_of_def sample_eval)
  then have "map (\<lambda>b. Inr (PInt (order_price b sample_db)) :: exn + pyval) (placed_orders 2 sample_db) = [Inr (PInt 195000)]"
    by (auto simp: map_eq_Cons_conv)
  then show ?thesis
    using order_history_lists [OF sample_db_ok, of "sample_request 2 []" 2] by (auto simp: sample_request_def)
qed

section \<open>Contacts\<close>

text \<open>A valid contact is stored for the requesting user with a fresh id, which the reply
  names; nothing else changes, and an invalid one is refused with the names of its bad fields.\<close>

theorem add_contact_stores:
  assumes "django Orm" "rq_user rq = Some u" "u \<in> set (pks UserM d)"
  shows "case validate_contact Drf (rq_data rq) of
      Inl names \<Rightarrow> add_contact Orm Drf rq d = (Inr (Resp 400 (Field_errors names)), d)
    | Inr values \<Rightarrow> (\<exists>k. k \<notin> set (pks ContactM d) \<and>
        add_contact Orm Drf rq d = (Inr (Resp 201 (Data (PDict [(PStr ''contact_id'', PInt k)]))),
          d\<lparr>t_contacts := t_contacts d @ [contact_row u values\<lparr>ct_id := k\<rparr>]\<rparr>))"
  using django.add_contact_invalid [OF assms(1,2)] django.add_contact_valid [OF assms]
  by (cases "validate_contact Drf (rq_data rq)") (simp, simp, metis)

definition sample_address :: "(pyval \<times> pyval) list" where
  "sample_address = [(PStr ''city'', PStr ''Kazan''), (PStr ''street'', PStr ''Baumana''), (PStr ''phone'', PStr ''+7'')]"

theorem add_contact_stores_witness:
  "\<exists>k. add_contact sqlite rest_impl (sample_request 1 sample_address) sample_db =
    (Inr (Resp 201 (Data (PDict [(PStr ''contact_id'', PInt k)]))),
     sample_db\<lparr>t_contacts := t_contacts sample_db @ [\<lparr>ct_id = k, ct_user = 1, ct_city = ''Kazan'', ct_street = ''Baumana'',
       ct_house = [], ct_structure = [], ct_building = [], ct_apartment = [], ct_phone = ''+7''\<rparr>]\<rparr>)"
proof -
  have valid: "validate_contact rest_impl (PDict sample_address) = Inr [''Kazan'', ''Baumana'', [], [], [], [], ''+7'']"
    by code_simp
  show ?thesis
    using add_contact_stores [OF sqlite.django_axioms, of "sample_request 1 sample_address" 1 sample_db rest_impl]
    by (auto simp: valid sample_request_def sample_db_def sample_user_def)
qed

text \<open>Contact privacy. The detail view shows a contact to its owner and is a 404 for everybody
  else and for ids that do not exist; it changes nothing.\<close>

theorem contact_detail_owner_only:
  assumes "db_ok d" "rq_user rq = Some u"
  shows "contact_detail (Some k) rq d =
    ((case filter (\<lambda>c. ct_user c = u \<and> ct_id c = k) (t_contacts d) of
        [] \<Rightarrow> Inl Http404 | c # _ \<Rightarrow> Inr (Resp 200 (Data (contact_data c)))), d)"
  by (rule contact_detail_spec [OF assms])

theorem contact_detail_owner_only_witness:
  "fst (contact_detail (Some 1) (sample_request 1 []) sample_db) = Inr (Resp 200 (Data (contact_data (sample_contact 1 1)))) \<and>
   fst (contact_detail (Some 2) (sample_request 1 []) sample_db) = Inl Http404"
  using contact_detail_owner_only [OF sample_db_ok, of "sample_request 1 []" 1 1]
    contact_detail_owner_only [OF sample_db_ok, of "sample_request 1 []" 1 2]
  by (simp add: sample_eval)

end
