(* ===== verification/Accounts.thy ===== *)
theory Accounts
  imports World
begin

text \<open>
  Accounts: \<^verbatim>\<open>UserManager\<close> and \<^verbatim>\<open>ConfirmEmailToken.save\<close> of \<^verbatim>\<open>models.py\<close>, the login and
  registration serializers and views, and the Celery task
  \<^verbatim>\<open>send_registration_confirmation_email\<close>. The locale \<open>accounts\<close> adds the documented behaviour
  of \<^verbatim>\<open>django.contrib.auth\<close> to that of the database.
\<close>

section \<open>The user manager\<close>

text \<open>A new \<^verbatim>\<open>User\<close> instance with the defaults of its fields.\<close>

definition new_user :: "string \<Rightarrow> user" where
  "new_user email = \<lparr>u_id = 0, u_email = email, u_password = [], u_first_name = [], u_last_name = [],
     u_company = [], u_position = [], u_username = [], u_is_active = True, u_is_staff = False,
     u_is_superuser = False, u_type = Buyer\<rparr>"

text \<open>
  \<^verbatim>\<open>**extra_fields\<close>: the two flags the manager looks at, each possibly missing, and what the
  other keywords do to the instance.
\<close>

record extra_fields =
  x_is_staff :: "bool option"
  x_is_superuser :: "bool option"
  x_other :: "user \<Rightarrow> user"

definition setdefault :: "'a \<Rightarrow> 'a option \<Rightarrow> 'a option" where
  "setdefault dflt v = (case v of None \<Rightarrow> Some dflt | Some x \<Rightarrow> Some x)"

definition save_new_user :: "orm \<Rightarrow> user \<Rightarrow> (database, user) comp" where
  "save_new_user Orm = create Orm UserRow (\<lambda>k. u_id_update (\<lambda>_. k))"

definition create_user_base ::
  "orm \<Rightarrow> services \<Rightarrow> string \<Rightarrow> string option \<Rightarrow> extra_fields \<Rightarrow> (database, user) comp" where
  "create_user_base Orm Srv email password extra =
     (if email = [] then raise ValueError
      else
        let user = x_other extra (new_user (normalize_email Srv email));
            user = (case x_is_staff extra of None \<Rightarrow> user | Some b \<Rightarrow> user\<lparr>u_is_staff := b\<rparr>);
            user = (case x_is_superuser extra of None \<Rightarrow> user | Some b \<Rightarrow> user\<lparr>u_is_superuser := b\<rparr>)
        in save_new_user Orm (user\<lparr>u_password := make_password Srv password\<rparr>))"

definition create_user ::
  "orm \<Rightarrow> services \<Rightarrow> string \<Rightarrow> string option \<Rightarrow> extra_fields \<Rightarrow> (database, user) comp" where
  "create_user Orm Srv email password extra =
     create_user_base Orm Srv email password
       (extra\<lparr>x_is_staff := setdefault False (x_is_staff extra),
              x_is_superuser := setdefault False (x_is_superuser extra)\<rparr>)"

definition create_superuser ::
  "orm \<Rightarrow> services \<Rightarrow> string \<Rightarrow> string option \<Rightarrow> extra_fields \<Rightarrow> (database, user) comp" where
  "create_superuser Orm Srv email password extra =
     (let staff = setdefault True (x_is_staff extra);
          super = setdefault True (x_is_superuser extra) in
      if staff \<noteq> Some True then raise ValueError
      else if super \<noteq> Some True then raise ValueError
      else create_user_base Orm Srv email password (extra\<lparr>x_is_staff := staff, x_is_superuser := super\<rparr>))"

section \<open>Login\<close>

text \<open>
  \<^verbatim>\<open>UserLoginSerializer\<close>: the errors of the fields, or of the object when \<^verbatim>\<open>authenticate\<close> finds
  nobody. \<^verbatim>\<open>is_valid(raise_exception=True)\<close> answers 400 with them.
\<close>

definition validate_login :: "drf \<Rightarrow> services \<Rightarrow> pyval \<Rightarrow> database \<Rightarrow> string list + user" where
  "validate_login Drf Srv data d = (case data of
       PDict kvs \<Rightarrow>
         (let email = field_value (email_field Drf) (map_of kvs (PStr ''email''));
              password = field_value (char_field Drf None False) (map_of kvs (PStr ''password'')) in
          case (email, password) of
            (Some e, Some p) \<Rightarrow>
              if e \<noteq> [] \<and> p \<noteq> []
              then (case authenticate Srv d e p of None \<Rightarrow> Inl [''non_field_errors''] | Some user \<Rightarrow> Inr user)
              else Inl [''non_field_errors'']
          | _ \<Rightarrow> Inl ((case email of None \<Rightarrow> [''email''] | Some _ \<Rightarrow> []) @
                     (case password of None \<Rightarrow> [''password''] | Some _ \<Rightarrow> [])))
     | _ \<Rightarrow> Inl [''non_field_errors''])"

text \<open>\<^verbatim>\<open>login(request, user)\<close> opens a session for the user.\<close>

definition login_view :: "drf \<Rightarrow> services \<Rightarrow> request \<Rightarrow> (world, response) comp" where
  "login_view Drf Srv rq =
     andThen (on_db (query (validate_login Drf Srv (rq_data rq)))) (\<lambda>v.
     case v of
       Inl names \<Rightarrow> ret (Resp 400 (Field_errors names))
     | Inr user \<Rightarrow>
         andThen (update_world (\<lambda>w. w\<lparr>w_sessions := w_sessions w @ [u_id user]\<rparr>)) (\<lambda>_.
         ret (Resp 200 (Message Logged_in))))"

section \<open>Registration\<close>

text \<open>
  The fields of \<^verbatim>\<open>UserRegistrationSerializer\<close> in the order of \<^verbatim>\<open>Meta.fields\<close>. The names are
  blank columns of \<^verbatim>\<open>AbstractUser\<close>, so they may be missing; the email is a unique column, so a
  stored one is an error of the field.
\<close>

definition name_value :: "drf \<Rightarrow> (pyval \<times> pyval) list \<Rightarrow> string \<Rightarrow> string option" where
  "name_value Drf kvs name = (case map_of kvs (PStr name) of
       None \<Rightarrow> Some [] | Some v \<Rightarrow> char_field Drf (Some 150) True v)"

definition unique_email :: "database \<Rightarrow> string option \<Rightarrow> string option" where
  "unique_email d v = (case v of None \<Rightarrow> None
     | Some e \<Rightarrow> if list_ex (\<lambda>x. u_email x = e) (t_users d) then None else Some e)"

definition validate_registration :: "drf \<Rightarrow> pyval \<Rightarrow> database \<Rightarrow> string list + (string \<times> string \<times> string \<times> string)" where
  "validate_registration Drf data d = (case data of
       PDict kvs \<Rightarrow>
         (let first_name = name_value Drf kvs ''first_name'';
              last_name = name_value Drf kvs ''last_name'';
              email = unique_email d (field_value (email_field Drf) (map_of kvs (PStr ''email'')));
              password = field_value (char_field Drf None False) (map_of kvs (PStr ''password'')) in
          case (first_name, last_name, email, password) of
            (Some f, Some l, Some e, Some p) \<Rightarrow> Inr (f, l, e, p)
          | _ \<Rightarrow> Inl ((case first_name of None \<Rightarrow> [''first_name''] | Some _ \<Rightarrow> []) @
                     (case last_name of None \<Rightarrow> [''last_name''] | Some _ \<Rightarrow> []) @
                     (case email of None \<Rightarrow> [''email''] | Some _ \<Rightarrow> []) @
                     (case password of None \<Rightarrow> [''password''] | Some _ \<Rightarrow> [])))
     | _ \<Rightarrow> Inl [''non_field_errors''])"

text \<open>\<^verbatim>\<open>UserRegistrationSerializer.create\<close>.\<close>

definition registered_user :: "services \<Rightarrow> string \<times> string \<times> string \<times> string \<Rightarrow> user" where
  "registered_user Srv v = (case v of (f, l, e, p) \<Rightarrow>
     (new_user e)\<lparr>u_first_name := f, u_last_name := l, u_password := make_password Srv (Some p)\<rparr>)"

text \<open>The \<^verbatim>\<open>AsyncResult\<close> that \<^verbatim>\<open>delay\<close> returns is a true object, so the reply names the mail.\<close>

definition register_view :: "orm \<Rightarrow> drf \<Rightarrow> services \<Rightarrow> request \<Rightarrow> (world, response) comp" where
  "register_view Orm Drf Srv rq =
     andThen (on_db (query (validate_registration Drf (rq_data rq)))) (\<lambda>v.
     case v of
       Inl names \<Rightarrow> ret (Resp 400 (Field_errors names))
     | Inr values \<Rightarrow>
         andThen (on_db (save_new_user Orm (registered_user Srv values))) (\<lambda>user.
         andThen (delay Srv (Registration_mail (u_email user) (u_id user))) (\<lambda>task.
         ret (Resp 201 (Message Registered)))))"

section \<open>The confirmation token\<close>

text \<open>\<^verbatim>\<open>ConfirmEmailToken.save\<close>: an empty key is replaced by a generated one before the insert.\<close>

definition save_token :: "orm \<Rightarrow> services \<Rightarrow> email_token \<Rightarrow> (world, email_token) comp" where
  "save_token Orm Srv token =
     andThen (query (\<lambda>w. if et_key token = [] then generate_token Srv w else et_key token)) (\<lambda>key.
     on_db (create Orm EmailTokenRow (\<lambda>k. et_id_update (\<lambda>_. k)) (token\<lparr>et_key := key\<rparr>)))"

definition send_registration_email :: "orm \<Rightarrow> services \<Rightarrow> int \<Rightarrow> string \<Rightarrow> int \<Rightarrow> (world, bool) comp" where
  "send_registration_email Orm Srv now user_email user_id =
     andThen (save_token Orm Srv \<lparr>et_id = 0, et_user = user_id, et_created_at = now, et_key = []\<rparr>) (\<lambda>token.
     try_except
       (andThen (send_mail Srv (Registration_letter user_email (et_key token))) (\<lambda>_. ret True))
       (\<lambda>e. ret False))"

section \<open>The behaviour of authentication\<close>

locale accounts = django +
  fixes Srv :: services
  assumes authenticate_iff: "db_ok d \<Longrightarrow> authenticate Srv d e p = Some x \<longleftrightarrow>
      x \<in> set (t_users d) \<and> u_email x = e \<and> check_password Srv p (u_password x) \<and> u_is_active x"
    and check_make: "check_password Srv p (make_password Srv (Some p))"

lemma users_same_email:
  assumes "db_ok d" "x \<in> set (t_users d)" "y \<in> set (t_users d)" "u_email x = u_email y"
  shows "x = y"
proof -
  have "unique_ok (UserRow x) d"
    using assms(1,2) db_ok_row [of d "UserRow x" UserM] by (simp add: row_ok_def)
  then have "u_id y = u_id x"
    using assms(3,4) unique_okD [of "UserRow x" d "UserRow y"] by simp
  then show ?thesis
    using assms(2,3) same_pk_same_row [OF db_ok_distinct [OF assms(1)], of "UserRow x" UserM "UserRow y"]
    by simp
qed

lemma find_unique:
  assumes "\<And>x y. x \<in> set xs \<Longrightarrow> y \<in> set xs \<Longrightarrow> P x \<Longrightarrow> P y \<Longrightarrow> x = y"
  shows "find P xs = Some x \<longleftrightarrow> x \<in> set xs \<and> P x"
  using assms by (induction xs) auto

interpretation test_accounts: accounts sqlite test_services
proof unfold_locales
  fix d e p x assume d: "db_ok d"
  show "authenticate test_services d e p = Some x \<longleftrightarrow>
      x \<in> set (t_users d) \<and> u_email x = e \<and> check_password test_services p (u_password x) \<and> u_is_active x"
    unfolding test_services_def services.simps
    by (subst find_unique) (auto intro: users_same_email [OF d])
qed (simp add: test_services_def)

section \<open>What registration and login do\<close>

lemma new_user_row_ok:
  assumes "\<not> list_ex (\<lambda>y. u_email y = u_email x) (t_users d)"
  shows "row_ok (UserRow x) d"
  using assms by (auto simp: row_ok_def positive_ok_def refs_ok_def unique_ok_def list_all_iff list_ex_iff)

lemma validate_registration_email:
  assumes "validate_registration Drf data d = Inr (f, l, e, p)"
  obtains kvs where "data = PDict kvs"
    "field_value (email_field Drf) (map_of kvs (PStr ''email'')) = Some e"
    "field_value (char_field Drf None False) (map_of kvs (PStr ''password'')) = Some p"
    "\<not> list_ex (\<lambda>y. u_email y = e) (t_users d)"
proof -
  obtain kvs where data: "data = PDict kvs"
    using assms by (cases data) (simp_all add: validate_registration_def)
  from assms show thesis
    unfolding data validate_registration_def
    by (intro that [OF data])
      (auto simp: Let_def unique_email_def split: option.splits if_splits)
qed

lemma registered_user_fields [simp]:
  "u_email (registered_user Srv (f, l, e, p)) = e"
  "u_password (registered_user Srv (f, l, e, p)) = make_password Srv (Some p)"
  "u_is_active (registered_user Srv v)"
  "\<not> u_is_staff (registered_user Srv v)"
  "\<not> u_is_superuser (registered_user Srv v)"
  "u_type (registered_user Srv v) = Buyer"
  by (simp_all add: registered_user_def new_user_def split: prod.splits)

context django
begin

lemma save_new_user_ok:
  assumes "\<not> list_ex (\<lambda>y. u_email y = u_email x) (t_users d)"
  obtains k where "k \<notin> set (pks UserM d)"
    "save_new_user Orm x d = (Inr (x\<lparr>u_id := k\<rparr>), d\<lparr>t_users := t_users d @ [x\<lparr>u_id := k\<rparr>]\<rparr>)"
proof -
  let ?k = "db_new_pk Orm UserM d"
  have "row_ok (UserRow (x\<lparr>u_id := ?k\<rparr>)) d" by (rule new_user_row_ok) (use assms in simp)
  then have "db_insert Orm None (UserRow x) d = (Inr ?k, d\<lparr>t_users := t_users d @ [x\<lparr>u_id := ?k\<rparr>]\<rparr>)"
    using insert_new_ok [of "UserRow x" d] by simp
  then show thesis
    using that [of ?k] new_pk_fresh [of UserM d] by (simp add: save_new_user_def create_def)
qed

lemma save_new_user_taken:
  assumes "y \<in> set (t_users d)" "u_email y = u_email x"
  shows "save_new_user Orm x d = (Inl IntegrityError, d)"
proof -
  let ?k = "db_new_pk Orm UserM d"
  have "u_id y \<noteq> ?k" using new_pk_fresh [of UserM d] assms(1) by (metis image_eqI image_set pks_typed(1))
  then have "\<not> row_ok (UserRow (x\<lparr>u_id := ?k\<rparr>)) d"
    using assms by (auto simp: row_ok_def unique_ok_def list_all_iff)
  then show ?thesis
    using insert_new_bad [of "UserRow x" d] by (simp add: save_new_user_def create_def)
qed

lemma register_valid:
  assumes "validate_registration Drf (rq_data rq) (w_db w) = Inr (f, l, e, p)"
  obtains k where "k \<notin> set (pks UserM (w_db w))"
    "register_view Orm Drf Srv rq w =
      (let w' = w\<lparr>w_db := w_db w\<lparr>t_users := t_users (w_db w) @ [registered_user Srv (f, l, e, p)\<lparr>u_id := k\<rparr>]\<rparr>\<rparr> in
       case broker Srv (Registration_mail e k) of
         Inl ex \<Rightarrow> (Inl ex, w')
       | Inr _ \<Rightarrow> (Inr (Resp 201 (Message Registered)), w'\<lparr>w_queue := w_queue w @ [Registration_mail e k]\<rparr>))"
proof -
  let ?x = "registered_user Srv (f, l, e, p)"
  have "\<not> list_ex (\<lambda>y. u_email y = u_email ?x) (t_users (w_db w))"
    using assms by (auto elim: validate_registration_email)
  then obtain k where k: "k \<notin> set (pks UserM (w_db w))"
    "save_new_user Orm ?x (w_db w) = (Inr (?x\<lparr>u_id := k\<rparr>), w_db w\<lparr>t_users := t_users (w_db w) @ [?x\<lparr>u_id := k\<rparr>]\<rparr>)"
    by (rule save_new_user_ok)
  show thesis
    by (rule that [OF k(1)])
      (cases "broker Srv (Registration_mail e k)"; simp add: register_view_def assms k(2) delay_def Let_def)
qed

lemma register_invalid:
  "validate_registration Drf (rq_data rq) (w_db w) = Inl names \<Longrightarrow>
   register_view Orm Drf Srv rq w = (Inr (Resp 400 (Field_errors names)), w)"
  by (simp add: register_view_def)

lemma keeps_save_new_user [keeps_intros]: "keeps db_ok (save_new_user Orm x)"
  unfolding save_new_user_def by (intro keeps_intros)

end

lemma validate_registration_taken:
  assumes "field_value (email_field Drf) (map_of kvs (PStr ''email'')) = Some e" "y \<in> set (t_users d)" "u_email y = e"
  obtains names where "validate_registration Drf (PDict kvs) d = Inl names" "''email'' \<in> set names"
proof -
  have "unique_email d (Some e) = None" using assms(2,3) by (auto simp: unique_email_def list_ex_iff)
  then show thesis
    using that assms(1)
    by (cases "name_value Drf kvs ''first_name''"; cases "name_value Drf kvs ''last_name''";
        cases "field_value (char_field Drf None False) (map_of kvs (PStr ''password''))")
      (simp_all add: validate_registration_def Let_def)
qed

lemma login_view_cases:
  "login_view Drf Srv rq w = (case validate_login Drf Srv (rq_data rq) (w_db w) of
     Inl names \<Rightarrow> (Inr (Resp 400 (Field_errors names)), w)
   | Inr user \<Rightarrow> (Inr (Resp 200 (Message Logged_in)), w\<lparr>w_sessions := w_sessions w @ [u_id user]\<rparr>))"
  by (simp add: login_view_def split: sum.splits)

context accounts
begin

lemma validate_login_valid:
  assumes "db_ok d" "field_value (email_field Drf) (map_of kvs (PStr ''email'')) = Some e"
    "field_value (char_field Drf None False) (map_of kvs (PStr ''password'')) = Some p"
    "e \<noteq> []" "p \<noteq> []"
  shows "validate_login Drf Srv (PDict kvs) d = Inr x \<longleftrightarrow>
    x \<in> set (t_users d) \<and> u_email x = e \<and> check_password Srv p (u_password x) \<and> u_is_active x"
  using authenticate_iff [OF assms(1), of e p x] assms(2-5)
  by (auto simp: validate_login_def Let_def split: option.splits)

text \<open>Whoever has just registered can log in with the same body.\<close>

lemma register_then_login:
  assumes "rest_framework Drf" "db_ok (w_db w)" "register_view Orm Drf Srv rq w = (Inr (Resp 201 b), w1)"
  obtains k where "k \<notin> set (pks UserM (w_db w))"
    "login_view Drf Srv rq w1 = (Inr (Resp 200 (Message Logged_in)), w1\<lparr>w_sessions := w_sessions w1 @ [k]\<rparr>)"
proof -
  obtain f l e p where v: "validate_registration Drf (rq_data rq) (w_db w) = Inr (f, l, e, p)"
    using assms(3) register_invalid [of Drf rq w] by (cases "validate_registration Drf (rq_data rq) (w_db w)") auto
  obtain kvs where data: "rq_data rq = PDict kvs"
    and e: "field_value (email_field Drf) (map_of kvs (PStr ''email'')) = Some e"
    and p: "field_value (char_field Drf None False) (map_of kvs (PStr ''password'')) = Some p"
    using v by (rule validate_registration_email)
  have nb: "e \<noteq> []" "p \<noteq> []"
    using e p
    by (auto simp: field_value_def bind_eq_Some_conv dest!: rest_framework.email_field_blank [OF assms(1)]
        rest_framework.char_field_blank [OF assms(1)])
  obtain k where k: "k \<notin> set (pks UserM (w_db w))"
    and run: "register_view Orm Drf Srv rq w =
      (let w' = w\<lparr>w_db := w_db w\<lparr>t_users := t_users (w_db w) @ [registered_user Srv (f, l, e, p)\<lparr>u_id := k\<rparr>]\<rparr>\<rparr> in
       case broker Srv (Registration_mail e k) of
         Inl ex \<Rightarrow> (Inl ex, w')
       | Inr _ \<Rightarrow> (Inr (Resp 201 (Message Registered)), w'\<lparr>w_queue := w_queue w @ [Registration_mail e k]\<rparr>))"
    using v by (rule register_valid)
  let ?x = "registered_user Srv (f, l, e, p)\<lparr>u_id := k\<rparr>"
  have db: "w_db w1 = w_db w\<lparr>t_users := t_users (w_db w) @ [?x]\<rparr>"
    using run assms(3) by (auto simp: Let_def split: sum.splits)
  have "keeps (\<lambda>w. db_ok (w_db w)) (register_view Orm Drf Srv rq)"
    unfolding register_view_def
    by (intro keeps_intros keeps_on_db) (auto split: sum.splits intro!: keeps_intros keeps_on_db keeps_delay)
  then have "db_ok (w_db w1)" using assms(2,3) keeps_result by metis
  then have "validate_login Drf Srv (PDict kvs) (w_db w1) = Inr ?x"
    using validate_login_valid [OF _ e p nb, of "w_db w1" ?x] check_make by (simp add: db)
  then show thesis using that [OF k] by (simp add: login_view_cases data)
qed

end

section \<open>The manager and the token task\<close>

context django
begin

text \<open>The flags of a superuser, or the exception that refuses them.\<close>

lemma create_superuser_flags:
  assumes "create_superuser Orm Srv email password extra d = (Inr x, d')"
  shows "email \<noteq> [] \<and> u_is_staff x \<and> u_is_superuser x \<and> u_password x = make_password Srv password"
  using assms
  by (auto simp: create_superuser_def create_user_base_def save_new_user_def create_def Let_def setdefault_def
      andThen_eq_Inr split: if_splits option.splits)

lemma save_new_user_cases:
  obtains k where "k \<notin> set (pks UserM d)"
    "save_new_user Orm x d = (Inr (x\<lparr>u_id := k\<rparr>), d\<lparr>t_users := t_users d @ [x\<lparr>u_id := k\<rparr>]\<rparr>)"
  | "save_new_user Orm x d = (Inl IntegrityError, d)"
  by (cases rule: insert_cases [of "UserRow x" d None]) (simp_all add: save_new_user_def create_def)

lemma create_superuser_spec:
  assumes "create_superuser Orm Srv email password extra d = (r, d')"
  shows "if x_is_staff extra = Some False \<or> x_is_superuser extra = Some False \<or> email = []
    then r = Inl ValueError \<and> d' = d
    else r = Inl IntegrityError \<and> d' = d \<or>
      (\<exists>x. r = Inr x \<and> u_is_staff x \<and> u_is_superuser x \<and> u_password x = make_password Srv password \<and>
         u_id x \<notin> set (pks UserM d) \<and> d' = d\<lparr>t_users := t_users d @ [x]\<rparr>)"
proof (cases "x_is_staff extra = Some False \<or> x_is_superuser extra = Some False \<or> email = []")
  case True
  then show ?thesis
    using assms by (auto simp: create_superuser_def create_user_base_def setdefault_def Let_def split: option.splits if_splits)
next
  case False
  let ?x = "x_other extra (new_user (normalize_email Srv email))\<lparr>u_is_staff := True, u_is_superuser := True,
    u_password := make_password Srv password\<rparr>"
  have "setdefault True (x_is_staff extra) = Some True" "setdefault True (x_is_superuser extra) = Some True"
    using False by (auto simp: setdefault_def split: option.splits)
  then have "(r, d') = save_new_user Orm ?x d"
    using assms False by (simp add: create_superuser_def create_user_base_def Let_def)
  then show ?thesis
    using False by (cases rule: save_new_user_cases [of d ?x]) auto
qed

lemma create_user_flags:
  assumes "create_user Orm Srv email password extra d = (Inr x, d')"
  shows "email \<noteq> [] \<and> u_is_staff x = (x_is_staff extra = Some True) \<and>
    u_is_superuser x = (x_is_superuser extra = Some True) \<and> u_password x = make_password Srv password"
  using assms
  by (auto simp: create_user_def create_user_base_def save_new_user_def create_def Let_def setdefault_def
      andThen_eq_Inr split: if_splits option.splits)

lemma token_row_ok:
  assumes "u \<in> set (pks UserM d)" "\<not> list_ex (\<lambda>t. et_key t = key) (t_email_tokens d)"
  shows "row_ok (EmailTokenRow \<lparr>et_id = k, et_user = u, et_created_at = now, et_key = key\<rparr>) d"
  using assms by (auto simp: row_ok_def positive_ok_def refs_ok_def unique_ok_def list_all_iff list_ex_iff)

lemma registration_mail_spec:
  assumes "u \<in> set (pks UserM (w_db w))"
    and "\<not> list_ex (\<lambda>t. et_key t = generate_token Srv w) (t_email_tokens (w_db w))"
  obtains k where "k \<notin> set (pks EmailTokenM (w_db w))"
    "send_registration_email Orm Srv now email u w =
      (let key = generate_token Srv w; letter = Registration_letter email key;
           w' = w\<lparr>w_db := w_db w\<lparr>t_email_tokens := t_email_tokens (w_db w) @
             [\<lparr>et_id = k, et_user = u, et_created_at = now, et_key = key\<rparr>]\<rparr>\<rparr> in
       case mailer Srv letter of Inl e \<Rightarrow> (Inr False, w')
       | Inr _ \<Rightarrow> (Inr True, w'\<lparr>w_mails := w_mails w @ [letter]\<rparr>))"
proof -
  let ?k = "db_new_pk Orm EmailTokenM (w_db w)"
  let ?t = "\<lparr>et_id = 0, et_user = u, et_created_at = now, et_key = generate_token Srv w\<rparr>"
  have "db_insert Orm None (EmailTokenRow ?t) (w_db w) =
      (Inr ?k, w_db w\<lparr>t_email_tokens := t_email_tokens (w_db w) @ [?t\<lparr>et_id := ?k\<rparr>]\<rparr>)"
    using insert_new_ok [of "EmailTokenRow ?t" "w_db w"] token_row_ok [OF assms] by simp
  then show thesis
    using that [of ?k] new_pk_fresh [of EmailTokenM "w_db w"]
    by (cases "mailer Srv (Registration_letter email (generate_token Srv w))")
      (simp_all add: send_registration_email_def save_token_def send_mail_def create_def Let_def)
qed

end

end
