(* ===== verification/AccountProps.thy ===== *)
theory AccountProps
  imports Accounts
begin

text \<open>The properties of registration, login, the user manager and the token mail.\<close>

definition sample_signup :: request where
  "sample_signup = \<lparr>rq_user = None, rq_is_staff = False,
     rq_data = PDict [(PStr ''email'', PStr ''x@y''), (PStr ''password'', PStr ''pw'')],
     rq_form = False, rq_query = [], rq_now = 300\<rparr>"

lemma sample_signup_valid:
  "validate_registration rest_impl (rq_data sample_signup) (w_db sample_world) = Inr ([], [], ''x@y'', ''pw'')"
  by code_simp

text \<open>Registration. A body that the serializer rejects is answered with the names of the bad
  fields and stores nothing. Any other one stores exactly one user, with a fresh id, the given
  email and the hashed password, active and without staff rights, and queues the mail task for
  that user; a broker failure is raised after the user has been stored.\<close>

theorem register_stores_user:
  assumes "django Orm"
  shows "case validate_registration Drf (rq_data rq) (w_db w) of
      Inl names \<Rightarrow> register_view Orm Drf Srv rq w = (Inr (Resp 400 (Field_errors names)), w)
    | Inr (f, l, e, p) \<Rightarrow> \<exists>k x. k \<notin> set (pks UserM (w_db w)) \<and> u_id x = k \<and> u_email x = e \<and>
        u_password x = make_password Srv (Some p) \<and> u_is_active x \<and> \<not> u_is_staff x \<and> \<not> u_is_superuser x \<and>
        register_view Orm Drf Srv rq w =
          (let w' = w\<lparr>w_db := w_db w\<lparr>t_users := t_users (w_db w) @ [x]\<rparr>\<rparr> in
           case broker Srv (Registration_mail e k) of
             Inl ex \<Rightarrow> (Inl ex, w')
           | Inr _ \<Rightarrow> (Inr (Resp 201 (Message Registered)), w'\<lparr>w_queue := w_queue w @ [Registration_mail e k]\<rparr>))"
proof (cases "validate_registration Drf (rq_data rq) (w_db w)")
  case (Inl names)
  then show ?thesis using django.register_invalid [OF assms Inl] by simp
next
  case (Inr v)
  obtain f l e p where v: "v = (f, l, e, p)" by (cases v)
  show ?thesis
    unfolding Inr v sum.case prod.case
    by (rule django.register_valid [OF assms Inr [unfolded v], of Srv thesis for thesis],
        rule exI, rule exI [of _ "registered_user Srv (f, l, e, p)\<lparr>u_id := k\<rparr>" for k]) auto
qed

theorem register_stores_user_witness:
  "\<exists>k. w_queue (snd (register_view sqlite rest_impl test_services sample_signup sample_world)) =
      [Registration_mail ''x@y'' k] \<and> k \<noteq> 1 \<and> k \<noteq> 2"
proof -
  have "set (pks UserM (w_db sample_world)) = {1, 2}"
    by (simp add: sample_world_def sample_eval)
  then show ?thesis
    using register_stores_user [OF sqlite.django_axioms, where Drf = rest_impl and rq = sample_signup and w = sample_world and Srv = test_services]
    unfolding sample_signup_valid
    by (auto simp: test_services_def sample_world_def Let_def)
qed

text \<open>C31: Round trip. Whoever has registered can at once log in with the same body, before and
  without any email confirmation, and the session is that of the new user.\<close>

theorem registered_can_login:
  assumes "accounts Orm Srv" "rest_framework Drf" "db_ok (w_db w)"
    and "register_view Orm Drf Srv rq w = (Inr (Resp 201 b), w1)"
  shows "\<exists>k. k \<notin> set (pks UserM (w_db w)) \<and>
    login_view Drf Srv rq w1 = (Inr (Resp 200 (Message Logged_in)), w1\<lparr>w_sessions := w_sessions w1 @ [k]\<rparr>)"
  using accounts.register_then_login [OF assms] by metis

theorem registered_can_login_witness:
  "\<exists>k. k \<noteq> 1 \<and> k \<noteq> 2 \<and>
    w_sessions (snd (login_view rest_impl test_services sample_signup
      (snd (register_view sqlite rest_impl test_services sample_signup sample_world)))) = [k]"
proof -
  let ?w1 = "snd (register_view sqlite rest_impl test_services sample_signup sample_world)"
  have "fst (register_view sqlite rest_impl test_services sample_signup sample_world) = Inr (Resp 201 (Message Registered))"
    "w_sessions ?w1 = []" "set (pks UserM (w_db sample_world)) = {1, 2}"
    by code_simp+
  moreover from this have "register_view sqlite rest_impl test_services sample_signup sample_world =
      (Inr (Resp 201 (Message Registered)), ?w1)" by (metis prod.collapse)
  moreover have "db_ok (w_db sample_world)" by (simp add: sample_world_def sample_db_ok)
  ultimately show ?thesis
    using registered_can_login [OF test_accounts.accounts_axioms rest_impl.rest_framework_axioms, of sample_world sample_signup]
    by fastforce
qed

text \<open>Login. For a body with an email and a password that pass their fields, the reply is 200
  with a session exactly for the active user with that email whose password matches, and 400
  without a session when there is none.\<close>

theorem login_exact:
  assumes "accounts Orm Srv" "db_ok (w_db w)" "rq_data rq = PDict kvs"
    and "field_value (email_field Drf) (map_of kvs (PStr ''email'')) = Some e" "e \<noteq> []"
    and "field_value (char_field Drf None False) (map_of kvs (PStr ''password'')) = Some p" "p \<noteq> []"
  shows "(\<exists>x \<in> set (t_users (w_db w)). u_email x = e \<and> check_password Srv p (u_password x) \<and> u_is_active x \<and>
      login_view Drf Srv rq w = (Inr (Resp 200 (Message Logged_in)), w\<lparr>w_sessions := w_sessions w @ [u_id x]\<rparr>)) \<or>
    (\<forall>x \<in> set (t_users (w_db w)). \<not> (u_email x = e \<and> check_password Srv p (u_password x) \<and> u_is_active x)) \<and>
      login_view Drf Srv rq w = (Inr (Resp 400 (Field_errors [''non_field_errors''])), w)"
proof (cases "authenticate Srv (w_db w) e p")
  case None
  then show ?thesis
    using accounts.authenticate_iff [OF assms(1,2), of e p] assms(3-7)
    by (auto simp: login_view_cases validate_login_def)
next
  case (Some x)
  then show ?thesis
    using accounts.authenticate_iff [OF assms(1,2), of e p x] assms(3-7)
    by (auto simp: login_view_cases validate_login_def)
qed

theorem login_exact_witness:
  "login_view rest_impl test_services sample_signup sample_world =
    (Inr (Resp 400 (Field_errors [''non_field_errors''])), sample_world)"
proof -
  have f: "field_value (email_field rest_impl) (map_of [(PStr ''email'', PStr ''x@y''), (PStr ''password'', PStr ''pw'')] (PStr ''email'')) = Some ''x@y''"
    "field_value (char_field rest_impl None False) (map_of [(PStr ''email'', PStr ''x@y''), (PStr ''password'', PStr ''pw'')] (PStr ''password'')) = Some ''pw''"
    by code_simp+
  have "\<forall>x \<in> set (t_users (w_db sample_world)). u_email x \<noteq> ''x@y''"
    by (simp add: sample_world_def sample_eval)
  then show ?thesis
    using login_exact [OF test_accounts.accounts_axioms _ _ f(1) _ f(2), of sample_world sample_signup] sample_db_ok
    by (auto simp: sample_world_def sample_signup_def)
qed

text \<open>The registration mail task stores one token for the user with the generated key and sends
  that same key to the given address; when the mail server refuses, the task reports failure and
  the token stays.\<close>

theorem registration_mail_carries_token:
  assumes "django Orm" "u \<in> set (pks UserM (w_db w))"
    and "\<not> list_ex (\<lambda>t. et_key t = generate_token Srv w) (t_email_tokens (w_db w))"
  shows "\<exists>k. k \<notin> set (pks EmailTokenM (w_db w)) \<and>
    send_registration_email Orm Srv now email u w =
      (let key = generate_token Srv w; letter = Registration_letter email key;
           w' = w\<lparr>w_db := w_db w\<lparr>t_email_tokens := t_email_tokens (w_db w) @
             [\<lparr>et_id = k, et_user = u, et_created_at = now, et_key = key\<rparr>]\<rparr>\<rparr> in
       case mailer Srv letter of Inl e \<Rightarrow> (Inr False, w')
       | Inr _ \<Rightarrow> (Inr True, w'\<lparr>w_mails := w_mails w @ [letter]\<rparr>))"
  using django.registration_mail_spec [OF assms] by metis

theorem registration_mail_carries_token_witness:
  "w_mails (snd (send_registration_email sqlite test_services 300 ''x@y'' 1 sample_world)) =
    [Registration_letter ''x@y'' ''t'']"
  using registration_mail_carries_token [OF sqlite.django_axioms, of 1 sample_world test_services 300 "''x@y''"]
  by (auto simp: sample_world_def sample_eval test_services_def Let_def)

text \<open>Superusers. \<^verbatim>\<open>create_superuser\<close> refuses an empty email and a flag that is switched off
  and stores nothing then; otherwise it stores exactly one user, with both flags and the hashed
  password, unless the database refuses the row.\<close>

theorem create_superuser_exact:
  assumes "django Orm" "create_superuser Orm Srv email password extra d = (r, d')"
  shows "if x_is_staff extra = Some False \<or> x_is_superuser extra = Some False \<or> email = []
    then r = Inl ValueError \<and> d' = d
    else r = Inl IntegrityError \<and> d' = d \<or>
      (\<exists>x. r = Inr x \<and> u_is_staff x \<and> u_is_superuser x \<and> u_password x = make_password Srv password \<and>
         u_id x \<notin> set (pks UserM d) \<and> d' = d\<lparr>t_users := t_users d @ [x]\<rparr>)"
  by (rule django.create_superuser_spec [OF assms])

theorem create_superuser_exact_witness:
  "create_superuser sqlite test_services ''r@z'' (Some ''pw'')
     \<lparr>x_is_staff = None, x_is_superuser = Some False, x_other = (\<lambda>x. x)\<rparr> sample_db = (Inl ValueError, sample_db)"
proof -
  obtain r d' where run: "create_superuser sqlite test_services ''r@z'' (Some ''pw'')
      \<lparr>x_is_staff = None, x_is_superuser = Some False, x_other = (\<lambda>x. x)\<rparr> sample_db = (r, d')" by fastforce
  show ?thesis using create_superuser_exact [OF sqlite.django_axioms run] run by simp
qed

end
