(* ===== verification/Catalog.thy ===== *)
theory Catalog
  imports Sample
begin

text \<open>
  \<^verbatim>\<open>ProductListView\<close>: the price list with its three optional filters. Each filter is applied
  to the query set in turn; an id that is no integer raises when its filter is built.
\<close>

section \<open>The view\<close>

text \<open>One filter: absent or empty parameters leave the query set alone.\<close>

definition id_filter ::
  "orm \<Rightarrow> pyval \<Rightarrow> (int option \<Rightarrow> database \<Rightarrow> product_info \<Rightarrow> bool) \<Rightarrow> (database, database \<Rightarrow> product_info \<Rightarrow> bool) comp"
  where
  "id_filter Orm v P =
     (if py_true v then andThen (lift_exn (prep_int Orm v)) (\<lambda>k. ret (P k)) else ret (\<lambda>d x. True))"

definition in_shop :: "int option \<Rightarrow> database \<Rightarrow> product_info \<Rightarrow> bool" where
  "in_shop k d x = (Some (pi_shop x) = k)"

definition in_category :: "int option \<Rightarrow> database \<Rightarrow> product_info \<Rightarrow> bool" where
  "in_category k d x = list_ex (\<lambda>p. p_id p = pi_product x \<and> Some (p_category p) = k) (t_products d)"

definition name_contains :: "orm \<Rightarrow> pyval \<Rightarrow> database \<Rightarrow> product_info \<Rightarrow> bool" where
  "name_contains Orm v d x = (case v of
       PStr s \<Rightarrow> s = [] \<or> list_ex (\<lambda>p. p_id p = pi_product x \<and> icontains Orm s (p_name p)) (t_products d)
     | _ \<Rightarrow> True)"

definition product_list :: "orm \<Rightarrow> request \<Rightarrow> (database, response) comp" where
  "product_list Orm rq =
     (let shop_id = query_get rq ''shop_id'';
          category_id = query_get rq ''category_id'';
          search = query_get rq ''search'' in
      andThen (id_filter Orm shop_id in_shop) (\<lambda>by_shop.
      andThen (id_filter Orm category_id in_category) (\<lambda>by_category.
      andThen (query (\<lambda>d. filter (\<lambda>x. by_shop d x \<and> by_category d x \<and> name_contains Orm search d x)
        (t_product_infos d))) (\<lambda>infos.
      andThen (map_each product_info_data infos) (\<lambda>data.
      ret (Resp 200 (Data (PList data))))))))"

lemma reads_id_filter [reads_intros]: "reads (id_filter Orm v P)"
  unfolding id_filter_def by (auto intro: reads_intros)

lemma reads_product_list [reads_intros]: "reads (product_list Orm rq)"
  unfolding product_list_def Let_def by (intro reads_intros)

section \<open>What it lists\<close>

text \<open>The parameter as the specification reads it: nothing, or the id the string denotes.\<close>

definition query_id :: "request \<Rightarrow> string \<Rightarrow> exn + int option" where
  "query_id rq name = (case map_of (rq_query rq) name of
       None \<Rightarrow> Inr None | Some [] \<Rightarrow> Inr None | Some s \<Rightarrow> map_sum id Some (int_of_str s))"

definition product_of :: "database \<Rightarrow> product_info \<Rightarrow> product option" where
  "product_of d x = find (\<lambda>p. p_id p = pi_product x) (t_products d)"

definition listed :: "orm \<Rightarrow> int option \<Rightarrow> int option \<Rightarrow> string \<Rightarrow> database \<Rightarrow> product_info \<Rightarrow> bool" where
  "listed Orm shop cat search d x = (case product_of d x of None \<Rightarrow> False
     | Some p \<Rightarrow> (shop = None \<or> shop = Some (pi_shop x)) \<and> (cat = None \<or> cat = Some (p_category p)) \<and>
         (search = [] \<or> icontains Orm search (p_name p)))"

lemma product_of_unique:
  assumes "db_ok d" "x \<in> set (t_product_infos d)"
  obtains p where "product_of d x = Some p" "\<And>P. list_ex (\<lambda>q. p_id q = pi_product x \<and> P q) (t_products d) \<longleftrightarrow> P p"
proof -
  have refs: "refs_ok (ProductInfoRow x) d" using assms db_ok_refs [of d _ ProductInfoM] by simp
  obtain p where p: "p \<in> set (t_products d)" "p_id p = pi_product x"
    using related_total [OF assms(1) refs, of ProductM _ p_id t_products] by auto
  have same: "q = p" if "q \<in> set (t_products d)" "p_id q = pi_product x" for q
    using that p same_pk_same_row [OF db_ok_distinct [OF assms(1)], of "ProductRow q" ProductM "ProductRow p"] by simp
  have "product_of d x \<noteq> None" using p unfolding product_of_def find_None_iff by blast
  then obtain q where q: "product_of d x = Some q" by blast
  have "q \<in> set (t_products d) \<and> p_id q = pi_product x"
    using find_SomeD [OF q [unfolded product_of_def]] .
  then have "q = p" using same by blast
  with q have "product_of d x = Some p" by simp
  moreover have "list_ex (\<lambda>q. p_id q = pi_product x \<and> P q) (t_products d) \<longleftrightarrow> P p" for P
    unfolding list_ex_iff using p same by blast
  ultimately show thesis by (rule that)
qed

context django
begin

lemma id_filter_run:
  "id_filter Orm (query_get rq name) P d = (case map_of (rq_query rq) name of
      None \<Rightarrow> (Inr (\<lambda>d x. True), d)
    | Some s \<Rightarrow> if s = [] then (Inr (\<lambda>d x. True), d) else
        (case prep_int Orm (PStr s) of Inl e \<Rightarrow> (Inl e, d) | Inr k \<Rightarrow> (Inr (P k), d)))"
  by (auto simp: id_filter_def query_get_def split: option.splits sum.splits)

lemma id_filter_ok:
  assumes "query_id rq name = Inr k"
  shows "id_filter Orm (query_get rq name) P d = (Inr (if k = None then (\<lambda>d x. True) else P k), d)"
proof (cases "map_of (rq_query rq) name")
  case None
  then show ?thesis using assms by (simp add: id_filter_run query_id_def)
next
  case (Some s)
  show ?thesis
  proof (cases s)
    case Nil
    then show ?thesis using assms Some by (simp add: id_filter_run query_id_def)
  next
    case (Cons c cs)
    then obtain n where "int_of_str s = Inr n" "k = Some n"
      using assms Some by (cases "int_of_str s") (auto simp: query_id_def)
    then show ?thesis using prep_int_py [of "PStr s" n] Some Cons by (simp add: id_filter_run)
  qed
qed

lemma product_list_spec:
  assumes "db_ok d" "query_id rq ''shop_id'' = Inr shop" "query_id rq ''category_id'' = Inr cat"
    and search: "search = (case map_of (rq_query rq) ''search'' of None \<Rightarrow> [] | Some s \<Rightarrow> s)"
  shows "\<exists>data. product_list Orm rq d = (Inr (Resp 200 (Data (PList data))), d) \<and>
    map (\<lambda>v. py_index v ''id'') data =
      map (\<lambda>x. Inr (PInt (pi_id x))) (filter (listed Orm shop cat search d) (t_product_infos d))"
proof -
  let ?f = "\<lambda>x. (if shop = None then True else in_shop shop d x) \<and> (if cat = None then True else in_category cat d x) \<and>
    name_contains Orm (query_get rq ''search'') d x"
  have f: "?f x \<longleftrightarrow> listed Orm shop cat search d x" if x: "x \<in> set (t_product_infos d)" for x
  proof -
    obtain p where p: "product_of d x = Some p"
      "\<And>P. list_ex (\<lambda>q. p_id q = pi_product x \<and> P q) (t_products d) \<longleftrightarrow> P p"
      using product_of_unique [OF assms(1) x] by blast
    have "in_category cat d x \<longleftrightarrow> Some (p_category p) = cat" unfolding in_category_def by (rule p(2))
    moreover have "name_contains Orm (query_get rq ''search'') d x \<longleftrightarrow> search = [] \<or> icontains Orm search (p_name p)"
      using p(2) [of "\<lambda>q. icontains Orm search (p_name q)"]
      by (auto simp: name_contains_def query_get_def search split: option.splits)
    ultimately show ?thesis by (auto simp: listed_def p(1) in_shop_def)
  qed
  have infos: "filter (\<lambda>x. (if shop = None then (\<lambda>d x. True) else in_shop shop) d x \<and>
      (if cat = None then (\<lambda>d x. True) else in_category cat) d x \<and>
      name_contains Orm (query_get rq ''search'') d x) (t_product_infos d) =
    filter (listed Orm shop cat search d) (t_product_infos d)"
  proof (rule filter_cong [OF refl])
    fix x assume "x \<in> set (t_product_infos d)"
    from f [OF this] show "(if shop = None then (\<lambda>d x. True) else in_shop shop) d x \<and>
        (if cat = None then (\<lambda>d x. True) else in_category cat) d x \<and>
        name_contains Orm (query_get rq ''search'') d x \<longleftrightarrow> listed Orm shop cat search d x"
      by (cases shop; cases cat; simp)
  qed
  let ?xs = "filter (listed Orm shop cat search d) (t_product_infos d)"
  have "\<forall>x \<in> set ?xs. \<exists>v. product_info_data x d = (Inr v, d) \<and> py_index v ''id'' = Inr (PInt (pi_id x))"
  proof
    fix x assume "x \<in> set ?xs"
    then obtain v where "product_info_data x d = (Inr v, d)"
      using total_product_info_data [OF assms(1), of x] by (auto simp: total_def)
    moreover from this have "py_index v ''id'' = Inr (PInt (pi_id x))"
      by (auto simp: product_info_data_def andThen_eq_Inr)
    ultimately show "\<exists>v. product_info_data x d = (Inr v, d) \<and> py_index v ''id'' = Inr (PInt (pi_id x))" by blast
  qed
  from bchoice [OF this] obtain g where g: "\<forall>x \<in> set ?xs. product_info_data x d = (Inr (g x), d) \<and>
      py_index (g x) ''id'' = Inr (PInt (pi_id x))" ..
  have "map_each product_info_data ?xs d = (Inr (map g ?xs), d)"
    by (rule map_each_total) (use g in blast)
  then have "product_list Orm rq d = (Inr (Resp 200 (Data (PList (map g ?xs)))), d)"
    by (simp add: product_list_def Let_def id_filter_ok [OF assms(2)] id_filter_ok [OF assms(3)] infos)
  then show ?thesis using g by (intro exI [of _ "map g ?xs"]) simp
qed

end

section \<open>Properties\<close>



end
