(* ===== verification/Import.thy ===== *)
theory Import
  imports World
begin

text \<open>
  The two YAML importers: \<^verbatim>\<open>load_data\<close> of \<^verbatim>\<open>backend/utils.py\<close> with the \<^verbatim>\<open>load_db\<close> command, and the
  Celery task \<^verbatim>\<open>do_import\<close> of \<^verbatim>\<open>backend/tasks.py\<close> with the view \<^verbatim>\<open>trigger_import\<close> that queues it
  and the admin upload that creates its \<^verbatim>\<open>ImportTask\<close>. Logging has no effect on the state and is
  left out.
\<close>

section \<open>Results\<close>

datatype load_error =
    Bad_url
  | Missing_key string
  | File_missing
  | Yaml_error
  | Unexpected exn

datatype load_result = Loaded | Load_failed load_error

section \<open>Steps shared by the importers\<close>

text \<open>\<^verbatim>\<open>Model.objects.get_or_create\<close> on a shop, category, product or parameter.\<close>

definition get_or_create_shop :: "orm \<Rightarrow> pyval \<Rightarrow> int option \<Rightarrow> (database, shop \<times> bool) comp" where
  "get_or_create_shop Orm name user_id =
     get_or_create (\<lambda>d. filter (\<lambda>s. Some (s_name s) = prep_str Orm name) (t_shops d))
       (andThen (str_column Orm name) (\<lambda>n.
        create Orm ShopRow (\<lambda>k. s_id_update (\<lambda>_. k))
          \<lparr>s_id = 0, s_name = n, s_url = None, s_user = user_id, s_state = True\<rparr>))"

definition get_or_create_category :: "orm \<Rightarrow> pyval \<Rightarrow> pyval \<Rightarrow> (database, category \<times> bool) comp" where
  "get_or_create_category Orm category_id name =
     andThen (lift_exn (prep_int Orm category_id)) (\<lambda>k.
     get_or_create (\<lambda>d. filter (\<lambda>c. Some (c_id c) = k) (t_categories d))
       (andThen (str_column Orm name) (\<lambda>n.
        andThen (db_insert Orm k (CategoryRow \<lparr>c_id = 0, c_name = n\<rparr>)) (\<lambda>i.
        ret \<lparr>c_id = i, c_name = n\<rparr>))))"

definition get_or_create_product ::
  "orm \<Rightarrow> pyval \<Rightarrow> (database, int) comp \<Rightarrow> (database, product \<times> bool) comp" where
  "get_or_create_product Orm name category =
     get_or_create (\<lambda>d. filter (\<lambda>p. Some (p_name p) = prep_str Orm name) (t_products d))
       (andThen (str_column Orm name) (\<lambda>n.
        andThen category (\<lambda>c.
        create Orm ProductRow (\<lambda>k. p_id_update (\<lambda>_. k)) \<lparr>p_id = 0, p_name = n, p_category = c\<rparr>)))"

definition get_or_create_parameter :: "orm \<Rightarrow> pyval \<Rightarrow> (database, parameter \<times> bool) comp" where
  "get_or_create_parameter Orm name =
     get_or_create (\<lambda>d. filter (\<lambda>p. Some (pa_name p) = prep_str Orm name) (t_parameters d))
       (andThen (str_column Orm name) (\<lambda>n.
        create Orm ParameterRow (\<lambda>k. pa_id_update (\<lambda>_. k)) \<lparr>pa_id = 0, pa_name = n\<rparr>))"

definition set_product_parameter ::
  "orm \<Rightarrow> product_info \<Rightarrow> parameter \<Rightarrow> pyval \<Rightarrow> (database, product_parameter \<times> bool) comp" where
  "set_product_parameter Orm info par v =
     update_or_create
       (\<lambda>d. filter (\<lambda>x. pp_info x = pi_id info \<and> pp_parameter x = pa_id par) (t_product_parameters d))
       (\<lambda>x. andThen (str_column Orm v) (\<lambda>s.
          andThen (db_save Orm (ProductParameterRow (x\<lparr>pp_value := s\<rparr>))) (\<lambda>_. ret (x\<lparr>pp_value := s\<rparr>))))
       (andThen (str_column Orm v) (\<lambda>s.
          create Orm ProductParameterRow (\<lambda>k. pp_id_update (\<lambda>_. k))
            \<lparr>pp_id = 0, pp_info = pi_id info, pp_parameter = pa_id par, pp_value = s\<rparr>))"

section \<open>\<open>load_data\<close>\<close>

text \<open>The YAML document behind a path or a URL, or the early return for a bad URL.\<close>

definition read_source :: "services \<Rightarrow> string \<Rightarrow> (database, load_error + pyval) comp" where
  "read_source Srv path =
     andThen (lift_exn (url_parts Srv path)) (\<lambda>(scheme, netloc).
     if scheme \<noteq> [] \<and> netloc \<noteq> [] then
       (case url_valid Srv path of
          Inl e \<Rightarrow> if e = ValidationError then ret (Inl Bad_url) else raise e
        | Inr _ \<Rightarrow>
            andThen (lift_exn (open_url Srv path)) (\<lambda>text.
            andThen (lift_exn (yaml_load Srv text)) (\<lambda>data. ret (Inr data))))
     else
       andThen (lift_exn (open_file Srv path)) (\<lambda>text.
       andThen (lift_exn (yaml_load Srv text)) (\<lambda>data. ret (Inr data))))"

text \<open>The first required key that is not in the document.\<close>

fun first_missing :: "string list \<Rightarrow> pyval \<Rightarrow> exn + string option" where
  "first_missing [] data = Inr None"
| "first_missing (k # ks) data = (case py_contains data k of
       Inl e \<Rightarrow> Inl e
     | Inr b \<Rightarrow> if b then first_missing ks data else Inr (Some k))"

definition link_category :: "orm \<Rightarrow> category \<Rightarrow> shop \<Rightarrow> (database, unit) comp" where
  "link_category Orm cat shop =
     andThen (query (\<lambda>d. list_ex (\<lambda>x. cs_category x = c_id cat \<and> cs_shop x = s_id shop) (t_category_shops d))) (\<lambda>linked.
     if linked then ret ()
     else
       andThen (create Orm CategoryShopRow (\<lambda>k. cs_id_update (\<lambda>_. k))
         \<lparr>cs_id = 0, cs_category = c_id cat, cs_shop = s_id shop\<rparr>) (\<lambda>_. ret ()))"

definition load_category :: "orm \<Rightarrow> shop \<Rightarrow> pyval \<Rightarrow> (database, unit) comp" where
  "load_category Orm shop category_data =
     andThen (lift_exn (py_get category_data ''id'' PNone)) (\<lambda>category_id.
     andThen (lift_exn (py_get category_data ''name'' PNone)) (\<lambda>category_name.
     if \<not> py_true category_id \<or> \<not> py_true category_name then ret ()
     else
       andThen (get_or_create_category Orm category_id category_name) (\<lambda>(category_obj, _).
       link_category Orm category_obj shop)))"

text \<open>
  \<^verbatim>\<open>ProductInfo.objects.update_or_create(external_id=..., shop=..., defaults={...})\<close>: values are
  converted before the statement runs, a NULL is refused by the database.
\<close>

definition set_product_info ::
  "orm \<Rightarrow> shop \<Rightarrow> pyval \<Rightarrow> product \<Rightarrow> pyval \<Rightarrow> pyval \<Rightarrow> pyval \<Rightarrow> pyval \<Rightarrow> (database, product_info \<times> bool) comp" where
  "set_product_info Orm shop external_id product model_name quantity price price_rrc =
     andThen (lift_exn (prep_int Orm external_id)) (\<lambda>ext.
     let convert = (\<lambda>k. andThen (lift_exn (prep_int Orm quantity)) (\<lambda>q.
           andThen (lift_exn (prep_int Orm price)) (\<lambda>p.
           andThen (lift_exn (prep_int Orm price_rrc)) (\<lambda>r.
           andThen (str_column Orm model_name) (\<lambda>m.
           andThen (not_null q) (\<lambda>q. andThen (not_null p) (\<lambda>p. andThen (not_null r) (\<lambda>r. k m q p r))))))))
     in update_or_create
       (\<lambda>d. filter (\<lambda>x. Some (pi_external_id x) = ext \<and> pi_shop x = s_id shop) (t_product_infos d))
       (\<lambda>x. convert (\<lambda>m q p r.
          let x' = x\<lparr>pi_product := p_id product, pi_model := m, pi_price := p, pi_price_rrc := r, pi_quantity := q\<rparr>
          in andThen (db_save Orm (ProductInfoRow x')) (\<lambda>_. ret x')))
       (convert (\<lambda>m q p r.
          andThen (not_null ext) (\<lambda>e.
          create Orm ProductInfoRow (\<lambda>k. pi_id_update (\<lambda>_. k))
            \<lparr>pi_id = 0, pi_model = m, pi_external_id = e, pi_product = p_id product, pi_shop = s_id shop,
             pi_quantity = q, pi_price = p, pi_price_rrc = r\<rparr>))))"

definition load_parameter :: "orm \<Rightarrow> product_info \<Rightarrow> pyval \<times> pyval \<Rightarrow> (database, unit) comp" where
  "load_parameter Orm info nv = (case nv of (param_name, param_value) \<Rightarrow>
     if \<not> py_true param_name \<or> \<not> py_true param_value then ret ()
     else
       andThen (get_or_create_parameter Orm param_name) (\<lambda>(par, _).
       andThen (set_product_parameter Orm info par param_value) (\<lambda>_. ret ())))"

definition load_good :: "orm \<Rightarrow> shop \<Rightarrow> pyval \<Rightarrow> (database, unit) comp" where
  "load_good Orm shop item =
     andThen (lift_exn (py_get item ''name'' PNone)) (\<lambda>product_name.
     andThen (lift_exn (py_get item ''category'' PNone)) (\<lambda>category_id.
     andThen (lift_exn (py_get item ''id'' PNone)) (\<lambda>external_id.
     andThen (lift_exn (py_get item ''model'' (PStr []))) (\<lambda>model_name.
     andThen (lift_exn (py_get item ''price'' PNone)) (\<lambda>price.
     andThen (lift_exn (py_get item ''price_rrc'' PNone)) (\<lambda>price_rrc.
     andThen (lift_exn (py_get item ''quantity'' PNone)) (\<lambda>quantity.
     andThen (lift_exn (py_get item ''parameters'' (PDict []))) (\<lambda>parameters.
     if \<not> list_all py_true [product_name, category_id, external_id, price, quantity] then ret ()
     else
       andThen (get_or_create_product Orm product_name (int_column Orm category_id)) (\<lambda>(product, _).
       andThen (set_product_info Orm shop external_id product model_name quantity price price_rrc) (\<lambda>(info, _).
       andThen (lift_exn (py_items parameters)) (\<lambda>kvs.
       for_each (load_parameter Orm info) kvs)))))))))))"

definition load_document :: "orm \<Rightarrow> int option \<Rightarrow> pyval \<Rightarrow> (database, load_result) comp" where
  "load_document Orm user_id data =
     andThen (lift_exn (first_missing [''shop'', ''categories'', ''goods''] data)) (\<lambda>missing.
     case missing of
       Some key \<Rightarrow> ret (Load_failed (Missing_key key))
     | None \<Rightarrow>
         andThen (lift_exn (py_index data ''shop'')) (\<lambda>shop_name.
         andThen (lift_exn (py_index data ''categories'')) (\<lambda>categories_data.
         andThen (lift_exn (py_index data ''goods'')) (\<lambda>goods_data.
         andThen (get_or_create_shop Orm shop_name (if user_id = Some 0 then None else user_id)) (\<lambda>(shop, created).
         andThen (lift_exn (py_iter categories_data)) (\<lambda>categories.
         andThen (for_each (load_category Orm shop) categories) (\<lambda>_.
         andThen (query (\<lambda>d. map pi_id (filter (\<lambda>x. pi_shop x = s_id shop) (t_product_infos d)))) (\<lambda>old.
         andThen (db_delete Orm ProductInfoM old) (\<lambda>deleted_count.
         andThen (lift_exn (py_iter goods_data)) (\<lambda>goods.
         andThen (for_each (load_good Orm shop) goods) (\<lambda>_.
         ret Loaded)))))))))))"

text \<open>The exception clauses of \<^verbatim>\<open>load_data\<close>.\<close>

definition load_data :: "orm \<Rightarrow> services \<Rightarrow> string \<Rightarrow> int option \<Rightarrow> (database, load_result) comp" where
  "load_data Orm Srv path user_id =
     try_except
       (andThen (read_source Srv path) (\<lambda>r.
        case r of Inl e \<Rightarrow> ret (Load_failed e) | Inr data \<Rightarrow> load_document Orm user_id data))
       (\<lambda>e. ret (Load_failed
          (if e = FileNotFoundError then File_missing else if e = YAMLError then Yaml_error else Unexpected e)))"

text \<open>\<^verbatim>\<open>Command.handle\<close> of \<^verbatim>\<open>load_db\<close>.\<close>

definition load_db_command :: "orm \<Rightarrow> services \<Rightarrow> string \<Rightarrow> (database, unit) comp" where
  "load_db_command Orm Srv file_path =
     andThen (load_data Orm Srv file_path None) (\<lambda>r.
     case r of Loaded \<Rightarrow> ret () | Load_failed _ \<Rightarrow> raise CommandError)"

section \<open>The Celery import\<close>

text \<open>The counters, in the order products, categories, parameters.\<close>

type_synonym import_stats = "int \<times> int \<times> int"

definition import_category :: "orm \<Rightarrow> int \<Rightarrow> pyval \<Rightarrow> (database, int) comp" where
  "import_category Orm n cat_data =
     andThen (lift_exn (py_index cat_data ''id'')) (\<lambda>category_id.
     andThen (lift_exn (py_index cat_data ''name'')) (\<lambda>name.
     andThen (get_or_create_category Orm category_id name) (\<lambda>_. ret (n + 1))))"

text \<open>
  The defaults here have no \<^verbatim>\<open>price_rrc\<close>: an existing position keeps its own, a new one is
  inserted with NULL in that column.
\<close>

definition import_product_info ::
  "orm \<Rightarrow> shop \<Rightarrow> pyval \<Rightarrow> product \<Rightarrow> pyval \<Rightarrow> pyval \<Rightarrow> (database, product_info \<times> bool) comp" where
  "import_product_info Orm shop external_id product quantity price =
     andThen (lift_exn (prep_int Orm external_id)) (\<lambda>ext.
     let convert = (\<lambda>k. andThen (lift_exn (prep_int Orm quantity)) (\<lambda>q.
           andThen (lift_exn (prep_int Orm price)) (\<lambda>p.
           andThen (not_null q) (\<lambda>q. andThen (not_null p) (\<lambda>p. k q p)))))
     in update_or_create
       (\<lambda>d. filter (\<lambda>x. Some (pi_external_id x) = ext \<and> pi_shop x = s_id shop) (t_product_infos d))
       (\<lambda>x. convert (\<lambda>q p.
          let x' = x\<lparr>pi_product := p_id product, pi_quantity := q, pi_price := p\<rparr>
          in andThen (db_save Orm (ProductInfoRow x')) (\<lambda>_. ret x')))
       (convert (\<lambda>q p. not_null None)))"

definition import_parameter ::
  "orm \<Rightarrow> shop \<Rightarrow> pyval \<Rightarrow> int \<Rightarrow> pyval \<times> pyval \<Rightarrow> (database, int) comp" where
  "import_parameter Orm shop external_id n nv = (case nv of (param_name, param_value) \<Rightarrow>
     andThen (get_or_create_parameter Orm param_name) (\<lambda>(par, _).
     andThen (lift_exn (prep_int Orm external_id)) (\<lambda>ext.
     andThen (get_one (\<lambda>d. filter (\<lambda>x. Some (pi_external_id x) = ext \<and> pi_shop x = s_id shop) (t_product_infos d))) (\<lambda>info.
     andThen (set_product_parameter Orm info par (PStr (str_of Orm param_value))) (\<lambda>_.
     ret (n + 1))))))"

definition import_good :: "orm \<Rightarrow> shop \<Rightarrow> int \<times> int \<Rightarrow> pyval \<Rightarrow> (database, int \<times> int) comp" where
  "import_good Orm shop counts good = (case counts of (products, parameters) \<Rightarrow>
     andThen (lift_exn (py_index good ''category'')) (\<lambda>category_id.
     andThen (lift_exn (prep_int Orm category_id)) (\<lambda>k.
     andThen (get_one (\<lambda>d. filter (\<lambda>c. Some (c_id c) = k) (t_categories d))) (\<lambda>category.
     andThen (lift_exn (py_index good ''name'')) (\<lambda>name.
     andThen (get_or_create_product Orm name (ret (c_id category))) (\<lambda>(product, _).
     andThen (lift_exn (py_index good ''id'')) (\<lambda>external_id.
     andThen (lift_exn (py_get good ''quantity'' (PInt 0))) (\<lambda>quantity.
     andThen (lift_exn (py_get good ''price'' (PInt 0))) (\<lambda>price.
     andThen (import_product_info Orm shop external_id product quantity price) (\<lambda>_.
     andThen (lift_exn (py_get good ''parameters'' (PDict []))) (\<lambda>ps.
     andThen (lift_exn (py_items ps)) (\<lambda>kvs.
     andThen (fold_each (import_parameter Orm shop external_id) parameters kvs) (\<lambda>parameters.
     ret (products + 1, parameters))))))))))))))"

definition import_body :: "orm \<Rightarrow> services \<Rightarrow> pyval \<Rightarrow> (database, import_stats) comp" where
  "import_body Orm Srv import_task_id =
     andThen (lift_exn (prep_int Orm import_task_id)) (\<lambda>k.
     andThen (get_one (\<lambda>d. filter (\<lambda>t. Some (it_id t) = k) (t_import_tasks d))) (\<lambda>task.
     andThen (lift_exn (read_file Srv (it_file task))) (\<lambda>text.
     andThen (lift_exn (yaml_load Srv text)) (\<lambda>data.
     andThen (lift_exn (py_get data ''shop'' (PStr ''Default Shop''))) (\<lambda>shop_name.
     andThen (get_or_create_shop Orm shop_name None) (\<lambda>(shop, _).
     andThen (lift_exn (py_get data ''categories'' (PList []))) (\<lambda>cs.
     andThen (lift_exn (py_iter cs)) (\<lambda>categories_data.
     andThen (fold_each (import_category Orm) 0 categories_data) (\<lambda>categories.
     andThen (lift_exn (py_get data ''goods'' (PList []))) (\<lambda>gs.
     andThen (lift_exn (py_iter gs)) (\<lambda>goods.
     andThen (fold_each (import_good Orm shop) (0, 0) goods) (\<lambda>(products, parameters).
     andThen (db_save Orm (ImportTaskRow (task\<lparr>it_is_processed := True, it_products := products,
       it_categories := categories, it_parameters := parameters\<rparr>))) (\<lambda>_.
     ret (products, categories, parameters))))))))))))))"

text \<open>\<^verbatim>\<open>do_import\<close> returns the counters, or False (\<open>None\<close>) after any exception.\<close>

definition do_import :: "orm \<Rightarrow> services \<Rightarrow> pyval \<Rightarrow> (database, import_stats option) comp" where
  "do_import Orm Srv import_task_id =
     try_except (andThen (import_body Orm Srv import_task_id) (\<lambda>s. ret (Some s))) (\<lambda>e. ret None)"

section \<open>Starting an import\<close>

definition trigger_import :: "orm \<Rightarrow> services \<Rightarrow> request \<Rightarrow> (world, response) comp" where
  "trigger_import Orm Srv rq =
     (if rq_user rq = None then raise NotAuthenticated
      else if \<not> rq_is_staff rq then raise PermissionDenied
      else
        andThen (on_db (data_get rq ''import_task_id'' PNone)) (\<lambda>import_task_id.
        if \<not> py_true import_task_id then ret (Resp 400 (Error Import_task_required))
        else try_except
          (andThen (lift_exn (prep_int Orm import_task_id)) (\<lambda>k.
           andThen (on_db (get_one (\<lambda>d. filter (\<lambda>t. Some (it_id t) = k) (t_import_tasks d)))) (\<lambda>task.
           if it_is_processed task then ret (Resp 400 (Error Import_already_processed))
           else
             andThen (delay Srv (Import import_task_id)) (\<lambda>task_id.
             ret (Resp 200 (Data (PDict [(PStr ''task_id'', PStr task_id), (PStr ''status'', PStr ''started''),
               (PStr ''import_task_id'', import_task_id)])))))))
          (\<lambda>e. if e = DoesNotExist then ret (Resp 404 (Error Import_task_not_found))
               else ret (Resp 500 (Error Import_failed_to_start)))))"

text \<open>\<^verbatim>\<open>ImportTaskAdmin.import_yaml_view\<close>: an upload stores the task and imports nothing.\<close>

datatype admin_reply = Uploaded int | Upload_failed exn | No_file | Upload_form

definition import_yaml_view :: "orm \<Rightarrow> bool \<Rightarrow> string option \<Rightarrow> int \<Rightarrow> (database, admin_reply) comp" where
  "import_yaml_view Orm is_post yaml_file now =
     (if \<not> is_post then ret Upload_form
      else case yaml_file of
        None \<Rightarrow> ret No_file
      | Some f \<Rightarrow> try_except
          (andThen (create Orm ImportTaskRow (\<lambda>k. it_id_update (\<lambda>_. k))
             \<lparr>it_id = 0, it_file = f, it_uploaded_at = now, it_is_processed = False, it_products = 0,
              it_categories = 0, it_parameters = 0\<rparr>) (\<lambda>task.
           ret (Uploaded (it_id task))))
          (\<lambda>e. ret (Upload_failed e)))"

end
