(* ===== verification/ImportSpec.thy ===== *)
theory ImportSpec
  imports Import
begin

text \<open>
  What the importers do. \<open>prices\<close> reads the positions as a map from shop and external id;
  \<open>load_data\<close> replaces the list of one shop by the complete goods of the document
  (\<open>replace_prices\<close>) and takes the order items of the old positions with it. The Celery import
  changes existing positions only: a document with a new good fails and its task stays
  unprocessed.
\<close>

section \<open>Every importer keeps the schema\<close>

context django
begin

lemma keeps_get_or_creates [keeps_intros]:
  "keeps db_ok (get_or_create_shop Orm name u)"
  "keeps db_ok (get_or_create_category Orm k name)"
  "keeps db_ok (get_or_create_parameter Orm name)"
  unfolding get_or_create_shop_def get_or_create_category_def get_or_create_parameter_def
  by (intro keeps_intros)+

lemma keeps_get_or_create_product [keeps_intros]:
  "keeps db_ok c \<Longrightarrow> keeps db_ok (get_or_create_product Orm name c)"
  unfolding get_or_create_product_def by (intro keeps_intros)

lemma keeps_set_product_parameter [keeps_intros]: "keeps db_ok (set_product_parameter Orm info par v)"
  unfolding set_product_parameter_def by (intro keeps_intros)

lemma keeps_set_product_info [keeps_intros]: "keeps db_ok (set_product_info Orm s e p m q pr rrc)"
  unfolding set_product_info_def Let_def by (intro keeps_intros)

lemma keeps_import_product_info [keeps_intros]: "keeps db_ok (import_product_info Orm s e p q pr)"
  unfolding import_product_info_def Let_def by (intro keeps_intros)

lemma keeps_load_parts [keeps_intros]:
  "keeps db_ok (link_category Orm c s)"
  "keeps db_ok (load_category Orm s x)"
  "keeps db_ok (load_parameter Orm info nv)"
  "keeps db_ok (load_good Orm s g)"
  unfolding link_category_def load_category_def load_parameter_def load_good_def
  by (intro keeps_intros)+

lemma keeps_import_parts [keeps_intros]:
  "keeps db_ok (import_category Orm n x)"
  "keeps db_ok (import_parameter Orm s e n nv)"
  "keeps db_ok (import_good Orm s c g)"
  unfolding import_category_def import_parameter_def import_good_def
  by (intro keeps_intros)+

lemma keeps_load_document [keeps_intros]: "keeps db_ok (load_document Orm u data)"
  unfolding load_document_def by (intro keeps_intros)

lemma keeps_do_import [keeps_intros]: "keeps db_ok (do_import Orm Srv k)"
  unfolding do_import_def import_body_def by (intro keeps_intros)

end

section \<open>The price list as a map\<close>

text \<open>
  What a position says, product name included, and the price lists of all shops: a partial map
  from shop and external id.
\<close>

type_synonym price_entry = "string option \<times> string \<times> int \<times> int \<times> int"

definition entry_of :: "database \<Rightarrow> product_info \<Rightarrow> price_entry" where
  "entry_of d x = (map_option p_name (find (\<lambda>p. p_id p = pi_product x) (t_products d)),
     pi_model x, pi_quantity x, pi_price x, pi_price_rrc x)"

definition prices :: "database \<Rightarrow> int \<times> int \<Rightarrow> price_entry option" where
  "prices d k = map_option (entry_of d) (find (\<lambda>x. pi_shop x = fst k \<and> pi_external_id x = snd k) (t_product_infos d))"

text \<open>The entry a good of the document stands for; an incomplete good stands for nothing.\<close>

definition good_get :: "pyval \<Rightarrow> string \<Rightarrow> pyval \<Rightarrow> pyval" where
  "good_get g k dflt = (case py_get g k dflt of Inl e \<Rightarrow> PNone | Inr v \<Rightarrow> v)"

definition good_complete :: "pyval \<Rightarrow> bool" where
  "good_complete g = list_all (\<lambda>k. py_true (good_get g k PNone)) [''name'', ''category'', ''id'', ''price'', ''quantity'']"

definition column_int :: "orm \<Rightarrow> pyval \<Rightarrow> int" where
  "column_int Orm v = (case prep_int Orm v of Inr (Some n) \<Rightarrow> n | _ \<Rightarrow> 0)"

definition column_str :: "orm \<Rightarrow> pyval \<Rightarrow> string" where
  "column_str Orm v = (case prep_str Orm v of Some s \<Rightarrow> s | None \<Rightarrow> [])"

definition good_entry :: "orm \<Rightarrow> pyval \<Rightarrow> int \<times> price_entry" where
  "good_entry Orm g = (column_int Orm (good_get g ''id'' PNone),
     Some (column_str Orm (good_get g ''name'' PNone)), column_str Orm (good_get g ''model'' (PStr [])),
     column_int Orm (good_get g ''quantity'' PNone), column_int Orm (good_get g ''price'' PNone),
     column_int Orm (good_get g ''price_rrc'' PNone))"

definition add_good :: "orm \<Rightarrow> int \<Rightarrow> pyval \<Rightarrow> (int \<times> int \<Rightarrow> price_entry option) \<Rightarrow> int \<times> int \<Rightarrow> price_entry option" where
  "add_good Orm s g m = (if good_complete g then m((s, fst (good_entry Orm g)) \<mapsto> snd (good_entry Orm g)) else m)"

text \<open>The price lists after replacing that of shop \<open>s\<close> by the goods; the last of equal ids counts.\<close>

definition replace_prices ::
  "orm \<Rightarrow> int \<Rightarrow> pyval list \<Rightarrow> (int \<times> int \<Rightarrow> price_entry option) \<Rightarrow> int \<times> int \<Rightarrow> price_entry option" where
  "replace_prices Orm s goods m = fold (add_good Orm s) goods (\<lambda>k. if fst k = s then None else m k)"

section \<open>What each step does to the price lists\<close>

definition same_prices :: "database \<Rightarrow> database \<Rightarrow> bool" where
  "same_prices d0 d \<longleftrightarrow> t_product_infos d = t_product_infos d0 \<and> t_products d = t_products d0"

lemma same_prices_refl: "same_prices d d"
  by (simp add: same_prices_def)

lemma same_prices_prices: "same_prices d0 d \<Longrightarrow> prices d = prices d0"
  by (rule ext) (simp add: same_prices_def prices_def entry_of_def [abs_def])

context django
begin

lemma keeps_insert_if:
  assumes "\<And>k d. I d \<Longrightarrow> I (put_row (with_pk k r) d)"
  shows "keeps I (db_insert Orm p r)"
proof (rule keepsI)
  fix d assume "I d"
  then show "I (snd (db_insert Orm p r d))"
    by (cases rule: insert_cases [of r d p]) (simp_all add: assms)
qed

lemma keeps_save_if:
  assumes "\<And>d. I d \<Longrightarrow> I (save_row r d)"
  shows "keeps I (db_save Orm r)"
proof (rule keepsI)
  fix d assume "I d"
  then show "I (snd (db_save Orm r d))"
    by (cases rule: save_cases [of r d]) (simp_all add: assms)
qed

lemma keeps_same_prices:
  "keeps (same_prices d0) (get_or_create_shop Orm name u)"
  "keeps (same_prices d0) (get_or_create_category Orm k name)"
  "keeps (same_prices d0) (get_or_create_parameter Orm name)"
  "keeps (same_prices d0) (link_category Orm c s)"
  "keeps (same_prices d0) (set_product_parameter Orm info par v)"
  unfolding get_or_create_shop_def get_or_create_category_def get_or_create_parameter_def link_category_def
    set_product_parameter_def
  by (intro keeps_intros keeps_insert_if keeps_save_if; simp add: same_prices_def save_row_def)+

lemma keeps_same_prices_loops:
  "keeps (same_prices d0) (load_category Orm s x)"
  "keeps (same_prices d0) (load_parameter Orm info nv)"
  unfolding load_category_def load_parameter_def
  by (intro keeps_intros keeps_same_prices)+

end

lemma find_snoc: "find P (xs @ [x]) = (case find P xs of None \<Rightarrow> if P x then Some x else None | Some y \<Rightarrow> Some y)"
  by (induction xs) auto

lemma entry_of_more_products:
  assumes "db_ok d" "x \<in> set (t_product_infos d)"
  shows "entry_of (d\<lparr>t_products := t_products d @ [p]\<rparr>) x = entry_of d x"
proof -
  have "refs_ok (ProductInfoRow x) d" using assms db_ok_refs [of d _ ProductInfoM] by simp
  then have "find (\<lambda>p. p_id p = pi_product x) (t_products d) \<noteq> None"
    by (auto simp: refs_ok_def find_None_iff)
  then show ?thesis by (auto simp: entry_of_def find_snoc)
qed

lemma prices_more_products:
  assumes "db_ok d"
  shows "prices (d\<lparr>t_products := t_products d @ [p]\<rparr>) = prices d"
proof
  fix k
  show "prices (d\<lparr>t_products := t_products d @ [p]\<rparr>) k = prices d k"
  proof (cases "find (\<lambda>x. pi_shop x = fst k \<and> pi_external_id x = snd k) (t_product_infos d)")
    case None
    then show ?thesis by (simp add: prices_def)
  next
    case (Some x)
    then have "x \<in> set (t_product_infos d)" using find_SomeD by fast
    with Some show ?thesis by (simp add: prices_def entry_of_more_products [OF assms])
  qed
qed

context django
begin

lemma product_obtained:
  assumes "db_ok d" "reads c" "get_or_create_product Orm name c d = (Inr (p, b), d')"
  shows "prices d' = prices d \<and> db_ok d' \<and> p \<in> set (t_products d') \<and> prep_str Orm name = Some (p_name p)"
proof -
  have "keeps db_ok c" using assms(2) by (rule reads_keeps_any)
  then have ok: "db_ok d'" using keeps_get_or_create_product assms(1,3) keeps_result by metis
  consider "filter (\<lambda>p. Some (p_name p) = prep_str Orm name) (t_products d) = []"
    | "filter (\<lambda>p. Some (p_name p) = prep_str Orm name) (t_products d) = [p]" "d' = d"
    using assms(3) by (auto simp: get_or_create_product_def get_or_create_def split: list.splits)
  then show ?thesis
  proof cases
    case 1
    then obtain n k where nk: "prep_str Orm name = Some n" "c d = (Inr k, d)"
      "create Orm ProductRow (\<lambda>k. p_id_update (\<lambda>_. k)) \<lparr>p_id = 0, p_name = n, p_category = k\<rparr> d = (Inr p, d')"
      using assms(3)
      by (auto simp: get_or_create_product_def get_or_create_def andThen_eq_Inr str_column_def not_null_def
          split: option.splits dest: readsD [OF assms(2)])
    let ?p = "\<lparr>p_id = 0, p_name = n, p_category = k\<rparr>"
    have "p_name p = n \<and> d' = d\<lparr>t_products := t_products d @ [p]\<rparr>"
      using nk(3) by (cases rule: insert_cases [of "ProductRow ?p" d None]) (auto simp: create_def)
    then show ?thesis using ok nk(1) prices_more_products [OF assms(1)] by auto
  next
    case 2
    then show ?thesis using ok by (auto dest: filter_singletonD)
  qed
qed

end

lemma prices_put_info:
  assumes "find (\<lambda>x. pi_shop x = pi_shop y \<and> pi_external_id x = pi_external_id y) (t_product_infos d) = None"
  shows "prices (d\<lparr>t_product_infos := t_product_infos d @ [y]\<rparr>) =
    (prices d)((pi_shop y, pi_external_id y) \<mapsto> entry_of d y)"
proof
  fix k
  have "entry_of (d\<lparr>t_product_infos := t_product_infos d @ [y]\<rparr>) = entry_of d"
    by (rule ext) (simp add: entry_of_def)
  then show "prices (d\<lparr>t_product_infos := t_product_infos d @ [y]\<rparr>) k =
      ((prices d)((pi_shop y, pi_external_id y) \<mapsto> entry_of d y)) k"
    using assms by (cases k) (auto simp: prices_def find_snoc split: option.splits)
qed

lemma find_replace:
  assumes "distinct (map key xs)" "x \<in> set xs" "key y = key x" "P y = P x"
  shows "find P (replace_by key y xs) = map_option (\<lambda>z. if z = x then y else z) (find P xs)"
proof -
  have "key z = key y \<longleftrightarrow> z = x" if "z \<in> set xs" for z
    using that assms(1-3) by (auto simp: distinct_map inj_on_def)
  then have "replace_by key y xs = map (\<lambda>z. if z = x then y else z) xs"
    by (simp add: replace_by_def)
  moreover have "find P (map (\<lambda>z. if z = x then y else z) xs) = map_option (\<lambda>z. if z = x then y else z) (find P xs)"
    using assms(4) by (induction xs) auto
  ultimately show ?thesis by simp
qed

lemma prices_replace_info:
  assumes "db_ok d" "x \<in> set (t_product_infos d)"
    and "filter (\<lambda>z. pi_external_id z = pi_external_id x \<and> pi_shop z = pi_shop x) (t_product_infos d) = [x]"
    and "pi_id y = pi_id x" "pi_shop y = pi_shop x" "pi_external_id y = pi_external_id x"
  shows "prices (d\<lparr>t_product_infos := replace_by pi_id y (t_product_infos d)\<rparr>) =
    (prices d)((pi_shop y, pi_external_id y) \<mapsto> entry_of d y)"
proof
  fix k
  let ?P = "\<lambda>z. pi_shop z = fst k \<and> pi_external_id z = snd k"
  have e: "entry_of (d\<lparr>t_product_infos := xs\<rparr>) = entry_of d" for xs
    by (rule ext) (simp add: entry_of_def)
  have f: "find ?P (replace_by pi_id y (t_product_infos d)) =
      map_option (\<lambda>z. if z = x then y else z) (find ?P (t_product_infos d))"
    by (rule find_replace) (use assms db_ok_distinct [OF assms(1), of ProductInfoM] in auto)
  have here: "find ?P (t_product_infos d) = Some x" if "k = (pi_shop x, pi_external_id x)"
    using assms(3) that by (simp add: find_filter conj_commute)
  have there: "z \<noteq> x" if "find ?P (t_product_infos d) = Some z" "k \<noteq> (pi_shop x, pi_external_id x)" for z
    using find_SomeD [OF that(1)] that(2) by (cases k) auto
  have left: "prices (d\<lparr>t_product_infos := replace_by pi_id y (t_product_infos d)\<rparr>) k =
      map_option (entry_of d) (map_option (\<lambda>z. if z = x then y else z) (find ?P (t_product_infos d)))"
    by (simp add: prices_def e f)
  show "prices (d\<lparr>t_product_infos := replace_by pi_id y (t_product_infos d)\<rparr>) k =
      ((prices d)((pi_shop y, pi_external_id y) \<mapsto> entry_of d y)) k"
  proof (cases "k = (pi_shop x, pi_external_id x)")
    case True
    then show ?thesis unfolding left here [OF True] using assms(5,6) by simp
  next
    case False
    then show ?thesis
      unfolding left using there assms(5,6)
      by (cases "find ?P (t_product_infos d)") (auto simp: prices_def)
  qed
qed

context django
begin

lemma entry_of_found:
  assumes "db_ok d" "p \<in> set (t_products d)" "pi_product x = p_id p"
  shows "entry_of d x = (Some (p_name p), pi_model x, pi_quantity x, pi_price x, pi_price_rrc x)"
proof -
  have "filter (\<lambda>q. p_id q = p_id p) (t_products d) = [p]"
    using filter_eq_single [of p_id "t_products d" p] assms(2) db_ok_distinct [OF assms(1), of ProductM] by simp
  then show ?thesis using assms(3) by (simp add: entry_of_def find_filter)
qed

lemma info_created:
  assumes "create Orm ProductInfoRow (\<lambda>k. pi_id_update (\<lambda>_. k)) x d = (Inr y, d')"
  shows "d' = d\<lparr>t_product_infos := t_product_infos d @ [y]\<rparr> \<and> (\<exists>k. y = x\<lparr>pi_id := k\<rparr>)"
  using assms by (cases rule: insert_cases [of "ProductInfoRow x" d None]) (auto simp: create_def)

lemma info_saved:
  assumes "db_save Orm (ProductInfoRow y) d = (Inr u, d')" "x \<in> set (t_product_infos d)" "pi_id y = pi_id x"
  shows "d' = d\<lparr>t_product_infos := replace_by pi_id y (t_product_infos d)\<rparr>"
  using assms by (cases rule: save_cases [of "ProductInfoRow y" d]) (auto simp: save_row_def)

lemma info_set:
  assumes "db_ok d" "p \<in> set (t_products d)"
    and run: "set_product_info Orm s ext p m q pr rrc d = (Inr r, d')"
  shows "prices d' = (prices d)((s_id s, column_int Orm ext) \<mapsto>
    (Some (p_name p), column_str Orm m, column_int Orm q, column_int Orm pr, column_int Orm rrc))"
proof -
  obtain e where e: "prep_int Orm ext = Inr e"
    using run by (auto simp: set_product_info_def andThen_eq_Inr)
  let ?F = "filter (\<lambda>x. Some (pi_external_id x) = e \<and> pi_shop x = s_id s) (t_product_infos d)"
  consider "?F = []" | x where "?F = [x]"
    using run e by (auto simp: set_product_info_def andThen_eq_Inr Let_def update_or_create_def split: list.splits)
  then show ?thesis
  proof cases
    case 1
    with run e obtain k qn pn rn mn y where vals: "prep_int Orm q = Inr (Some qn)" "prep_int Orm pr = Inr (Some pn)"
      "prep_int Orm rrc = Inr (Some rn)" "prep_str Orm m = Some mn" "e = Some k"
      and y: "create Orm ProductInfoRow (\<lambda>k. pi_id_update (\<lambda>_. k))
        \<lparr>pi_id = 0, pi_model = mn, pi_external_id = k, pi_product = p_id p, pi_shop = s_id s,
         pi_quantity = qn, pi_price = pn, pi_price_rrc = rn\<rparr> d = (Inr y, d')"
      by (auto simp: set_product_info_def Let_def andThen_eq_Inr str_column_def not_null_def split: option.splits)
    have none: "find (\<lambda>x. pi_shop x = s_id s \<and> pi_external_id x = k) (t_product_infos d) = None"
      using 1 vals(5) by (auto simp: find_None_iff filter_empty_conv)
    obtain i where d': "d' = d\<lparr>t_product_infos := t_product_infos d @ [y]\<rparr>" "y = \<lparr>pi_id = i, pi_model = mn,
        pi_external_id = k, pi_product = p_id p, pi_shop = s_id s, pi_quantity = qn, pi_price = pn, pi_price_rrc = rn\<rparr>"
      using info_created [OF y] by auto
    show ?thesis
      using prices_put_info [of y d] none d' entry_of_found [OF assms(1,2), of y] vals e
      by (simp add: column_int_def column_str_def)
  next
    case (2 x)
    then have x: "x \<in> set (t_product_infos d)" "Some (pi_external_id x) = e" "pi_shop x = s_id s"
      by (auto dest: filter_singletonD)
    from 2 run e obtain qn pn rn mn u where vals: "prep_int Orm q = Inr (Some qn)" "prep_int Orm pr = Inr (Some pn)"
      "prep_int Orm rrc = Inr (Some rn)" "prep_str Orm m = Some mn"
      and y: "db_save Orm (ProductInfoRow (x\<lparr>pi_product := p_id p, pi_model := mn, pi_price := pn,
         pi_price_rrc := rn, pi_quantity := qn\<rparr>)) d = (Inr u, d')"
      by (auto simp: set_product_info_def Let_def andThen_eq_Inr str_column_def not_null_def split: option.splits)
    let ?y = "x\<lparr>pi_product := p_id p, pi_model := mn, pi_price := pn, pi_price_rrc := rn, pi_quantity := qn\<rparr>"
    have "d' = d\<lparr>t_product_infos := replace_by pi_id ?y (t_product_infos d)\<rparr>"
      by (rule info_saved [OF y x(1)]) simp
    moreover have "filter (\<lambda>z. pi_external_id z = pi_external_id x \<and> pi_shop z = pi_shop x) (t_product_infos d) = [x]"
      using 2 x(3) unfolding x(2) [symmetric] by simp
    ultimately show ?thesis
      using prices_replace_info [OF assms(1) x(1), of ?y] entry_of_found [OF assms(1,2), of ?y] vals x e
      by (auto simp: column_int_def column_str_def)
  qed
qed

lemma load_good_step:
  assumes "db_ok d" "load_good Orm s g d = (Inr u, d')"
  shows "db_ok d' \<and> prices d' = add_good Orm (s_id s) g (prices d)"
proof
  show "db_ok d'" using keeps_load_parts(4) assms keeps_result by metis
  have g: "\<exists>v. py_get g k dflt = Inr v" if "py_get g ''name'' PNone = Inr w" for k dflt w
    using that by (cases g) auto
  obtain w where w: "py_get g ''name'' PNone = Inr w"
    using assms(2) by (auto simp: load_good_def andThen_eq_Inr)
  have get: "py_get g k dflt = Inr (good_get g k dflt)" for k dflt
    using g [OF w, of k dflt] by (auto simp: good_get_def)
  show "prices d' = add_good Orm (s_id s) g (prices d)"
  proof (cases "good_complete g")
    case False
    then show ?thesis using assms(2) by (auto simp: load_good_def get add_good_def good_complete_def split: if_splits)
  next
    case True
    then obtain p b d1 r d2 kvs info c where
      p: "get_or_create_product Orm (good_get g ''name'' PNone) (int_column Orm (good_get g ''category'' PNone)) d = (Inr (p, b), d1)"
      and i: "set_product_info Orm s (good_get g ''id'' PNone) p (good_get g ''model'' (PStr [])) (good_get g ''quantity'' PNone)
          (good_get g ''price'' PNone) (good_get g ''price_rrc'' PNone) d1 = (Inr (info, c), d2)"
      and l: "for_each (load_parameter Orm info) kvs d2 = (Inr u, d')"
      using assms(2) by (auto simp: load_good_def get good_complete_def andThen_eq_Inr)
    have p': "prices d1 = prices d" "db_ok d1" "p \<in> set (t_products d1)" "prep_str Orm (good_get g ''name'' PNone) = Some (p_name p)"
      using product_obtained [OF assms(1) reads_int_column p] by auto
    have "keeps (same_prices d2) (for_each (load_parameter Orm info) kvs)"
      by (intro keeps_for_each keeps_same_prices_loops)
    then have "prices d' = prices d2"
      using l same_prices_refl same_prices_prices keeps_result by metis
    then show ?thesis
      using info_set [OF p'(2,3) i] p' True by (simp add: add_good_def good_entry_def column_str_def)
  qed
qed

lemma load_goods:
  assumes "db_ok d" "for_each (load_good Orm s) gs d = (Inr u, d')"
  shows "prices d' = fold (add_good Orm (s_id s)) gs (prices d)"
  using assms
proof (induction gs arbitrary: d)
  case (Cons g gs)
  then obtain d1 where "load_good Orm s g d = (Inr (), d1)" "for_each (load_good Orm s) gs d1 = (Inr u, d')"
    by (auto simp: andThen_eq_Inr)
  moreover from this have "db_ok d1" "prices d1 = add_good Orm (s_id s) g (prices d)"
    using load_good_step [OF Cons(2)] by blast+
  ultimately show ?case using Cons(1) [of d1] by simp
qed simp

end

lemma find_filter_other: "(\<And>x. P x \<Longrightarrow> Q x) \<Longrightarrow> find P (filter Q xs) = find P xs"
  by (induction xs) auto

lemma infos_deleted:
  assumes "db_ok d"
  shows "t_product_infos (cascade_delete ProductInfoM (map pi_id (filter (\<lambda>x. pi_shop x = s) (t_product_infos d))) d) =
    filter (\<lambda>x. pi_shop x \<noteq> s) (t_product_infos d)"
proof -
  let ?ks = "map pi_id (filter (\<lambda>x. pi_shop x = s) (t_product_infos d))"
  have "pi_id x \<in> set ?ks \<longleftrightarrow> pi_shop x = s" if x: "x \<in> set (t_product_infos d)" for x
  proof
    assume "pi_id x \<in> set ?ks"
    then obtain y where "y \<in> set (t_product_infos d)" "pi_shop y = s" "pi_id y = pi_id x" by auto
    then show "pi_shop x = s"
      using x same_pk_same_row [OF db_ok_distinct [OF assms], of "ProductInfoRow x" ProductInfoM "ProductInfoRow y"] by simp
  qed (use x in auto)
  then show ?thesis
    unfolding cascade_delete_infos [OF assms] by (auto intro: filter_cong)
qed

lemma prices_deleted:
  assumes "db_ok d"
  shows "prices (cascade_delete ProductInfoM (map pi_id (filter (\<lambda>x. pi_shop x = s) (t_product_infos d))) d) =
    (\<lambda>k. if fst k = s then None else prices d k)"
proof
  fix k
  let ?d = "cascade_delete ProductInfoM (map pi_id (filter (\<lambda>x. pi_shop x = s) (t_product_infos d))) d"
  note infos = infos_deleted [OF assms, of s]
  have e: "entry_of ?d = entry_of d"
    unfolding cascade_delete_infos [OF assms] by (rule ext) (simp add: entry_of_def)
  show "prices ?d k = (if fst k = s then None else prices d k)"
  proof (cases "fst k = s")
    case True
    then show ?thesis by (simp add: prices_def infos find_None_iff)
  next
    case False
    then have "find (\<lambda>x. pi_shop x = fst k \<and> pi_external_id x = snd k) (filter (\<lambda>x. pi_shop x \<noteq> s) (t_product_infos d)) =
        find (\<lambda>x. pi_shop x = fst k \<and> pi_external_id x = snd k) (t_product_infos d)"
      by (intro find_filter_other) auto
    then show ?thesis using False by (simp add: prices_def infos e)
  qed
qed

context django
begin

text \<open>The whole document.\<close>

lemma shop_obtained:
  assumes "get_or_create_shop Orm name u d = (Inr (s, b), d')"
  shows "prep_str Orm name = Some (s_name s) \<and> s \<in> set (t_shops d') \<and> same_prices d d'"
proof -
  have same: "same_prices d d'"
    using assms keeps_same_prices(1) same_prices_refl keeps_result by metis
  consider "filter (\<lambda>s. Some (s_name s) = prep_str Orm name) (t_shops d) = []"
    | "filter (\<lambda>s. Some (s_name s) = prep_str Orm name) (t_shops d) = [s]" "d' = d"
    using assms by (auto simp: get_or_create_shop_def get_or_create_def split: list.splits)
  then show ?thesis
  proof cases
    case 1
    then obtain n where n: "prep_str Orm name = Some n"
      "create Orm ShopRow (\<lambda>k. s_id_update (\<lambda>_. k)) \<lparr>s_id = 0, s_name = n, s_url = None, s_user = u, s_state = True\<rparr> d = (Inr s, d')"
      using assms by (auto simp: get_or_create_shop_def get_or_create_def andThen_eq_Inr str_column_def not_null_def
          split: option.splits)
    then show ?thesis
      using same by (cases rule: insert_cases [of "ShopRow \<lparr>s_id = 0, s_name = n, s_url = None, s_user = u, s_state = True\<rparr>" d None])
        (auto simp: create_def)
  next
    case 2
    then show ?thesis using same by (auto dest: filter_singletonD)
  qed
qed

lemma keeps_shop_stored:
  "keeps (\<lambda>d. s \<in> set (t_shops d)) (load_category Orm s' x)"
  "keeps (\<lambda>d. s \<in> set (t_shops d)) (load_good Orm s' g)"
  unfolding load_category_def get_or_create_category_def link_category_def load_good_def
    get_or_create_product_def set_product_info_def Let_def load_parameter_def get_or_create_parameter_def
    set_product_parameter_def
  by (intro keeps_intros keeps_insert_if keeps_save_if; simp add: save_row_def)+

lemma keeps_items_stored:
  "keeps (\<lambda>d. t_order_items d = its) (get_or_create_shop Orm name u)"
  "keeps (\<lambda>d. t_order_items d = its) (load_category Orm s' x)"
  "keeps (\<lambda>d. t_order_items d = its) (load_good Orm s' g)"
  unfolding get_or_create_shop_def load_category_def get_or_create_category_def link_category_def load_good_def
    get_or_create_product_def set_product_info_def Let_def load_parameter_def get_or_create_parameter_def
    set_product_parameter_def
  by (intro keeps_intros keeps_insert_if keeps_save_if; simp add: save_row_def)+

lemma load_document_spec:
  assumes "db_ok d" "load_document Orm u data d = (Inr Loaded, d')"
  obtains name gv goods s where "py_index data ''shop'' = Inr name"
    "py_index data ''goods'' = Inr gv" "py_iter gv = Inr goods"
    "s \<in> set (t_shops d')" "prep_str Orm name = Some (s_name s)"
    "prices d' = replace_prices Orm (s_id s) goods (prices d)"
    "t_order_items d' =
      filter (\<lambda>it. oi_info it \<notin> pi_id ` {x \<in> set (t_product_infos d). pi_shop x = s_id s}) (t_order_items d)"
proof -
  obtain name gv cv cats goods s b d1 d2 d3 n where
    name: "py_index data ''shop'' = Inr name" and gv: "py_index data ''goods'' = Inr gv" "py_iter gv = Inr goods"
    and shop: "get_or_create_shop Orm name (if u = Some 0 then None else u) d = (Inr (s, b), d1)"
    and cats: "for_each (load_category Orm s) cats d1 = (Inr (), d2)"
    and del: "db_delete Orm ProductInfoM (map pi_id (filter (\<lambda>x. pi_shop x = s_id s) (t_product_infos d2))) d2 = (Inr n, d3)"
    and load: "for_each (load_good Orm s) goods d3 = (Inr (), d')"
    using assms(2) by (auto simp: load_document_def andThen_eq_Inr split: option.splits)
  have s: "prep_str Orm name = Some (s_name s)" "same_prices d d1" using shop_obtained [OF shop] by auto
  have d1: "db_ok d1" using keeps_get_or_creates(1) assms(1) shop keeps_result by metis
  have "keeps (same_prices d1) (for_each (load_category Orm s) cats)"
    by (intro keeps_for_each keeps_same_prices_loops)
  then have same: "same_prices d d2"
    using keeps_result [OF keeps_for_each [OF keeps_same_prices_loops(1)] s(2) cats] by blast
  then have p2: "prices d2 = prices d" by (rule same_prices_prices)
  have i2: "t_order_items d2 = t_order_items d"
    using keeps_result [OF keeps_for_each [OF keeps_items_stored(2)] keeps_result [OF keeps_items_stored(1) refl shop] cats] .
  have "keeps db_ok (for_each (load_category Orm s) cats)" by (intro keeps_intros)
  then have d2: "db_ok d2" using d1 cats keeps_result by metis
  have d3: "d3 = cascade_delete ProductInfoM (map pi_id (filter (\<lambda>x. pi_shop x = s_id s) (t_product_infos d2))) d2"
    using del delete_cascades [OF d2] by simp
  then have "db_ok d3" using db_ok_cascade_delete [OF d2] by simp
  from load_goods [OF this load]
  have "prices d' = replace_prices Orm (s_id s) goods (prices d)"
    unfolding d3 prices_deleted [OF d2] p2 replace_prices_def .
  moreover have "s \<in> set (t_shops d')"
  proof -
    have "s \<in> set (t_shops d2)"
      using keeps_result [OF keeps_for_each [OF keeps_shop_stored(1)] shop_obtained [OF shop, THEN conjunct2, THEN conjunct1] cats] .
    then have "s \<in> set (t_shops d3)" unfolding d3 cascade_delete_infos [OF d2] by simp
    from keeps_result [OF keeps_for_each [OF keeps_shop_stored(2)] this load] show ?thesis .
  qed
  moreover have "t_order_items d' =
      filter (\<lambda>it. oi_info it \<notin> pi_id ` {x \<in> set (t_product_infos d). pi_shop x = s_id s}) (t_order_items d)"
    using keeps_result [OF keeps_for_each [OF keeps_items_stored(3)] refl load] i2 same
    unfolding d3 cascade_delete_infos [OF d2] by (simp add: same_prices_def)
  ultimately show thesis using that [OF name gv _ s(1)] by blast
qed

end

section \<open>The Celery import adds no position\<close>

text \<open>The key columns of the positions.\<close>

definition position_keys :: "database \<Rightarrow> (int \<times> int \<times> int) list" where
  "position_keys d = map (\<lambda>x. (pi_id x, pi_external_id x, pi_shop x)) (t_product_infos d)"

abbreviation (input) positions_are :: "(int \<times> int \<times> int) list \<Rightarrow> database \<Rightarrow> bool" where
  "positions_are ks d \<equiv> db_ok d \<and> position_keys d = ks"

lemma keeps_conj: "keeps I m \<Longrightarrow> keeps J m \<Longrightarrow> keeps (\<lambda>s. I s \<and> J s) m"
  by (auto simp: keeps_def)

context django
begin

lemma keeps_keys_insert:
  "model_of r \<noteq> ProductInfoM \<Longrightarrow> keeps (positions_are ks) (db_insert Orm p r)"
  by (intro keeps_conj keeps_insert keeps_insert_if; cases r; simp add: position_keys_def)

lemma keeps_keys_save:
  "model_of r \<noteq> ProductInfoM \<Longrightarrow> keeps (positions_are ks) (db_save Orm r)"
  by (intro keeps_conj keeps_save keeps_save_if; cases r; simp add: position_keys_def save_row_def)

lemma keeps_keys_parts:
  "keeps (positions_are ks) (get_or_create_shop Orm name u)"
  "keeps (positions_are ks) (import_category Orm n x)"
  "keeps (positions_are ks) (get_or_create_product Orm name (ret c))"
  "keeps (positions_are ks) (import_parameter Orm s e n nv)"
  unfolding get_or_create_shop_def import_category_def get_or_create_category_def get_or_create_product_def
    import_parameter_def get_or_create_parameter_def set_product_parameter_def
  by (intro keeps_intros keeps_keys_insert keeps_keys_save; simp)+

lemma keys_replaced:
  assumes "db_ok d" "x \<in> set (t_product_infos d)" "pi_id y = pi_id x" "pi_shop y = pi_shop x" "pi_external_id y = pi_external_id x"
  shows "position_keys (d\<lparr>t_product_infos := replace_by pi_id y (t_product_infos d)\<rparr>) = position_keys d"
proof -
  have "z = x" if "z \<in> set (t_product_infos d)" "pi_id z = pi_id x" for z
    using that assms(2) same_pk_same_row [OF db_ok_distinct [OF assms(1)], of "ProductInfoRow z" ProductInfoM "ProductInfoRow x"] by simp
  then show ?thesis using assms(3-5) by (auto simp: position_keys_def replace_by_def)
qed

lemma position_of_keys:
  assumes "position_keys d1 = position_keys d" "x \<in> set (t_product_infos d1)"
  shows "\<exists>y \<in> set (t_product_infos d). pi_shop y = pi_shop x \<and> pi_external_id y = pi_external_id x"
proof -
  have "(pi_id x, pi_external_id x, pi_shop x) \<in> set (position_keys d1)"
    using assms(2) by (auto simp: position_keys_def)
  then have "(pi_id x, pi_external_id x, pi_shop x) \<in> set (position_keys d)" unfolding assms(1) .
  then show ?thesis by (auto simp: position_keys_def)
qed

text \<open>What updating an existing position does, and that there is no other way to succeed.\<close>

lemma import_info_run:
  assumes "db_ok d" "import_product_info Orm s ext p q pr d = (r, d')"
  shows "db_ok d' \<and> position_keys d' = position_keys d \<and>
    (\<forall>y. r = Inr y \<longrightarrow> (\<exists>x \<in> set (t_product_infos d). pi_shop x = s_id s \<and> prep_int Orm ext = Inr (Some (pi_external_id x))))"
proof -
  have ok: "db_ok d'" using keeps_import_product_info assms keeps_result by metis
  show ?thesis
  proof (cases "prep_int Orm ext")
    case (Inl e)
    then show ?thesis using assms by (auto simp: import_product_info_def)
  next
    case (Inr e)
    let ?F = "filter (\<lambda>x. Some (pi_external_id x) = e \<and> pi_shop x = s_id s) (t_product_infos d)"
    consider (none) "?F = []" | (one) x where "?F = [x]" | (many) x y zs where "?F = x # y # zs" by (metis list.exhaust)
    then show ?thesis
    proof cases
      case none
      then show ?thesis
        using assms Inr ok
        by (auto simp: import_product_info_def Let_def andThen_def not_null_def split: prod.splits sum.splits option.splits)
    next
      case (one x)
      then have x: "x \<in> set (t_product_infos d)" "Some (pi_external_id x) = e" "pi_shop x = s_id s"
        by (auto dest: filter_singletonD)
      have "position_keys d' = position_keys d"
      proof (cases "\<exists>qn pn. prep_int Orm q = Inr (Some qn) \<and> prep_int Orm pr = Inr (Some pn)")
        case True
        then obtain qn pn where qp: "prep_int Orm q = Inr (Some qn)" "prep_int Orm pr = Inr (Some pn)" by blast
        let ?y = "x\<lparr>pi_product := p_id p, pi_quantity := qn, pi_price := pn\<rparr>"
        have "d' = snd (db_save Orm (ProductInfoRow ?y) d)"
          using assms(2) Inr one qp
          by (cases "db_save Orm (ProductInfoRow ?y) d" rule: prod.exhaust [case_product sum.exhaust])
            (auto simp: import_product_info_def Let_def andThen_def split: sum.splits)
        then show ?thesis
          using keys_replaced [OF assms(1) x(1), of ?y] x(1)
          by (cases rule: save_cases [of "ProductInfoRow ?y" d]) (auto simp: save_row_def)
      next
        case False
        then have "d' = d"
          using assms(2) Inr one
          by (auto simp: import_product_info_def Let_def andThen_def not_null_def split: prod.splits sum.splits option.splits)
        then show ?thesis by simp
      qed
      then show ?thesis using ok x Inr by auto
    next
      case many
      then show ?thesis
        using assms Inr ok by (auto simp: import_product_info_def update_or_create_def Let_def andThen_def)
    qed
  qed
qed

lemma keeps_keys_import_good: "keeps (positions_are ks) (import_good Orm s c g)"
proof -
  have "keeps (positions_are ks) (import_product_info Orm s e p q pr)" for e p q pr
    by (rule keepsI) (use import_info_run in \<open>metis prod.collapse\<close>)
  then show ?thesis
    unfolding import_good_def by (intro keeps_intros keeps_keys_parts)
qed

lemma import_good_needs_position:
  assumes "db_ok d" "import_good Orm s c g d = (Inr c', d')" "py_index g ''id'' = Inr v"
  shows "\<exists>x \<in> set (t_product_infos d). pi_shop x = s_id s \<and> prep_int Orm v = Inr (Some (pi_external_id x))"
proof -
  obtain name k p b d1 q pr r d2 where
    p: "get_or_create_product Orm name (ret k) d = (Inr (p, b), d1)"
    and i: "import_product_info Orm s v p q pr d1 = (Inr r, d2)"
    using assms(2,3) by (auto simp: import_good_def andThen_eq_Inr get_one_eq_Inr split: prod.splits)
  have d1: "db_ok d1 \<and> position_keys d1 = position_keys d"
    using keeps_result [OF keeps_keys_parts(3) _ p] assms(1) by blast
  then obtain x where x: "x \<in> set (t_product_infos d1)" "pi_shop x = s_id s" "prep_int Orm v = Inr (Some (pi_external_id x))"
    using import_info_run [of d1 s v p q pr "Inr r" d2] i by blast
  then show ?thesis using position_of_keys [OF d1 [THEN conjunct2] x(1)] by metis
qed

lemma import_goods_need_positions:
  assumes "db_ok d" "fold_each (import_good Orm s) c gs d = (Inr c', d')" "g \<in> set gs" "py_index g ''id'' = Inr v"
  shows "\<exists>x \<in> set (t_product_infos d). pi_shop x = s_id s \<and> prep_int Orm v = Inr (Some (pi_external_id x))"
  using assms(1-3)
proof (induction gs arbitrary: c d)
  case (Cons h gs)
  then obtain c1 d1 where h: "import_good Orm s c h d = (Inr c1, d1)"
    and gs: "fold_each (import_good Orm s) c1 gs d1 = (Inr c', d')"
    by (auto simp: andThen_eq_Inr)
  have d1: "db_ok d1 \<and> position_keys d1 = position_keys d"
    using keeps_result [OF keeps_keys_import_good _ h] Cons(2) by blast
  show ?case
  proof (cases "g = h")
    case True
    then show ?thesis using import_good_needs_position [OF Cons(2) h] assms(4) by blast
  next
    case False
    then obtain x where x: "x \<in> set (t_product_infos d1)" "pi_shop x = s_id s" "prep_int Orm v = Inr (Some (pi_external_id x))"
      using Cons.IH [of d1 c1] d1 gs Cons(4) by auto
    then show ?thesis using position_of_keys [OF d1 [THEN conjunct2] x(1)] by metis
  qed
qed simp

end

section \<open>A failed import leaves its task\<close>

text \<open>\<open>keeps_failing I m\<close>: \<open>m\<close> preserves \<open>I\<close> when it raises.\<close>

definition keeps_failing :: "('s \<Rightarrow> bool) \<Rightarrow> ('s, 'a) comp \<Rightarrow> bool" where
  "keeps_failing I m \<longleftrightarrow> (\<forall>s e s'. I s \<longrightarrow> m s = (Inl e, s') \<longrightarrow> I s')"

lemma keeps_failing_ret: "keeps_failing I (ret x)"
  by (simp add: keeps_failing_def)

lemma keeps_failing_andThen:
  "keeps I m \<Longrightarrow> (\<And>x. keeps_failing I (f x)) \<Longrightarrow> keeps_failing I (andThen m f)"
  unfolding keeps_failing_def keeps_def andThen_eq_Inl by (metis snd_conv)

lemma keeps_failing_prod: "(\<And>x y. keeps_failing I (f x y)) \<Longrightarrow> keeps_failing I (case p of (x, y) \<Rightarrow> f x y)"
  by (cases p) auto

context django
begin

lemma keeps_failing_save: "keeps_failing I (andThen (db_save Orm r) (\<lambda>u. ret x))"
  unfolding keeps_failing_def
proof (intro allI impI)
  fix d e d' assume "I d" "andThen (db_save Orm r) (\<lambda>u. ret x) d = (Inl e, d')"
  then show "I d'" by (cases rule: save_cases [of r d]) auto
qed

lemma keeps_tasks_parts:
  "keeps (\<lambda>d. t_import_tasks d = ts) (get_or_create_shop Orm name u)"
  "keeps (\<lambda>d. t_import_tasks d = ts) (import_category Orm n x)"
  "keeps (\<lambda>d. t_import_tasks d = ts) (import_good Orm s c g)"
  unfolding get_or_create_shop_def import_category_def get_or_create_category_def import_good_def
    get_or_create_product_def import_product_info_def Let_def import_parameter_def get_or_create_parameter_def
    set_product_parameter_def
  by (intro keeps_intros keeps_insert_if keeps_save_if; simp add: save_row_def)+

lemma import_body_failing: "keeps_failing (\<lambda>d. t_import_tasks d = ts) (import_body Orm Srv k)"
  unfolding import_body_def
  by (intro keeps_failing_andThen keeps_failing_save keeps_failing_prod keeps_intros keeps_tasks_parts)

lemma do_import_failed:
  assumes "do_import Orm Srv k d = (Inr None, d')"
  shows "t_import_tasks d' = t_import_tasks d"
proof -
  obtain e where "import_body Orm Srv k d = (Inl e, d')"
    using assms by (auto simp: do_import_def try_except_def andThen_def split: prod.splits sum.splits)
  then show ?thesis using import_body_failing [of "t_import_tasks d" Srv k] unfolding keeps_failing_def by blast
qed

lemma do_import_returns:
  obtains s d' where "do_import Orm Srv k d = (Inr s, d')"
  by (cases "import_body Orm Srv k d"; cases "fst (import_body Orm Srv k d)")
    (auto simp: do_import_def try_except_def andThen_def)

lemma do_import_new_good:
  assumes "db_ok d" "filter (\<lambda>t. it_id t = k) (t_import_tasks d) = [task]"
    and "read_file Srv (it_file task) = Inr text" "yaml_load Srv text = Inr (PDict kvs)"
    and "map_of kvs (PStr ''goods'') = Some (PList goods)" "g \<in> set goods" "py_index g ''id'' = Inr (PInt e)"
    and "\<forall>x \<in> set (t_product_infos d). pi_external_id x \<noteq> e"
  shows "fst (do_import Orm Srv (PInt k) d) = Inr None"
proof (rule ccontr)
  assume "fst (do_import Orm Srv (PInt k) d) \<noteq> Inr None"
  then obtain st d' where "do_import Orm Srv (PInt k) d = (Inr (Some st), d')"
    by (cases rule: do_import_returns [of Srv "PInt k" d]; case_tac s; auto)
  then have run: "import_body Orm Srv (PInt k) d = (Inr st, d')"
    by (auto simp: do_import_def try_except_def andThen_def split: prod.splits sum.splits)
  obtain s name b d1 cats n d2 pr d3 where
    shop: "get_or_create_shop Orm name None d = (Inr (s, b), d1)"
    and cats: "fold_each (import_category Orm) 0 cats d1 = (Inr n, d2)"
    and gs: "fold_each (import_good Orm s) (0, 0) goods d2 = (Inr pr, d3)"
    using run assms(2-5)
    by (auto simp: import_body_def andThen_eq_Inr prep_int_PInt get_one_eq_Inr split: option.splits
        simp del: fold_each.simps)
  have d1: "db_ok d1 \<and> position_keys d1 = position_keys d"
    using keeps_result [OF keeps_keys_parts(1) _ shop] assms(1) by blast
  have d2: "db_ok d2 \<and> position_keys d2 = position_keys d"
    using keeps_result [OF keeps_fold_each [OF keeps_keys_parts(2)] d1 cats] .
  obtain x where x: "x \<in> set (t_product_infos d2)" "prep_int Orm (PInt e) = Inr (Some (pi_external_id x))"
    using import_goods_need_positions [OF _ gs assms(6,7)] d2 by blast
  then show False
    using position_of_keys [OF d2 [THEN conjunct2] x(1)] assms(8) prep_int_PInt by auto
qed

lemma do_import_keys:
  assumes "db_ok d" "do_import Orm Srv k d = (r, d')"
  shows "db_ok d' \<and> position_keys d' = position_keys d"
proof -
  have "keeps (positions_are (position_keys d)) (do_import Orm Srv k)"
    unfolding do_import_def import_body_def
    by (intro keeps_intros keeps_keys_parts keeps_keys_import_good keeps_keys_save) simp
  from keeps_result [OF this _ assms(2)] show ?thesis using assms(1) by blast
qed

end

section \<open>Results of the entry points\<close>

lemma reads_read_source [reads_intros]: "reads (read_source Srv path)"
  unfolding read_source_def by (auto intro!: reads_intros split: prod.splits sum.splits)

lemma load_data_Loaded:
  assumes "load_data Orm Srv path u d = (Inr Loaded, d')"
  obtains data where "read_source Srv path d = (Inr (Inr data), d)" "load_document Orm u data d = (Inr Loaded, d')"
proof -
  show thesis
    using assms that
    by (auto simp: load_data_def try_except_def andThen_def split: prod.splits sum.splits
        dest: readsD [OF reads_read_source])
qed

lemma load_document_missing:
  assumes "load_document Orm u data d = (Inr (Load_failed e), d')"
  shows "d' = d \<and> (\<exists>k. e = Missing_key k)"
  using assms by (auto simp: load_document_def andThen_eq_Inr split: option.splits prod.splits)

context django
begin

lemma load_data_returns:
  assumes "db_ok d"
  shows "\<exists>res d'. load_data Orm Srv path u d = (Inr res, d') \<and> db_ok d' \<and>
    (res = Load_failed Bad_url \<or> (\<exists>k. res = Load_failed (Missing_key k)) \<longrightarrow> d' = d)"
proof (cases "read_source Srv path d")
  case (Pair r d1)
  then have d1: "d1 = d" using readsD [OF reads_read_source] by blast
  show ?thesis
  proof (cases r)
    case (Inl e)
    then show ?thesis using Pair d1 assms by (simp add: load_data_def)
  next
    case (Inr s)
    show ?thesis
    proof (cases s)
      case (Inl e)
      then show ?thesis using Pair d1 Inr assms by (simp add: load_data_def)
    next
      case (Inr data)
      obtain q d2 where run: "load_document Orm u data d = (q, d2)" by fastforce
      then have "db_ok d2" using keeps_load_document assms keeps_result by metis
      then show ?thesis
        using Pair d1 Inr \<open>r = Inr s\<close> run load_document_missing [of Orm u data d _ d2]
        by (cases q) (auto simp: load_data_def)
    qed
  qed
qed

lemma import_yaml_spec:
  assumes "import_yaml_view Orm is_post file now d = (r, d')"
  shows "case (is_post, file) of
      (True, Some f) \<Rightarrow> (\<exists>k. k \<notin> set (pks ImportTaskM d) \<and> r = Inr (Uploaded k) \<and>
          d' = d\<lparr>t_import_tasks := t_import_tasks d @ [\<lparr>it_id = k, it_file = f, it_uploaded_at = now,
            it_is_processed = False, it_products = 0, it_categories = 0, it_parameters = 0\<rparr>]\<rparr>)
    | (True, None) \<Rightarrow> r = Inr No_file \<and> d' = d
    | (False, _) \<Rightarrow> r = Inr Upload_form \<and> d' = d"
proof (cases "is_post \<and> file \<noteq> None")
  case True
  then obtain f where f: "file = Some f" by auto
  let ?t = "\<lparr>it_id = 0, it_file = f, it_uploaded_at = now, it_is_processed = False, it_products = 0,
    it_categories = 0, it_parameters = 0\<rparr>"
  let ?k = "db_new_pk Orm ImportTaskM d"
  have "row_ok (ImportTaskRow (?t\<lparr>it_id := ?k\<rparr>)) d"
    by (simp add: row_ok_def positive_ok_def refs_ok_def unique_ok_def list_all_iff)
  then have "db_insert Orm None (ImportTaskRow ?t) d =
      (Inr ?k, d\<lparr>t_import_tasks := t_import_tasks d @ [?t\<lparr>it_id := ?k\<rparr>]\<rparr>)"
    using insert_new_ok [of "ImportTaskRow ?t" d] by simp
  then show ?thesis
    using assms True f new_pk_fresh [of ImportTaskM d] by (auto simp: import_yaml_view_def create_def)
qed (use assms in \<open>auto simp: import_yaml_view_def split: option.splits bool.splits\<close>)

end

lemma delay_queue:
  "delay Srv t w = (case broker Srv t of Inl e \<Rightarrow> (Inl e, w) | Inr k \<Rightarrow> (Inr k, w\<lparr>w_queue := w_queue w @ [t]\<rparr>))"
  by (simp add: delay_def split: sum.splits)

text \<open>What a request to start an import can do to the database and the queue.\<close>

lemma trigger_import_cases:
  assumes "trigger_import Orm Srv rq w = (r, w')"
  shows "w_db w' = w_db w \<and>
    (w_queue w' = w_queue w \<or>
     (\<exists>v k task. rq_is_staff rq \<and> rq_user rq \<noteq> None \<and> prep_int Orm v = Inr (Some k) \<and>
        filter (\<lambda>t. it_id t = k) (t_import_tasks (w_db w)) = [task] \<and> \<not> it_is_processed task \<and>
        w_queue w' = w_queue w @ [Import v]))"
proof (cases "rq_user rq = None \<or> \<not> rq_is_staff rq")
  case True
  then show ?thesis using assms by (auto simp: trigger_import_def split: if_splits)
next
  case False
  show ?thesis
  proof (cases "py_get (rq_data rq) ''import_task_id'' PNone")
    case (Inl e)
    then show ?thesis using assms False by (auto simp: trigger_import_def on_db_def data_get_def)
  next
    case (Inr v)
    then have run: "on_db (data_get rq ''import_task_id'' PNone) w = (Inr v, w)"
      by (simp add: on_db_def data_get_def)
    let ?m = "andThen (lift_exn (prep_int Orm v)) (\<lambda>k.
           andThen (on_db (get_one (\<lambda>d. filter (\<lambda>t. Some (it_id t) = k) (t_import_tasks d)))) (\<lambda>task.
           if it_is_processed task then ret (Resp 400 (Error Import_already_processed))
           else
             andThen (delay Srv (Import v)) (\<lambda>task_id.
             ret (Resp 200 (Data (PDict [(PStr ''task_id'', PStr task_id), (PStr ''status'', PStr ''started''),
               (PStr ''import_task_id'', v)]))))))"
    have "w' = w \<or> w' = snd (?m w)"
      using assms False run by (auto simp: trigger_import_def try_except_def split: if_splits prod.splits sum.splits)
    moreover have "w_db (snd (?m w)) = w_db w \<and> (w_queue (snd (?m w)) = w_queue w \<or>
       (\<exists>k task. prep_int Orm v = Inr (Some k) \<and>
        filter (\<lambda>t. it_id t = k) (t_import_tasks (w_db w)) = [task] \<and> \<not> it_is_processed task \<and>
        w_queue (snd (?m w)) = w_queue w @ [Import v]))"
    proof (cases "prep_int Orm v")
      case (Inr k)
      let ?F = "filter (\<lambda>t. Some (it_id t) = k) (t_import_tasks (w_db w))"
      consider "?F = []" | t where "?F = [t]" | s t ts where "?F = s # t # ts" by (metis list.exhaust)
      then show ?thesis
      proof cases
        case (2 t)
        moreover from this have "k \<noteq> None" by (auto dest: filter_singletonD)
        ultimately show ?thesis
          using Inr by (cases "broker Srv (Import v)") (auto simp: on_db_def delay_queue)
      qed (use Inr in \<open>auto simp: on_db_def get_one_def\<close>)
    qed simp
    ultimately show ?thesis using False by auto
  qed
qed

end
