(* ===== verification/ImportProps.thy ===== *)
theory ImportProps
  imports ImportSpec
begin

text \<open>The properties of the importers.\<close>

section \<open>A document for the witnesses\<close>

definition good_of :: "string \<Rightarrow> int \<Rightarrow> int \<Rightarrow> int \<Rightarrow> pyval" where
  "good_of name ext price n = PDict [(PStr ''id'', PInt ext), (PStr ''category'', PInt 224),
     (PStr ''model'', PStr ''m''), (PStr ''name'', PStr name), (PStr ''price'', PInt price),
     (PStr ''price_rrc'', PInt (price + 10)), (PStr ''quantity'', PInt n),
     (PStr ''parameters'', PDict [(PStr ''Memory'', PInt 64)])]"

definition sample_document :: pyval where
  "sample_document = PDict [(PStr ''shop'', PStr ''Svyaznoy''),
     (PStr ''categories'', PList [PDict [(PStr ''id'', PInt 224), (PStr ''name'', PStr ''Smartphones'')]]),
     (PStr ''goods'', PList [good_of ''iPhone XR'' 4216313 60000 5, good_of ''Galaxy'' 77 50000 3,
        good_of ''Galaxy'' 77 49000 4, good_of ''Sold out'' 78 100 0])]"

definition import_services :: services where
  "import_services = test_services\<lparr>yaml_load := (\<lambda>s. Inr sample_document)\<rparr>"

definition import_db :: database where
  "import_db = sample_db\<lparr>t_import_tasks := [\<lparr>it_id = 5, it_file = ''f'', it_uploaded_at = 1,
     it_is_processed = False, it_products = 0, it_categories = 0, it_parameters = 0\<rparr>]\<rparr>"

lemma import_db_ok: "db_ok import_db"
  by (simp add: import_db_def db_ok_def all_models_def row_ok_def refs_ok_def unique_ok_def positive_ok_def
      sample_eval)

section \<open>Loading a price list\<close>

text \<open>C7: Loading replaces the price list of the shop. After a successful load there is a shop with
  the name of the document whose positions are exactly the complete goods of the document, read
  with their product names, the last one of equal ids; the positions of all other shops are as
  before. The order items of all users that referred to the old positions are gone, and only
  they.\<close>

theorem load_data_replaces_prices:
  assumes "django Orm" "db_ok d" "load_data Orm Srv path u d = (Inr Loaded, d')"
  shows "\<exists>data name gv goods s. read_source Srv path d = (Inr (Inr data), d) \<and>
    py_index data ''shop'' = Inr name \<and> py_index data ''goods'' = Inr gv \<and> py_iter gv = Inr goods \<and>
    s \<in> set (t_shops d') \<and> prep_str Orm name = Some (s_name s) \<and>
    prices d' = replace_prices Orm (s_id s) goods (prices d) \<and>
    t_order_items d' =
      filter (\<lambda>it. oi_info it \<notin> pi_id ` {x \<in> set (t_product_infos d). pi_shop x = s_id s}) (t_order_items d)"
proof -
  obtain data where data: "read_source Srv path d = (Inr (Inr data), d)" "load_document Orm u data d = (Inr Loaded, d')"
    using assms(3) by (rule load_data_Loaded)
  show ?thesis
    by (rule django.load_document_spec [OF assms(1,2) data(2)]) (use data(1) in blast)
qed

definition sample_shop :: shop where
  "sample_shop = \<lparr>s_id = 1, s_name = ''Svyaznoy'', s_url = None, s_user = None, s_state = True\<rparr>"

definition emptied_db :: database where
  "emptied_db = import_db\<lparr>t_product_infos := [], t_product_parameters := [], t_order_items := []\<rparr>"

definition sample_goods :: "pyval list" where
  "sample_goods = [good_of ''iPhone XR'' 4216313 60000 5, good_of ''Galaxy'' 77 50000 3,
        good_of ''Galaxy'' 77 49000 4, good_of ''Sold out'' 78 100 0]"

lemma load_steps:
  "get_or_create_shop sqlite (PStr ''Svyaznoy'') None import_db = (Inr (sample_shop, False), import_db)"
  "for_each (load_category sqlite sample_shop) [PDict [(PStr ''id'', PInt 224), (PStr ''name'', PStr ''Smartphones'')]] import_db =
    (Inr (), import_db)"
  "map pi_id (filter (\<lambda>x. pi_shop x = 1) (t_product_infos import_db)) = [1, 2]"
  by code_simp+
lemma load_goods_run: "fst (for_each (load_good sqlite sample_shop) sample_goods emptied_db) = Inr ()"
  by code_simp

lemma load_deleted: "\<exists>n. db_delete sqlite ProductInfoM [1, 2] import_db = (Inr n, emptied_db)"
  using sqlite.delete_cascades [OF import_db_ok, of ProductInfoM "[1, 2]"] cascade_delete_infos [OF import_db_ok, of "[1, 2]"]
  by (simp add: emptied_db_def import_db_def sample_eval)

lemma load_run: "\<exists>d'. load_data sqlite import_services ''f'' None import_db = (Inr Loaded, d')"
proof -
  obtain n where del: "db_delete sqlite ProductInfoM [1, 2] import_db = (Inr n, emptied_db)" using load_deleted ..
  obtain d' where goods: "for_each (load_good sqlite sample_shop) sample_goods emptied_db = (Inr (), d')"
    using load_goods_run by (metis prod.collapse)
  have "load_document sqlite None sample_document import_db = (Inr Loaded, d')"
    using del goods load_steps
    by (simp add: load_document_def sample_document_def sample_goods_def sample_shop_def)
  then show ?thesis
    by (simp add: load_data_def read_source_def import_services_def test_services_def)
qed

theorem load_data_replaces_prices_witness:
  "case load_data sqlite import_services ''f'' None import_db of (r, d') \<Rightarrow> r = Inr Loaded \<and>
    (\<exists>s \<in> set (t_shops d'). s_name s = ''Svyaznoy'' \<and>
       prices d' = replace_prices sqlite (s_id s) sample_goods (prices import_db))"
proof -
  obtain d' where run: "load_data sqlite import_services ''f'' None import_db = (Inr Loaded, d')" using load_run ..
  have src: "read_source import_services ''f'' import_db = (Inr (Inr sample_document), import_db)"
    by (simp add: read_source_def import_services_def test_services_def)
  have keys: "py_index sample_document ''shop'' = Inr (PStr ''Svyaznoy'')"
    "py_index sample_document ''goods'' = Inr (PList sample_goods)"
    by (simp_all add: sample_document_def sample_goods_def)
  show ?thesis
    using load_data_replaces_prices [OF sqlite.django_axioms import_db_ok run]
    by (auto simp: run src keys sqlite.prep_str_PStr)
qed

text \<open>C29: Loading never raises. Whatever the path, the document and the database, \<^verbatim>\<open>load_data\<close>
  returns a result and the schema holds afterwards; a bad URL or a missing key leaves the database
  as it was.\<close>

theorem load_data_total:
  assumes "django Orm" "db_ok d"
  shows "\<exists>res d'. load_data Orm Srv path u d = (Inr res, d') \<and> db_ok d' \<and>
    (res = Load_failed Bad_url \<or> (\<exists>k. res = Load_failed (Missing_key k)) \<longrightarrow> d' = d)"
  using django.load_data_returns [OF assms] by blast

theorem load_data_total_witness:
  "\<exists>res d'. load_data sqlite test_services ''f'' None sample_db = (Inr res, d') \<and> db_ok d'"
  using load_data_total [OF sqlite.django_axioms sample_db_ok] by blast

section \<open>The Celery import\<close>



text \<open>C23: A new good defeats the Celery import. If the document of a task lists a good whose external
  id no position has, the import of that task returns False, whatever else the document says.\<close>

theorem do_import_new_good_fails:
  assumes "django Orm" "db_ok d" "filter (\<lambda>t. it_id t = k) (t_import_tasks d) = [task]"
    and "read_file Srv (it_file task) = Inr text" "yaml_load Srv text = Inr (PDict kvs)"
    and "map_of kvs (PStr ''goods'') = Some (PList goods)" "g \<in> set goods" "py_index g ''id'' = Inr (PInt e)"
    and "\<forall>x \<in> set (t_product_infos d). pi_external_id x \<noteq> e"
  shows "fst (do_import Orm Srv (PInt k) d) = Inr None"
  by (rule django.do_import_new_good [OF assms])

theorem do_import_new_good_fails_witness:
  "fst (do_import sqlite import_services (PInt 5) import_db) = Inr None"
proof (rule do_import_new_good_fails [OF sqlite.django_axioms import_db_ok])
  show "filter (\<lambda>t. it_id t = 5) (t_import_tasks import_db) = [\<lparr>it_id = 5, it_file = ''f'', it_uploaded_at = 1,
     it_is_processed = False, it_products = 0, it_categories = 0, it_parameters = 0\<rparr>]"
    by (simp add: import_db_def)
  show "yaml_load import_services ''f'' = Inr (PDict [(PStr ''shop'', PStr ''Svyaznoy''),
     (PStr ''categories'', PList [PDict [(PStr ''id'', PInt 224), (PStr ''name'', PStr ''Smartphones'')]]),
     (PStr ''goods'', PList sample_goods)])"
    by (simp add: import_services_def sample_document_def sample_goods_def)
  show "good_of ''Galaxy'' 77 50000 3 \<in> set sample_goods" by (simp add: sample_goods_def)
  show "py_index (good_of ''Galaxy'' 77 50000 3) ''id'' = Inr (PInt 77)" by (simp add: good_of_def)
  show "\<forall>x \<in> set (t_product_infos import_db). pi_external_id x \<noteq> 77" by (simp add: import_db_def sample_eval)
qed (simp_all add: import_services_def test_services_def)

section \<open>Starting an import\<close>

text \<open>Starting an import. A request that may start one never changes the database; it queues
  exactly the import of the named task if that task exists and is not processed, and nothing in
  any other case; a user who is not staff gets nothing started.\<close>

theorem trigger_import_guarded:
  assumes "trigger_import Orm Srv rq w = (r, w')"
  shows "w_db w' = w_db w \<and>
    (w_queue w' = w_queue w \<or>
     (\<exists>v k task. rq_is_staff rq \<and> rq_user rq \<noteq> None \<and> prep_int Orm v = Inr (Some k) \<and>
        filter (\<lambda>t. it_id t = k) (t_import_tasks (w_db w)) = [task] \<and> \<not> it_is_processed task \<and>
        w_queue w' = w_queue w @ [Import v]))"
  using trigger_import_cases [OF assms] by blast

theorem trigger_import_guarded_witness:
  "w_queue (snd (trigger_import sqlite import_services (sample_request 1 [(PStr ''import_task_id'', PInt 5)])
     sample_world)) = []"
proof -
  obtain r w' where run: "trigger_import sqlite import_services (sample_request 1 [(PStr ''import_task_id'', PInt 5)])
     sample_world = (r, w')" by fastforce
  show ?thesis
    using trigger_import_guarded [OF run] unfolding run by (simp add: sample_request_def sample_world_def)
qed

text \<open>Uploading a file in the admin stores exactly one task, unprocessed and with zero counters,
  and imports nothing; without a file nothing is stored.\<close>

theorem upload_stores_task:
  assumes "django Orm" "import_yaml_view Orm is_post file now d = (r, d')"
  shows "case (is_post, file) of
      (True, Some f) \<Rightarrow> (\<exists>k. k \<notin> set (pks ImportTaskM d) \<and> r = Inr (Uploaded k) \<and>
          d' = d\<lparr>t_import_tasks := t_import_tasks d @ [\<lparr>it_id = k, it_file = f, it_uploaded_at = now,
            it_is_processed = False, it_products = 0, it_categories = 0, it_parameters = 0\<rparr>]\<rparr>)
    | (True, None) \<Rightarrow> r = Inr No_file \<and> d' = d
    | (False, _) \<Rightarrow> r = Inr Upload_form \<and> d' = d"
  by (rule django.import_yaml_spec [OF assms])

theorem upload_stores_task_witness:
  "\<exists>k. fst (import_yaml_view sqlite True (Some ''f'') 9 sample_db) = Inr (Uploaded k)"
proof -
  obtain r d' where run: "import_yaml_view sqlite True (Some ''f'') 9 sample_db = (r, d')" by fastforce
  show ?thesis using upload_stores_task [OF sqlite.django_axioms run] run by auto
qed

end
