(* ===== verification/Migrations.thy ===== *)
theory Migrations
  imports Schema
begin

text \<open>
  The declarations of \<^verbatim>\<open>backend/models.py\<close> and the migrations \<^verbatim>\<open>0001\<close> to \<^verbatim>\<open>0003\<close> as data. \<open>migrate\<close>
  applies a list of migrations, operation by operation as the documentation of Django describes
  them, to the models built so far. Shown here: the migrations run and build the declared models
  (\<open>migrations_build_models\<close>); the first one alone builds the models of the reference application
  (\<open>ref_migrated_same\<close>); and what the built schema demands of the stored rows, read off the
  declarations by \<open>schema_holds\<close>, is exactly the invariant \<open>db_ok\<close> that the theorems on the
  handlers use (\<open>db_ok_is_schema\<close>).
\<close>

section \<open>Field declarations\<close>

text \<open>
  What a field declaration says of the stored values; \<^verbatim>\<open>verbose_name\<close>, \<^verbatim>\<open>help_text\<close>, \<^verbatim>\<open>related_name\<close>
  and validators do not bear on them. A relation names the label of its target; each one in the
  sources is declared \<^verbatim>\<open>on_delete=CASCADE\<close>. The default of \<^verbatim>\<open>max_length\<close> of an \<^verbatim>\<open>EmailField\<close> is 254.
\<close>

datatype field_kind =
    BigAutoField
  | CharField nat
  | EmailField nat
  | URLField
  | FileField
  | BooleanField
  | DateTimeField
  | PositiveIntegerField
  | ForeignKey string
  | OneToOneField string
  | ManyToManyField string

datatype field_default = No_default | Default pyval | Now

record field_decl =
  fd_kind :: field_kind
  fd_null :: bool
  fd_blank :: bool
  fd_unique :: bool
  fd_default :: field_default
  fd_choices :: "string list"
  fd_auto_now_add :: bool

definition plain :: "field_kind \<Rightarrow> field_decl" where
  "plain k = \<lparr>fd_kind = k, fd_null = False, fd_blank = False, fd_unique = False, fd_default = No_default,
     fd_choices = [], fd_auto_now_add = False\<rparr>"

abbreviation blank :: "field_decl \<Rightarrow> field_decl" where
  "blank f \<equiv> f\<lparr>fd_blank := True\<rparr>"

abbreviation optional :: "field_decl \<Rightarrow> field_decl" where
  "optional f \<equiv> f\<lparr>fd_blank := True, fd_null := True\<rparr>"

abbreviation defaulting :: "pyval \<Rightarrow> field_decl \<Rightarrow> field_decl" where
  "defaulting v f \<equiv> f\<lparr>fd_default := Default v\<rparr>"

text \<open>A model: its fields, for each \<^verbatim>\<open>UniqueConstraint\<close> the fields that are unique together, and \<^verbatim>\<open>Meta.ordering\<close>.\<close>

record model_decl =
  md_fields :: "(string \<times> field_decl) list"
  md_unique :: "string list list"
  md_ordering :: "string list"

definition state_choices :: "string list" where
  "state_choices = map state_code [Basket, New, Confirmed, Assembled, Sent, Delivered, Canceled]"

definition type_choices :: "string list" where
  "type_choices = map user_type_code [ShopUser, Buyer]"

section \<open>The classes of models.py\<close>

definition user_decl :: model_decl where
  "user_decl = \<lparr>md_fields =
     [(''email'', (plain (EmailField 254))\<lparr>fd_unique := True\<rparr>),
      (''company'', blank (plain (CharField 40))),
      (''position'', blank (plain (CharField 40))),
      (''username'', plain (CharField 150)),
      (''is_active'', defaulting (PBool True) (plain BooleanField)),
      (''type'', (plain (CharField 5))\<lparr>fd_choices := type_choices, fd_default := Default (PStr ''buyer'')\<rparr>)],
     md_unique = [], md_ordering = [''email'']\<rparr>"

definition shop_decl :: model_decl where
  "shop_decl = \<lparr>md_fields =
     [(''name'', plain (CharField 50)),
      (''url'', optional (plain URLField)),
      (''user'', optional (plain (OneToOneField ''backend.user''))),
      (''state'', defaulting (PBool True) (plain BooleanField))],
     md_unique = [], md_ordering = [''-name'']\<rparr>"

definition category_decl :: model_decl where
  "category_decl = \<lparr>md_fields =
     [(''name'', plain (CharField 40)),
      (''shops'', blank (plain (ManyToManyField ''backend.shop'')))],
     md_unique = [], md_ordering = [''-name'']\<rparr>"

definition product_decl :: model_decl where
  "product_decl = \<lparr>md_fields =
     [(''name'', plain (CharField 80)),
      (''category'', blank (plain (ForeignKey ''backend.category'')))],
     md_unique = [], md_ordering = [''-name'']\<rparr>"

definition product_info_decl :: model_decl where
  "product_info_decl = \<lparr>md_fields =
     [(''model'', blank (plain (CharField 80))),
      (''external_id'', plain PositiveIntegerField),
      (''product'', blank (plain (ForeignKey ''backend.product''))),
      (''shop'', blank (plain (ForeignKey ''backend.shop''))),
      (''quantity'', plain PositiveIntegerField),
      (''price'', plain PositiveIntegerField),
      (''price_rrc'', plain PositiveIntegerField)],
     md_unique = [[''product'', ''shop'', ''external_id'']], md_ordering = []\<rparr>"

definition parameter_decl :: model_decl where
  "parameter_decl = \<lparr>md_fields = [(''name'', plain (CharField 40))], md_unique = [], md_ordering = [''-name'']\<rparr>"

definition product_parameter_decl :: model_decl where
  "product_parameter_decl = \<lparr>md_fields =
     [(''product_info'', blank (plain (ForeignKey ''backend.productinfo''))),
      (''parameter'', blank (plain (ForeignKey ''backend.parameter''))),
      (''value'', plain (CharField 100))],
     md_unique = [[''product_info'', ''parameter'']], md_ordering = []\<rparr>"

definition contact_decl :: model_decl where
  "contact_decl = \<lparr>md_fields =
     [(''user'', blank (plain (ForeignKey ''backend.user''))),
      (''city'', plain (CharField 50)),
      (''street'', plain (CharField 100)),
      (''house'', blank (plain (CharField 15))),
      (''structure'', blank (plain (CharField 15))),
      (''building'', blank (plain (CharField 15))),
      (''apartment'', blank (plain (CharField 15))),
      (''phone'', plain (CharField 20))],
     md_unique = [], md_ordering = []\<rparr>"

definition order_decl :: model_decl where
  "order_decl = \<lparr>md_fields =
     [(''user'', blank (plain (ForeignKey ''backend.user''))),
      (''dt'', (plain DateTimeField)\<lparr>fd_auto_now_add := True\<rparr>),
      (''state'', (plain (CharField 15))\<lparr>fd_choices := state_choices\<rparr>),
      (''contact'', optional (plain (ForeignKey ''backend.contact'')))],
     md_unique = [], md_ordering = [''-dt'']\<rparr>"

definition order_item_decl :: model_decl where
  "order_item_decl = \<lparr>md_fields =
     [(''order'', blank (plain (ForeignKey ''backend.order''))),
      (''product_info'', blank (plain (ForeignKey ''backend.productinfo''))),
      (''quantity'', plain PositiveIntegerField)],
     md_unique = [[''order_id'', ''product_info'']], md_ordering = []\<rparr>"

definition email_token_decl :: model_decl where
  "email_token_decl = \<lparr>md_fields =
     [(''user'', plain (ForeignKey ''backend.user'')),
      (''created_at'', (plain DateTimeField)\<lparr>fd_auto_now_add := True\<rparr>),
      (''key'', (plain (CharField 64))\<lparr>fd_unique := True\<rparr>)],
     md_unique = [], md_ordering = []\<rparr>"

definition import_task_decl :: model_decl where
  "import_task_decl = \<lparr>md_fields =
     [(''yaml_file'', plain FileField),
      (''uploaded_at'', (plain DateTimeField)\<lparr>fd_auto_now_add := True\<rparr>),
      (''is_processed'', defaulting (PBool False) (plain BooleanField)),
      (''products_count'', defaulting (PInt 0) (plain PositiveIntegerField)),
      (''categories_count'', defaulting (PInt 0) (plain PositiveIntegerField)),
      (''parameters_count'', defaulting (PInt 0) (plain PositiveIntegerField))],
     md_unique = [], md_ordering = [''-uploaded_at'']\<rparr>"

type_synonym schema = "(string \<times> model_decl) list"

definition models_py :: schema where
  "models_py = [(''backend.user'', user_decl), (''backend.shop'', shop_decl), (''backend.category'', category_decl),
     (''backend.product'', product_decl), (''backend.productinfo'', product_info_decl),
     (''backend.parameter'', parameter_decl), (''backend.productparameter'', product_parameter_decl),
     (''backend.contact'', contact_decl), (''backend.order'', order_decl), (''backend.orderitem'', order_item_decl),
     (''backend.confirmemailtoken'', email_token_decl), (''backend.importtask'', import_task_decl)]"

section \<open>Migrations\<close>

text \<open>
  The operations of a migration change the state of the models; an operation on a model or field
  that is not there, or a second model of one name, raises.
\<close>

datatype operation =
    CreateModel string "(string \<times> field_decl) list" "string list list" "string list"
  | AddField string string field_decl
  | AlterField string string field_decl
  | AddConstraint string "string list"

fun apply_operation :: "operation \<Rightarrow> schema \<Rightarrow> exn + schema" where
  "apply_operation (CreateModel m fs us os) st =
     (if m \<in> fst ` set st then Inl ValueError else Inr (st @ [(m, \<lparr>md_fields = fs, md_unique = us, md_ordering = os\<rparr>)]))"
| "apply_operation (AddField m f decl) st =
     (if m \<notin> fst ` set st then Inl KeyError
      else Inr (map (\<lambda>(n, md). if n = m then (n, md\<lparr>md_fields := md_fields md @ [(f, decl)]\<rparr>) else (n, md)) st))"
| "apply_operation (AlterField m f decl) st =
     (case map_of st m of
        None \<Rightarrow> Inl KeyError
      | Some md \<Rightarrow> if f \<notin> fst ` set (md_fields md) then Inl KeyError
          else Inr (map (\<lambda>(n, md). if n = m
            then (n, md\<lparr>md_fields := map (\<lambda>(g, x). if g = f then (g, decl) else (g, x)) (md_fields md)\<rparr>) else (n, md)) st))"
| "apply_operation (AddConstraint m us) st =
     (if m \<notin> fst ` set st then Inl KeyError
      else Inr (map (\<lambda>(n, md). if n = m then (n, md\<lparr>md_unique := md_unique md @ [us]\<rparr>) else (n, md)) st))"

fun apply_operations :: "operation list \<Rightarrow> schema \<Rightarrow> exn + schema" where
  "apply_operations [] st = Inr st"
| "apply_operations (x # xs) st = (case apply_operation x st of Inl e \<Rightarrow> Inl e | Inr st' \<Rightarrow> apply_operations xs st')"

record migration =
  mg_name :: "string \<times> string"
  mg_dependencies :: "(string \<times> string) list"
  mg_operations :: "operation list"

text \<open>A migration runs only after those it depends on.\<close>

fun migrate :: "migration list \<Rightarrow> (string \<times> string) list \<Rightarrow> schema \<Rightarrow> exn + schema" where
  "migrate [] applied st = Inr st"
| "migrate (m # ms) applied st =
     (if \<not> set (mg_dependencies m) \<subseteq> set applied then Inl ValueError
      else case apply_operations (mg_operations m) st of
        Inl e \<Rightarrow> Inl e
      | Inr st' \<Rightarrow> migrate ms (applied @ [mg_name m]) st')"

abbreviation auto_id :: "string \<times> field_decl" where
  "auto_id \<equiv> (''id'', plain BigAutoField)"

text \<open>The fields of the \<^verbatim>\<open>CreateModel\<close> operations.\<close>

type_synonym columns = "(string \<times> field_decl) list"

definition category_columns :: columns where
  "category_columns = [auto_id, (''name'', plain (CharField 40))]"

definition parameter_columns :: columns where
  "parameter_columns = [auto_id, (''name'', plain (CharField 40))]"

definition user_columns :: columns where
  "user_columns =
     [auto_id,
      (''password'', plain (CharField 128)),
      (''last_login'', optional (plain DateTimeField)),
      (''is_superuser'', defaulting (PBool False) (plain BooleanField)),
      (''first_name'', blank (plain (CharField 150))),
      (''last_name'', blank (plain (CharField 150))),
      (''is_staff'', defaulting (PBool False) (plain BooleanField)),
      (''date_joined'', (plain DateTimeField)\<lparr>fd_default := Now\<rparr>),
      (''email'', (plain (EmailField 254))\<lparr>fd_unique := True\<rparr>),
      (''company'', blank (plain (CharField 40))),
      (''position'', blank (plain (CharField 40))),
      (''username'', plain (CharField 150)),
      (''is_active'', defaulting (PBool False) (plain BooleanField)),
      (''type'', (plain (CharField 5))\<lparr>fd_choices := [''shop'', ''buyer''], fd_default := Default (PStr ''buyer'')\<rparr>),
      (''groups'', blank (plain (ManyToManyField ''auth.group''))),
      (''user_permissions'', blank (plain (ManyToManyField ''auth.permission'')))]"

definition token_columns :: columns where
  "token_columns =
     [auto_id,
      (''created_at'', (plain DateTimeField)\<lparr>fd_auto_now_add := True\<rparr>),
      (''key'', (plain (CharField 64))\<lparr>fd_unique := True\<rparr>),
      (''user'', plain (ForeignKey ''backend.user''))]"

definition contact_columns :: columns where
  "contact_columns =
     [auto_id,
      (''city'', plain (CharField 50)),
      (''street'', plain (CharField 100)),
      (''house'', blank (plain (CharField 15))),
      (''structure'', blank (plain (CharField 15))),
      (''building'', blank (plain (CharField 15))),
      (''apartment'', blank (plain (CharField 15))),
      (''phone'', plain (CharField 20)),
      (''user'', blank (plain (ForeignKey ''backend.user'')))]"

definition order_columns :: columns where
  "order_columns =
     [auto_id,
      (''dt'', (plain DateTimeField)\<lparr>fd_auto_now_add := True\<rparr>),
      (''state'', (plain (CharField 15))\<lparr>fd_choices :=
         [''basket'', ''new'', ''confirmed'', ''assembled'', ''sent'', ''delivered'', ''canceled'']\<rparr>),
      (''contact'', optional (plain (ForeignKey ''backend.contact''))),
      (''user'', blank (plain (ForeignKey ''backend.user'')))]"

definition product_columns :: columns where
  "product_columns =
     [auto_id, (''name'', plain (CharField 80)), (''category'', blank (plain (ForeignKey ''backend.category'')))]"

definition shop_columns :: columns where
  "shop_columns =
     [auto_id,
      (''name'', plain (CharField 50)),
      (''url'', optional (plain URLField)),
      (''state'', defaulting (PBool True) (plain BooleanField)),
      (''user'', optional (plain (OneToOneField ''backend.user'')))]"

definition product_info_columns :: columns where
  "product_info_columns =
     [auto_id,
      (''model'', blank (plain (CharField 80))),
      (''external_id'', plain PositiveIntegerField),
      (''quantity'', plain PositiveIntegerField),
      (''price'', plain PositiveIntegerField),
      (''price_rrc'', plain PositiveIntegerField),
      (''product'', blank (plain (ForeignKey ''backend.product''))),
      (''shop'', blank (plain (ForeignKey ''backend.shop'')))]"

definition order_item_columns :: columns where
  "order_item_columns =
     [auto_id,
      (''quantity'', plain PositiveIntegerField),
      (''order'', blank (plain (ForeignKey ''backend.order''))),
      (''product_info'', blank (plain (ForeignKey ''backend.productinfo'')))]"

definition product_parameter_columns :: columns where
  "product_parameter_columns =
     [auto_id,
      (''value'', plain (CharField 100)),
      (''parameter'', blank (plain (ForeignKey ''backend.parameter''))),
      (''product_info'', blank (plain (ForeignKey ''backend.productinfo'')))]"

definition import_task_columns :: columns where
  "import_task_columns =
     [auto_id,
      (''yaml_file'', plain FileField),
      (''uploaded_at'', (plain DateTimeField)\<lparr>fd_auto_now_add := True\<rparr>),
      (''is_processed'', defaulting (PBool False) (plain BooleanField)),
      (''products_count'', defaulting (PInt 0) (plain PositiveIntegerField)),
      (''categories_count'', defaulting (PInt 0) (plain PositiveIntegerField)),
      (''parameters_count'', defaulting (PInt 0) (plain PositiveIntegerField))]"

definition migration_0001 :: migration where
  "migration_0001 = \<lparr>mg_name = (''backend'', ''0001_initial''),
     mg_dependencies = [(''auth'', ''0012_alter_user_first_name_max_length'')],
     mg_operations =
       [CreateModel ''backend.category'' category_columns [] [''-name''],
        CreateModel ''backend.parameter'' parameter_columns [] [''-name''],
        CreateModel ''backend.user'' user_columns [] [''email''],
        CreateModel ''backend.confirmemailtoken'' token_columns [] [],
        CreateModel ''backend.contact'' contact_columns [] [],
        CreateModel ''backend.order'' order_columns [] [''-dt''],
        CreateModel ''backend.product'' product_columns [] [''-name''],
        CreateModel ''backend.shop'' shop_columns [] [''-name''],
        CreateModel ''backend.productinfo'' product_info_columns [] [],
        AddField ''backend.category'' ''shops'' (blank (plain (ManyToManyField ''backend.shop''))),
        CreateModel ''backend.orderitem'' order_item_columns [[''order_id'', ''product_info'']] [],
        CreateModel ''backend.productparameter'' product_parameter_columns [[''product_info'', ''parameter'']] [],
        AddConstraint ''backend.productinfo'' [''product'', ''shop'', ''external_id'']]\<rparr>"

definition migration_0002 :: migration where
  "migration_0002 = \<lparr>mg_name = (''backend'', ''0002_alter_user_is_active''),
     mg_dependencies = [(''backend'', ''0001_initial'')],
     mg_operations = [AlterField ''backend.user'' ''is_active'' (defaulting (PBool True) (plain BooleanField))]\<rparr>"

definition migration_0003 :: migration where
  "migration_0003 = \<lparr>mg_name = (''backend'', ''0003_importtask''),
     mg_dependencies = [(''backend'', ''0002_alter_user_is_active'')],
     mg_operations = [CreateModel ''backend.importtask'' import_task_columns [] [''-uploaded_at'']]\<rparr>"

definition migrated :: schema where
  "migrated = (case migrate [migration_0001, migration_0002, migration_0003]
       [(''auth'', ''0012_alter_user_first_name_max_length'')] [] of Inl e \<Rightarrow> [] | Inr st \<Rightarrow> st)"

section \<open>The migrations build the declared models\<close>

text \<open>What \<^verbatim>\<open>AbstractUser\<close> declares besides the fields of the class.\<close>

definition inherited_names :: "string list" where
  "inherited_names = [''password'', ''last_login'', ''is_superuser'', ''first_name'', ''last_name'', ''is_staff'',
     ''date_joined'', ''groups'', ''user_permissions'']"

definition same_model :: "string list \<Rightarrow> model_decl \<Rightarrow> model_decl \<Rightarrow> bool" where
  "same_model extra declared built \<longleftrightarrow>
     list_all (\<lambda>(f, d). map_of (md_fields built) f = Some d) (md_fields declared) \<and>
     set (map fst (md_fields built)) = set (map fst (md_fields declared)) \<union> set extra \<and>
     distinct (map fst (md_fields built)) \<and>
     map_of (md_fields built) ''id'' = Some (plain BigAutoField) \<and>
     set (md_unique built) = set (md_unique declared) \<and>
     md_ordering built = md_ordering declared"

definition same_schema :: "schema \<Rightarrow> schema \<Rightarrow> bool" where
  "same_schema declared built \<longleftrightarrow> set (map fst built) = set (map fst declared) \<and> distinct (map fst built) \<and>
     list_all (\<lambda>(m, x). case map_of built m of None \<Rightarrow> False
       | Some y \<Rightarrow> same_model (''id'' # (if m = ''backend.user'' then inherited_names else [])) x y) declared"

lemma migrated_run:
  "migrate [migration_0001, migration_0002, migration_0003] [(''auth'', ''0012_alter_user_first_name_max_length'')] [] =
     Inr migrated"
  by code_simp

lemma migrated_same: "same_schema models_py migrated"
  by code_simp


section \<open>The models of the reference application\<close>

text \<open>
  The classes of \<^verbatim>\<open>reference/netology_pd_diplom/backend/models.py\<close>. It declares every class but
  \<^verbatim>\<open>ImportTask\<close>, with the same fields; only \<^verbatim>\<open>is_active\<close> starts \<^verbatim>\<open>False\<close>.
\<close>

definition ref_user_decl :: model_decl where
  "ref_user_decl = \<lparr>md_fields =
     [(''email'', (plain (EmailField 254))\<lparr>fd_unique := True\<rparr>),
      (''company'', blank (plain (CharField 40))),
      (''position'', blank (plain (CharField 40))),
      (''username'', plain (CharField 150)),
      (''is_active'', defaulting (PBool False) (plain BooleanField)),
      (''type'', (plain (CharField 5))\<lparr>fd_choices := type_choices, fd_default := Default (PStr ''buyer'')\<rparr>)],
     md_unique = [], md_ordering = [''email'']\<rparr>"

definition ref_models_py :: schema where
  "ref_models_py = [(''backend.user'', ref_user_decl), (''backend.shop'', shop_decl), (''backend.category'', category_decl),
     (''backend.product'', product_decl), (''backend.productinfo'', product_info_decl),
     (''backend.parameter'', parameter_decl), (''backend.productparameter'', product_parameter_decl),
     (''backend.contact'', contact_decl), (''backend.order'', order_decl), (''backend.orderitem'', order_item_decl),
     (''backend.confirmemailtoken'', email_token_decl)]"

text \<open>The reference application has no migrations; the first one of the application builds exactly its models.\<close>

definition ref_migrated :: schema where
  "ref_migrated = (case migrate [migration_0001] [(''auth'', ''0012_alter_user_first_name_max_length'')] [] of
     Inl e \<Rightarrow> [] | Inr st \<Rightarrow> st)"

lemma ref_migrated_same: "same_schema ref_models_py ref_migrated"
  by code_simp


section \<open>What a schema demands of the tables\<close>

text \<open>
  Length limits, choices and formats are checked by forms and serializers, not by the tables, and
  are no part of it. A column that the rows of the model do not carry (\<^verbatim>\<open>last_login\<close>,
  \<^verbatim>\<open>date_joined\<close>) is not constrained.
\<close>

text \<open>The columns of a row. A constraint may also name the key column of a relation, as \<^verbatim>\<open>order_id\<close>.\<close>

definition nullable :: "('a \<Rightarrow> pyval) \<Rightarrow> 'a option \<Rightarrow> pyval" where
  "nullable c v = (case v of None \<Rightarrow> PNone | Some x \<Rightarrow> c x)"

primrec cells :: "row \<Rightarrow> (string \<times> pyval) list" where
  "cells (UserRow x) = [(''id'', PInt (u_id x)), (''email'', PStr (u_email x)), (''password'', PStr (u_password x)),
     (''first_name'', PStr (u_first_name x)), (''last_name'', PStr (u_last_name x)), (''company'', PStr (u_company x)),
     (''position'', PStr (u_position x)), (''username'', PStr (u_username x)), (''is_active'', PBool (u_is_active x)),
     (''is_staff'', PBool (u_is_staff x)), (''is_superuser'', PBool (u_is_superuser x)),
     (''type'', PStr (user_type_code (u_type x)))]"
| "cells (ShopRow x) = [(''id'', PInt (s_id x)), (''name'', PStr (s_name x)), (''url'', nullable PStr (s_url x)),
     (''user'', nullable PInt (s_user x)), (''state'', PBool (s_state x))]"
| "cells (CategoryRow x) = [(''id'', PInt (c_id x)), (''name'', PStr (c_name x))]"
| "cells (CategoryShopRow x) = [(''id'', PInt (cs_id x)), (''category'', PInt (cs_category x)), (''shop'', PInt (cs_shop x))]"
| "cells (ProductRow x) = [(''id'', PInt (p_id x)), (''name'', PStr (p_name x)), (''category'', PInt (p_category x))]"
| "cells (ProductInfoRow x) = [(''id'', PInt (pi_id x)), (''model'', PStr (pi_model x)),
     (''external_id'', PInt (pi_external_id x)), (''product'', PInt (pi_product x)), (''shop'', PInt (pi_shop x)),
     (''quantity'', PInt (pi_quantity x)), (''price'', PInt (pi_price x)), (''price_rrc'', PInt (pi_price_rrc x))]"
| "cells (ParameterRow x) = [(''id'', PInt (pa_id x)), (''name'', PStr (pa_name x))]"
| "cells (ProductParameterRow x) = [(''id'', PInt (pp_id x)), (''product_info'', PInt (pp_info x)),
     (''parameter'', PInt (pp_parameter x)), (''value'', PStr (pp_value x))]"
| "cells (ContactRow x) = [(''id'', PInt (ct_id x)), (''user'', PInt (ct_user x)), (''city'', PStr (ct_city x)),
     (''street'', PStr (ct_street x)), (''house'', PStr (ct_house x)), (''structure'', PStr (ct_structure x)),
     (''building'', PStr (ct_building x)), (''apartment'', PStr (ct_apartment x)), (''phone'', PStr (ct_phone x))]"
| "cells (OrderRow x) = [(''id'', PInt (o_id x)), (''user'', PInt (o_user x)), (''dt'', PInt (o_dt x)),
     (''state'', PStr (state_code (o_state x))), (''contact'', nullable PInt (o_contact x))]"
| "cells (OrderItemRow x) = [(''id'', PInt (oi_id x)), (''order'', PInt (oi_order x)), (''order_id'', PInt (oi_order x)),
     (''product_info'', PInt (oi_info x)), (''quantity'', PInt (oi_quantity x))]"
| "cells (EmailTokenRow x) = [(''id'', PInt (et_id x)), (''user'', PInt (et_user x)), (''created_at'', PInt (et_created_at x)),
     (''key'', PStr (et_key x))]"
| "cells (ImportTaskRow x) = [(''id'', PInt (it_id x)), (''yaml_file'', PStr (it_file x)), (''uploaded_at'', PInt (it_uploaded_at x)),
     (''is_processed'', PBool (it_is_processed x)), (''products_count'', PInt (it_products x)),
     (''categories_count'', PInt (it_categories x)), (''parameters_count'', PInt (it_parameters x))]"

primrec label_of :: "model \<Rightarrow> string" where
  "label_of UserM = ''backend.user''" | "label_of ShopM = ''backend.shop''" | "label_of CategoryM = ''backend.category''"
| "label_of CategoryShopM = ''backend.category_shops''" | "label_of ProductM = ''backend.product''"
| "label_of ProductInfoM = ''backend.productinfo''" | "label_of ParameterM = ''backend.parameter''"
| "label_of ProductParameterM = ''backend.productparameter''" | "label_of ContactM = ''backend.contact''"
| "label_of OrderM = ''backend.order''" | "label_of OrderItemM = ''backend.orderitem''"
| "label_of EmailTokenM = ''backend.confirmemailtoken''" | "label_of ImportTaskM = ''backend.importtask''"

text \<open>A many-to-many field has a table of its own, with one row per related pair.\<close>

definition model_name :: "string \<Rightarrow> string" where
  "model_name label = tl (dropWhile (\<lambda>c. c \<noteq> CHR ''.'') label)"

definition through_tables :: "schema \<Rightarrow> schema" where
  "through_tables st = concat (map (\<lambda>(m, md). concat (map (\<lambda>(f, decl).
     case fd_kind decl of
       ManyToManyField t \<Rightarrow> [(m @ ''_'' @ f, \<lparr>md_fields = [auto_id, (model_name m, plain (ForeignKey m)),
         (model_name t, plain (ForeignKey t))], md_unique = [[model_name m, model_name t]], md_ordering = []\<rparr>)]
     | _ \<Rightarrow> []) (md_fields md))) st)"

text \<open>Columns that are unique (together): no other row has the same values, NULL apart.\<close>

definition same_values :: "string list \<Rightarrow> row \<Rightarrow> row \<Rightarrow> bool" where
  "same_values fs r r' \<longleftrightarrow>
     list_all (\<lambda>f. map_of (cells r) f = map_of (cells r') f \<and> map_of (cells r) f \<notin> {None, Some PNone}) fs"

definition alone :: "database \<Rightarrow> model \<Rightarrow> string list \<Rightarrow> row \<Rightarrow> bool" where
  "alone d m fs r \<longleftrightarrow> list_all (\<lambda>r'. pk_of r' \<noteq> pk_of r \<longrightarrow> \<not> same_values fs r r') (table m d)"

definition refers :: "database \<Rightarrow> string \<Rightarrow> pyval \<Rightarrow> bool" where
  "refers d label v = (case v of
       PNone \<Rightarrow> True
     | PInt k \<Rightarrow> list_ex (\<lambda>m. label_of m = label \<and> k \<in> set (pks m d)) all_models
     | _ \<Rightarrow> False)"

definition column_holds :: "database \<Rightarrow> model \<Rightarrow> row \<Rightarrow> string \<times> field_decl \<Rightarrow> bool" where
  "column_holds d m r field = (case field of (f, decl) \<Rightarrow> (case map_of (cells r) f of
       None \<Rightarrow> True
     | Some v \<Rightarrow>
         (v = PNone \<longrightarrow> fd_null decl) \<and>
         (case fd_kind decl of
            PositiveIntegerField \<Rightarrow> (case v of PInt n \<Rightarrow> 0 \<le> n | _ \<Rightarrow> False)
          | ForeignKey t \<Rightarrow> refers d t v
          | OneToOneField t \<Rightarrow> refers d t v \<and> alone d m [f] r
          | _ \<Rightarrow> True) \<and>
         (fd_unique decl \<longrightarrow> alone d m [f] r)))"

definition row_holds :: "database \<Rightarrow> model_decl \<Rightarrow> row \<Rightarrow> bool" where
  "row_holds d md r \<longleftrightarrow> list_all (column_holds d (model_of r) r) (md_fields md) \<and>
     list_all (\<lambda>fs. alone d (model_of r) fs r) (md_unique md)"

definition schema_holds :: "schema \<Rightarrow> database \<Rightarrow> bool" where
  "schema_holds st d \<longleftrightarrow> list_all (\<lambda>m. distinct (pks m d) \<and>
     (case map_of (st @ through_tables st) (label_of m) of
        None \<Rightarrow> False
      | Some md \<Rightarrow> list_all (row_holds d md) (table m d))) all_models"

definition md_of :: "model \<Rightarrow> model_decl" where
  "md_of m = the (map_of (migrated @ through_tables migrated) (label_of m))"

lemma md_found: "map_of (migrated @ through_tables migrated) (label_of m) = Some (md_of m)"
proof -
  have "list_all (\<lambda>m. map_of (migrated @ through_tables migrated) (label_of m) \<noteq> None) all_models"
    by code_simp
  then show ?thesis by (auto simp: list_all_iff md_of_def)
qed

text \<open>The tables that the migrations leave.\<close>

lemma md_of_eq:
  "md_of UserM = \<lparr>md_fields = map (\<lambda>(f, x). if f = ''is_active'' then (f, defaulting (PBool True) (plain BooleanField)) else (f, x))
     user_columns, md_unique = [], md_ordering = [''email'']\<rparr>"
  "md_of ShopM = \<lparr>md_fields = shop_columns, md_unique = [], md_ordering = [''-name'']\<rparr>"
  "md_of CategoryM = \<lparr>md_fields = category_columns @ [(''shops'', blank (plain (ManyToManyField ''backend.shop'')))], md_unique = [], md_ordering = [''-name'']\<rparr>"
  "md_of CategoryShopM = \<lparr>md_fields = [auto_id, (''category'', plain (ForeignKey ''backend.category'')),
     (''shop'', plain (ForeignKey ''backend.shop''))], md_unique = [[''category'', ''shop'']], md_ordering = []\<rparr>"
  "md_of ProductM = \<lparr>md_fields = product_columns, md_unique = [], md_ordering = [''-name'']\<rparr>"
  "md_of ProductInfoM = \<lparr>md_fields = product_info_columns, md_unique = [[''product'', ''shop'', ''external_id'']], md_ordering = []\<rparr>"
  "md_of ParameterM = \<lparr>md_fields = parameter_columns, md_unique = [], md_ordering = [''-name'']\<rparr>"
  "md_of ProductParameterM = \<lparr>md_fields = product_parameter_columns, md_unique = [[''product_info'', ''parameter'']], md_ordering = []\<rparr>"
  "md_of ContactM = \<lparr>md_fields = contact_columns, md_unique = [], md_ordering = []\<rparr>"
  "md_of OrderM = \<lparr>md_fields = order_columns, md_unique = [], md_ordering = [''-dt'']\<rparr>"
  "md_of OrderItemM = \<lparr>md_fields = order_item_columns, md_unique = [[''order_id'', ''product_info'']], md_ordering = []\<rparr>"
  "md_of EmailTokenM = \<lparr>md_fields = token_columns, md_unique = [], md_ordering = []\<rparr>"
  "md_of ImportTaskM = \<lparr>md_fields = import_task_columns, md_unique = [], md_ordering = [''-uploaded_at'']\<rparr>"
  by code_simp+

lemma refers_eq:
  "refers d (label_of m) (PInt k) \<longleftrightarrow> k \<in> set (pks m d)"
  by (cases m) (simp_all add: refers_def all_models_def)

lemmas refers_eqs = refers_eq [of _ UserM, simplified label_of.simps] refers_eq [of _ ShopM, simplified label_of.simps]
  refers_eq [of _ CategoryM, simplified label_of.simps] refers_eq [of _ ProductM, simplified label_of.simps]
  refers_eq [of _ ProductInfoM, simplified label_of.simps] refers_eq [of _ ParameterM, simplified label_of.simps]
  refers_eq [of _ ContactM, simplified label_of.simps] refers_eq [of _ OrderM, simplified label_of.simps]

lemma refers_null [simp]: "refers d l PNone"
  by (simp add: refers_def)

text \<open>Each group of unique columns is one of the cases of \<open>clash\<close>.\<close>

lemma alone_unique:
  assumes "model_of r = m" "\<And>r'. model_of r' = m \<Longrightarrow> same_values fs r r' \<longleftrightarrow> clash r r'"
  shows "alone d m fs r \<longleftrightarrow> unique_ok r d"
proof -
  have "same_values fs r r' \<longleftrightarrow> clash r r'" if "r' \<in> set (table m d)" for r'
    using that by (intro assms(2) table_model)
  then show ?thesis
    using assms(1) by (simp add: alone_def unique_ok_def list_all_iff)
qed

definition unique_columns :: "model \<Rightarrow> string list" where
  "unique_columns m =
     (case m of
        UserM \<Rightarrow> [''email''] | ShopM \<Rightarrow> [''user''] | CategoryShopM \<Rightarrow> [''category'', ''shop'']
      | ProductInfoM \<Rightarrow> [''product'', ''shop'', ''external_id''] | ProductParameterM \<Rightarrow> [''product_info'', ''parameter'']
      | OrderItemM \<Rightarrow> [''order_id'', ''product_info''] | EmailTokenM \<Rightarrow> [''key''] | _ \<Rightarrow> [])"

lemma same_values_clash:
  assumes "model_of r' = model_of r" "unique_columns (model_of r) \<noteq> []"
  shows "same_values (unique_columns (model_of r)) r r' \<longleftrightarrow> clash r r'"
  using assms
  by (cases r; cases r') (auto simp: same_values_def unique_columns_def nullable_def split: option.splits)

lemma alone_unique_columns:
  "unique_columns (model_of r) \<noteq> [] \<Longrightarrow> alone d (model_of r) (unique_columns (model_of r)) r \<longleftrightarrow> unique_ok r d"
  by (rule alone_unique) (simp_all add: same_values_clash)

lemma nothing_unique: "unique_columns (model_of r) = [] \<Longrightarrow> unique_ok r d"
  by (cases r) (simp_all add: unique_columns_def unique_ok_def list_all_iff)


lemmas column_eval = row_holds_def column_holds_def plain_def nullable_def refers_eqs positive_ok_def refs_ok_def

lemma row_holds_simple:
  assumes "unique_columns (model_of r) = []"
  shows "row_holds d (md_of (model_of r)) r \<longleftrightarrow> row_ok r d"
  using assms nothing_unique [OF assms]
  by (cases r)
    (auto simp: unique_columns_def md_of_eq column_eval row_ok_def category_columns_def product_columns_def
      parameter_columns_def contact_columns_def order_columns_def import_task_columns_def split: option.splits)

lemma row_holds_unique:
  assumes "unique_columns (model_of r) \<noteq> []"
  shows "row_holds d (md_of (model_of r)) r \<longleftrightarrow> row_ok r d"
  using assms alone_unique_columns [OF assms]
  by (cases r)
    (auto simp: unique_columns_def md_of_eq column_eval row_ok_def user_columns_def shop_columns_def
      product_info_columns_def product_parameter_columns_def order_item_columns_def token_columns_def split: option.splits)

text \<open>C19: The invariant of the tables is the migrated schema. A database satisfies \<open>db_ok\<close> exactly if every table
  satisfies the columns and constraints that the migrations have created for it: distinct keys, no negative value in a
  \<^verbatim>\<open>PositiveIntegerField\<close>, every foreign key pointing to a stored row or NULL where that is declared, and no two rows
  with the same values in columns declared unique, alone or together.\<close>

theorem db_ok_is_schema: "schema_holds migrated d \<longleftrightarrow> db_ok d"
proof -
  have "row_holds d (md_of m) r \<longleftrightarrow> row_ok r d" if "r \<in> set (table m d)" for m r
    using table_model [OF that] row_holds_simple [of r d] row_holds_unique [of r d] by blast
  then show ?thesis
    by (simp add: schema_holds_def md_found db_ok_def list_all_iff del: map_of_append)
qed

end
