(* ===== verification/System.thy ===== *)
theory System
  imports OrderProps ImportProps AccountProps Catalog
begin

text \<open>
  The application as one system: the routes of \<^verbatim>\<open>urls.py\<close> with permissions and methods, the worker
  that runs the queued tasks, the admin upload and the management commands, as steps on the
  \<open>world\<close>. \<open>safe\<close> is the invariant every operation keeps, proved for each handler from the
  lemmas of its component.
\<close>

section \<open>Stages of an order\<close>

text \<open>The order of \<^verbatim>\<open>STATE_CHOICES\<close>.\<close>

primrec stage :: "order_state \<Rightarrow> nat" where
  "stage Basket = 0" | "stage New = 1" | "stage Confirmed = 2" | "stage Assembled = 3"
| "stage Sent = 4" | "stage Delivered = 5" | "stage Canceled = 6"

lemma stage_inj: "stage s = stage t \<Longrightarrow> s = t"
  by (cases s; cases t) simp_all

instantiation order_state :: linorder
begin

definition less_eq_order_state :: "order_state \<Rightarrow> order_state \<Rightarrow> bool" where
  "less_eq_order_state s t \<longleftrightarrow> stage s \<le> stage t"

definition less_order_state :: "order_state \<Rightarrow> order_state \<Rightarrow> bool" where
  "less_order_state s t \<longleftrightarrow> stage s < stage t"

instance
  by standard (auto simp: less_eq_order_state_def less_order_state_def intro: stage_inj)

end

section \<open>Routes\<close>

datatype http_method = GET | POST | PUT | DELETE

datatype view =
    LoginView | RegisterView | ProductListView | CartView | AddContactView | ContactListView
  | OrderConfirmationView | OrderHistoryView | TriggerImport | DeleteCartItemView
  | DetailedContactListView | ContactDetailView | BatchDeleteCartItemView | ClearCartView

text \<open>
  \<^verbatim>\<open>backend/urls.py\<close>. The pattern of \<^verbatim>\<open>ContactDetailView\<close> lacks a bracket, so it is a literal path
  without a parameter.
\<close>

definition urlpatterns :: "(string \<times> view) list" where
  "urlpatterns =
     [(''login/'', LoginView), (''register/'', RegisterView), (''products/'', ProductListView),
      (''basket/'', CartView), (''contacts/'', AddContactView), (''contacts/list/'', ContactListView),
      (''orders/confirm/'', OrderConfirmationView), (''orders/history/'', OrderHistoryView),
      (''admin/trigger-import/'', TriggerImport), (''cart/delete/'', DeleteCartItemView),
      (''contacts/detailed/'', DetailedContactListView), (''contacts/<int:contact_id/'', ContactDetailView),
      (''cart/delete-batch/'', BatchDeleteCartItemView), (''cart/clear/'', ClearCartView)]"

definition root_urlpatterns :: "(string \<times> view) list" where
  "root_urlpatterns = map (\<lambda>(p, v). (''/api/v1/'' @ p, v)) urlpatterns @
     [(''/api/admin/trigger-import/'', TriggerImport)]"

text \<open>\<^verbatim>\<open>DisableCSRFForAPIMiddleware\<close>: requests under this prefix are not checked.\<close>

definition csrf_disabled :: "string \<Rightarrow> bool" where
  "csrf_disabled path \<longleftrightarrow> has_prefix ''/api/v1/'' path"

text \<open>\<^verbatim>\<open>permission_classes\<close>; they are checked before the method is looked up.\<close>

definition check_permissions :: "view \<Rightarrow> request \<Rightarrow> (world, unit) comp" where
  "check_permissions v rq =
     (if v \<in> {LoginView, RegisterView, ProductListView} then ret ()
      else if rq_user rq = None then raise NotAuthenticated
      else if v = TriggerImport \<and> \<not> rq_is_staff rq then raise PermissionDenied
      else ret ())"

fun handler :: "orm \<Rightarrow> drf \<Rightarrow> services \<Rightarrow> view \<Rightarrow> http_method \<Rightarrow> request \<Rightarrow> (world, response) comp option" where
  "handler Orm Drf Srv LoginView POST rq = Some (login_view Drf Srv rq)"
| "handler Orm Drf Srv RegisterView POST rq = Some (register_view Orm Drf Srv rq)"
| "handler Orm Drf Srv ProductListView GET rq = Some (on_db (product_list Orm rq))"
| "handler Orm Drf Srv CartView GET rq = Some (on_db (run_cart_op CartGet Orm rq))"
| "handler Orm Drf Srv CartView POST rq = Some (on_db (run_cart_op CartPost Orm rq))"
| "handler Orm Drf Srv CartView PUT rq = Some (on_db (run_cart_op CartPut Orm rq))"
| "handler Orm Drf Srv CartView DELETE rq = Some (on_db (run_cart_op CartDelete Orm rq))"
| "handler Orm Drf Srv AddContactView POST rq = Some (on_db (add_contact Orm Drf rq))"
| "handler Orm Drf Srv ContactListView GET rq = Some (on_db (contact_list rq))"
| "handler Orm Drf Srv OrderConfirmationView POST rq = Some (order_confirm Orm Drf Srv rq)"
| "handler Orm Drf Srv OrderHistoryView GET rq = Some (on_db (order_history rq))"
| "handler Orm Drf Srv TriggerImport POST rq = Some (trigger_import Orm Srv rq)"
| "handler Orm Drf Srv DeleteCartItemView DELETE rq = Some (on_db (run_cart_op DeleteCartItem Orm rq))"
| "handler Orm Drf Srv DetailedContactListView GET rq = Some (on_db (detailed_contacts Orm rq))"
| "handler Orm Drf Srv ContactDetailView GET rq = Some (on_db (contact_detail None rq))"
| "handler Orm Drf Srv BatchDeleteCartItemView POST rq = Some (on_db (run_cart_op BatchDelete Orm rq))"
| "handler Orm Drf Srv ClearCartView DELETE rq = Some (on_db (run_cart_op ClearCart Orm rq))"
| "handler Orm Drf Srv v m rq = None"

text \<open>
  \<open>csrf_ok\<close>: the request carries a valid CSRF token, or does not use a session to authenticate.
\<close>

definition serve :: "orm \<Rightarrow> drf \<Rightarrow> services \<Rightarrow> bool \<Rightarrow> string \<Rightarrow> http_method \<Rightarrow> request \<Rightarrow> (world, response) comp" where
  "serve Orm Drf Srv csrf_ok path m rq = (case map_of root_urlpatterns path of
       None \<Rightarrow> raise Http404
     | Some v \<Rightarrow>
         if rq_user rq \<noteq> None \<and> m \<noteq> GET \<and> \<not> csrf_ok \<and> \<not> csrf_disabled path then raise PermissionDenied
         else andThen (check_permissions v rq) (\<lambda>_.
           case handler Orm Drf Srv v m rq of None \<Rightarrow> raise MethodNotAllowed | Some h \<Rightarrow> h))"

section \<open>Steps of the system\<close>

definition run_task :: "orm \<Rightarrow> services \<Rightarrow> int \<Rightarrow> task \<Rightarrow> (world, unit) comp" where
  "run_task Orm Srv now t = (case t of
       Registration_mail email u \<Rightarrow> andThen (send_registration_email Orm Srv now email u) (\<lambda>_. ret ())
     | Order_mail k c \<Rightarrow> andThen (send_order_confirmation_email Srv k c) (\<lambda>_. ret ())
     | Import k \<Rightarrow> andThen (on_db (do_import Orm Srv k)) (\<lambda>_. ret ()))"

text \<open>
  A request, an upload in the admin site, a worker that takes any waiting task, and the two
  management commands.
\<close>

inductive step :: "orm \<Rightarrow> drf \<Rightarrow> services \<Rightarrow> world \<Rightarrow> world \<Rightarrow> bool" for Orm Drf Srv where
  request: "serve Orm Drf Srv csrf_ok path m rq w = (r, w') \<Longrightarrow> step Orm Drf Srv w w'"
| upload: "on_db (import_yaml_view Orm is_post f now) w = (r, w') \<Longrightarrow> step Orm Drf Srv w w'"
| work: "w_queue w = ts @ t # ts' \<Longrightarrow> run_task Orm Srv now t (w\<lparr>w_queue := ts @ ts'\<rparr>) = (r, w') \<Longrightarrow>
    step Orm Drf Srv w w'"
| load_db: "on_db (load_db_command Orm Srv path) w = (r, w') \<Longrightarrow> step Orm Drf Srv w w'"
| superuser: "on_db (create_superuser Orm Srv email pw extra) w = (r, w') \<Longrightarrow> step Orm Drf Srv w w'"

inductive_cases stepE: "step Orm Drf Srv w w'"

abbreviation reachable :: "orm \<Rightarrow> drf \<Rightarrow> services \<Rightarrow> world \<Rightarrow> world \<Rightarrow> bool" where
  "reachable Orm Drf Srv \<equiv> (step Orm Drf Srv)\<^sup>*\<^sup>*"

section \<open>What holds in every state\<close>

text \<open>The application itself knows two order states: a basket without and a confirmed order with a contact.\<close>

definition states_ok :: "database \<Rightarrow> bool" where
  "states_ok d \<longleftrightarrow> list_all (\<lambda>b. if o_state b = Basket then o_contact b = None
     else o_state b = Confirmed \<and> o_contact b \<noteq> None) (t_orders d)"

definition good :: "database \<Rightarrow> bool" where
  "good d \<longleftrightarrow> db_ok d \<and> single_baskets d \<and> orders_owned d \<and> states_ok d"

text \<open>An order keeps its key, user and date; from a basket it becomes a confirmed order, once.\<close>

definition order_kept :: "order_t \<Rightarrow> order_t \<Rightarrow> bool" where
  "order_kept b b' \<longleftrightarrow> b' = b \<or> o_state b = Basket \<and> (\<exists>k. b' = b\<lparr>o_state := Confirmed, o_contact := Some k\<rparr>)"

definition kept :: "database \<Rightarrow> database \<Rightarrow> bool" where
  "kept d d' \<longleftrightarrow> (\<forall>b \<in> set (t_orders d). \<exists>b' \<in> set (t_orders d'). order_kept b b') \<and>
     set (t_contacts d) \<subseteq> set (t_contacts d') \<and> set (pks UserM d) \<subseteq> set (pks UserM d')"

lemma kept_refl: "kept d d"
  by (auto simp: kept_def order_kept_def)

lemma order_kept_trans: "order_kept a b \<Longrightarrow> order_kept b c \<Longrightarrow> order_kept a c"
  by (auto simp: order_kept_def)

lemma kept_trans:
  assumes "kept d1 d2" "kept d2 d3"
  shows "kept d1 d3"
  unfolding kept_def
proof (intro conjI ballI)
  fix b assume "b \<in> set (t_orders d1)"
  then obtain b' where "b' \<in> set (t_orders d2)" "order_kept b b'" using assms(1) by (auto simp: kept_def)
  moreover from this obtain b'' where "b'' \<in> set (t_orders d3)" "order_kept b' b''" using assms(2) by (auto simp: kept_def)
  ultimately show "\<exists>b' \<in> set (t_orders d3). order_kept b b'" using order_kept_trans by blast
qed (use assms in \<open>unfold kept_def, blast\<close>)+

text \<open>\<open>safe N d0\<close>: the states that may follow \<open>d0\<close> when each order that is new or changed satisfies \<open>N\<close>.\<close>

definition safe :: "(order_t \<Rightarrow> bool) \<Rightarrow> database \<Rightarrow> database \<Rightarrow> bool" where
  "safe N d0 d \<longleftrightarrow> good d \<and> kept d0 d \<and> (\<forall>b \<in> set (t_orders d). b \<in> set (t_orders d0) \<or> N b)"

lemma safe_cart_step:
  assumes "cart_step u d d'" "safe N d0 d" "\<And>b. o_user b = u \<Longrightarrow> o_state b = Basket \<Longrightarrow> N b"
  shows "safe N d0 d'"
proof -
  have g: "good d" and k: "kept d0 d" using assms(2) by (auto simp: safe_def)
  have "\<forall>b \<in> set (t_orders d'). b \<in> set (t_orders d0) \<or> N b"
    using assms(1) assms(2) by (cases rule: cart_step.cases) (auto simp: safe_def intro: assms(3))
  moreover have "states_ok d' \<and> kept d d'"
    using assms(1) g by (cases rule: cart_step.cases)
      (auto simp: states_ok_def kept_def order_kept_def good_def)
  ultimately show ?thesis
    using g kept_trans [OF k] db_ok_cart_step [OF assms(1)] single_baskets_cart_step [OF assms(1)]
      orders_owned_cart_step [OF assms(1)]
    by (simp add: safe_def good_def)
qed

lemma safe_confirm_step:
  assumes "confirm_step u d d'" "safe N d0 d" "\<And>b. o_user b = u \<Longrightarrow> N b"
  shows "safe N d0 d'"
  using assms(1)
proof (cases rule: confirm_step.cases)
  case (confirm k b c ct)
  have g: "db_ok d" "single_baskets d" "orders_owned d" "states_ok d" and k: "kept d0 d"
    using assms(2) by (auto simp: safe_def good_def)
  note b = own_basketD [OF confirm(2)]
  have os: "t_orders d' = map (\<lambda>x. if x = b then b\<lparr>o_state := Confirmed, o_contact := Some c\<rparr> else x) (t_orders d)"
    unfolding confirm(1) by (rule confirmed_orders [OF g(1) confirm(2)])
  have "states_ok d'" using g(4) by (auto simp: states_ok_def os list_all_iff)
  moreover have "kept d d'"
    using b by (auto simp: kept_def os order_kept_def) (simp_all add: confirm(1) confirmed_db_def)
  moreover have "\<forall>b \<in> set (t_orders d'). b \<in> set (t_orders d0) \<or> N b"
    using assms(2,3) b by (auto simp: os safe_def)
  ultimately show ?thesis
    using kept_trans [OF k] db_ok_confirmed [OF g(1) confirm(2,3)] single_baskets_confirmed [OF g(1) confirm(2) g(2)]
      orders_owned_confirmed [OF g(1) confirm(2,3) g(3)]
    by (simp add: safe_def good_def confirm(1))
qed


text \<open>A change that leaves the orders alone and deletes no contact and no user.\<close>

lemma safe_quiet:
  assumes "safe N d0 d" "db_ok d'" "t_orders d' = t_orders d" "set (t_contacts d) \<subseteq> set (t_contacts d')"
    and "set (pks UserM d) \<subseteq> set (pks UserM d')"
  shows "safe N d0 d'"
proof -
  have "kept d d'" using assms(3-5) by (auto simp: kept_def order_kept_def)
  moreover have "single_baskets d'" "states_ok d'"
    using assms(1,3) by (simp_all add: safe_def good_def single_baskets_def baskets_def states_ok_def)
  moreover have "orders_owned d'"
    using assms(1,3,4) orders_owned_mono by (auto simp: safe_def good_def)
  moreover have "\<forall>b \<in> set (t_orders d'). b \<in> set (t_orders d0) \<or> N b"
    using assms(1,3) by (simp add: safe_def)
  ultimately show ?thesis
    using assms(1,2) kept_trans by (auto simp: safe_def good_def)
qed

lemma safe_db_ok: "safe N d0 d \<Longrightarrow> db_ok d"
  by (simp add: safe_def good_def)

text \<open>What the shops offer.\<close>

definition catalogue :: "model set" where
  "catalogue = {ShopM, CategoryM, CategoryShopM, ProductM, ProductInfoM, ParameterM, ProductParameterM}"

text \<open>A request writes orders of its user only, and other than a basket only where orders are confirmed.\<close>

definition writes_order :: "view \<Rightarrow> http_method \<Rightarrow> request \<Rightarrow> order_t \<Rightarrow> bool" where
  "writes_order v m rq b \<longleftrightarrow> rq_user rq = Some (o_user b) \<and>
     (o_state b = Basket \<or> v = OrderConfirmationView \<and> m = POST)"

named_theorems safe_intros \<open>operations that keep \<open>safe\<close>\<close>

context django
begin

lemma safe_insert [safe_intros]:
  assumes "model_of r \<noteq> OrderM"
  shows "keeps (safe N d0) (db_insert Orm p r)"
proof (rule keepsI)
  fix d assume d: "safe N d0 d"
  show "safe N d0 (snd (db_insert Orm p r d))"
  proof (cases rule: insert_cases [of r d p])
    case (1 k)
    have "db_ok (put_row (with_pk k r) d)" using db_ok_put_row [OF safe_db_ok [OF d], of "with_pk k r"] 1 by simp
    then have "safe N d0 (put_row (with_pk k r) d)"
      by (rule safe_quiet [OF d]) (use assms in \<open>cases r; auto\<close>)+
    then show ?thesis using 1 by simp
  qed (use d in simp)
qed

lemma safe_save [safe_intros]:
  assumes "model_of r \<notin> {OrderM, ContactM}"
  shows "keeps (safe N d0) (db_save Orm r)"
proof (rule keepsI)
  fix d assume d: "safe N d0 d"
  show "safe N d0 (snd (db_save Orm r d))"
  proof (cases rule: save_cases [of r d])
    case 1
    have "db_ok (save_row r d)" using db_ok_save_row [OF safe_db_ok [OF d]] 1 by simp
    then have "safe N d0 (save_row r d)"
    proof (rule safe_quiet [OF d])
      show "set (pks UserM d) \<subseteq> set (pks UserM (save_row r d))"
        unfolding save_row_def by (simp add: pks_put_row del: pks_typed) auto
    qed (use assms in \<open>cases r; auto simp: save_row_def\<close>)+
    then show ?thesis using 1 by simp
  qed (use d in simp)
qed

lemma safe_delete [safe_intros]: "keeps (safe N d0) (db_delete Orm ProductInfoM ks)"
proof (rule keepsI)
  fix d assume d: "safe N d0 d"
  have "safe N d0 (cascade_delete ProductInfoM ks d)"
    using db_ok_cascade_delete [OF safe_db_ok [OF d], of ProductInfoM ks]
    by (rule safe_quiet [OF d]) (simp_all add: cascade_delete_infos [OF safe_db_ok [OF d]])
  then show "safe N d0 (snd (db_delete Orm ProductInfoM ks d))" by (simp add: delete_cascades [OF safe_db_ok [OF d]])
qed


lemma safe_creates [safe_intros]:
  "keeps (safe N d0) (get_or_create_shop Orm name u)"
  "keeps (safe N d0) (get_or_create_category Orm k name)"
  "keeps (safe N d0) c \<Longrightarrow> keeps (safe N d0) (get_or_create_product Orm name c)"
  "keeps (safe N d0) (get_or_create_parameter Orm pname)"
  "keeps (safe N d0) (set_product_parameter Orm info par v)"
  "keeps (safe N d0) (set_product_info Orm s e p mn q pr rrc)"
  "keeps (safe N d0) (import_product_info Orm s e p q pr)"
  "keeps (safe N d0) (link_category Orm cat s)"
  unfolding get_or_create_shop_def get_or_create_category_def get_or_create_product_def get_or_create_parameter_def
    set_product_parameter_def set_product_info_def import_product_info_def link_category_def Let_def
  by (intro keeps_intros safe_intros; simp)+

lemma safe_load_parts [safe_intros]:
  "keeps (safe N d0) (load_category Orm s x)"
  "keeps (safe N d0) (load_parameter Orm info nv)"
  unfolding load_category_def load_parameter_def by (intro keeps_intros safe_intros)+

lemma safe_load_good [safe_intros]: "keeps (safe N d0) (load_good Orm s g)"
  unfolding load_good_def by (intro keeps_intros safe_intros)

lemma safe_load_document [safe_intros]: "keeps (safe N d0) (load_document Orm u data)"
  unfolding load_document_def by (intro keeps_intros safe_intros)

lemma safe_load_data [safe_intros]: "keeps (safe N d0) (load_data Orm Srv path u)"
  unfolding load_data_def
  by (intro keeps_intros reads_keeps_any [OF reads_read_source]) (auto split: sum.splits intro: keeps_intros safe_intros)

lemma safe_load_db [safe_intros]: "keeps (safe N d0) (load_db_command Orm Srv path)"
  unfolding load_db_command_def by (intro keeps_intros safe_intros) (auto split: load_result.splits intro: keeps_intros)

lemma safe_do_import [safe_intros]: "keeps (safe N d0) (do_import Orm Srv k)"
  unfolding do_import_def import_body_def import_category_def import_good_def import_parameter_def
  by (intro keeps_intros safe_intros; simp)

lemma safe_upload [safe_intros]: "keeps (safe N d0) (import_yaml_view Orm is_post f now)"
  unfolding import_yaml_view_def by (intro keeps_intros safe_intros; simp)

lemma safe_superuser [safe_intros]: "keeps (safe N d0) (create_superuser Orm Srv email pw extra)"
  unfolding create_superuser_def create_user_base_def save_new_user_def Let_def
  by (intro keeps_intros safe_intros; simp)

lemma safe_add_contact [safe_intros]: "keeps (safe N d0) (add_contact Orm Drf rq)"
  unfolding add_contact_def
  by (intro keeps_intros safe_intros) (auto split: sum.splits intro!: keeps_intros safe_intros)


section \<open>Requests and tasks\<close>

text \<open>An invariant of the steps of a basket is one of every basket request; likewise for confirmations.\<close>

lemma keeps_run_cart_op:
  assumes "\<And>d. I d \<Longrightarrow> db_ok d" "\<And>u d d'. rq_user rq = Some u \<Longrightarrow> cart_step u d d' \<Longrightarrow> I d \<Longrightarrow> I d'"
  shows "keeps I (run_cart_op op Orm rq)"
proof (cases "rq_user rq")
  case None
  have "run_cart_op op Orm rq = raise NotAuthenticated"
    using None by (cases op) (simp_all add: cart_handlers)
  then show ?thesis by (simp add: keeps_intros)
next
  case (Some u)
  have steps: "(cart_step u)\<^sup>*\<^sup>* d d' \<Longrightarrow> I d \<Longrightarrow> I d'" for d d'
    by (induction rule: rtranclp_induct) (use assms(2) Some in blast)+
  show ?thesis
  proof (rule keepsI)
    fix d assume d: "I d"
    have "(cart_step u)\<^sup>*\<^sup>* d (snd (run_cart_op op Orm rq d))"
      using run_cart_op_moves [OF assms(1) [OF d] Some] by (simp add: ends_in_def)
    then show "I (snd (run_cart_op op Orm rq d))" using d by (rule steps)
  qed
qed

lemma keeps_order_confirm:
  assumes "\<And>d. I d \<Longrightarrow> db_ok d" "\<And>u d d'. rq_user rq = Some u \<Longrightarrow> confirm_step u d d' \<Longrightarrow> I d \<Longrightarrow> I d'"
  shows "keeps (in_db I) (order_confirm Orm Drf Srv rq)"
proof (cases "rq_user rq")
  case None
  then show ?thesis by (simp add: order_confirm_def keeps_intros)
next
  case (Some u)
  show ?thesis
  proof (rule keepsI)
    fix w :: world assume w: "I (w_db w)"
    show "I (w_db (snd (order_confirm Orm Drf Srv rq w)))"
      using order_confirm_steps [OF assms(1) [OF w] Some, of Drf Srv] assms(2) [OF Some] w by (auto simp: ends_in_def)
  qed
qed

lemma safe_cart_op [safe_intros]:
  assumes "\<And>b. rq_user rq = Some (o_user b) \<Longrightarrow> o_state b = Basket \<Longrightarrow> N b"
  shows "keeps (safe N d0) (run_cart_op op Orm rq)"
  by (rule keeps_run_cart_op [OF safe_db_ok]) (auto intro: safe_cart_step assms)

lemma safe_order_confirm [safe_intros]:
  assumes "\<And>b. rq_user rq = Some (o_user b) \<Longrightarrow> N b"
  shows "keeps (in_db (safe N d0)) (order_confirm Orm Drf Srv rq)"
  by (rule keeps_order_confirm [OF safe_db_ok]) (auto intro: safe_confirm_step assms)

lemma safe_login [safe_intros]: "keeps (in_db (safe N d0)) (login_view Drf Srv rq)"
  unfolding login_view_def
  by (intro keeps_intros keeps_on_db keeps_sum keeps_update_world) simp

lemma safe_new_user [safe_intros]: "keeps (safe N d0) (save_new_user Orm x)"
  unfolding save_new_user_def by (intro keeps_intros safe_intros) simp

lemma safe_register [safe_intros]: "keeps (in_db (safe N d0)) (register_view Orm Drf Srv rq)"
  unfolding register_view_def by (intro keeps_intros keeps_on_db keeps_sum safe_intros)

lemma safe_token [safe_intros]: "keeps (in_db (safe N d0)) (save_token Orm Srv t)"
  unfolding save_token_def by (intro keeps_intros safe_intros) simp

lemma safe_registration_mail [safe_intros]: "keeps (in_db (safe N d0)) (send_registration_email Orm Srv now email u)"
  unfolding send_registration_email_def by (intro keeps_intros safe_intros)

lemma safe_reads [safe_intros]:
  "keeps (safe N d0) (product_list Orm rq)" "keeps (safe N d0) (contact_list rq)" "keeps (safe N d0) (detailed_contacts Orm rq)"
  "keeps (safe N d0) (contact_detail k rq)" "keeps (safe N d0) (order_history rq)"
  using reads_product_list reads_contact_list reads_detailed_contacts reads_contact_detail
  by (auto intro: reads_keeps_any)
    (unfold order_history_def order_history_data_def order_total_price_def, intro keeps_intros)

lemma safe_order_mail [safe_intros]: "keeps (in_db (safe N d0)) (send_order_confirmation_email Srv k c)"
  unfolding send_order_confirmation_email_def by (intro keeps_intros)

lemma safe_trigger_import [safe_intros]: "keeps (in_db (safe N d0)) (trigger_import Orm Srv rq)"
  unfolding trigger_import_def
  by (intro keeps_intros reads_keeps_any [OF reads_data_get])

lemma safe_handler:
  assumes "handler Orm Drf Srv v m rq = Some h" "\<And>b. writes_order v m rq b \<Longrightarrow> N b"
  shows "keeps (in_db (safe N d0)) h"
  using assms
  by (cases "(Orm, Drf, Srv, v, m, rq)" rule: handler.cases)
    (auto simp del: run_cart_op.simps simp: writes_order_def intro!: safe_intros keeps_on_db)

lemma safe_serve:
  assumes "\<And>v b. map_of root_urlpatterns path = Some v \<Longrightarrow> writes_order v m rq b \<Longrightarrow> N b"
  shows "keeps (in_db (safe N d0)) (serve Orm Drf Srv csrf_ok path m rq)"
proof (cases "map_of root_urlpatterns path")
  case None
  then show ?thesis by (simp add: serve_def keeps_raise)
next
  case (Some v)
  have "keeps (in_db (safe N d0)) (case handler Orm Drf Srv v m rq of None \<Rightarrow> raise MethodNotAllowed | Some h \<Rightarrow> h)"
    using safe_handler [of Drf Srv v m rq _ N d0] assms [OF Some]
    by (cases "handler Orm Drf Srv v m rq") (simp_all add: keeps_raise)
  moreover have "keeps (in_db (safe N d0)) (check_permissions v rq)"
    unfolding check_permissions_def by (intro keeps_intros)
  ultimately have "keeps (in_db (safe N d0)) (andThen (check_permissions v rq) (\<lambda>_.
      case handler Orm Drf Srv v m rq of None \<Rightarrow> raise MethodNotAllowed | Some h \<Rightarrow> h))"
    by (intro keeps_andThen)
  then show ?thesis unfolding serve_def Some option.case by (intro keeps_if keeps_raise)
qed

lemma safe_run_task: "keeps (in_db (safe N d0)) (run_task Orm Srv now t)"
  unfolding run_task_def by (cases t) (auto intro!: keeps_intros safe_intros)

text \<open>Everything but a request leaves the orders alone.\<close>

lemma safe_step_cases:
  assumes "step Orm Drf Srv w w'"
  obtains (request) csrf_ok path m rq r where "serve Orm Drf Srv csrf_ok path m rq w = (r, w')"
  | (quiet) "\<And>N d0. safe N d0 (w_db w) \<Longrightarrow> safe N d0 (w_db w')"
  using assms
proof (cases rule: step.cases)
  case (upload is_post f now r)
  then show ?thesis using quiet keeps_result [OF keeps_on_db [OF safe_upload]] by blast
next
  case (work ts t ts' now r)
  have "safe N d0 (w_db w')" if "safe N d0 (w_db w)" for N d0
    using keeps_result [OF safe_run_task _ work(2)] that by simp
  then show ?thesis by (rule quiet)
next
  case (load_db path r)
  then show ?thesis using quiet keeps_result [OF keeps_on_db [OF safe_load_db]] by blast
next
  case (superuser email pw extra r)
  then show ?thesis using quiet keeps_result [OF keeps_on_db [OF safe_superuser]] by blast
qed (rule request)

lemma safe_step:
  assumes "step Orm Drf Srv w w'" "safe (\<lambda>_. True) d0 (w_db w)"
  shows "safe (\<lambda>_. True) d0 (w_db w')"
  using assms(1)
proof (cases rule: safe_step_cases)
  case (request csrf_ok path m rq r)
  then show ?thesis using keeps_result [OF safe_serve [of path m rq "\<lambda>_. True"] _ request] assms(2) by simp
next
  case quiet
  then show ?thesis using assms(2) .
qed

lemma safe_reachable:
  assumes "reachable Orm Drf Srv w w'" "good (w_db w)"
  shows "safe (\<lambda>_. True) (w_db w) (w_db w')"
  using assms(1)
proof (induction rule: rtranclp_induct)
  case base
  then show ?case using assms(2) kept_refl by (simp add: safe_def)
qed (rule safe_step)

end

section \<open>Properties\<close>




section \<open>Instances\<close>

lemma sample_good: "good (w_db sample_world)"
  using sample_db_ok sample_facts(1) sample_owned
  by (simp add: good_def sample_world_def states_ok_def) (simp add: sample_db_def)

definition sample_confirmed :: world where
  "sample_confirmed = snd (serve sqlite rest_impl test_services True ''/api/v1/orders/confirm/'' POST sample_confirm sample_world)"

lemma sample_reachable: "reachable sqlite rest_impl test_services sample_world sample_confirmed"
  unfolding sample_confirmed_def by (rule r_into_rtranclp) (rule step.request, rule surjective_pairing)




end
