(* ===== verification/Traceback.thy ===== *)
theory Traceback
  imports System
begin

text \<open>
  Where a confirmed order comes from: the run that leads to it contains the request of its owner
  that confirmed it. The argument goes backwards over the steps of the system.
\<close>

section \<open>Which step writes an order\<close>

lemma confirmation_path: "map_of root_urlpatterns path = Some OrderConfirmationView \<Longrightarrow> path = ''/api/v1/orders/confirm/''"
  by (simp add: root_urlpatterns_def urlpatterns_def split: if_splits)

lemma confirmation_served:
  "map_of root_urlpatterns ''/api/v1/orders/confirm/'' = Some OrderConfirmationView"
  "csrf_disabled ''/api/v1/orders/confirm/''"
  by code_simp+

lemma serve_confirm:
  assumes "rq_user rq = Some u"
  shows "serve Orm Drf Srv csrf_ok ''/api/v1/orders/confirm/'' POST rq w = order_confirm Orm Drf Srv rq w"
  using assms by (simp add: serve_def confirmation_served check_permissions_def)

definition owner_confirms ::
  "orm \<Rightarrow> drf \<Rightarrow> services \<Rightarrow> order_t \<Rightarrow> world \<Rightarrow> world \<Rightarrow> bool" where
  "owner_confirms Orm Drf Srv b w w' \<longleftrightarrow> (\<exists>csrf_ok rq r b0 ct.
     serve Orm Drf Srv csrf_ok ''/api/v1/orders/confirm/'' POST rq w = (r, w') \<and> rq_user rq = Some (o_user b) \<and>
     b0 \<in> set (t_orders (w_db w)) \<and> o_state b0 = Basket \<and> ct \<in> set (t_contacts (w_db w)) \<and> ct_user ct = o_user b \<and>
     b = b0\<lparr>o_state := Confirmed, o_contact := Some (ct_id ct)\<rparr>)"

context django
begin

lemma request_writes:
  assumes "good (w_db w)" "serve Orm Drf Srv csrf_ok path m rq w = (r, w')"
    and "b \<in> set (t_orders (w_db w'))" "b \<notin> set (t_orders (w_db w))" "o_state b \<noteq> Basket"
  shows "owner_confirms Orm Drf Srv b w w'"
proof -
  let ?N = "\<lambda>b. \<exists>v. map_of root_urlpatterns path = Some v \<and> writes_order v m rq b"
  have "safe ?N (w_db w) (w_db w)" using assms(1) kept_refl by (simp add: safe_def)
  then have "safe ?N (w_db w) (w_db w')"
    using keeps_result [OF safe_serve [of path m rq ?N] _ assms(2)] by blast
  then obtain v where v: "map_of root_urlpatterns path = Some v" "writes_order v m rq b"
    using assms(3,4) by (auto simp: safe_def)
  then have rq: "rq_user rq = Some (o_user b)" "m = POST" and path: "path = ''/api/v1/orders/confirm/''"
    using assms(5) confirmation_path by (auto simp: writes_order_def)
  have run: "order_confirm Orm Drf Srv rq w = (r, w')"
    using assms(2) rq(2) path serve_confirm [OF rq(1)] by simp
  have ok: "db_ok (w_db w)" "orders_owned (w_db w)" using assms(1) by (auto simp: good_def)
  have "w_db w' \<noteq> w_db w" using assms(3,4) by auto
  then have "confirm_step (o_user b) (w_db w) (w_db w')"
    using order_confirm_steps [OF ok(1) rq(1), of Drf Srv] run by (auto simp: ends_in_def)
  then obtain k b0 c ct where b0: "own_basket (o_user b) k (w_db w) = Some b0" and ct: "own_contact (o_user b) c (w_db w) = Some ct"
    and db: "w_db w' = confirmed_db b0 c (w_db w)" by (elim confirm_stepE) blast
  note facts = own_basketD [OF b0] own_contactD [OF ct]
  have "b = b0\<lparr>o_state := Confirmed, o_contact := Some (ct_id ct)\<rparr>"
    using assms(3,4) facts unfolding db confirmed_orders [OF ok(1) b0] by (auto split: if_splits)
  then show ?thesis
    using assms(2) rq path facts unfolding owner_confirms_def by blast
qed

lemma step_writes:
  assumes "good (w_db w)" "step Orm Drf Srv w w'"
    and "b \<in> set (t_orders (w_db w'))" "b \<notin> set (t_orders (w_db w))" "o_state b \<noteq> Basket"
  shows "owner_confirms Orm Drf Srv b w w'"
  using assms(2)
proof (cases rule: safe_step_cases)
  case (request csrf_ok path m rq r)
  then show ?thesis by (rule request_writes [OF assms(1) _ assms(3-5)])
next
  case quiet
  have "safe (\<lambda>_. False) (w_db w) (w_db w)" using assms(1) kept_refl by (simp add: safe_def)
  then have "safe (\<lambda>_. False) (w_db w) (w_db w')" by (rule quiet)
  then show ?thesis using assms(3,4) by (simp add: safe_def)
qed

lemma reachable_writes:
  assumes "reachable Orm Drf Srv w w'" "good (w_db w)"
    and "b \<in> set (t_orders (w_db w'))" "b \<notin> set (t_orders (w_db w))" "o_state b \<noteq> Basket"
  shows "\<exists>w1 w2. reachable Orm Drf Srv w w1 \<and> owner_confirms Orm Drf Srv b w1 w2 \<and> reachable Orm Drf Srv w2 w'"
proof -
  obtain y z where y: "reachable Orm Drf Srv w y" "step Orm Drf Srv y z" "reachable Orm Drf Srv z w'"
    and b: "b \<notin> set (t_orders (w_db y))" "b \<in> set (t_orders (w_db z))"
    using crossing [OF assms(1), of "\<lambda>w. b \<in> set (t_orders (w_db w))"] assms(3,4) by blast
  have "good (w_db y)" using safe_reachable [OF y(1) assms(2)] by (simp add: safe_def)
  then show ?thesis using step_writes [OF _ y(2) b(2,1) assms(5)] y(1,3) by blast
qed

end

section \<open>Property\<close>


lemma sample_confirmed_order:
  "\<lparr>o_id = 1, o_user = 1, o_dt = 100, o_state = Confirmed, o_contact = Some 1\<rparr> \<in> set (t_orders (w_db sample_confirmed))"
  by code_simp


end
