(* ===== verification/CatalogueTrace.thy ===== *)
theory CatalogueTrace
  imports Traceback
begin

text \<open>
  Where a change of the catalogue comes from. Views never touch it and queue imports only for staff
  (\<open>calm\<close>); so a run that changes it contains the command \<^verbatim>\<open>load_db\<close> or the request of a member of the staff.
\<close>

section \<open>Views and mails leave the catalogue alone\<close>

definition calm :: "database \<Rightarrow> database \<Rightarrow> bool" where
  "calm d0 d \<longleftrightarrow> db_ok d \<and> frozen catalogue d0 d"

named_theorems calm_intros \<open>operations that keep \<open>calm\<close>\<close>

lemma calm_db_ok: "calm d0 d \<Longrightarrow> db_ok d"
  by (simp add: calm_def)

lemma calm_cart_step:
  assumes "cart_step u d d'" "calm d0 d"
  shows "calm d0 d'"
proof -
  have "frozen catalogue d d'"
    using assms(1) by (cases rule: cart_step.cases) (simp_all add: frozen_def catalogue_def)
  then show ?thesis using assms(2) db_ok_cart_step [OF assms(1)] by (auto simp: calm_def frozen_def)
qed

lemma calm_confirm_step:
  assumes "confirm_step u d d'" "calm d0 d"
  shows "calm d0 d'"
  using assms(1)
proof (cases rule: confirm_step.cases)
  case (confirm k b c ct)
  have "frozen catalogue d d'" by (simp add: confirm(1) confirmed_db_def frozen_def catalogue_def)
  then show ?thesis
    using assms(2) db_ok_confirmed [OF _ confirm(2,3)] by (auto simp: calm_def frozen_def confirm(1))
qed

context django
begin

lemma calm_insert [calm_intros]:
  assumes "model_of r \<notin> catalogue"
  shows "keeps (calm d0) (db_insert Orm p r)"
proof (rule keepsI)
  fix d assume d: "calm d0 d"
  show "calm d0 (snd (db_insert Orm p r d))"
  proof (cases rule: insert_cases [of r d p])
    case (1 k)
    have "db_ok (put_row (with_pk k r) d)" using d db_ok_put_row [of d "with_pk k r"] 1 by (simp add: calm_def)
    then show ?thesis using d assms 1 by (auto simp: calm_def frozen_def table_put_row)
  qed (use d in simp)
qed

lemma calm_users [calm_intros]:
  "keeps (calm d0) (save_new_user Orm x)"
  "keeps (in_db (calm d0)) (save_token Orm Srv t)"
  unfolding save_new_user_def save_token_def
  by (intro keeps_intros calm_intros; simp add: catalogue_def)+

lemma calm_reads:
  "keeps (calm d0) (product_list Orm rq)" "keeps (calm d0) (contact_list rq)" "keeps (calm d0) (detailed_contacts Orm rq)"
  "keeps (calm d0) (contact_detail k rq)" "keeps (calm d0) (order_history rq)"
  using reads_product_list reads_contact_list reads_detailed_contacts reads_contact_detail
  by (auto intro: reads_keeps_any)
    (unfold order_history_def order_history_data_def order_total_price_def, intro keeps_intros)

lemma calm_views:
  "keeps (in_db (calm d0)) (login_view Drf Srv rq)"
  "keeps (in_db (calm d0)) (register_view Orm Drf Srv rq)"
  "keeps (calm d0) (add_contact Orm Drf rq)"
  "keeps (in_db (calm d0)) (trigger_import Orm Srv rq)"
  unfolding login_view_def register_view_def add_contact_def trigger_import_def
  by (intro keeps_sum keeps_intros keeps_on_db keeps_update_world calm_intros reads_keeps_any [OF reads_data_get];
      simp add: catalogue_def)+

lemma calm_handler:
  assumes "handler Orm Drf Srv v m rq = Some h"
  shows "keeps (in_db (calm d0)) h"
proof -
  have cart: "keeps (calm d0) (run_cart_op op Orm rq)" for op
    by (rule keeps_run_cart_op [OF calm_db_ok]) (auto intro: calm_cart_step)
  have confirm: "keeps (in_db (calm d0)) (order_confirm Orm Drf Srv rq)"
    by (rule keeps_order_confirm [OF calm_db_ok]) (auto intro: calm_confirm_step)
  show ?thesis
    using assms by (cases "(Orm, Drf, Srv, v, m, rq)" rule: handler.cases)
      (auto simp del: run_cart_op.simps intro!: cart confirm calm_views calm_reads keeps_on_db)
qed

lemma calm_commands:
  "keeps (calm d0) (import_yaml_view Orm is_post f now)"
  "keeps (calm d0) (create_superuser Orm Srv email pw extra)"
  "keeps (in_db (calm d0)) (send_registration_email Orm Srv now email u)"
  "keeps (in_db (calm d0)) (send_order_confirmation_email Srv k c)"
  unfolding import_yaml_view_def create_superuser_def create_user_base_def send_registration_email_def
    send_order_confirmation_email_def Let_def
  by (intro keeps_intros calm_intros; simp add: catalogue_def)+

end

section \<open>Only the trigger queues an import\<close>

definition no_imports :: "world \<Rightarrow> bool" where
  "no_imports w \<longleftrightarrow> (\<forall>k. Import k \<notin> set (w_queue w))"

lemma queue_on_db: "keeps no_imports (on_db m)"
  by (simp add: keeps_def no_imports_def)

lemma queue_send_mail: "keeps no_imports (send_mail Srv l)"
  unfolding send_mail_def by (intro keeps_intros keeps_update_world) (simp add: no_imports_def)

lemma queue_delay: "(\<And>k. Import k \<noteq> t) \<Longrightarrow> keeps no_imports (delay Srv t)"
  unfolding delay_def by (intro keeps_intros keeps_update_world) (simp add: no_imports_def)

lemmas queue_intros = keeps_list keeps_sum keeps_intros queue_on_db queue_send_mail queue_delay

lemma queue_views:
  "keeps no_imports (login_view Drf Srv rq)"
  "keeps no_imports (register_view Orm Drf Srv rq)"
  "keeps no_imports (send_registration_email Orm Srv now email u)"
  "keeps no_imports (send_order_confirmation_email Srv k c)"
  unfolding login_view_def register_view_def send_registration_email_def
    send_order_confirmation_email_def save_token_def
  by (intro queue_intros keeps_update_world; simp add: no_imports_def)+

lemma queue_confirm: "keeps no_imports (order_confirm Orm Drf Srv rq)"
proof (cases "rq_user rq")
  case (Some u)
  show ?thesis
    unfolding order_confirm_def with_user_Some [OF Some]
    by (cases "rq_data rq") (auto split: option.splits intro!: queue_intros)
qed (simp add: order_confirm_def keeps_intros)

lemma queue_handler:
  assumes "handler Orm Drf Srv v m rq = Some h" "v \<noteq> TriggerImport"
  shows "keeps no_imports h"
  using assms by (cases "(Orm, Drf, Srv, v, m, rq)" rule: handler.cases)
    (auto simp del: run_cart_op.simps intro!: queue_views queue_confirm queue_on_db)

section \<open>Which step changes the catalogue\<close>

text \<open>The command \<^verbatim>\<open>load_db\<close>, and the request by which a member of the staff starts an import.\<close>

definition loads :: "orm \<Rightarrow> services \<Rightarrow> world \<Rightarrow> world \<Rightarrow> bool" where
  "loads Orm Srv w w' \<longleftrightarrow> (\<exists>path r. on_db (load_db_command Orm Srv path) w = (r, w'))"

definition staff_triggers :: "orm \<Rightarrow> drf \<Rightarrow> services \<Rightarrow> world \<Rightarrow> world \<Rightarrow> bool" where
  "staff_triggers Orm Drf Srv w w' \<longleftrightarrow> (\<exists>csrf_ok path rq r. serve Orm Drf Srv csrf_ok path POST rq w = (r, w') \<and>
     path \<in> {''/api/v1/admin/trigger-import/'', ''/api/admin/trigger-import/''} \<and> rq_user rq \<noteq> None \<and> rq_is_staff rq)"

lemma trigger_paths:
  "map_of root_urlpatterns path = Some TriggerImport \<Longrightarrow>
   path \<in> {''/api/v1/admin/trigger-import/'', ''/api/admin/trigger-import/''}"
  by (drule map_of_SomeD) (auto simp: root_urlpatterns_def urlpatterns_def)

context django
begin

lemma calm_serve: "keeps (in_db (calm d0)) (serve Orm Drf Srv csrf_ok path m rq)"
proof (cases "map_of root_urlpatterns path")
  case None
  then show ?thesis by (simp add: serve_def keeps_raise)
next
  case (Some v)
  have "keeps (in_db (calm d0)) (case handler Orm Drf Srv v m rq of None \<Rightarrow> raise MethodNotAllowed | Some h \<Rightarrow> h)"
    using calm_handler [of Drf Srv v m rq] by (cases "handler Orm Drf Srv v m rq") (simp_all add: keeps_raise)
  moreover have "keeps (in_db (calm d0)) (check_permissions v rq)"
    unfolding check_permissions_def by (intro keeps_intros)
  ultimately have "keeps (in_db (calm d0)) (andThen (check_permissions v rq) (\<lambda>_.
      case handler Orm Drf Srv v m rq of None \<Rightarrow> raise MethodNotAllowed | Some h \<Rightarrow> h))"
    by (intro keeps_andThen)
  then show ?thesis unfolding serve_def Some option.case by (intro keeps_if keeps_raise)
qed

lemma serve_queue:
  assumes "serve Orm Drf Srv csrf_ok path m rq w = (r, w')" "no_imports w"
  shows "no_imports w' \<or> staff_triggers Orm Drf Srv w w'"
proof (cases "map_of root_urlpatterns path")
  case None
  then show ?thesis using assms by (simp add: serve_def)
next
  case (Some v)
  show ?thesis
  proof (cases "v = TriggerImport \<and> m = POST \<and> rq_user rq \<noteq> None \<and> rq_is_staff rq")
    case True
    then have "staff_triggers Orm Drf Srv w w'"
      using assms(1) trigger_paths Some unfolding staff_triggers_def by blast
    then show ?thesis ..
  next
    case False
    have "w' = w \<or> (\<exists>h. handler Orm Drf Srv v m rq = Some h \<and> h w = (r, w') \<and> v \<noteq> TriggerImport)"
      using assms(1) Some False
      by (cases "v = TriggerImport"; cases "handler Orm Drf Srv v m rq"; cases m)
        (auto simp: serve_def check_permissions_def split: if_splits)
    then show ?thesis using keeps_result [OF queue_handler assms(2)] assms(2) by blast
  qed
qed

lemma step_calm:
  assumes "step Orm Drf Srv w w'" "calm d0 (w_db w)" "no_imports w"
  shows "loads Orm Srv w w' \<or> staff_triggers Orm Drf Srv w w' \<or> calm d0 (w_db w') \<and> no_imports w'"
  using assms(1)
proof (cases rule: step.cases)
  case (request csrf_ok path m rq r)
  then show ?thesis using serve_queue [OF request assms(3)] keeps_result [OF calm_serve _ request] assms(2) by auto
next
  case (upload is_post f now r)
  then show ?thesis
    using keeps_result [OF keeps_on_db [OF calm_commands(1)] _ upload] keeps_result [OF queue_on_db assms(3) upload] assms(2)
    by simp
next
  case (work ts t ts' now r)
  let ?w = "w\<lparr>w_queue := ts @ ts'\<rparr>"
  have t: "\<forall>k. t \<noteq> Import k" and w: "no_imports ?w" "calm d0 (w_db ?w)"
    using work(1) assms(2,3) by (auto simp: no_imports_def)
  have k: "keeps (in_db (calm d0)) (run_task Orm Srv now t)" "keeps no_imports (run_task Orm Srv now t)"
    using t unfolding run_task_def by (cases t; auto intro!: keeps_intros calm_commands queue_views)+
  show ?thesis using keeps_result [OF k(1) _ work(2)] keeps_result [OF k(2) w(1) work(2)] w(2) by simp
next
  case (load_db path r)
  then show ?thesis by (auto simp: loads_def)
next
  case (superuser email pw extra r)
  then show ?thesis
    using keeps_result [OF keeps_on_db [OF calm_commands(2)] _ superuser] keeps_result [OF queue_on_db assms(3) superuser] assms(2)
    by simp
qed

lemma reachable_calm:
  assumes "reachable Orm Drf Srv w w'" "calm d0 (w_db w)" "no_imports w" "\<not> calm d0 (w_db w')"
  shows "\<exists>w1 w2. reachable Orm Drf Srv w w1 \<and> (loads Orm Srv w1 w2 \<or> staff_triggers Orm Drf Srv w1 w2) \<and>
    reachable Orm Drf Srv w2 w'"
proof -
  obtain w1 w2 where "reachable Orm Drf Srv w w1" "step Orm Drf Srv w1 w2" "reachable Orm Drf Srv w2 w'"
    and "calm d0 (w_db w1) \<and> no_imports w1" "\<not> (calm d0 (w_db w2) \<and> no_imports w2)"
    using crossing [OF assms(1), of "\<lambda>w. \<not> (calm d0 (w_db w) \<and> no_imports w)"] assms(2-4) by blast
  then show ?thesis using step_calm by blast
qed

end

section \<open>Property\<close>


text \<open>A run of the command on a document whose categories are no list: the new shop stays.\<close>

definition new_shop_services :: services where
  "new_shop_services = test_services\<lparr>yaml_load := (\<lambda>s. Inr (PDict
     [(PStr ''shop'', PStr ''Euroset''), (PStr ''categories'', PInt 5), (PStr ''goods'', PList [])]))\<rparr>"

definition euroset :: shop where
  "euroset = \<lparr>s_id = 2, s_name = ''Euroset'', s_url = None, s_user = None, s_state = True\<rparr>"

definition loaded_world :: world where
  "loaded_world = snd (on_db (load_db_command sqlite new_shop_services ''f'') sample_world)"

lemma loaded_reachable: "reachable sqlite rest_impl new_shop_services sample_world loaded_world"
  unfolding loaded_world_def by (rule r_into_rtranclp) (rule step.load_db, rule surjective_pairing)

lemma new_shop: "get_or_create_shop sqlite (PStr ''Euroset'') None sample_db =
    (Inr (euroset, True), sample_db\<lparr>t_shops := t_shops sample_db @ [euroset]\<rparr>)"
  by code_simp

lemma loaded_changes: "\<not> frozen catalogue (w_db sample_world) (w_db loaded_world)"
proof -
  have "w_db loaded_world = sample_db\<lparr>t_shops := t_shops sample_db @ [euroset]\<rparr>"
    using new_shop by (simp add: loaded_world_def on_db_def load_db_command_def load_data_def read_source_def try_except_def
        new_shop_services_def test_services_def load_document_def sample_worlds)
  then have "table ShopM (w_db loaded_world) \<noteq> table ShopM (w_db sample_world)" by (simp add: sample_worlds)
  then show ?thesis unfolding frozen_def catalogue_def by blast
qed


end
