(* ===== verification/Admin.thy ===== *)
theory Admin
  imports Migrations System
begin

text \<open>
  The registrations of \<^verbatim>\<open>admin.py\<close>, in both applications, as data, with the checks that their names
  lead to fields of the migrated models; and the button that starts an import, which is shown exactly
  where the view behind it accepts the request.
\<close>

section \<open>Registrations\<close>

text \<open>
  The attributes of a \<^verbatim>\<open>ModelAdmin\<close> that name fields or, for inlines, models; \<open>ma_methods\<close> are the
  methods the class defines for \<^verbatim>\<open>list_display\<close>. The templates are left out.
\<close>

record inline_admin =
  il_model :: string
  il_extra :: nat
  il_can_delete :: bool

record model_admin =
  ma_display :: "string list"
  ma_filter :: "string list"
  ma_search :: "string list"
  ma_readonly :: "string list"
  ma_fieldsets :: "(string option \<times> string list) list"
  ma_inlines :: "inline_admin list"
  ma_methods :: "string list"

definition default_admin :: model_admin where
  "default_admin = \<lparr>ma_display = [''__str__''], ma_filter = [], ma_search = [], ma_readonly = [], ma_fieldsets = [],
     ma_inlines = [], ma_methods = [''__str__'']\<rparr>"

definition order_item_inline :: inline_admin where
  "order_item_inline = \<lparr>il_model = ''backend.orderitem'', il_extra = 0, il_can_delete = True\<rparr>"

definition user_admin :: model_admin where
  "user_admin = default_admin\<lparr>
     ma_display := [''email'', ''first_name'', ''last_name'', ''type'', ''company'', ''position'', ''is_active'', ''date_joined''],
     ma_filter := [''type'', ''is_active'', ''is_staff'', ''is_superuser'', ''date_joined'', ''company''],
     ma_search := [''email'', ''first_name'', ''last_name'', ''company'', ''position''],
     ma_fieldsets :=
       [(None, [''email'', ''password'']),
        (Some ''Personal info'', [''first_name'', ''last_name'', ''type'', ''company'', ''position'']),
        (Some ''Permissions'', [''is_active'', ''is_staff'', ''is_superuser'', ''groups'', ''user_permissions'']),
        (Some ''Important dates'', [''last_login'', ''date_joined''])]\<rparr>"

definition shop_admin :: model_admin where
  "shop_admin = default_admin\<lparr>ma_display := [''name'', ''url'', ''user'', ''state''],
     ma_filter := [''state'', ''user''], ma_search := [''name'', ''user__email'']\<rparr>"

definition category_admin :: model_admin where
  "category_admin = default_admin\<lparr>ma_display := [''name''], ma_search := [''name'']\<rparr>"

definition product_admin :: model_admin where
  "product_admin = default_admin\<lparr>ma_display := [''name'', ''category''],
     ma_filter := [''category''], ma_search := [''name'', ''category__name'']\<rparr>"

definition product_info_admin :: model_admin where
  "product_info_admin = default_admin\<lparr>
     ma_display := [''product'', ''shop'', ''external_id'', ''model'', ''price'', ''quantity''],
     ma_filter := [''shop'', ''product__category''],
     ma_search := [''product__name'', ''model'', ''external_id'', ''shop__name'']\<rparr>"

definition parameter_admin :: model_admin where
  "parameter_admin = default_admin\<lparr>ma_display := [''name''], ma_search := [''name'']\<rparr>"

definition product_parameter_admin :: model_admin where
  "product_parameter_admin = default_admin\<lparr>ma_display := [''product_info'', ''parameter'', ''value''],
     ma_filter := [''parameter'', ''product_info__shop''],
     ma_search := [''value'', ''parameter__name'', ''product_info__product__name'']\<rparr>"

definition order_admin :: model_admin where
  "order_admin = default_admin\<lparr>ma_display := [''id'', ''user'', ''dt'', ''state'', ''contact''],
     ma_filter := [''state'', ''dt'', ''user''],
     ma_search := [''user__email'', ''id'', ''contact__city'', ''contact__phone''],
     ma_inlines := [order_item_inline]\<rparr>"

definition contact_admin :: model_admin where
  "contact_admin = default_admin\<lparr>ma_display := [''user'', ''city'', ''street'', ''house'', ''phone''],
     ma_filter := [''city'', ''user''], ma_search := [''user__email'', ''city'', ''phone'', ''street'']\<rparr>"

definition email_token_admin :: model_admin where
  "email_token_admin = default_admin\<lparr>ma_display := [''user'', ''key'', ''created_at''],
     ma_filter := [''created_at''], ma_search := [''user__email'', ''key''],
     ma_readonly := [''key'', ''created_at'', ''user'']\<rparr>"

definition import_task_admin :: model_admin where
  "import_task_admin = default_admin\<lparr>
     ma_display := [''id'', ''uploaded_at'', ''is_processed'', ''products_count'', ''categories_count'', ''parameters_count'',
       ''trigger_import_button''],
     ma_filter := [''is_processed'', ''uploaded_at''],
     ma_readonly := [''uploaded_at'', ''is_processed'', ''products_count'', ''categories_count'', ''parameters_count''],
     ma_methods := [''__str__'', ''trigger_import_button'']\<rparr>"

type_synonym admin_site = "(string \<times> model_admin) list"

definition admin_py :: admin_site where
  "admin_py =
     [(''backend.user'', user_admin), (''backend.shop'', shop_admin), (''backend.category'', category_admin),
      (''backend.product'', product_admin), (''backend.productinfo'', product_info_admin),
      (''backend.parameter'', parameter_admin), (''backend.productparameter'', product_parameter_admin),
      (''backend.order'', order_admin), (''backend.contact'', contact_admin),
      (''backend.confirmemailtoken'', email_token_admin), (''backend.importtask'', import_task_admin)]"

text \<open>
  The reference application. \<^verbatim>\<open>CustomUserAdmin\<close> extends the \<^verbatim>\<open>UserAdmin\<close> of \<^verbatim>\<open>django.contrib.auth\<close>,
  the argument \<open>base\<close>.
\<close>

definition custom_user_admin :: "model_admin \<Rightarrow> model_admin" where
  "custom_user_admin base = base\<lparr>
     ma_fieldsets :=
       [(None, [''email'', ''password'', ''type'']),
        (Some ''Personal info'', [''first_name'', ''last_name'', ''company'', ''position'']),
        (Some ''Permissions'', [''is_active'', ''is_staff'', ''is_superuser'', ''groups'', ''user_permissions'']),
        (Some ''Important dates'', [''last_login'', ''date_joined''])],
     ma_display := [''email'', ''first_name'', ''last_name'', ''is_staff'']\<rparr>"

definition ref_email_token_admin :: model_admin where
  "ref_email_token_admin = default_admin\<lparr>ma_display := [''user'', ''key'', ''created_at'']\<rparr>"

definition ref_admin_py :: "model_admin \<Rightarrow> admin_site" where
  "ref_admin_py base =
     [(''backend.user'', custom_user_admin base), (''backend.shop'', default_admin), (''backend.category'', default_admin),
      (''backend.product'', default_admin), (''backend.productinfo'', default_admin), (''backend.parameter'', default_admin),
      (''backend.productparameter'', default_admin), (''backend.order'', default_admin), (''backend.orderitem'', default_admin),
      (''backend.contact'', default_admin), (''backend.confirmemailtoken'', ref_email_token_admin)]"

section \<open>Names lead to fields\<close>

text \<open>A path as \<^verbatim>\<open>product_info__product__name\<close> follows relations; its parts are separated by two underscores.\<close>

fun path_parts :: "string \<Rightarrow> string \<Rightarrow> string list" where
  "path_parts acc [] = [rev acc]"
| "path_parts acc [c] = [rev (c # acc)]"
| "path_parts acc (c # c' # cs) =
     (if c = CHR ''_'' \<and> c' = CHR ''_'' then rev acc # path_parts [] cs else path_parts (c # acc) (c' # cs))"

definition field_of :: "schema \<Rightarrow> string \<Rightarrow> string \<Rightarrow> field_decl option" where
  "field_of st label f = (case map_of st label of None \<Rightarrow> None | Some md \<Rightarrow> map_of (md_fields md) f)"

fun target :: "field_kind \<Rightarrow> string option" where
  "target (ForeignKey t) = Some t"
| "target (OneToOneField t) = Some t"
| "target (ManyToManyField t) = Some t"
| "target k = None"

fun resolve :: "schema \<Rightarrow> string \<Rightarrow> string list \<Rightarrow> field_decl option" where
  "resolve st label [] = None"
| "resolve st label [f] = field_of st label f"
| "resolve st label (f # fs) = (case field_of st label f of
       None \<Rightarrow> None
     | Some decl \<Rightarrow> (case target (fd_kind decl) of None \<Rightarrow> None | Some t \<Rightarrow> resolve st t fs))"

text \<open>
  What the pages of the admin need of each name. A column of the list is a method or a field other
  than a many-to-many one; a filter is a path to any field; a search path ends in a field that is no
  relation; a read-only name is a method or a field; the form shows no field twice and each is
  editable or read-only; an inline model has exactly one foreign key to the model.
\<close>

definition displayable :: "schema \<Rightarrow> string \<Rightarrow> model_admin \<Rightarrow> string \<Rightarrow> bool" where
  "displayable st label a f \<longleftrightarrow> f \<in> set (ma_methods a) \<or>
     (case field_of st label f of None \<Rightarrow> False
      | Some decl \<Rightarrow> (case fd_kind decl of ManyToManyField t \<Rightarrow> False | _ \<Rightarrow> True))"

definition searchable :: "schema \<Rightarrow> string \<Rightarrow> string \<Rightarrow> bool" where
  "searchable st label p \<longleftrightarrow> (case resolve st label (path_parts [] p) of None \<Rightarrow> False | Some decl \<Rightarrow> target (fd_kind decl) = None)"

definition form_field :: "schema \<Rightarrow> string \<Rightarrow> model_admin \<Rightarrow> string \<Rightarrow> bool" where
  "form_field st label a f \<longleftrightarrow> f \<in> set (ma_readonly a) \<or>
     (case field_of st label f of None \<Rightarrow> False | Some decl \<Rightarrow> \<not> fd_auto_now_add decl)"

definition inline_ok :: "schema \<Rightarrow> string \<Rightarrow> string \<Rightarrow> bool" where
  "inline_ok st label m \<longleftrightarrow> (case map_of st m of None \<Rightarrow> False
     | Some md \<Rightarrow> length (filter (\<lambda>(f, decl). fd_kind decl = ForeignKey label) (md_fields md)) = 1)"

definition registration_ok :: "schema \<Rightarrow> string \<Rightarrow> model_admin \<Rightarrow> bool" where
  "registration_ok st label a \<longleftrightarrow>
     map_of st label \<noteq> None \<and>
     list_all (displayable st label a) (ma_display a) \<and>
     list_all (\<lambda>p. resolve st label (path_parts [] p) \<noteq> None) (ma_filter a) \<and>
     list_all (searchable st label) (ma_search a) \<and>
     list_all (\<lambda>f. f \<in> set (ma_methods a) \<or> field_of st label f \<noteq> None) (ma_readonly a) \<and>
     distinct (concat (map snd (ma_fieldsets a))) \<and>
     list_all (form_field st label a) (concat (map snd (ma_fieldsets a))) \<and>
     list_all (\<lambda>i. inline_ok st label (il_model i)) (ma_inlines a)"

definition site_ok :: "schema \<Rightarrow> admin_site \<Rightarrow> bool" where
  "site_ok st site \<longleftrightarrow> distinct (map fst site) \<and> list_all (\<lambda>(label, a). registration_ok st label a) site"

text \<open>Every model can be reached: it is registered, or an inline of one that is.\<close>

definition covers :: "admin_site \<Rightarrow> schema \<Rightarrow> bool" where
  "covers site st \<longleftrightarrow> list_all (\<lambda>(label, md). label \<in> set (map fst site) \<or> list_ex (\<lambda>(m, a). label \<in> il_model ` set (ma_inlines a)) site) st"


text \<open>The same for the reference application, with what Django's \<^verbatim>\<open>UserAdmin\<close> declares for the attributes it keeps.\<close>

definition auth_user_admin :: model_admin where
  "auth_user_admin = default_admin\<lparr>ma_filter := [''is_staff'', ''is_superuser'', ''is_active'', ''groups''],
     ma_search := [''username'', ''first_name'', ''last_name'', ''email'']\<rparr>"

lemma auth_user_site: "site_ok ref_migrated (ref_admin_py auth_user_admin) \<and> covers (ref_admin_py auth_user_admin) ref_migrated"
  by code_simp

lemma ref_admin_site_resolves:
  assumes "ma_filter base = ma_filter auth_user_admin" "ma_search base = ma_search auth_user_admin"
    "ma_readonly base = []" "ma_inlines base = []" "ma_methods base = [''__str__'']"
  shows "site_ok ref_migrated (ref_admin_py base) \<and> covers (ref_admin_py base) ref_migrated"
proof -
  have "custom_user_admin base = custom_user_admin auth_user_admin"
    using assms by (cases base) (simp add: custom_user_admin_def auth_user_admin_def default_admin_def)
  then have "ref_admin_py base = ref_admin_py auth_user_admin" by (simp add: ref_admin_py_def)
  then show ?thesis using auth_user_site by simp
qed

section \<open>The button that starts an import\<close>

text \<open>
  \<^verbatim>\<open>trigger_import_button\<close>: a processed task shows a note, any other one a button whose script posts
  the key of the task, with the CSRF token of the page.
\<close>

datatype import_button = Start_button int | Processed_note

definition trigger_import_button :: "import_task \<Rightarrow> import_button" where
  "trigger_import_button obj = (if \<not> it_is_processed obj then Start_button (it_id obj) else Processed_note)"

definition post_import :: "orm \<Rightarrow> drf \<Rightarrow> services \<Rightarrow> int \<Rightarrow> request \<Rightarrow> (world, response) comp" where
  "post_import Orm Drf Srv k rq = serve Orm Drf Srv True ''/api/admin/trigger-import/'' POST
     (rq\<lparr>rq_data := PDict [(PStr ''import_task_id'', PInt k)]\<rparr>)"

lemma db_ok_one_task:
  assumes "db_ok d" "task \<in> set (t_import_tasks d)"
  shows "filter (\<lambda>t. it_id t = it_id task) (t_import_tasks d) = [task]"
proof (rule filter_eq_single [OF _ assms(2)])
  show "distinct (map it_id (t_import_tasks d))" using db_ok_distinct [OF assms(1), of ImportTaskM] by (simp add: comp_def)
qed

text \<open>What the view behind the button answers for a task that is not processed.\<close>

definition import_started :: "services \<Rightarrow> int \<Rightarrow> world \<Rightarrow> (exn + response) \<times> world" where
  "import_started Srv k w = (case broker Srv (Import (PInt k)) of
     Inl e \<Rightarrow> (Inr (if e = DoesNotExist then Resp 404 (Error Import_task_not_found) else Resp 500 (Error Import_failed_to_start)), w)
   | Inr job \<Rightarrow> (Inr (Resp 200 (Data (PDict [(PStr ''task_id'', PStr job), (PStr ''status'', PStr ''started''),
       (PStr ''import_task_id'', PInt k)]))), w\<lparr>w_queue := w_queue w @ [Import (PInt k)]\<rparr>))"

lemma import_path_served: "map_of root_urlpatterns ''/api/admin/trigger-import/'' = Some TriggerImport"
  by code_simp

context django
begin

lemma post_import_run:
  assumes "db_ok (w_db w)" "task \<in> set (t_import_tasks (w_db w))" "it_id task \<noteq> 0" "rq_user rq = Some u" "rq_is_staff rq"
  shows "post_import Orm Drf Srv (it_id task) rq w =
    (if it_is_processed task then (Inr (Resp 400 (Error Import_already_processed)), w) else import_started Srv (it_id task) w)"
  using assms(3-5) db_ok_one_task [OF assms(1,2)]
  by (auto simp: post_import_def serve_def import_path_served check_permissions_def trigger_import_def data_get_def
      on_db_def prep_int_PInt get_one_def try_except_def import_started_def delay_def update_world_def split: sum.splits)

end

text \<open>C37: The button of the administration and the view agree. For a stored task that is not processed the page
  shows a button, and the request that the button sends for a member of the staff is answered with
  status 200 and queues the import of this very task, once and without any other change, unless the
  message broker fails; for a processed task no button is shown, and the same request would be
  refused with status 400 and change nothing.\<close>

theorem import_button_exact:
  assumes "django Orm" "db_ok (w_db w)" "task \<in> set (t_import_tasks (w_db w))" "it_id task \<noteq> 0"
    "rq_user rq = Some u" "rq_is_staff rq"
  shows "case trigger_import_button task of
      Start_button k \<Rightarrow> k = it_id task \<and> post_import Orm Drf Srv k rq w = import_started Srv (it_id task) w
    | Processed_note \<Rightarrow>
        post_import Orm Drf Srv (it_id task) rq w = (Inr (Resp 400 (Error Import_already_processed)), w)"
  using django.post_import_run [OF assms, of Drf Srv] by (simp add: trigger_import_button_def)

definition waiting_task :: import_task where
  "waiting_task = \<lparr>it_id = 7, it_file = ''shop1.yaml'', it_uploaded_at = 0, it_is_processed = False, it_products = 0,
     it_categories = 0, it_parameters = 0\<rparr>"

definition upload_world :: world where
  "upload_world = sample_world\<lparr>w_db := sample_db\<lparr>t_import_tasks := [waiting_task]\<rparr>\<rparr>"

lemma upload_world_ok: "db_ok (w_db upload_world)" "waiting_task \<in> set (t_import_tasks (w_db upload_world))"
  by (simp_all add: upload_world_def sample_world_def waiting_task_def db_ok_def all_models_def row_ok_def
      refs_ok_def unique_ok_def positive_ok_def sample_eval)

theorem import_button_exact_witness:
  "trigger_import_button waiting_task = Start_button 7 \<and>
   post_import sqlite rest_impl test_services 7 ((sample_request 1 [])\<lparr>rq_is_staff := True\<rparr>) upload_world =
     import_started test_services 7 upload_world"
  using import_button_exact [OF sqlite.django_axioms upload_world_ok, of "(sample_request 1 [])\<lparr>rq_is_staff := True\<rparr>" 1
      rest_impl test_services]
  by (simp add: trigger_import_button_def waiting_task_def sample_request_def)

end
