(* ===== verification/Settings.thy ===== *)
theory Settings
  imports Migrations System
begin

text \<open>
  The settings modules of both applications as data, with the checks that Django makes of them, the
  Celery application built from them, and what the configured chain of middleware means for the
  check of CSRF tokens in \<open>serve\<close>.
\<close>

section \<open>The settings of the application\<close>

text \<open>
  \<open>base\<close> is \<^verbatim>\<open>BASE_DIR\<close>, which depends on where the file lies, \<open>env\<close> the environment of the process.
  The secret key and, in the other application, the password of the mail account are arguments too.
  A tuple is written as a list.
\<close>

type_synonym settings = "(string \<times> pyval) list"

abbreviation strs :: "string list \<Rightarrow> pyval" where
  "strs ss \<equiv> PList (map PStr ss)"

abbreviation dict :: "(string \<times> pyval) list \<Rightarrow> pyval" where
  "dict kvs \<equiv> PDict (map (\<lambda>(k, v). (PStr k, v)) kvs)"

definition environ_get :: "(string \<rightharpoonup> string) \<Rightarrow> string \<Rightarrow> string \<Rightarrow> string" where
  "environ_get env k d = (case env k of None \<Rightarrow> d | Some v \<Rightarrow> v)"

definition installed_apps :: "string list" where
  "installed_apps =
     [''django.contrib.admin'', ''django.contrib.auth'', ''django.contrib.contenttypes'', ''django.contrib.sessions'',
      ''django.contrib.messages'', ''django.contrib.staticfiles'', ''backend'', ''rest_framework'']"

definition middleware :: "string list" where
  "middleware =
     [''django.middleware.security.SecurityMiddleware'',
      ''django.contrib.sessions.middleware.SessionMiddleware'',
      ''django.middleware.common.CommonMiddleware'',
      ''backend.middleware.DisableCSRFForAPIMiddleware'',
      ''django.middleware.csrf.CsrfViewMiddleware'',
      ''django.contrib.auth.middleware.AuthenticationMiddleware'',
      ''django.contrib.messages.middleware.MessageMiddleware'',
      ''django.middleware.clickjacking.XFrameOptionsMiddleware'']"

definition templates :: pyval where
  "templates = PList [dict
     [(''BACKEND'', PStr ''django.template.backends.django.DjangoTemplates''),
      (''DIRS'', PList []),
      (''APP_DIRS'', PBool True),
      (''OPTIONS'', dict [(''context_processors'', strs
        [''django.template.context_processors.request'',
         ''django.contrib.auth.context_processors.auth'',
         ''django.contrib.messages.context_processors.messages''])])]]"

definition password_validators :: pyval where
  "password_validators = PList (map (\<lambda>v. dict [(''NAME'', PStr (''django.contrib.auth.password_validation.'' @ v))])
     [''UserAttributeSimilarityValidator'', ''MinimumLengthValidator'', ''CommonPasswordValidator'',
      ''NumericPasswordValidator''])"

definition settings_py :: "string \<Rightarrow> string \<Rightarrow> (string \<rightharpoonup> string) \<Rightarrow> settings" where
  "settings_py base secret env =
     [(''BASE_DIR'', PStr base),
      (''SECRET_KEY'', PStr secret),
      (''DEBUG'', PBool True),
      (''ALLOWED_HOSTS'', PList []),
      (''INSTALLED_APPS'', strs installed_apps),
      (''MIDDLEWARE'', strs middleware),
      (''ROOT_URLCONF'', PStr ''orders.urls''),
      (''TEMPLATES'', templates),
      (''WSGI_APPLICATION'', PStr ''orders.wsgi.application''),
      (''DATABASES'', dict [(''default'', dict
        [(''ENGINE'', PStr ''django.db.backends.sqlite3''), (''NAME'', PStr (base @ ''/db.sqlite3''))])]),
      (''AUTH_PASSWORD_VALIDATORS'', password_validators),
      (''LANGUAGE_CODE'', PStr ''en-us''),
      (''TIME_ZONE'', PStr ''UTC''),
      (''USE_I18N'', PBool True),
      (''USE_TZ'', PBool True),
      (''STATIC_URL'', PStr ''static/''),
      (''DEFAULT_AUTO_FIELD'', PStr ''django.db.models.BigAutoField''),
      (''AUTH_USER_MODEL'', PStr ''backend.User''),
      (''EMAIL_BACKEND'', PStr ''django.core.mail.backends.console.EmailBackend''),
      (''CELERY_BROKER_URL'', PStr (environ_get env ''CELERY_BROKER_URL'' ''redis://redis:6379/0'')),
      (''CELERY_RESULT_BACKEND'', PStr (environ_get env ''CELERY_RESULT_BACKEND'' ''redis://redis:6379/0'')),
      (''CELERY_ACCEPT_CONTENT'', strs [''json'']),
      (''CELERY_TASK_SERIALIZER'', PStr ''json''),
      (''CELERY_RESULT_SERIALIZER'', PStr ''json''),
      (''CELERY_TIMEZONE'', PStr ''UTC''),
      (''DEFAULT_FROM_EMAIL'', PStr ''noreply@localhost'')]"

section \<open>The settings of the reference application\<close>

definition ref_installed_apps :: "string list" where
  "ref_installed_apps =
     [''django.contrib.admin'', ''django.contrib.auth'', ''django.contrib.contenttypes'', ''django.contrib.sessions'',
      ''django.contrib.messages'', ''django.contrib.staticfiles'', ''rest_framework'', ''rest_framework.authtoken'',
      ''django_rest_passwordreset'', ''backend'']"

definition ref_middleware :: "string list" where
  "ref_middleware =
     [''django.middleware.security.SecurityMiddleware'',
      ''django.contrib.sessions.middleware.SessionMiddleware'',
      ''django.middleware.common.CommonMiddleware'',
      ''django.middleware.csrf.CsrfViewMiddleware'',
      ''django.contrib.auth.middleware.AuthenticationMiddleware'',
      ''django.contrib.messages.middleware.MessageMiddleware'',
      ''django.middleware.clickjacking.XFrameOptionsMiddleware'']"

definition ref_templates :: "string \<Rightarrow> pyval" where
  "ref_templates base = PList [dict
     [(''BACKEND'', PStr ''django.template.backends.django.DjangoTemplates''),
      (''DIRS'', strs [base @ ''/templates'']),
      (''APP_DIRS'', PBool True),
      (''OPTIONS'', dict [(''context_processors'', strs
        [''django.template.context_processors.debug'',
         ''django.template.context_processors.request'',
         ''django.contrib.auth.context_processors.auth'',
         ''django.contrib.messages.context_processors.messages''])])]]"

definition rest_framework_settings :: pyval where
  "rest_framework_settings = dict
     [(''DEFAULT_PAGINATION_CLASS'', PStr ''rest_framework.pagination.PageNumberPagination''),
      (''PAGE_SIZE'', PInt 40),
      (''DEFAULT_RENDERER_CLASSES'', strs
        [''rest_framework.renderers.JSONRenderer'', ''rest_framework.renderers.BrowsableAPIRenderer'']),
      (''DEFAULT_AUTHENTICATION_CLASSES'', strs [''rest_framework.authentication.TokenAuthentication''])]"

definition ref_settings_py :: "string \<Rightarrow> string \<Rightarrow> string \<Rightarrow> settings" where
  "ref_settings_py base secret password =
     [(''BASE_DIR'', PStr base),
      (''SECRET_KEY'', PStr secret),
      (''DEBUG'', PBool True),
      (''ALLOWED_HOSTS'', strs [''*'']),
      (''INSTALLED_APPS'', strs ref_installed_apps),
      (''MIDDLEWARE'', strs ref_middleware),
      (''ROOT_URLCONF'', PStr ''netology_pd_diplom.urls''),
      (''TEMPLATES'', ref_templates base),
      (''WSGI_APPLICATION'', PStr ''netology_pd_diplom.wsgi.application''),
      (''DATABASES'', dict [(''default'', dict
        [(''ENGINE'', PStr ''django.db.backends.sqlite3''), (''NAME'', PStr (base @ ''/db.sqlite3''))])]),
      (''AUTH_PASSWORD_VALIDATORS'', password_validators),
      (''LANGUAGE_CODE'', PStr ''en-us''),
      (''TIME_ZONE'', PStr ''UTC''),
      (''USE_I18N'', PBool True),
      (''USE_L10N'', PBool True),
      (''USE_TZ'', PBool True),
      (''STATIC_URL'', PStr ''/static/''),
      (''AUTH_USER_MODEL'', PStr ''backend.User''),
      (''EMAIL_BACKEND'', PStr ''django.core.mail.backends.smtp.EmailBackend''),
      (''EMAIL_HOST'', PStr ''smtp.mail.ru''),
      (''EMAIL_HOST_USER'', PStr ''netology.diplom@mail.ru''),
      (''EMAIL_HOST_PASSWORD'', PStr password),
      (''EMAIL_PORT'', PStr ''465''),
      (''EMAIL_USE_SSL'', PBool True),
      (''SERVER_EMAIL'', PStr ''netology.diplom@mail.ru''),
      (''REST_FRAMEWORK'', rest_framework_settings),
      (''DEFAULT_AUTO_FIELD'', PStr ''django.db.models.BigAutoField'')]"

section \<open>The checks that Django makes\<close>

definition setting :: "settings \<Rightarrow> string \<Rightarrow> pyval" where
  "setting st k = (case map_of st k of None \<Rightarrow> PNone | Some v \<Rightarrow> v)"

fun elems :: "pyval \<Rightarrow> pyval list" where
  "elems (PList vs) = vs"
| "elems v = []"

fun entry :: "string \<Rightarrow> pyval \<Rightarrow> pyval" where
  "entry k (PDict kvs) = (case map_of kvs (PStr k) of None \<Rightarrow> PNone | Some v \<Rightarrow> v)"
| "entry k v = PNone"

definition lists :: "settings \<Rightarrow> string \<Rightarrow> string \<Rightarrow> bool" where
  "lists st k s \<longleftrightarrow> PStr s \<in> set (elems (setting st k))"

definition context_processors :: "settings \<Rightarrow> pyval list" where
  "context_processors st = concat (map (\<lambda>t.
     if entry ''BACKEND'' t = PStr ''django.template.backends.django.DjangoTemplates''
     then elems (entry ''context_processors'' (entry ''OPTIONS'' t)) else []) (elems (setting st ''TEMPLATES'')))"

text \<open>The checks of \<^verbatim>\<open>django.contrib.admin\<close> on what it depends on, by their documented identifiers.\<close>

definition admin_checks :: "settings \<Rightarrow> string list" where
  "admin_checks st = concat (map (\<lambda>(ok, e). if ok then [] else [e])
     [(lists st ''INSTALLED_APPS'' ''django.contrib.contenttypes'', ''admin.E401''),
      (PStr ''django.contrib.auth.context_processors.auth'' \<in> set (context_processors st), ''admin.E402''),
      (list_ex (\<lambda>t. entry ''BACKEND'' t = PStr ''django.template.backends.django.DjangoTemplates'')
         (elems (setting st ''TEMPLATES'')), ''admin.E403''),
      (PStr ''django.contrib.messages.context_processors.messages'' \<in> set (context_processors st), ''admin.E404''),
      (lists st ''INSTALLED_APPS'' ''django.contrib.auth'', ''admin.E405''),
      (lists st ''INSTALLED_APPS'' ''django.contrib.messages'', ''admin.E406''),
      (lists st ''MIDDLEWARE'' ''django.contrib.auth.middleware.AuthenticationMiddleware'', ''admin.E408''),
      (lists st ''MIDDLEWARE'' ''django.contrib.messages.middleware.MessageMiddleware'', ''admin.E409''),
      (lists st ''MIDDLEWARE'' ''django.contrib.sessions.middleware.SessionMiddleware'', ''admin.E410'')])"

text \<open>Sessions must be opened before the middleware that reads them.\<close>

definition before :: "pyval list \<Rightarrow> string \<Rightarrow> string \<Rightarrow> bool" where
  "before vs a b \<longleftrightarrow> PStr b \<in> set (dropWhile (\<lambda>v. v \<noteq> PStr a) vs) \<and> PStr b \<notin> set (takeWhile (\<lambda>v. v \<noteq> PStr a) vs)"

definition middleware_ordered :: "settings \<Rightarrow> bool" where
  "middleware_ordered st \<longleftrightarrow> (let vs = elems (setting st ''MIDDLEWARE'') in
     distinct vs \<and>
     before vs ''django.contrib.sessions.middleware.SessionMiddleware'' ''django.contrib.auth.middleware.AuthenticationMiddleware'' \<and>
     before vs ''django.contrib.sessions.middleware.SessionMiddleware'' ''django.contrib.messages.middleware.MessageMiddleware'')"

text \<open>
  The label of an application is the last part of its name. The models, the targets of their
  relations and the user model must belong to installed applications.
\<close>

definition last_part :: "string \<Rightarrow> string" where
  "last_part s = rev (takeWhile (\<lambda>c. c \<noteq> CHR ''.'') (rev s))"

definition app_of :: "string \<Rightarrow> string" where
  "app_of label = takeWhile (\<lambda>c. c \<noteq> CHR ''.'') label"

definition labels :: "settings \<Rightarrow> string list" where
  "labels st = concat (map (\<lambda>v. case v of PStr s \<Rightarrow> [last_part s] | _ \<Rightarrow> []) (elems (setting st ''INSTALLED_APPS'')))"

definition related_labels :: "model_decl \<Rightarrow> string list" where
  "related_labels md = concat (map (\<lambda>(f, x). case fd_kind x of
     ForeignKey t \<Rightarrow> [t] | OneToOneField t \<Rightarrow> [t] | ManyToManyField t \<Rightarrow> [t] | _ \<Rightarrow> []) (md_fields md))"

definition models_installed :: "settings \<Rightarrow> schema \<Rightarrow> bool" where
  "models_installed st sch \<longleftrightarrow> distinct (labels st) \<and>
     list_all (\<lambda>(label, md). list_all (\<lambda>l. app_of l \<in> set (labels st)) (label # related_labels md)) sch \<and>
     (case setting st ''AUTH_USER_MODEL'' of PStr m \<Rightarrow> map lower m \<in> set (map fst sch) | _ \<Rightarrow> False)"

text \<open>The key column of every table is of the declared default kind.\<close>

definition default_keys :: "settings \<Rightarrow> schema \<Rightarrow> bool" where
  "default_keys st sch \<longleftrightarrow> setting st ''DEFAULT_AUTO_FIELD'' = PStr ''django.db.models.BigAutoField'' \<and>
     list_all (\<lambda>(label, md). map_of (md_fields md) ''id'' = Some (plain BigAutoField)) sch"

text \<open>\<^verbatim>\<open>TokenAuthentication\<close> needs the tables of its own application.\<close>

definition tokens_installed :: "settings \<Rightarrow> bool" where
  "tokens_installed st \<longleftrightarrow> PStr ''rest_framework.authentication.TokenAuthentication''
       \<in> set (elems (entry ''DEFAULT_AUTHENTICATION_CLASSES'' (setting st ''REST_FRAMEWORK''))) \<longrightarrow>
     lists st ''INSTALLED_APPS'' ''rest_framework.authtoken''"

definition settings_ok :: "settings \<Rightarrow> schema \<Rightarrow> bool" where
  "settings_ok st sch \<longleftrightarrow> admin_checks st = [] \<and> middleware_ordered st \<and> models_installed st sch \<and> default_keys st sch \<and>
     tokens_installed st"

lemma settings_checked: "settings_ok (settings_py base secret env) migrated"
  by code_simp

lemma ref_settings_checked: "settings_ok (ref_settings_py base secret password) ref_migrated"
  by code_simp

section \<open>The Celery application\<close>

text \<open>
  \<^verbatim>\<open>config_from_object\<close> with a namespace takes the settings whose name begins with it; the rest of the
  name, in lower case, is the option.
\<close>

definition config_from_object :: "string \<Rightarrow> settings \<Rightarrow> settings" where
  "config_from_object namespace st = concat (map (\<lambda>(k, v).
     if has_prefix (namespace @ ''_'') k then [(map lower (drop (length namespace + 1) k), v)] else []) st)"

definition celery_app :: "settings \<Rightarrow> settings" where
  "celery_app st = config_from_object ''CELERY'' st"

definition celeryconfig_py :: settings where
  "celeryconfig_py =
     [(''broker_url'', PStr ''redis://redis:6379/0''),
      (''result_backend'', PStr ''redis://redis:6379/0''),
      (''task_serializer'', PStr ''json''),
      (''result_serializer'', PStr ''json''),
      (''accept_content'', strs [''json'']),
      (''timezone'', PStr ''UTC''),
      (''enable_utc'', PBool True)]"

text \<open>A worker only takes messages in a format it accepts.\<close>

definition worker_reads :: "settings \<Rightarrow> bool" where
  "worker_reads app \<longleftrightarrow> lists app ''accept_content'' ''json'' \<and> setting app ''task_serializer'' = PStr ''json'' \<and>
     setting app ''result_serializer'' = PStr ''json''"

lemma celery_app_eq:
  "celery_app (settings_py base secret env) =
     [(''broker_url'', PStr (environ_get env ''CELERY_BROKER_URL'' ''redis://redis:6379/0'')),
      (''result_backend'', PStr (environ_get env ''CELERY_RESULT_BACKEND'' ''redis://redis:6379/0'')),
      (''accept_content'', strs [''json'']), (''task_serializer'', PStr ''json''), (''result_serializer'', PStr ''json''),
      (''timezone'', PStr ''UTC'')]"
  by code_simp

lemma celery_worker_reads: "worker_reads (celery_app (settings_py base secret env))"
  unfolding celery_app_eq by (simp add: worker_reads_def setting_def lists_def)


section \<open>The chain of middleware\<close>

text \<open>
  \<^verbatim>\<open>process_request\<close> of each middleware runs in the order of the list, before any view. Only
  \<^verbatim>\<open>DisableCSRFForAPIMiddleware\<close> sets \<^verbatim>\<open>_dont_enforce_csrf_checks\<close>, which the check of session
  authentication obeys.
\<close>

definition process_request :: "string \<Rightarrow> string \<Rightarrow> bool \<Rightarrow> bool" where
  "process_request m path unchecked =
     (if m = ''backend.middleware.DisableCSRFForAPIMiddleware'' \<and> has_prefix ''/api/v1/'' path then True else unchecked)"

definition csrf_unchecked :: "settings \<Rightarrow> string \<Rightarrow> bool" where
  "csrf_unchecked st path =
     fold (\<lambda>v. case v of PStr m \<Rightarrow> process_request m path | _ \<Rightarrow> id) (elems (setting st ''MIDDLEWARE'')) False"

lemma chain_unchecked:
  "fold (\<lambda>v. case v of PStr m \<Rightarrow> process_request m path | _ \<Rightarrow> id) vs b \<longleftrightarrow>
     b \<or> PStr ''backend.middleware.DisableCSRFForAPIMiddleware'' \<in> set vs \<and> has_prefix ''/api/v1/'' path"
proof (induction vs arbitrary: b)
  case (Cons v vs)
  show ?case by (cases v) (auto simp: Cons.IH process_request_def)
qed simp

lemma csrf_unchecked_app: "csrf_unchecked (settings_py base secret env) path \<longleftrightarrow> csrf_disabled path"
proof -
  have "PStr ''backend.middleware.DisableCSRFForAPIMiddleware'' \<in> set (elems (setting (settings_py base secret env) ''MIDDLEWARE''))"
    by code_simp
  then show ?thesis by (simp add: csrf_unchecked_def chain_unchecked csrf_disabled_def)
qed

lemma csrf_unchecked_ref: "\<not> csrf_unchecked (ref_settings_py base secret password) path"
proof -
  have "PStr ''backend.middleware.DisableCSRFForAPIMiddleware'' \<notin> set (elems (setting (ref_settings_py base secret password) ''MIDDLEWARE''))"
    by code_simp
  then show ?thesis by (simp add: csrf_unchecked_def chain_unchecked)
qed

lemma csrf_paths:
  assumes "map_of root_urlpatterns path = Some v"
  shows "csrf_disabled path \<longleftrightarrow> path \<noteq> ''/api/admin/trigger-import/''"
proof -
  have "list_all (\<lambda>(p, v). csrf_disabled p \<longleftrightarrow> p \<noteq> ''/api/admin/trigger-import/'') root_urlpatterns" by code_simp
  then show ?thesis using map_of_SomeD [OF assms] by (auto simp: list_all_iff)
qed

text \<open>C16: Which requests are checked for a CSRF token. For a user whose session comes with the request, and a method
  that may change something: on every path of the API but the second one of the import trigger, the configured chain
  of middleware switches the check off, and a request without a token is served exactly like one with a
  token, for every view, body and state; on that one path it is refused and changes nothing.\<close>

theorem csrf_exemption_exact:
  assumes "map_of root_urlpatterns path = Some v" "rq_user rq \<noteq> None" "m \<noteq> GET"
  shows "(csrf_unchecked (settings_py base secret env) path \<longleftrightarrow> path \<noteq> ''/api/admin/trigger-import/'') \<and>
    serve Orm Drf Srv False path m rq w =
      (if csrf_unchecked (settings_py base secret env) path then serve Orm Drf Srv True path m rq w
       else (Inl PermissionDenied, w))"
  using assms csrf_paths [OF assms(1)] by (simp add: csrf_unchecked_app serve_def)

theorem csrf_exemption_exact_witness:
  "serve sqlite rest_impl test_services False ''/api/v1/orders/confirm/'' POST sample_confirm sample_world =
     serve sqlite rest_impl test_services True ''/api/v1/orders/confirm/'' POST sample_confirm sample_world \<and>
   serve sqlite rest_impl test_services False ''/api/admin/trigger-import/'' POST sample_confirm sample_world =
     (Inl PermissionDenied, sample_world)"
proof -
  have paths: "map_of root_urlpatterns ''/api/v1/orders/confirm/'' = Some OrderConfirmationView"
    "map_of root_urlpatterns ''/api/admin/trigger-import/'' = Some TriggerImport" by code_simp+
  have rq: "rq_user sample_confirm \<noteq> None" by (simp add: sample_confirm_facts)
  show ?thesis
    using csrf_exemption_exact [OF paths(1) rq, where m = POST and base = "''/app''" and secret = "''key''" and env = Map.empty
        and Orm = sqlite and Drf = rest_impl and Srv = test_services and w = sample_world]
      csrf_exemption_exact [OF paths(2) rq, where m = POST and base = "''/app''" and secret = "''key''" and env = Map.empty
        and Orm = sqlite and Drf = rest_impl and Srv = test_services and w = sample_world]
    by simp
qed

end
