(* ===== verification/CartTypes.thy ===== *)
theory CartTypes
  imports CartProps
begin

text \<open>
  Typing of the basket requests. The views check little of a body before they use it; \<open>well_typed\<close>
  says which values each endpoint needs, and the theorem that such requests never end in an error of
  the server.
\<close>

section \<open>Types of JSON values\<close>

datatype json_type = Whole | Natural | Number | Optional json_type | List_of json_type

text \<open>\<open>Number\<close>: what \<^verbatim>\<open>int()\<close> accepts, a numeric string for example.\<close>

fun has_type :: "json_type \<Rightarrow> pyval \<Rightarrow> bool" where
  "has_type Whole v = (case v of PInt n \<Rightarrow> True | _ \<Rightarrow> False)"
| "has_type Natural v = (case v of PInt n \<Rightarrow> 0 \<le> n | _ \<Rightarrow> False)"
| "has_type Number v = (case py_int v of Inl e \<Rightarrow> False | Inr n \<Rightarrow> True)"
| "has_type (Optional t) v = (v = PNone \<or> has_type t v)"
| "has_type (List_of t) v = (case v of PList vs \<Rightarrow> list_all (has_type t) vs | _ \<Rightarrow> False)"

text \<open>The fields of the body that an endpoint reads. A missing field has every type.\<close>

primrec body_types :: "cart_op \<Rightarrow> (string \<times> json_type) list" where
  "body_types CartGet = []"
| "body_types CartPost = [(''product_info_id'', Optional Whole), (''quantity'', Optional Natural)]"
| "body_types CartPut = [(''order_item_id'', Optional Whole), (''quantity'', Optional Number)]"
| "body_types CartDelete = []"
| "body_types DeleteCartItem = []"
| "body_types BatchDelete = [(''order_item_ids'', Optional (List_of Whole))]"
| "body_types ClearCart = []"

definition query_typed :: "cart_op \<Rightarrow> request \<Rightarrow> bool" where
  "query_typed op rq \<longleftrightarrow> (if op = CartDelete \<or> op = DeleteCartItem
     then (case map_of (rq_query rq) ''order_item_id'' of
         None \<Rightarrow> True | Some s \<Rightarrow> s = [] \<or> has_type Number (PStr s))
     else True)"

definition well_typed :: "cart_op \<Rightarrow> request \<Rightarrow> bool" where
  "well_typed op rq \<longleftrightarrow> query_typed op rq \<and> (case rq_data rq of
       PDict kvs \<Rightarrow> list_all (\<lambda>(f, t). case map_of kvs (PStr f) of None \<Rightarrow> True | Some v \<Rightarrow> has_type t v) (body_types op)
     | _ \<Rightarrow> False)"

section \<open>Well-typed requests do not go wrong\<close>

definition served :: "(exn + response) \<times> database \<Rightarrow> bool" where
  "served run \<longleftrightarrow> (\<exists>resp. fst run = Inr resp) \<or> fst run = Inl Http404"

lemma served_pair [simp]: "served (r, d) \<longleftrightarrow> (\<exists>resp. r = Inr resp) \<or> r = Inl Http404"
  by (simp add: served_def)

lemma has_type_field:
  assumes "well_typed op rq" "(f, Optional t) \<in> set (body_types op)"
  obtains v where "py_get (rq_data rq) f PNone = Inr v" "v = PNone \<or> has_type t v"
proof -
  obtain kvs where kvs: "rq_data rq = PDict kvs" using assms(1) by (auto simp: well_typed_def split: pyval.splits)
  then have "case map_of kvs (PStr f) of None \<Rightarrow> True | Some v \<Rightarrow> has_type (Optional t) v"
    using assms by (auto simp: well_typed_def list_all_iff)
  then show thesis using that kvs by (cases "map_of kvs (PStr f)") auto
qed

lemma has_type_IntD: "has_type Whole v \<Longrightarrow> \<exists>n. v = PInt n"
  by (cases v) simp_all

lemma has_type_NaturalD: "has_type Natural v \<Longrightarrow> \<exists>n. v = PInt n \<and> 0 \<le> n"
  by (cases v) simp_all

lemma has_type_NumberD: "has_type Number v \<Longrightarrow> \<exists>n. py_int v = Inr n"
  by (cases "py_int v") simp_all

lemma has_type_ListD: "has_type (List_of Whole) v \<Longrightarrow> \<exists>ks. v = PList (map PInt ks)"
proof (cases v)
  case (PList vs)
  assume "has_type (List_of Whole) v"
  then have "list_all (has_type Whole) vs" using PList by simp
  then have "vs = map PInt (map (\<lambda>v. case v of PInt n \<Rightarrow> n | _ \<Rightarrow> 0) vs)"
    by (intro nth_equalityI) (auto simp: list_all_length split: pyval.splits)
  then show ?thesis using PList by metis
qed simp_all

lemma cart_quantities:
  assumes "db_ok d" "cart_of u d p = Some n"
  shows "0 \<le> n"
proof -
  obtain it its where "filter (\<lambda>it. oi_info it = p) (cart_items u d) = it # its" and n: "oi_quantity it = n"
    using assms(2) by (auto simp: cart_of_def split: list.splits)
  then have "it \<in> set (filter (\<lambda>it. oi_info it = p) (cart_items u d))" by simp
  then have "it \<in> set (t_order_items d)" by (simp add: cart_items_def)
  then show ?thesis
    using n assms(1) db_ok_row [of d "OrderItemRow it" OrderItemM] by (auto simp: row_ok_def positive_ok_def)
qed

lemma basket_served:
  assumes "single_baskets d" "\<And>b. baskets u d = [b] \<Longrightarrow> served (f b d)"
  shows "served (andThen (get_basket_or_404 u) f d)"
  by (rule single_baskets_cases [OF assms(1), of u]) (simp_all add: get_basket_or_404_def assms(2))

context django
begin

lemma post_served:
  assumes "db_ok d" "single_baskets d" "user_exists u d" "rq_user rq = Some u" "well_typed CartPost rq"
  shows "served (cart_post Orm rq d)"
proof -
  obtain v where v: "py_get (rq_data rq) ''product_info_id'' PNone = Inr v" "v = PNone \<or> has_type Whole v"
    by (rule has_type_field [OF assms(5), of "''product_info_id''" Whole]) simp_all
  obtain kvs where kvs: "rq_data rq = PDict kvs" using assms(5) by (auto simp: well_typed_def split: pyval.splits)
  then obtain q where q: "py_get (rq_data rq) ''quantity'' (PInt 1) = Inr q" "q = PNone \<or> has_type Natural q"
    using assms(5) by (cases "map_of kvs (PStr ''quantity'')") (auto simp: well_typed_def)
  obtain r d' where run: "cart_post Orm rq d = (r, d')" by fastforce
  show ?thesis
  proof (cases "v = PNone \<or> q = PNone")
    case True
    obtain b d' where "get_or_create_basket Orm u (rq_now rq) d = (Inr b, d')"
      by (rule basket_obtained [OF assms(1-3)])
    then show ?thesis using True v(1) q(1) assms(4) by (auto simp: cart_post_def data_get_def)
  next
    case False
    then obtain p n where pn: "v = PInt p" "q = PInt n" "0 \<le> n"
      using v(2) q(2) has_type_IntD has_type_NaturalD by metis
    have "(r, cart_of u d') = add_to_cart (stock_of d p) (cart_of u d) p n"
      using cart_post_spec [OF assms(1-4) _ _ run] v(1) q(1) pn by simp
    then show ?thesis
      using run pn(3) cart_quantities [OF assms(1), of u p]
      by (auto simp: add_to_cart_def Let_def split: option.splits if_splits)
  qed
qed

lemma put_served:
  assumes "db_ok d" "single_baskets d" "rq_user rq = Some u" "well_typed CartPut rq"
  shows "served (cart_put Orm rq d)"
proof -
  obtain v where v: "py_get (rq_data rq) ''order_item_id'' PNone = Inr v" "v = PNone \<or> has_type Whole v"
    by (rule has_type_field [OF assms(4), of "''order_item_id''" Whole]) simp_all
  obtain q where q: "py_get (rq_data rq) ''quantity'' PNone = Inr q" "q = PNone \<or> has_type Number q"
    by (rule has_type_field [OF assms(4), of "''quantity''" Number]) simp_all
  obtain r d' where run: "cart_put Orm rq d = (r, d')" by fastforce
  show ?thesis
  proof (cases "\<not> py_true v \<or> q = PNone")
    case True
    then show ?thesis
      using v(1) q(1) assms(3) by (auto simp: cart_put_def data_get_def intro!: basket_served [OF assms(2)])
  next
    case False
    then obtain k n where k: "v = PInt k" "k \<noteq> 0" and n: "py_int q = Inr n"
      using v(2) q(2) has_type_IntD has_type_NumberD by fastforce
    show ?thesis
      using cart_put_spec [OF assms(1-3) v(1) [unfolded k(1)] k(2) q(1) n run] run by (auto split: list.splits)
  qed
qed

lemma delete_served:
  assumes "db_ok d" "single_baskets d" "rq_user rq = Some u" "query_typed op rq" "op = CartDelete \<or> op = DeleteCartItem"
  shows "served (delete_item Orm code rq d)"
proof (cases "py_true (query_get rq ''order_item_id'')")
  case False
  then show ?thesis
    using assms(3) by (auto simp: delete_item_def intro!: basket_served [OF assms(2)])
next
  case True
  then obtain s where s: "map_of (rq_query rq) ''order_item_id'' = Some s" "s \<noteq> []"
    by (auto simp: query_get_def split: option.splits)
  then have "has_type Number (PStr s)" using assms(4,5) by (auto simp: query_typed_def)
  then obtain k where "prep_int Orm (PStr s) = Inr (Some k)" using has_type_NumberD prep_int_py by blast
  moreover obtain r d' where run: "delete_item Orm code rq d = (r, d')" by fastforce
  ultimately show ?thesis
    using delete_item_spec [OF assms(1-3) s _ run] run by (auto split: list.splits)
qed

lemma batch_served:
  assumes "db_ok d" "single_baskets d" "rq_user rq = Some u" "well_typed BatchDelete rq"
  shows "served (batch_delete Orm rq d)"
proof -
  obtain v where v: "py_get (rq_data rq) ''order_item_ids'' PNone = Inr v" "v = PNone \<or> has_type (List_of Whole) v"
    by (rule has_type_field [OF assms(4), of "''order_item_ids''" "List_of Whole"]) simp_all
  obtain r d' where run: "batch_delete Orm rq d = (r, d')" by fastforce
  show ?thesis
  proof (cases "v = PNone \<or> v = PList []")
    case True
    then show ?thesis
      using v(1) assms(3) by (auto simp: batch_delete_def data_get_def intro!: basket_served [OF assms(2)])
  next
    case False
    then obtain ks where ks: "v = PList (map PInt ks)" "ks \<noteq> []" using v(2) has_type_ListD by fastforce
    show ?thesis
      using batch_delete_spec [OF assms(1-3) v(1) [unfolded ks(1)] ks(2) run] run by (auto split: if_splits)
  qed
qed

lemma cart_op_served:
  assumes "db_ok d" "single_baskets d" "user_exists u d" "rq_user rq = Some u" "well_typed op rq"
  shows "served (run_cart_op op Orm rq d)"
proof (cases op)
  case CartGet
  then show ?thesis using cart_get_spec [OF assms(1-4)] by auto
next
  case ClearCart
  obtain r d' where run: "clear_cart Orm rq d = (r, d')" by fastforce
  then show ?thesis using clear_cart_spec [OF assms(1,2,4) run] ClearCart by (auto split: if_splits)
qed (use assms post_served put_served delete_served batch_served in
  \<open>auto simp: cart_delete_def delete_cart_item_def well_typed_def\<close>)

end



end
