(* ===== verification/RefBase.thy ===== *)
theory RefBase
  imports World
begin

text \<open>
  The reference application \<^verbatim>\<open>reference/netology_pd_diplom\<close>: what its views share. Its tables are
  those of \<open>Models\<close> (without \<^verbatim>\<open>ImportTask\<close>). Replies are JSON objects with a status; serializers
  validate a body field by field and render the stored rows.
\<close>

section \<open>Replies\<close>

datatype ref_error =
    Log_in_required
  | Shops_only
  | Arguments_missing
  | Bad_format
  | Weak_password
  | Fields_invalid "string list"
  | Wrong_token
  | Login_refused
  | Url_invalid
  | State_invalid
  | Not_stored
  | Arguments_wrong

datatype ref_reply =
    Success
  | Success_count nat
  | Success_token string
  | Failure ref_error
  | Rendered pyval

datatype ref_response = Reply int ref_reply

section \<open>Guards\<close>

text \<open>\<^verbatim>\<open>request.user\<close>: the row of the authenticated user, \<open>None\<close> for an anonymous request.\<close>

definition request_user :: "request \<Rightarrow> database \<Rightarrow> user option" where
  "request_user rq d = (case rq_user rq of None \<Rightarrow> None | Some u \<Rightarrow> find (\<lambda>x. u_id x = u) (t_users d))"

definition logged_in ::
  "request \<Rightarrow> (user \<Rightarrow> (world, ref_response) comp) \<Rightarrow> (world, ref_response) comp" where
  "logged_in rq f =
     andThen (query (\<lambda>w. request_user rq (w_db w))) (\<lambda>v.
     case v of None \<Rightarrow> ret (Reply 403 (Failure Log_in_required)) | Some user \<Rightarrow> f user)"

definition shops_only :: "user \<Rightarrow> (world, ref_response) comp \<Rightarrow> (world, ref_response) comp" where
  "shops_only user m = (if u_type user \<noteq> ShopUser then ret (Reply 403 (Failure Shops_only)) else m)"

text \<open>
  \<^verbatim>\<open>{...}.issubset(request.data)\<close> builds a set from the body: its keys if it is an object; an element
  that is not hashable raises.
\<close>

fun hashable :: "pyval \<Rightarrow> bool" where
  "hashable (PList _) = False"
| "hashable (PDict _) = False"
| "hashable _ = True"

definition has_keys :: "string list \<Rightarrow> pyval \<Rightarrow> exn + bool" where
  "has_keys ks v = (case py_iter v of
       Inl e \<Rightarrow> Inl e
     | Inr xs \<Rightarrow> if list_all hashable xs then Inr (list_all (\<lambda>k. PStr k \<in> set xs) ks) else Inl TypeError)"

text \<open>\<^verbatim>\<open>s.split(',')\<close> and \<^verbatim>\<open>s.isdigit()\<close> for a string of ASCII characters; other values have neither.\<close>

fun split_comma :: "string \<Rightarrow> string list" where
  "split_comma [] = [[]]"
| "split_comma (c # cs) =
     (if c = CHR '','' then [] # split_comma cs
      else case split_comma cs of [] \<Rightarrow> [[c]] | s # ss \<Rightarrow> (c # s) # ss)"

definition isdigit :: "string \<Rightarrow> bool" where
  "isdigit s \<longleftrightarrow> s \<noteq> [] \<and> list_all is_digit s"

fun py_split :: "pyval \<Rightarrow> exn + string list" where
  "py_split (PStr s) = Inr (split_comma s)"
| "py_split _ = Inl AttributeError"

fun py_isdigit :: "pyval \<Rightarrow> exn + bool" where
  "py_isdigit (PStr s) = Inr (isdigit s)"
| "py_isdigit _ = Inl AttributeError"

section \<open>Validating serializers\<close>

text \<open>
  A writable field: its name, whether it is required, and what its validation makes of a value:
  an exception it lets through, an error (\<open>None\<close>), or the change of the instance. With \<open>partial\<close>
  no field is required. \<open>run_fields\<close> gives the names of the fields with an error and the change
  by all others.
\<close>

type_synonym 'a field_spec = "string \<times> bool \<times> (pyval \<Rightarrow> exn + ('a \<Rightarrow> 'a) option)"

fun run_fields ::
  "bool \<Rightarrow> 'a field_spec list \<Rightarrow> (pyval \<times> pyval) list \<Rightarrow> exn + string list \<times> ('a \<Rightarrow> 'a)" where
  "run_fields partial [] kvs = Inr ([], \<lambda>x. x)"
| "run_fields partial ((name, required, f) # fs) kvs =
     (case (case map_of kvs (PStr name) of
              None \<Rightarrow> Inr (if required \<and> \<not> partial then None else Some (\<lambda>x. x))
            | Some v \<Rightarrow> f v) of
        Inl e \<Rightarrow> Inl e
      | Inr r \<Rightarrow> (case run_fields partial fs kvs of
            Inl e \<Rightarrow> Inl e
          | Inr (bad, g) \<Rightarrow> Inr (case r of None \<Rightarrow> (name # bad, g) | Some h \<Rightarrow> (bad, \<lambda>x. g (h x)))))"

definition serializer ::
  "bool \<Rightarrow> 'a field_spec list \<Rightarrow> pyval \<Rightarrow> exn + string list \<times> ('a \<Rightarrow> 'a)" where
  "serializer partial fs data = (case data of
       PDict kvs \<Rightarrow> run_fields partial fs kvs
     | _ \<Rightarrow> Inr ([''non_field_errors''], \<lambda>x. x))"

definition char_spec :: "drf \<Rightarrow> nat \<Rightarrow> bool \<Rightarrow> (string \<Rightarrow> 'a \<Rightarrow> 'a) \<Rightarrow> pyval \<Rightarrow> exn + ('a \<Rightarrow> 'a) option" where
  "char_spec Drf n blank set_value v = Inr (map_option set_value (char_field Drf (Some n) blank v))"

text \<open>
  \<^verbatim>\<open>PrimaryKeyRelatedField\<close>: a boolean, NULL, a value that is no key and the key of no row are
  errors.
\<close>

definition key_spec :: "orm \<Rightarrow> int list \<Rightarrow> (int \<Rightarrow> 'a \<Rightarrow> 'a) \<Rightarrow> pyval \<Rightarrow> exn + ('a \<Rightarrow> 'a) option" where
  "key_spec Orm keys set_value v = (case v of
       PBool _ \<Rightarrow> Inr None
     | _ \<Rightarrow> (case prep_int Orm v of
           Inl e \<Rightarrow> if e = TypeError \<or> e = ValueError then Inr None else Inl e
         | Inr None \<Rightarrow> Inr None
         | Inr (Some k) \<Rightarrow> Inr (if k \<in> set keys then Some (set_value k) else None)))"

section \<open>Rendering serializers\<close>

definition ref_contact_data :: "contact \<Rightarrow> pyval" where
  "ref_contact_data c = PDict [(PStr ''id'', PInt (ct_id c)), (PStr ''city'', PStr (ct_city c)),
     (PStr ''street'', PStr (ct_street c)), (PStr ''house'', PStr (ct_house c)),
     (PStr ''structure'', PStr (ct_structure c)), (PStr ''building'', PStr (ct_building c)),
     (PStr ''apartment'', PStr (ct_apartment c)), (PStr ''phone'', PStr (ct_phone c))]"

definition ref_user_data :: "user \<Rightarrow> database \<Rightarrow> pyval" where
  "ref_user_data x d = PDict [(PStr ''id'', PInt (u_id x)), (PStr ''first_name'', PStr (u_first_name x)),
     (PStr ''last_name'', PStr (u_last_name x)), (PStr ''email'', PStr (u_email x)),
     (PStr ''company'', PStr (u_company x)), (PStr ''position'', PStr (u_position x)),
     (PStr ''contacts'', PList (map ref_contact_data (filter (\<lambda>c. ct_user c = u_id x) (t_contacts d))))]"

definition ref_category_data :: "category \<Rightarrow> pyval" where
  "ref_category_data c = PDict [(PStr ''id'', PInt (c_id c)), (PStr ''name'', PStr (c_name c))]"

definition ref_shop_data :: "shop \<Rightarrow> pyval" where
  "ref_shop_data s = PDict [(PStr ''id'', PInt (s_id s)), (PStr ''name'', PStr (s_name s)),
     (PStr ''state'', PBool (s_state s))]"

text \<open>\<^verbatim>\<open>StringRelatedField\<close> renders \<^verbatim>\<open>str\<close> of the related row, which is its name.\<close>

definition ref_product_data :: "product \<Rightarrow> (database, pyval) comp" where
  "ref_product_data p =
     andThen (related c_id t_categories (p_category p)) (\<lambda>c.
     ret (PDict [(PStr ''name'', PStr (p_name p)), (PStr ''category'', PStr (c_name c))]))"

definition ref_product_parameter_data :: "product_parameter \<Rightarrow> (database, pyval) comp" where
  "ref_product_parameter_data pp =
     andThen (related pa_id t_parameters (pp_parameter pp)) (\<lambda>p.
     ret (PDict [(PStr ''parameter'', PStr (pa_name p)), (PStr ''value'', PStr (pp_value pp))]))"

definition ref_product_info_data :: "product_info \<Rightarrow> (database, pyval) comp" where
  "ref_product_info_data info =
     andThen (related p_id t_products (pi_product info)) (\<lambda>p.
     andThen (ref_product_data p) (\<lambda>product.
     andThen (query (\<lambda>d. filter (\<lambda>pp. pp_info pp = pi_id info) (t_product_parameters d))) (\<lambda>pps.
     andThen (map_each ref_product_parameter_data pps) (\<lambda>ps.
     ret (PDict [(PStr ''id'', PInt (pi_id info)), (PStr ''model'', PStr (pi_model info)),
       (PStr ''product'', product), (PStr ''shop'', PInt (pi_shop info)),
       (PStr ''quantity'', PInt (pi_quantity info)), (PStr ''price'', PInt (pi_price info)),
       (PStr ''price_rrc'', PInt (pi_price_rrc info)), (PStr ''product_parameters'', PList ps)])))))"

definition ref_order_item_data :: "order_item \<Rightarrow> (database, pyval) comp" where
  "ref_order_item_data it =
     andThen (related pi_id t_product_infos (oi_info it)) (\<lambda>info.
     andThen (ref_product_info_data info) (\<lambda>v.
     ret (PDict [(PStr ''id'', PInt (oi_id it)), (PStr ''product_info'', v),
       (PStr ''quantity'', PInt (oi_quantity it))])))"

definition ref_order_data :: "order_t \<times> pyval \<Rightarrow> (database, pyval) comp" where
  "ref_order_data order_sum = (case order_sum of (b, total_sum) \<Rightarrow>
     andThen (query (\<lambda>d. filter (\<lambda>it. oi_order it = o_id b) (t_order_items d))) (\<lambda>items.
     andThen (map_each ref_order_item_data items) (\<lambda>data.
     andThen (case o_contact b of
         None \<Rightarrow> ret PNone
       | Some k \<Rightarrow> andThen (related ct_id t_contacts k) (\<lambda>c. ret (ref_contact_data c))) (\<lambda>contact.
     ret (PDict [(PStr ''id'', PInt (o_id b)), (PStr ''ordered_items'', PList data),
       (PStr ''state'', PStr (state_code (o_state b))), (PStr ''dt'', PInt (o_dt b)),
       (PStr ''total_sum'', total_sum), (PStr ''contact'', contact)])))))"

text \<open>
  \<^verbatim>\<open>Sum(F('ordered_items__quantity') * F('ordered_items__product_info__price'))\<close> over the joined
  rows; SQL sums nothing to NULL.
\<close>

definition line_prices :: "database \<Rightarrow> order_item list \<Rightarrow> int list" where
  "line_prices d items = concat (map (\<lambda>it. map (\<lambda>x. oi_quantity it * pi_price x)
     (filter (\<lambda>x. pi_id x = oi_info it) (t_product_infos d))) items)"

definition total_sum :: "database \<Rightarrow> order_item list \<Rightarrow> pyval" where
  "total_sum d items = (case line_prices d items of [] \<Rightarrow> PNone | ps \<Rightarrow> PInt (sum_list ps))"

text \<open>
  \<^verbatim>\<open>QuerySet.update\<close>: the statement sets the columns of all selected rows and returns their number.
  The query sets updated here select by a key or a unique column, so at most one row.
\<close>

definition update_rows ::
  "orm \<Rightarrow> ('a \<Rightarrow> row) \<Rightarrow> (database \<Rightarrow> 'a list) \<Rightarrow> ('a \<Rightarrow> 'a) \<Rightarrow> (database, nat) comp" where
  "update_rows Orm c sel f =
     andThen (query sel) (\<lambda>xs.
     andThen (for_each (\<lambda>x. db_save Orm (c (f x))) xs) (\<lambda>_. ret (length xs)))"

section \<open>Lemmas\<close>

lemma logged_in_user [simp]:
  "request_user rq (w_db w) = Some x \<Longrightarrow> logged_in rq f w = f x w"
  by (simp add: logged_in_def)

lemma logged_in_anonymous [simp]:
  "request_user rq (w_db w) = None \<Longrightarrow> logged_in rq f w = (Inr (Reply 403 (Failure Log_in_required)), w)"
  by (simp add: logged_in_def)

lemma request_userD: "request_user rq d = Some x \<Longrightarrow> x \<in> set (t_users d) \<and> rq_user rq = Some (u_id x)"
  by (auto simp: request_user_def dest: find_SomeD split: option.splits)

lemma keeps_logged_in [keeps_intros]:
  assumes "\<And>x. rq_user rq = Some (u_id x) \<Longrightarrow> keeps I (f x)"
  shows "keeps I (logged_in rq f)"
proof (rule keepsI)
  fix w assume w: "I w"
  show "I (snd (logged_in rq f w))"
    using w assms keepsD [of I] request_userD [of rq "w_db w"]
    by (cases "request_user rq (w_db w)") (auto simp: logged_in_def)
qed

lemma keeps_shops_only [keeps_intros]: "keeps I m \<Longrightarrow> keeps I (shops_only user m)"
  unfolding shops_only_def by (intro keeps_intros)

lemma keeps_update_rows [keeps_intros]:
  assumes "\<And>d x. x \<in> set (sel d) \<Longrightarrow> keeps I (db_save Orm (c (f x)))"
  shows "keeps I (update_rows Orm c sel f)"
proof (rule keepsI)
  fix d assume d: "I d"
  have k: "keeps I (for_each (\<lambda>x. db_save Orm (c (f x))) xs)" if "set xs \<subseteq> set (sel d)" for xs
    using that by (induction xs) (auto intro: keeps_ret keeps_andThen assms [of _ d])
  have "keeps I (andThen (for_each (\<lambda>x. db_save Orm (c (f x))) (sel d)) (\<lambda>_. ret (length (sel d))))"
    by (rule keeps_andThen [OF k [OF order_refl] keeps_ret])
  then show "I (snd (update_rows Orm c sel f d))" using keepsD d by (simp add: update_rows_def)
qed

lemma update_rows_none [simp]: "sel d = [] \<Longrightarrow> update_rows Orm c sel f d = (Inr 0, d)"
  by (simp add: update_rows_def)

lemma update_rows_one [simp]:
  "sel d = [x] \<Longrightarrow> update_rows Orm c sel f d = andThen (db_save Orm (c (f x))) (\<lambda>_. ret 1) d"
  by (auto simp: update_rows_def andThen_def split: prod.splits sum.splits)

lemma has_keys_dict:
  assumes "has_keys ks (PDict kvs) = Inr True" "k \<in> set ks"
  obtains v where "map_of kvs (PStr k) = Some v"
proof -
  have "PStr k \<in> fst ` set kvs"
    using assms by (auto simp: has_keys_def list_all_iff split: if_splits)
  then show thesis using that by (metis map_of_eq_None_iff not_None_eq)
qed

lemma reads_ref_serializers [reads_intros]:
  "reads (ref_product_data p)" "reads (ref_product_parameter_data pp)"
  by (simp_all add: ref_product_data_def ref_product_parameter_data_def reads_intros)

lemma reads_ref_product_info_data [reads_intros]: "reads (ref_product_info_data info)"
  unfolding ref_product_info_data_def by (intro reads_intros)

lemma reads_ref_order_item_data [reads_intros]: "reads (ref_order_item_data it)"
  unfolding ref_order_item_data_def by (intro reads_intros)

section \<open>What serializers keep\<close>

definition field_keeps :: "('a \<Rightarrow> 'b) \<Rightarrow> 'a field_spec \<Rightarrow> bool" where
  "field_keeps P fld \<longleftrightarrow> (case fld of (n, r, f) \<Rightarrow> \<forall>v h x. f v = Inr (Some h) \<longrightarrow> P (h x) = P x)"

lemma run_fields_keeps:
  "run_fields p fs kvs = Inr (bad, g) \<Longrightarrow> list_all (field_keeps P) fs \<Longrightarrow> P (g x) = P x"
proof (induction fs arbitrary: bad g x)
  case (Cons fld fs)
  obtain n r f where fld: "fld = (n, r, f)" by (cases fld)
  show ?case
    using Cons unfolding fld
    by (force simp: field_keeps_def split: option.splits sum.splits prod.splits if_splits)
qed simp

text \<open>What a valid body does through one field, when the other fields leave the column alone.\<close>

lemma run_fields_field:
  assumes "run_fields p (fs1 @ (n, r, f) # fs2) kvs = Inr ([], g)"
    and "list_all (field_keeps P) fs1" "list_all (field_keeps P) fs2"
  shows "case map_of kvs (PStr n) of
      None \<Rightarrow> (r \<longrightarrow> p) \<and> P (g x) = P x
    | Some v \<Rightarrow> \<exists>h y. f v = Inr (Some h) \<and> P (g x) = P (h y)"
  using assms
proof (induction fs1 arbitrary: g x)
  case Nil
  then show ?case
    by (auto split: option.splits sum.splits prod.splits if_splits dest: run_fields_keeps)
next
  case (Cons fld fs1)
  obtain m q f' where fld: "fld = (m, q, f')" by (cases fld)
  obtain h g' where run: "run_fields p (fs1 @ (n, r, f) # fs2) kvs = Inr ([], g')" "g = (\<lambda>x. g' (h x))"
    and h: "h = (\<lambda>x. x) \<or> (\<exists>v. f' v = Inr (Some h))"
    using Cons.prems(1) unfolding fld
    by (auto split: option.splits sum.splits prod.splits if_splits)
  have "P (h x) = P x" using h Cons.prems(2) unfolding fld by (auto simp: field_keeps_def)
  then show ?case
    using Cons.IH [OF run(1), of "h x"] Cons.prems(2,3) by (simp add: run(2) split: option.splits)
qed

lemma field_keeps_char:
  "(\<And>s x. P (st s x) = P x) \<Longrightarrow> field_keeps P (n, r, char_spec Drf k b st)"
  by (auto simp: field_keeps_def char_spec_def)

end
