(* ===== verification/RefAccounts.thy ===== *)
theory RefAccounts
  imports RefBase Accounts
begin

text \<open>
  Accounts of the reference application: \<^verbatim>\<open>RegisterAccount\<close>, \<^verbatim>\<open>ConfirmAccount\<close>, \<^verbatim>\<open>AccountDetails\<close>
  and \<^verbatim>\<open>LoginAccount\<close> of \<^verbatim>\<open>views.py\<close>, \<^verbatim>\<open>UserSerializer\<close>, and the receivers of \<^verbatim>\<open>signals.py\<close>. A new
  account is inactive; the letter sent when its row is created carries the token that activates it.
\<close>

section \<open>Signals\<close>

definition password_reset_token_created :: "services \<Rightarrow> user \<Rightarrow> string \<Rightarrow> (world, unit) comp" where
  "password_reset_token_created Srv user key = send_mail Srv (Reset_letter (u_email user) key)"

text \<open>\<^verbatim>\<open>ConfirmEmailToken.objects.get_or_create(user_id=...)\<close>, then the letter.\<close>

definition new_user_registered_signal ::
  "orm \<Rightarrow> services \<Rightarrow> int \<Rightarrow> user \<Rightarrow> bool \<Rightarrow> (world, unit) comp" where
  "new_user_registered_signal Orm Srv now user created =
     (if created \<and> \<not> u_is_active user then
        andThen (get_or_create (\<lambda>w. filter (\<lambda>t. et_user t = u_id user) (t_email_tokens (w_db w)))
          (save_token Orm Srv \<lparr>et_id = 0, et_user = u_id user, et_created_at = now, et_key = []\<rparr>)) (\<lambda>(token, _).
        send_mail Srv (Token_letter (u_email user) (et_key token)))
      else ret ())"

definition new_order_signal :: "services \<Rightarrow> int \<Rightarrow> (world, unit) comp" where
  "new_order_signal Srv user_id =
     andThen (on_db (get_one (\<lambda>d. filter (\<lambda>x. u_id x = user_id) (t_users d)))) (\<lambda>user.
     send_mail Srv (New_order_letter (u_email user)))"

text \<open>Saving a user sends the signal \<^verbatim>\<open>post_save\<close> after the row has been stored.\<close>

definition insert_user :: "orm \<Rightarrow> services \<Rightarrow> int \<Rightarrow> user \<Rightarrow> (world, user) comp" where
  "insert_user Orm Srv now user =
     andThen (on_db (save_new_user Orm user)) (\<lambda>user.
     andThen (new_user_registered_signal Orm Srv now user True) (\<lambda>_. ret user))"

definition update_user :: "orm \<Rightarrow> services \<Rightarrow> int \<Rightarrow> user \<Rightarrow> (world, unit) comp" where
  "update_user Orm Srv now user =
     andThen (on_db (db_save Orm (UserRow user))) (\<lambda>_.
     new_user_registered_signal Orm Srv now user False)"

section \<open>The manager and the serializer\<close>

text \<open>
  The defaults of a new instance: \<^verbatim>\<open>is_active\<close> is False here, and only \<^verbatim>\<open>create_superuser\<close>
  sets it when the keyword is missing. \<open>x_is_active\<close> is that keyword.
\<close>

definition ref_blank_user :: user where
  "ref_blank_user = (new_user [])\<lparr>u_is_active := False\<rparr>"

definition ref_create_user_base ::
  "orm \<Rightarrow> services \<Rightarrow> int \<Rightarrow> string \<Rightarrow> string option \<Rightarrow> bool option \<Rightarrow> extra_fields \<Rightarrow> (world, user) comp" where
  "ref_create_user_base Orm Srv now email password x_is_active extra =
     (if email = [] then raise ValueError
      else
        let user = x_other extra (ref_blank_user\<lparr>u_email := normalize_email Srv email\<rparr>);
            user = (case x_is_staff extra of None \<Rightarrow> user | Some b \<Rightarrow> user\<lparr>u_is_staff := b\<rparr>);
            user = (case x_is_superuser extra of None \<Rightarrow> user | Some b \<Rightarrow> user\<lparr>u_is_superuser := b\<rparr>);
            user = (case x_is_active of None \<Rightarrow> user | Some b \<Rightarrow> user\<lparr>u_is_active := b\<rparr>)
        in insert_user Orm Srv now (user\<lparr>u_password := make_password Srv password\<rparr>))"

definition ref_create_user ::
  "orm \<Rightarrow> services \<Rightarrow> int \<Rightarrow> string \<Rightarrow> string option \<Rightarrow> bool option \<Rightarrow> extra_fields \<Rightarrow> (world, user) comp" where
  "ref_create_user Orm Srv now email password x_is_active extra =
     ref_create_user_base Orm Srv now email password x_is_active
       (extra\<lparr>x_is_staff := setdefault False (x_is_staff extra),
              x_is_superuser := setdefault False (x_is_superuser extra)\<rparr>)"

definition ref_create_superuser ::
  "orm \<Rightarrow> services \<Rightarrow> int \<Rightarrow> string \<Rightarrow> string option \<Rightarrow> bool option \<Rightarrow> extra_fields \<Rightarrow> (world, user) comp" where
  "ref_create_superuser Orm Srv now email password x_is_active extra =
     (let staff = setdefault True (x_is_staff extra);
          super = setdefault True (x_is_superuser extra);
          active = setdefault True x_is_active in
      if staff \<noteq> Some True then raise ValueError
      else if super \<noteq> Some True then raise ValueError
      else ref_create_user_base Orm Srv now email password active
        (extra\<lparr>x_is_staff := staff, x_is_superuser := super\<rparr>))"

text \<open>
  The writable fields of \<^verbatim>\<open>UserSerializer\<close>. The email must not be that of another user; \<open>self\<close> is
  the key of the instance that is updated.
\<close>

definition email_spec :: "drf \<Rightarrow> database \<Rightarrow> int option \<Rightarrow> pyval \<Rightarrow> exn + (user \<Rightarrow> user) option" where
  "email_spec Drf d self v = Inr (case email_field Drf v of
       None \<Rightarrow> None
     | Some e \<Rightarrow>
         if list_ex (\<lambda>x. u_email x = e \<and> Some (u_id x) \<noteq> self) (t_users d) then None
         else Some (u_email_update (\<lambda>_. e)))"

definition ref_user_fields :: "drf \<Rightarrow> database \<Rightarrow> int option \<Rightarrow> user field_spec list" where
  "ref_user_fields Drf d self =
     [(''first_name'', False, char_spec Drf 150 True (\<lambda>s. u_first_name_update (\<lambda>_. s))),
      (''last_name'', False, char_spec Drf 150 True (\<lambda>s. u_last_name_update (\<lambda>_. s))),
      (''email'', True, email_spec Drf d self),
      (''company'', False, char_spec Drf 40 True (\<lambda>s. u_company_update (\<lambda>_. s))),
      (''position'', False, char_spec Drf 40 True (\<lambda>s. u_position_update (\<lambda>_. s)))]"

section \<open>The views\<close>

text \<open>
  \<^verbatim>\<open>try: validate_password(request.data['password']) except Exception as e\<close>: the handler iterates
  over the exception, which only a \<^verbatim>\<open>ValidationError\<close> allows.
\<close>

definition check_new_password :: "services \<Rightarrow> pyval \<Rightarrow> exn + bool" where
  "check_new_password Srv data =
     (case (case py_index data ''password'' of Inl e \<Rightarrow> Inl e | Inr v \<Rightarrow> validate_password Srv v) of
        Inr _ \<Rightarrow> Inr True
      | Inl e \<Rightarrow> if e = ValidationError then Inr False else Inl TypeError)"

text \<open>\<^verbatim>\<open>set_password\<close>: \<^verbatim>\<open>make_password\<close> takes a string or None.\<close>

fun hash_of :: "services \<Rightarrow> pyval \<Rightarrow> exn + string" where
  "hash_of Srv (PStr s) = Inr (make_password Srv (Some s))"
| "hash_of Srv PNone = Inr (make_password Srv None)"
| "hash_of Srv _ = Inl TypeError"

definition register_account :: "orm \<Rightarrow> drf \<Rightarrow> services \<Rightarrow> request \<Rightarrow> (world, ref_response) comp" where
  "register_account Orm Drf Srv rq =
     andThen (lift_exn (has_keys
       [''first_name'', ''last_name'', ''email'', ''password'', ''company'', ''position''] (rq_data rq))) (\<lambda>given.
     if \<not> given then ret (Reply 200 (Failure Arguments_missing))
     else
       andThen (lift_exn (check_new_password Srv (rq_data rq))) (\<lambda>strong.
       if \<not> strong then ret (Reply 200 (Failure Weak_password))
       else
         andThen (query (\<lambda>w. serializer False (ref_user_fields Drf (w_db w) None) (rq_data rq))) (\<lambda>valid.
         andThen (lift_exn valid) (\<lambda>(bad, set_fields).
         if bad \<noteq> [] then ret (Reply 200 (Failure (Fields_invalid bad)))
         else
           andThen (insert_user Orm Srv (rq_now rq) (set_fields ref_blank_user)) (\<lambda>user.
           andThen (lift_exn (py_index (rq_data rq) ''password'')) (\<lambda>password.
           andThen (lift_exn (hash_of Srv password)) (\<lambda>h.
           andThen (update_user Orm Srv (rq_now rq) (user\<lparr>u_password := h\<rparr>)) (\<lambda>_.
           ret (Reply 200 Success)))))))))"

definition matching_tokens :: "orm \<Rightarrow> pyval \<Rightarrow> pyval \<Rightarrow> database \<Rightarrow> email_token list" where
  "matching_tokens Orm email key d = sort_key et_id (filter (\<lambda>t.
     list_ex (\<lambda>x. u_id x = et_user t \<and> Some (u_email x) = prep_str Orm email) (t_users d) \<and>
     Some (et_key t) = prep_str Orm key) (t_email_tokens d))"

definition confirm_account :: "orm \<Rightarrow> services \<Rightarrow> request \<Rightarrow> (world, ref_response) comp" where
  "confirm_account Orm Srv rq =
     andThen (lift_exn (has_keys [''email'', ''token''] (rq_data rq))) (\<lambda>given.
     if \<not> given then ret (Reply 200 (Failure Arguments_missing))
     else
       andThen (lift_exn (py_index (rq_data rq) ''email'')) (\<lambda>email.
       andThen (lift_exn (py_index (rq_data rq) ''token'')) (\<lambda>key.
       andThen (query (\<lambda>w. matching_tokens Orm email key (w_db w))) (\<lambda>tokens.
       case tokens of
         [] \<Rightarrow> ret (Reply 200 (Failure Wrong_token))
       | token # _ \<Rightarrow>
           andThen (on_db (related u_id t_users (et_user token))) (\<lambda>user.
           andThen (update_user Orm Srv (rq_now rq) (user\<lparr>u_is_active := True\<rparr>)) (\<lambda>_.
           andThen (on_db (db_delete Orm EmailTokenM [et_id token])) (\<lambda>_.
           ret (Reply 200 Success))))))))"

definition account_get :: "request \<Rightarrow> (world, ref_response) comp" where
  "account_get rq = logged_in rq (\<lambda>user.
     andThen (query (\<lambda>w. ref_user_data user (w_db w))) (\<lambda>v. ret (Reply 200 (Rendered v))))"

text \<open>The part of \<^verbatim>\<open>AccountDetails.post\<close> after the password: the other fields, then one save.\<close>

definition save_account :: "orm \<Rightarrow> drf \<Rightarrow> services \<Rightarrow> request \<Rightarrow> user \<Rightarrow> (world, ref_response) comp" where
  "save_account Orm Drf Srv rq user =
     andThen (query (\<lambda>w. serializer True (ref_user_fields Drf (w_db w) (Some (u_id user))) (rq_data rq))) (\<lambda>valid.
     andThen (lift_exn valid) (\<lambda>(bad, set_fields).
     if bad \<noteq> [] then ret (Reply 200 (Failure (Fields_invalid bad)))
     else
       andThen (update_user Orm Srv (rq_now rq) (set_fields user)) (\<lambda>_.
       ret (Reply 200 Success))))"

definition account_post :: "orm \<Rightarrow> drf \<Rightarrow> services \<Rightarrow> request \<Rightarrow> (world, ref_response) comp" where
  "account_post Orm Drf Srv rq = logged_in rq (\<lambda>user.
     andThen (lift_exn (py_contains (rq_data rq) ''password'')) (\<lambda>given.
     if given then
       andThen (lift_exn (check_new_password Srv (rq_data rq))) (\<lambda>strong.
       if \<not> strong then ret (Reply 200 (Failure Weak_password))
       else
         andThen (lift_exn (py_index (rq_data rq) ''password'')) (\<lambda>password.
         andThen (lift_exn (hash_of Srv password)) (\<lambda>h.
         save_account Orm Drf Srv rq (user\<lparr>u_password := h\<rparr>))))
     else save_account Orm Drf Srv rq user))"

text \<open>\<^verbatim>\<open>Token.objects.get_or_create(user=user)\<close>: one token per user, keys are unique.\<close>

definition auth_token :: "services \<Rightarrow> user \<Rightarrow> (world, string) comp" where
  "auth_token Srv user = (\<lambda>w.
     case filter (\<lambda>t. fst t = u_id user) (w_tokens w) of
       t # _ \<Rightarrow> (Inr (snd t), w)
     | [] \<Rightarrow>
         let key = new_auth_key Srv w in
         if key \<in> snd ` set (w_tokens w) then (Inl IntegrityError, w)
         else (Inr key, w\<lparr>w_tokens := w_tokens w @ [(u_id user, key)]\<rparr>))"

definition login_account :: "services \<Rightarrow> request \<Rightarrow> (world, ref_response) comp" where
  "login_account Srv rq =
     andThen (lift_exn (has_keys [''email'', ''password''] (rq_data rq))) (\<lambda>given.
     if \<not> given then ret (Reply 200 (Failure Arguments_missing))
     else
       andThen (lift_exn (py_index (rq_data rq) ''email'')) (\<lambda>email.
       andThen (lift_exn (py_index (rq_data rq) ''password'')) (\<lambda>password.
       andThen (query (\<lambda>w. login_values Srv (w_db w) email password)) (\<lambda>found.
       andThen (lift_exn found) (\<lambda>found.
       case found of
         None \<Rightarrow> ret (Reply 200 (Failure Login_refused))
       | Some user \<Rightarrow>
           if u_is_active user then
             andThen (auth_token Srv user) (\<lambda>key. ret (Reply 200 (Success_token key)))
           else ret (Reply 200 (Failure Login_refused)))))))"

end
