(* ===== verification/RefAccountSpec.thy ===== *)
theory RefAccountSpec
  imports RefAccounts
begin

text \<open>
  What the account views of the reference application do: a registration stores an inactive user
  and its token, the token activates the user and is used up, an inactive user cannot log in, and
  changing one's own account changes one row and no rights. The locale \<open>ref_accounts\<close> adds
  \<^verbatim>\<open>authenticate\<close> on body values to the behaviour of authentication.
\<close>

section \<open>The behaviour of authentication\<close>

locale ref_accounts = accounts +
  assumes login_values_str: "login_values Srv d (PStr e) (PStr p) = Inr (authenticate Srv d e p)"

interpretation test_ref_accounts: ref_accounts sqlite test_services
  by unfold_locales (simp add: test_services_def)

section \<open>Registration\<close>

lemma user_fields_keep:
  "list_all (field_keeps u_id) (ref_user_fields Drf d self)"
  "list_all (field_keeps u_password) (ref_user_fields Drf d self)"
  "list_all (field_keeps u_is_active) (ref_user_fields Drf d self)"
  by (auto simp: ref_user_fields_def field_keeps_char)
    (auto simp: field_keeps_def email_spec_def split: option.splits if_splits)

lemma user_fields_email:
  assumes "run_fields partial (ref_user_fields Drf d self) kvs = Inr ([], g)"
  shows "case map_of kvs (PStr ''email'') of
       None \<Rightarrow> partial \<and> u_email (g x) = u_email x
     | Some v \<Rightarrow> \<exists>e. email_field Drf v = Some e \<and> u_email (g x) = e \<and>
         (\<forall>y \<in> set (t_users d). u_email y = e \<longrightarrow> Some (u_id y) = self)"
proof -
  have "case map_of kvs (PStr ''email'') of
       None \<Rightarrow> (True \<longrightarrow> partial) \<and> u_email (g x) = u_email x
     | Some v \<Rightarrow> \<exists>h y. email_spec Drf d self v = Inr (Some h) \<and> u_email (g x) = u_email (h y)"
    by (rule run_fields_field [where ?fs1.0 = "take 2 (ref_user_fields Drf d self)"
          and ?fs2.0 = "drop 3 (ref_user_fields Drf d self)"])
      (use assms in \<open>simp_all add: ref_user_fields_def numeral_2_eq_2 numeral_3_eq_3 field_keeps_char\<close>)
  then show ?thesis
    by (auto simp: email_spec_def list_ex_iff split: option.splits if_splits)
qed

lemma save_new_user_Inr:
  assumes "django Orm" "save_new_user Orm x d = (Inr y, d')"
  obtains k where "k \<notin> set (pks UserM d)" "y = x\<lparr>u_id := k\<rparr>" "d' = d\<lparr>t_users := t_users d @ [y]\<rparr>"
  using assms(2) by (cases rule: django.save_new_user_cases [OF assms(1), where d = d and x = x]) auto

context django
begin

lemma save_token_Inr:
  assumes "save_token Orm Srv \<lparr>et_id = 0, et_user = u, et_created_at = now, et_key = []\<rparr> w = (Inr t, w')"
  obtains k where "k \<notin> set (pks EmailTokenM (w_db w))"
    "t = \<lparr>et_id = k, et_user = u, et_created_at = now, et_key = generate_token Srv w\<rparr>"
    "\<forall>t' \<in> set (t_email_tokens (w_db w)). et_key t' \<noteq> et_key t"
    "w' = w\<lparr>w_db := w_db w\<lparr>t_email_tokens := t_email_tokens (w_db w) @ [t]\<rparr>\<rparr>"
proof (cases rule: insert_new_cases [of "EmailTokenRow \<lparr>et_id = 0, et_user = u, et_created_at = now,
    et_key = generate_token Srv w\<rparr>" "w_db w"])
  case (1 k)
  show thesis
    by (rule that [of k])
      (use 1 assms in \<open>force simp: save_token_def create_def row_ok_def unique_ok_def list_all_iff\<close>)+
next
  case 2
  then show thesis using assms by (simp add: save_token_def create_def)
qed

lemma no_tokens_of_new_user:
  assumes "db_ok d" "k \<notin> set (pks UserM d)"
  shows "filter (\<lambda>t. et_user t = k) (t_email_tokens d) = []"
  using db_ok_refs [OF assms(1), of "EmailTokenRow t" EmailTokenM for t] assms(2)
  by (force simp: filter_empty_conv refs_ok_def)

lemma insert_user_Inr:
  assumes "db_ok (w_db w)" "\<not> u_is_active x" "insert_user Orm Srv now x w = (Inr y, w')"
  obtains k t where "k \<notin> set (pks UserM (w_db w))" "y = x\<lparr>u_id := k\<rparr>" "et_user t = k"
    "et_id t \<notin> set (pks EmailTokenM (w_db w))"
    "\<forall>t' \<in> set (t_email_tokens (w_db w)). et_key t' \<noteq> et_key t"
    "w' = w\<lparr>w_db := w_db w\<lparr>t_users := t_users (w_db w) @ [y],
        t_email_tokens := t_email_tokens (w_db w) @ [t]\<rparr>,
      w_mails := w_mails w @ [Token_letter (u_email x) (et_key t)]\<rparr>"
proof -
  obtain d where s: "save_new_user Orm x (w_db w) = (Inr y, d)"
    and n: "new_user_registered_signal Orm Srv now y True (w\<lparr>w_db := d\<rparr>) = (Inr (), w')"
    using assms(3) by (auto simp: insert_user_def andThen_eq_Inr on_db_Inr)
  let ?w1 = "w\<lparr>w_db := d\<rparr>"
  obtain k where k: "k \<notin> set (pks UserM (w_db w))" "y = x\<lparr>u_id := k\<rparr>"
    "d = w_db w\<lparr>t_users := t_users (w_db w) @ [y]\<rparr>"
    using s by (rule save_new_user_Inr [OF django_axioms])
  have none: "filter (\<lambda>t. et_user t = u_id y) (t_email_tokens d) = []"
    using no_tokens_of_new_user [OF assms(1) k(1)] k by simp
  have act: "\<not> u_is_active y" using k assms(2) by simp
  obtain t w2 where t: "save_token Orm Srv \<lparr>et_id = 0, et_user = u_id y, et_created_at = now, et_key = []\<rparr> ?w1 = (Inr t, w2)"
    and m: "send_mail Srv (Token_letter (u_email y) (et_key t)) w2 = (Inr (), w')"
    using n none act by (auto simp: new_user_registered_signal_def get_or_create_def andThen_eq_Inr)
  from t obtain i where "i \<notin> set (pks EmailTokenM d)"
    "t = \<lparr>et_id = i, et_user = u_id y, et_created_at = now, et_key = generate_token Srv ?w1\<rparr>"
    "\<forall>t' \<in> set (t_email_tokens d). et_key t' \<noteq> et_key t"
    "w2 = ?w1\<lparr>w_db := d\<lparr>t_email_tokens := t_email_tokens d @ [t]\<rparr>\<rparr>"
    by (rule save_token_Inr) simp
  then show thesis
    using that [of k t] k m by (simp add: send_mail_Inr)
qed

end


text \<open>A change of a user row that keeps key and email.\<close>

lemma same_user_row_ok:
  assumes "row_ok (UserRow x) d" "u_id y = u_id x" "u_email y = u_email x"
  shows "row_ok (UserRow y) d"
  using assms by (auto simp: row_ok_def positive_ok_def refs_ok_def unique_ok_def list_all_iff)

lemma db_ok_user_row: "db_ok d \<Longrightarrow> x \<in> set (t_users d) \<Longrightarrow> row_ok (UserRow x) d"
  using db_ok_row [of d "UserRow x" UserM] by simp

context django
begin

lemma update_user_same:
  assumes "db_ok (w_db w)" "x \<in> set (t_users (w_db w))" "u_id y = u_id x" "u_email y = u_email x"
  shows "update_user Orm Srv now y w =
    (Inr (), w\<lparr>w_db := w_db w\<lparr>t_users := replace_by u_id y (t_users (w_db w))\<rparr>\<rparr>)"
proof -
  have "row_ok (UserRow y) (w_db w)"
    using same_user_row_ok [OF db_ok_user_row [OF assms(1,2)] assms(3,4)] .
  moreover have "u_id y \<in> u_id ` set (t_users (w_db w))" using assms(2,3) by force
  ultimately have "db_save Orm (UserRow y) (w_db w) =
      (Inr (), w_db w\<lparr>t_users := replace_by u_id y (t_users (w_db w))\<rparr>)"
    by (simp add: save_ok save_row_def)
  then show ?thesis
    by (simp add: update_user_def new_user_registered_signal_def)
qed

lemma keeps_insert_user [keeps_intros]: "keeps (in_db db_ok) (insert_user Orm Srv now x)"
proof -
  have get: "keeps (in_db db_ok) (get_or_create sel mk)" if "keeps (in_db db_ok) mk" for sel and mk :: "(world, email_token) comp"
    using that by (rule keeps_get_or_create)
  show ?thesis
    unfolding insert_user_def new_user_registered_signal_def save_token_def save_new_user_def
    by (intro keeps_intros keeps_on_db get) 
qed

lemma keeps_update_user [keeps_intros]: "keeps (in_db db_ok) (update_user Orm Srv now x)"
  unfolding update_user_def new_user_registered_signal_def by (simp add: keeps_on_db keeps_save keeps_intros)

lemma keeps_register_account [keeps_intros]: "keeps (in_db db_ok) (register_account Orm Drf Srv rq)"
  unfolding register_account_def by (intro keeps_intros)

lemma keeps_confirm_account [keeps_intros]: "keeps (in_db db_ok) (confirm_account Orm Srv rq)"
  unfolding confirm_account_def
  by (intro keeps_intros) (auto split: list.splits intro!: keeps_intros keeps_on_db keeps_update_user)

lemma keeps_account_post [keeps_intros]: "keeps (in_db db_ok) (account_post Orm Drf Srv rq)"
  unfolding account_post_def save_account_def by (intro keeps_intros keeps_update_user)

lemma register_success:
  assumes "db_ok (w_db w)" "rq_data rq = PDict kvs"
    and "map_of kvs (PStr ''email'') = Some v" "email_field Drf v = Some e"
    and "map_of kvs (PStr ''password'') = Some (PStr p)"
    and "register_account Orm Drf Srv rq w = (Inr (Reply 200 Success), w1)"
  obtains x t where "u_id x \<notin> set (pks UserM (w_db w))" "u_email x = e" "\<not> u_is_active x"
    "u_password x = make_password Srv (Some p)" "et_user t = u_id x"
    "et_id t \<notin> set (pks EmailTokenM (w_db w))"
    "\<forall>t' \<in> set (t_email_tokens (w_db w)). et_key t' \<noteq> et_key t"
    "w1 = w\<lparr>w_db := w_db w\<lparr>t_users := t_users (w_db w) @ [x],
        t_email_tokens := t_email_tokens (w_db w) @ [t]\<rparr>,
      w_mails := w_mails w @ [Token_letter e (et_key t)]\<rparr>"
proof -
  obtain g y w2 where valid: "run_fields False (ref_user_fields Drf (w_db w) None) kvs = Inr ([], g)"
    and ins: "insert_user Orm Srv (rq_now rq) (g ref_blank_user) w = (Inr y, w2)"
    and upd: "update_user Orm Srv (rq_now rq) (y\<lparr>u_password := make_password Srv (Some p)\<rparr>) w2 = (Inr (), w1)"
    using assms(2,5,6)
    by (auto simp: register_account_def andThen_eq_Inr serializer_def split: if_splits sum.splits prod.splits)
  have g: "u_email (g ref_blank_user) = e" "\<not> u_is_active (g ref_blank_user)"
    using user_fields_email [OF valid, of ref_blank_user] assms(3,4)
      run_fields_keeps [OF valid user_fields_keep(3), of ref_blank_user]
    by (auto simp: ref_blank_user_def)
  obtain k t where k: "k \<notin> set (pks UserM (w_db w))" "y = g ref_blank_user\<lparr>u_id := k\<rparr>" "et_user t = k"
    "et_id t \<notin> set (pks EmailTokenM (w_db w))"
    "\<forall>t' \<in> set (t_email_tokens (w_db w)). et_key t' \<noteq> et_key t"
    "w2 = w\<lparr>w_db := w_db w\<lparr>t_users := t_users (w_db w) @ [y],
        t_email_tokens := t_email_tokens (w_db w) @ [t]\<rparr>,
      w_mails := w_mails w @ [Token_letter (u_email (g ref_blank_user)) (et_key t)]\<rparr>"
    by (rule insert_user_Inr [OF assms(1) g(2) ins])
  have ok: "db_ok (w_db w2)" using keeps_result [OF keeps_insert_user assms(1) ins] .
  let ?x = "y\<lparr>u_password := make_password Srv (Some p)\<rparr>"
  have "w1 = w2\<lparr>w_db := w_db w2\<lparr>t_users := replace_by u_id ?x (t_users (w_db w2))\<rparr>\<rparr>"
    using update_user_same [OF ok, of y ?x] upd k(6) by simp
  moreover have "replace_by u_id ?x (t_users (w_db w) @ [y]) = t_users (w_db w) @ [?x]"
    by (rule replace_last) (use k in auto)
  ultimately show thesis
    using that [of ?x t] k g by simp
qed

end


section \<open>Login and confirmation\<close>

lemma login_account_run:
  assumes "rq_data rq = PDict kvs" "map_of kvs (PStr ''email'') = Some a" "map_of kvs (PStr ''password'') = Some b"
    and "login_values Srv (w_db w) a b = Inr found" "list_all (\<lambda>kv. hashable (fst kv)) kvs"
  shows "login_account Srv rq w =
    (case found of
       Some x \<Rightarrow> if u_is_active x then andThen (auth_token Srv x) (\<lambda>key. ret (Reply 200 (Success_token key))) w
         else (Inr (Reply 200 (Failure Login_refused)), w)
     | None \<Rightarrow> (Inr (Reply 200 (Failure Login_refused)), w))"
proof -
  have "PStr ''email'' \<in> fst ` set kvs" "PStr ''password'' \<in> fst ` set kvs"
    using assms(2,3) by (auto dest!: map_of_SomeD intro: rev_image_eqI)
  then have "has_keys [''email'', ''password''] (PDict kvs) = Inr True"
    using assms(5) by (simp add: has_keys_def list_all_iff)
  then show ?thesis
    using assms(1-4) by (simp add: login_account_def split: option.splits)
qed

lemma auth_token_fresh:
  assumes "new_auth_key Srv w \<notin> snd ` set (w_tokens w)"
  obtains key w' where "auth_token Srv x w = (Inr key, w')" "w_db w' = w_db w"
proof (cases "filter (\<lambda>t. fst t = u_id x) (w_tokens w)")
  case Nil
  then show thesis using that assms by (simp add: auth_token_def Let_def)
next
  case (Cons t ts)
  then show thesis using that by (simp add: auth_token_def)
qed

lemma has_keys_hashable:
  "has_keys ks (PDict kvs) = Inr b \<Longrightarrow> list_all (\<lambda>kv. hashable (fst kv)) kvs"
  by (auto simp: has_keys_def list_all_iff split: if_splits)

lemma register_hashable:
  assumes "rq_data rq = PDict kvs" "register_account Orm Drf Srv rq w = (Inr r, w1)"
  shows "list_all (\<lambda>kv. hashable (fst kv)) kvs"
  using assms by (auto simp: register_account_def andThen_eq_Inr dest: has_keys_hashable)

context ref_accounts
begin

lemma login_inactive:
  assumes "db_ok (w_db w)" "x \<in> set (t_users (w_db w))" "u_email x = e" "\<not> u_is_active x"
    and "rq_data rq = PDict kvs" "map_of kvs (PStr ''email'') = Some (PStr e)"
    and "map_of kvs (PStr ''password'') = Some (PStr p)" "list_all (\<lambda>kv. hashable (fst kv)) kvs"
  shows "login_account Srv rq w = (Inr (Reply 200 (Failure Login_refused)), w)"
proof -
  have "authenticate Srv (w_db w) e p = None"
  proof (cases "authenticate Srv (w_db w) e p")
    case (Some y)
    then have "y \<in> set (t_users (w_db w))" "u_email y = e" "u_is_active y"
      using authenticate_iff [OF assms(1)] by auto
    then show ?thesis using users_same_email [OF assms(1,2)] assms(3,4) by metis
  qed
  then show ?thesis
    using login_account_run [OF assms(5-7) login_values_str assms(8)] by simp
qed

lemma login_active:
  assumes "db_ok (w_db w)" "x \<in> set (t_users (w_db w))" "u_email x = e" "u_is_active x"
    and "check_password Srv p (u_password x)" "new_auth_key Srv w \<notin> snd ` set (w_tokens w)"
    and "rq_data rq = PDict kvs" "map_of kvs (PStr ''email'') = Some (PStr e)"
    and "map_of kvs (PStr ''password'') = Some (PStr p)" "list_all (\<lambda>kv. hashable (fst kv)) kvs"
  obtains key w' where "login_account Srv rq w = (Inr (Reply 200 (Success_token key)), w')" "w_db w' = w_db w"
proof -
  have "authenticate Srv (w_db w) e p = Some x"
    using authenticate_iff [OF assms(1)] assms(2-5) by simp
  moreover obtain key w' where "auth_token Srv x w = (Inr key, w')" "w_db w' = w_db w"
    using auth_token_fresh [OF assms(6)] by blast
  ultimately show thesis
    using login_account_run [OF assms(7-9) login_values_str assms(10)] assms(4) that by simp
qed

end

context django
begin

lemma matching_token:
  assumes "db_ok d" "x \<in> set (t_users d)" "t \<in> set (t_email_tokens d)" "et_user t = u_id x"
    and "prep_str Orm email = Some (u_email x)" "prep_str Orm key = Some (et_key t)"
  shows "matching_tokens Orm email key d = [t]"
proof -
  have "t' = t" if "t' \<in> set (t_email_tokens d)" "et_key t' = et_key t" for t'
  proof -
    have "unique_ok (EmailTokenRow t) d"
      using assms(1,3) db_ok_row [of d "EmailTokenRow t" EmailTokenM] by (simp add: row_ok_def)
    then have "et_id t' = et_id t" using that unique_okD [of "EmailTokenRow t" d "EmailTokenRow t'"] by simp
    then show ?thesis
      using that assms(3) same_pk_same_row [OF db_ok_distinct [OF assms(1)], of "EmailTokenRow t'" EmailTokenM "EmailTokenRow t"]
      by simp
  qed
  then have "filter (\<lambda>t'. list_ex (\<lambda>x. u_id x = et_user t' \<and> Some (u_email x) = prep_str Orm email) (t_users d) \<and>
      Some (et_key t') = prep_str Orm key) (t_email_tokens d) = filter (\<lambda>t'. et_id t' = et_id t) (t_email_tokens d)"
    using assms same_pk_same_row [OF db_ok_distinct [OF assms(1)], of _ EmailTokenM "EmailTokenRow t"]
    by (intro filter_cong) (force simp: list_ex_iff)+
  also have "\<dots> = [t]"
    using filter_eq_single [of et_id "t_email_tokens d" t] db_ok_distinct [OF assms(1), of EmailTokenM] assms(3) by simp
  finally show ?thesis by (simp add: matching_tokens_def)
qed

lemma confirm_success:
  assumes "db_ok (w_db w)" "x \<in> set (t_users (w_db w))" "t \<in> set (t_email_tokens (w_db w))" "et_user t = u_id x"
    and "rq_data rq = PDict kvs" "has_keys [''email'', ''token''] (PDict kvs) = Inr True"
    and "map_of kvs (PStr ''email'') = Some (PStr (u_email x))" "map_of kvs (PStr ''token'') = Some (PStr (et_key t))"
  shows "confirm_account Orm Srv rq w = (Inr (Reply 200 Success),
    w\<lparr>w_db := w_db w\<lparr>t_users := replace_by u_id (x\<lparr>u_is_active := True\<rparr>) (t_users (w_db w)),
       t_email_tokens := filter (\<lambda>t'. et_id t' \<noteq> et_id t) (t_email_tokens (w_db w))\<rparr>\<rparr>)"
proof -
  have m: "matching_tokens Orm (PStr (u_email x)) (PStr (et_key t)) (w_db w) = [t]"
    by (rule matching_token [OF assms(1-4)]) (simp_all add: prep_str_PStr)
  have r: "related u_id t_users (et_user t) (w_db w) = (Inr x, w_db w)"
    by (rule related_found) (use assms(2,4) db_ok_distinct [OF assms(1), of UserM] in auto)
  let ?x = "x\<lparr>u_is_active := True\<rparr>"
  let ?w = "w\<lparr>w_db := w_db w\<lparr>t_users := replace_by u_id ?x (t_users (w_db w))\<rparr>\<rparr>"
  have u: "update_user Orm Srv (rq_now rq) ?x w = (Inr (), ?w)"
    by (rule update_user_same [OF assms(1,2)]) simp_all
  have "db_ok (w_db ?w)" using keeps_result [OF keeps_update_user assms(1) u] .
  then have "db_delete Orm EmailTokenM [et_id t] (w_db ?w) =
      (Inr (db_size (w_db ?w) - db_size (cascade_delete EmailTokenM [et_id t] (w_db ?w))),
       w_db ?w\<lparr>t_email_tokens := filter (\<lambda>t'. et_id t' \<noteq> et_id t) (t_email_tokens (w_db w))\<rparr>)"
    by (simp add: delete_cascades cascade_delete_tokens)
  then show ?thesis
    using assms(5-8) m r u by (simp add: confirm_account_def)
qed

end

context ref_accounts
begin

lemma register_confirm_login:
  assumes "db_ok (w_db w)" "\<And>w'. new_auth_key Srv w' \<notin> snd ` set (w_tokens w')"
    and "rq_data rq = PDict kvs" "map_of kvs (PStr ''email'') = Some (PStr e)" "email_field Drf (PStr e) = Some e"
    and "map_of kvs (PStr ''password'') = Some (PStr p)"
    and "register_account Orm Drf Srv rq w = (Inr (Reply 200 Success), w1)"
  obtains key where "w_mails w1 = w_mails w @ [Token_letter e key]"
    "login_account Srv rq w1 = (Inr (Reply 200 (Failure Login_refused)), w1)"
    "\<And>rq' :: request. rq_data rq' = PDict [(PStr ''email'', PStr e), (PStr ''token'', PStr key)] \<Longrightarrow>
      \<exists>w2 token w3. confirm_account Orm Srv rq' w1 = (Inr (Reply 200 Success), w2) \<and>
        login_account Srv rq w2 = (Inr (Reply 200 (Success_token token)), w3)"
proof -
  obtain x t where x: "u_id x \<notin> set (pks UserM (w_db w))" "u_email x = e" "\<not> u_is_active x"
    "u_password x = make_password Srv (Some p)" and t: "et_user t = u_id x"
    and w1: "w1 = w\<lparr>w_db := w_db w\<lparr>t_users := t_users (w_db w) @ [x],
        t_email_tokens := t_email_tokens (w_db w) @ [t]\<rparr>,
      w_mails := w_mails w @ [Token_letter e (et_key t)]\<rparr>"
    using assms(1,3-7) by (rule register_success)
  have ok: "db_ok (w_db w1)"
    using keeps_result [OF keeps_register_account assms(1,7)] .
  have h: "list_all (\<lambda>kv. hashable (fst kv)) kvs" using assms(3,7) by (rule register_hashable)
  have mem: "x \<in> set (t_users (w_db w1))" "t \<in> set (t_email_tokens (w_db w1))" by (simp_all add: w1)
  show thesis
  proof (rule that [of "et_key t"])
    show "w_mails w1 = w_mails w @ [Token_letter e (et_key t)]" by (simp add: w1)
    show "login_account Srv rq w1 = (Inr (Reply 200 (Failure Login_refused)), w1)"
      by (rule login_inactive [OF ok mem(1) x(2,3) assms(3,4,6) h])
    fix rq' :: request assume rq': "rq_data rq' = PDict [(PStr ''email'', PStr e), (PStr ''token'', PStr (et_key t))]"
    let ?x = "x\<lparr>u_is_active := True\<rparr>"
    define w2 where "w2 = w1\<lparr>w_db := w_db w1\<lparr>t_users := replace_by u_id ?x (t_users (w_db w1)),
       t_email_tokens := filter (\<lambda>t'. et_id t' \<noteq> et_id t) (t_email_tokens (w_db w1))\<rparr>\<rparr>"
    have c: "confirm_account Orm Srv rq' w1 = (Inr (Reply 200 Success), w2)"
      unfolding w2_def
      by (rule confirm_success [OF ok mem t rq']) (simp_all add: has_keys_def x)
    have ok2: "db_ok (w_db w2)" using keeps_result [OF keeps_confirm_account ok c] .
    have "?x \<in> set (t_users (w_db w2))"
      using mem(1) by (force simp: w2_def replace_by_def)
    then obtain token w3 where "login_account Srv rq w2 = (Inr (Reply 200 (Success_token token)), w3)"
      using x assms(2) check_make
      by (elim login_active [OF ok2 _ _ _ _ assms(2) assms(3,4,6) h, where x = ?x]) simp_all
    with c show "\<exists>w2 token w3. confirm_account Orm Srv rq' w1 = (Inr (Reply 200 Success), w2) \<and>
        login_account Srv rq w2 = (Inr (Reply 200 (Success_token token)), w3)" by blast
  qed
qed

end

section \<open>Changing an account\<close>

lemma user_fields_keep_rights:
  "list_all (field_keeps u_is_staff) (ref_user_fields Drf d self)"
  "list_all (field_keeps u_is_superuser) (ref_user_fields Drf d self)"
  "list_all (field_keeps u_type) (ref_user_fields Drf d self)"
  by (auto simp: ref_user_fields_def field_keeps_char)
    (auto simp: field_keeps_def email_spec_def split: option.splits if_splits)

context django
begin

text \<open>The only change an account may make to itself.\<close>

lemma update_user_cases:
  assumes "u_id y \<in> set (pks UserM (w_db w))"
  obtains "update_user Orm Srv now y w =
      (Inr (), w\<lparr>w_db := w_db w\<lparr>t_users := replace_by u_id y (t_users (w_db w))\<rparr>\<rparr>)"
  | "update_user Orm Srv now y w = (Inl IntegrityError, w)"
proof (cases rule: save_cases [of "UserRow y" "w_db w"])
  case 1
  then show thesis
    using that(1) assms by (simp add: update_user_def save_row_def new_user_registered_signal_def)
next
  case 2
  then show thesis using that(2) by (simp add: update_user_def)
qed

lemma save_account_spec:
  assumes "u_id x \<in> set (pks UserM (w_db w))" "save_account Orm Drf Srv rq x w = (r, w')"
  shows "r \<noteq> Inr (Reply 200 Success) \<and> w' = w \<or>
    (\<exists>y. r = Inr (Reply 200 Success) \<and> u_id y = u_id x \<and> u_password y = u_password x \<and>
       u_is_active y = u_is_active x \<and> u_is_staff y = u_is_staff x \<and> u_is_superuser y = u_is_superuser x \<and>
       u_type y = u_type x \<and>
       w' = w\<lparr>w_db := w_db w\<lparr>t_users := replace_by u_id y (t_users (w_db w))\<rparr>\<rparr>)"
proof (cases "serializer True (ref_user_fields Drf (w_db w) (Some (u_id x))) (rq_data rq)")
  case (Inl e)
  then have "r = Inl e \<and> w' = w" using assms(2) by (simp add: save_account_def)
  then show ?thesis by simp
next
  case (Inr p)
  obtain bad g where p: "p = (bad, g)" by (cases p)
  show ?thesis
  proof (cases "bad = []")
    case False
    then have "r = Inr (Reply 200 (Failure (Fields_invalid bad))) \<and> w' = w"
      using assms(2) Inr p by (simp add: save_account_def)
    then show ?thesis by simp
  next
    case True
    then obtain kvs where run: "run_fields True (ref_user_fields Drf (w_db w) (Some (u_id x))) kvs = Inr ([], g)"
      using Inr p by (auto simp: serializer_def split: pyval.splits)
    note keep = user_fields_keep user_fields_keep_rights
    have same: "u_id (g x) = u_id x" "u_password (g x) = u_password x" "u_is_active (g x) = u_is_active x"
      "u_is_staff (g x) = u_is_staff x" "u_is_superuser (g x) = u_is_superuser x" "u_type (g x) = u_type x"
      by (rule run_fields_keeps [OF run], rule keep)+
    have "u_id (g x) \<in> set (pks UserM (w_db w))" using same assms(1) by simp
    then show ?thesis
    proof (cases rule: update_user_cases [of "g x" w Srv "rq_now rq"])
      case 1
      then have "r = Inr (Reply 200 Success)" "w' = w\<lparr>w_db := w_db w\<lparr>t_users := replace_by u_id (g x) (t_users (w_db w))\<rparr>\<rparr>"
        using assms(2) Inr p True by (simp_all add: save_account_def)
      then show ?thesis using same by blast
    next
      case 2
      then have "r = Inl IntegrityError \<and> w' = w" using assms(2) Inr p True by (simp add: save_account_def)
      then show ?thesis by simp
    qed
  qed
qed

lemma account_post_spec:
  assumes "request_user rq (w_db w) = Some x" "account_post Orm Drf Srv rq w = (r, w')"
  shows "r \<noteq> Inr (Reply 200 Success) \<and> w' = w \<or>
    (\<exists>y. r = Inr (Reply 200 Success) \<and> u_id y = u_id x \<and>
       u_is_active y = u_is_active x \<and> u_is_staff y = u_is_staff x \<and> u_is_superuser y = u_is_superuser x \<and>
       u_type y = u_type x \<and>
       (u_password y = u_password x \<or> check_new_password Srv (rq_data rq) = Inr True) \<and>
       w' = w\<lparr>w_db := w_db w\<lparr>t_users := replace_by u_id y (t_users (w_db w))\<rparr>\<rparr>)"
proof -
  have x: "u_id x \<in> set (pks UserM (w_db w))" using request_userD [OF assms(1)] by simp
  consider "r \<noteq> Inr (Reply 200 Success)" "w' = w"
    | "save_account Orm Drf Srv rq x w = (r, w')"
    | h where "check_new_password Srv (rq_data rq) = Inr True"
        "save_account Orm Drf Srv rq (x\<lparr>u_password := h\<rparr>) w = (r, w')"
    using assms
    by (auto simp: account_post_def andThen_def split: sum.splits prod.splits if_splits)
  then show ?thesis
  proof cases
    case 1
    then show ?thesis by simp
  next
    case 2
    then show ?thesis using save_account_spec [OF x 2] by blast
  next
    case (3 h)
    have "u_id (x\<lparr>u_password := h\<rparr>) \<in> set (pks UserM (w_db w))" using x by simp
    from save_account_spec [OF this 3(2)] show ?thesis using 3(1) by auto
  qed
qed

end

end
