(* ===== verification/RefBasket.thy ===== *)
theory RefBasket
  imports RefAccounts Cart
begin

text \<open>
  \<^verbatim>\<open>BasketView\<close> and \<^verbatim>\<open>OrderView\<close> of the reference application with \<^verbatim>\<open>OrderItemSerializer\<close>. Several
  items come in one request; the statements commit one by one, so what was stored before an error
  stays.
\<close>

section \<open>The item serializer\<close>

text \<open>
  A new item before it is stored; the foreign keys are declared \<^verbatim>\<open>blank=True\<close>, so the serializer
  does not require them and a missing one is NULL.
\<close>

record item_draft =
  dr_order :: "int option"
  dr_info :: "int option"
  dr_quantity :: int

definition blank_draft :: item_draft where
  "blank_draft = \<lparr>dr_order = None, dr_info = None, dr_quantity = 0\<rparr>"

definition quantity_spec :: "drf \<Rightarrow> pyval \<Rightarrow> exn + (item_draft \<Rightarrow> item_draft) option" where
  "quantity_spec Drf v = Inr (case int_field Drf v of
       None \<Rightarrow> None | Some n \<Rightarrow> if 0 \<le> n then Some (dr_quantity_update (\<lambda>_. n)) else None)"

definition ref_item_fields :: "orm \<Rightarrow> drf \<Rightarrow> database \<Rightarrow> item_draft field_spec list" where
  "ref_item_fields Orm Drf d =
     [(''product_info'', False, key_spec Orm (pks ProductInfoM d) (\<lambda>k. dr_info_update (\<lambda>_. Some k))),
      (''quantity'', True, quantity_spec Drf),
      (''order'', False, key_spec Orm (pks OrderM d) (\<lambda>k. dr_order_update (\<lambda>_. Some k)))]"

definition insert_item :: "orm \<Rightarrow> item_draft \<Rightarrow> (database, order_item) comp" where
  "insert_item Orm x =
     andThen (not_null (dr_order x)) (\<lambda>b.
     andThen (not_null (dr_info x)) (\<lambda>p.
     create Orm OrderItemRow (\<lambda>k. oi_id_update (\<lambda>_. k))
       \<lparr>oi_id = 0, oi_order = b, oi_info = p, oi_quantity = dr_quantity x\<rparr>))"

section \<open>The basket\<close>

text \<open>The orders of a user that a condition selects, newest first, with the sum of their items.\<close>

definition summed_orders :: "int \<Rightarrow> (order_t \<Rightarrow> bool) \<Rightarrow> database \<Rightarrow> (order_t \<times> pyval) list" where
  "summed_orders u P d = map (\<lambda>b. (b, total_sum d (filter (\<lambda>it. oi_order it = o_id b) (t_order_items d))))
     (sort_key (\<lambda>b. - o_dt b) (filter (\<lambda>b. o_user b = u \<and> P b) (t_orders d)))"

definition ref_basket_get :: "request \<Rightarrow> (world, ref_response) comp" where
  "ref_basket_get rq = logged_in rq (\<lambda>user.
     andThen (query (\<lambda>w. summed_orders (u_id user) (\<lambda>b. o_state b = Basket) (w_db w))) (\<lambda>orders.
     andThen (on_db (map_each ref_order_data orders)) (\<lambda>data.
     ret (Reply 200 (Rendered (PList data))))))"

text \<open>The loop of \<^verbatim>\<open>BasketView.post\<close> returns at the first item that is refused.\<close>

fun add_items :: "orm \<Rightarrow> drf \<Rightarrow> int \<Rightarrow> nat \<Rightarrow> pyval list \<Rightarrow> (database, ref_reply) comp" where
  "add_items Orm Drf basket objects_created [] = ret (Success_count objects_created)"
| "add_items Orm Drf basket objects_created (order_item # items) = (case order_item of
     PDict kvs \<Rightarrow>
       andThen (query (\<lambda>d. serializer False (ref_item_fields Orm Drf d)
         (PDict ((PStr ''order'', PInt basket) # kvs)))) (\<lambda>valid.
       andThen (lift_exn valid) (\<lambda>(bad, set_fields).
       if bad \<noteq> [] then ret (Failure (Fields_invalid bad))
       else
         andThen (try_except (andThen (insert_item Orm (set_fields blank_draft)) (\<lambda>_. ret True))
           (\<lambda>e. if e = IntegrityError then ret False else raise e)) (\<lambda>stored.
         if stored then add_items Orm Drf basket (objects_created + 1) items
         else ret (Failure Not_stored))))
   | _ \<Rightarrow> raise AttributeError)"

definition ref_basket_post :: "orm \<Rightarrow> drf \<Rightarrow> services \<Rightarrow> request \<Rightarrow> (world, ref_response) comp" where
  "ref_basket_post Orm Drf Srv rq = logged_in rq (\<lambda>user.
     andThen (lift_exn (py_get (rq_data rq) ''items'' PNone)) (\<lambda>items_string.
     if \<not> py_true items_string then ret (Reply 200 (Failure Arguments_missing))
     else (case load_json Srv items_string of
         Inl e \<Rightarrow> if e = ValueError then ret (Reply 200 (Failure Bad_format)) else raise e
       | Inr items_dict \<Rightarrow>
           andThen (on_db (get_or_create_basket Orm (u_id user) (rq_now rq))) (\<lambda>basket.
           andThen (lift_exn (py_iter items_dict)) (\<lambda>items.
           andThen (on_db (add_items Orm Drf (o_id basket) 0 items)) (\<lambda>r.
           ret (Reply 200 r)))))))"

definition ref_basket_delete :: "orm \<Rightarrow> request \<Rightarrow> (world, ref_response) comp" where
  "ref_basket_delete Orm rq = logged_in rq (\<lambda>user.
     andThen (lift_exn (py_get (rq_data rq) ''items'' PNone)) (\<lambda>items_string.
     if \<not> py_true items_string then ret (Reply 200 (Failure Arguments_missing))
     else
       andThen (lift_exn (py_split items_string)) (\<lambda>items_list.
       andThen (on_db (get_or_create_basket Orm (u_id user) (rq_now rq))) (\<lambda>basket.
       let ids = filter isdigit items_list in
       if ids = [] then ret (Reply 200 (Failure Arguments_missing))
       else
         andThen (map_each (\<lambda>s. lift_exn (prep_int Orm (PStr s))) ids) (\<lambda>ks.
         andThen (query (\<lambda>w. map oi_id (filter (\<lambda>it. oi_order it = o_id basket \<and> Some (oi_id it) \<in> set ks)
           (t_order_items (w_db w))))) (\<lambda>found.
         andThen (on_db (db_delete Orm OrderItemM found)) (\<lambda>deleted_count.
         ret (Reply 200 (Success_count deleted_count)))))))))"

text \<open>
  One round of the loop of \<^verbatim>\<open>BasketView.put\<close>; the quantity is not looked at when the id is no int.
\<close>

definition set_item_quantity :: "orm \<Rightarrow> int \<Rightarrow> nat \<Rightarrow> pyval \<Rightarrow> (database, nat) comp" where
  "set_item_quantity Orm basket objects_updated order_item =
     andThen (lift_exn (py_index order_item ''id'')) (\<lambda>k.
     case k of
       PInt i \<Rightarrow>
         andThen (lift_exn (py_index order_item ''quantity'')) (\<lambda>q.
         case q of
           PInt n \<Rightarrow>
             andThen (update_rows Orm OrderItemRow
               (\<lambda>d. filter (\<lambda>it. oi_order it = basket \<and> oi_id it = i) (t_order_items d))
               (oi_quantity_update (\<lambda>_. n))) (\<lambda>m. ret (objects_updated + m))
         | _ \<Rightarrow> ret objects_updated)
     | _ \<Rightarrow> ret objects_updated)"

definition ref_basket_put :: "orm \<Rightarrow> services \<Rightarrow> request \<Rightarrow> (world, ref_response) comp" where
  "ref_basket_put Orm Srv rq = logged_in rq (\<lambda>user.
     andThen (lift_exn (py_get (rq_data rq) ''items'' PNone)) (\<lambda>items_string.
     if \<not> py_true items_string then ret (Reply 200 (Failure Arguments_missing))
     else (case load_json Srv items_string of
         Inl e \<Rightarrow> if e = ValueError then ret (Reply 200 (Failure Bad_format)) else raise e
       | Inr items_dict \<Rightarrow>
           andThen (on_db (get_or_create_basket Orm (u_id user) (rq_now rq))) (\<lambda>basket.
           andThen (lift_exn (py_iter items_dict)) (\<lambda>items.
           andThen (on_db (fold_each (set_item_quantity Orm (o_id basket)) 0 items)) (\<lambda>objects_updated.
           ret (Reply 200 (Success_count objects_updated))))))))"

section \<open>Orders\<close>

definition ref_order_get :: "request \<Rightarrow> (world, ref_response) comp" where
  "ref_order_get rq = logged_in rq (\<lambda>user.
     andThen (query (\<lambda>w. summed_orders (u_id user) (\<lambda>b. o_state b \<noteq> Basket) (w_db w))) (\<lambda>orders.
     andThen (on_db (map_each ref_order_data orders)) (\<lambda>data.
     ret (Reply 200 (Rendered (PList data))))))"

text \<open>
  Placing an order updates the row with the given id among all orders of the user; only an
  \<^verbatim>\<open>IntegrityError\<close> of the statement is caught.
\<close>

definition ref_order_post :: "orm \<Rightarrow> services \<Rightarrow> request \<Rightarrow> (world, ref_response) comp" where
  "ref_order_post Orm Srv rq = logged_in rq (\<lambda>user.
     andThen (lift_exn (has_keys [''id'', ''contact''] (rq_data rq))) (\<lambda>given.
     if \<not> given then ret (Reply 200 (Failure Arguments_missing))
     else
       andThen (lift_exn (py_index (rq_data rq) ''id'')) (\<lambda>order_id.
       andThen (lift_exn (py_isdigit order_id)) (\<lambda>digits.
       if \<not> digits then ret (Reply 200 (Failure Arguments_missing))
       else
         andThen (lift_exn (prep_int Orm order_id)) (\<lambda>k.
         andThen (lift_exn (py_index (rq_data rq) ''contact'')) (\<lambda>v.
         andThen (lift_exn (prep_int Orm v)) (\<lambda>contact.
         andThen (try_except
           (andThen (on_db (update_rows Orm OrderRow
              (\<lambda>d. filter (\<lambda>b. o_user b = u_id user \<and> Some (o_id b) = k) (t_orders d))
              (\<lambda>b. b\<lparr>o_contact := contact, o_state := New\<rparr>))) (\<lambda>n. ret (Some n)))
           (\<lambda>e. if e = IntegrityError then ret None else raise e)) (\<lambda>updated.
         case updated of
           None \<Rightarrow> ret (Reply 200 (Failure Arguments_wrong))
         | Some n \<Rightarrow>
             if n = 0 then ret (Reply 200 (Failure Arguments_missing))
             else
               andThen (new_order_signal Srv (u_id user)) (\<lambda>_.
               ret (Reply 200 Success))))))))))"

end
