(* ===== verification/RefBasketSpec.thy ===== *)
theory RefBasketSpec
  imports RefBasket CartSteps
begin

text \<open>
  What the basket and order requests of the reference application do, written over the lists and
  maps of the model: adding several items (\<open>basket_add\<close>), changing quantities (\<open>set_each\<close>),
  removing items by id and placing an order (\<open>place_spec\<close>).
\<close>

section \<open>The ids in a comma separated string\<close>

definition listed_ids :: "string \<Rightarrow> int list" where
  "listed_ids s = concat (map (\<lambda>t. case int_of_str t of Inl e \<Rightarrow> [] | Inr n \<Rightarrow> [n]) (filter isdigit (split_comma s)))"

lemma digit_not_space: "is_digit c \<Longrightarrow> \<not> is_space c"
  by (auto simp: is_digit_def is_space_def Let_def)

lemma dropWhile_none: "list_all (\<lambda>c. \<not> P c) s \<Longrightarrow> dropWhile P s = s"
  by (cases s) auto

lemma strip_digits: "list_all is_digit s \<Longrightarrow> strip s = s"
proof -
  assume "list_all is_digit s"
  then have "list_all (\<lambda>c. \<not> is_space c) s" "list_all (\<lambda>c. \<not> is_space c) (rev s)"
    by (auto simp: list_all_iff digit_not_space)
  then show ?thesis by (simp add: strip_def dropWhile_none)
qed

lemma int_digits_of_digits:
  "list_all is_digit s \<Longrightarrow> s \<noteq> [] \<or> b \<Longrightarrow> \<exists>n. int_digits b acc s = Some n"
  by (induction b acc s rule: int_digits.induct) (auto split: if_splits)

lemma int_of_digits:
  assumes "isdigit s"
  obtains n where "int_of_str s = Inr n"
proof -
  have s: "list_all is_digit s" "s \<noteq> []" using assms by (simp_all add: isdigit_def)
  obtain c cs where c: "s = c # cs" using s(2) by (cases s) auto
  have "is_digit c" using s(1) c by simp
  then have "c \<noteq> CHR ''-''" "c \<noteq> CHR ''+''" by (auto simp: is_digit_def Let_def)
  then have "int_of_str s = (case int_digits False 0 s of None \<Rightarrow> Inl ValueError | Some n \<Rightarrow> Inr n)"
    unfolding int_of_str_def strip_digits [OF s(1)] by (simp add: c)
  then show thesis using int_digits_of_digits [of s False 0] s that by auto
qed

context django
begin

lemma prep_listed:
  assumes "list_all isdigit ts"
  shows "map_each (\<lambda>s. lift_exn (prep_int Orm (PStr s))) ts (w :: 'w) =
    (Inr (map Some (concat (map (\<lambda>t. case int_of_str t of Inl e \<Rightarrow> [] | Inr n \<Rightarrow> [n]) ts))), w)"
  using assms
proof (induction ts)
  case (Cons t ts)
  then obtain n where n: "int_of_str t = Inr n" by (auto elim: int_of_digits)
  then have "prep_int Orm (PStr t) = Inr (Some n)" by (simp add: prep_int_py)
  then show ?case using Cons n by simp
qed simp

end

section \<open>The basket that several items are added to\<close>

text \<open>The first item that is refused ends the request; what was added before stays.\<close>

fun basket_add ::
  "int set \<Rightarrow> (int \<Rightarrow> int option) \<Rightarrow> nat \<Rightarrow> (int \<times> int) list \<Rightarrow> ref_reply \<times> (int \<Rightarrow> int option)" where
  "basket_add known c n [] = (Success_count n, c)"
| "basket_add known c n ((p, q) # ps) =
     (if p \<notin> known \<or> q < 0
      then (Failure (Fields_invalid ((if p \<in> known then [] else [''product_info'']) @ (if q < 0 then [''quantity''] else []))), c)
      else if c p \<noteq> None then (Failure Not_stored, c)
      else basket_add known (c(p \<mapsto> q)) (n + 1) ps)"

text \<open>A JSON object that asks for \<open>q\<close> pieces of position \<open>p\<close>.\<close>

definition item_asks :: "pyval \<Rightarrow> int \<times> int \<Rightarrow> bool" where
  "item_asks v pq \<longleftrightarrow> (case v of
     PDict kvs \<Rightarrow> map_of kvs (PStr ''product_info'') = Some (PInt (fst pq)) \<and>
       map_of kvs (PStr ''quantity'') = Some (PInt (snd pq))
   | _ \<Rightarrow> False)"

context django
begin

lemma item_fields_run:
  assumes "rest_framework Drf" "map_of kvs (PStr ''product_info'') = Some (PInt p)"
    and "map_of kvs (PStr ''quantity'') = Some (PInt q)" "b \<in> set (pks OrderM d)"
  shows "\<exists>g. serializer False (ref_item_fields Orm Drf d) (PDict ((PStr ''order'', PInt b) # kvs)) =
      Inr ((if p \<in> set (pks ProductInfoM d) then [] else [''product_info'']) @ (if q < 0 then [''quantity''] else []), g) \<and>
    (p \<in> set (pks ProductInfoM d) \<and> 0 \<le> q \<longrightarrow>
       g blank_draft = \<lparr>dr_order = Some b, dr_info = Some p, dr_quantity = q\<rparr>)"
  using assms(2-4)
  by (auto simp: serializer_def ref_item_fields_def key_spec_def prep_int_PInt quantity_spec_def
      rest_framework.int_field_int [OF assms(1)] blank_draft_def)

lemma insert_item_new:
  assumes "db_ok d" "baskets u d = [b]" "p \<in> set (pks ProductInfoM d)" "0 \<le> q" "cart_of u d p = None"
  obtains it where "insert_item Orm \<lparr>dr_order = Some (o_id b), dr_info = Some p, dr_quantity = q\<rparr> d =
      (Inr it, d\<lparr>t_order_items := t_order_items d @ [it]\<rparr>)"
    "cart_of u (d\<lparr>t_order_items := t_order_items d @ [it]\<rparr>) = (cart_of u d)(p \<mapsto> q)"
proof -
  let ?r = "OrderItemRow \<lparr>oi_id = 0, oi_order = o_id b, oi_info = p, oi_quantity = q\<rparr>"
  let ?it = "\<lparr>oi_id = db_new_pk Orm OrderItemM d, oi_order = o_id b, oi_info = p, oi_quantity = q\<rparr>"
  have b: "b \<in> set (t_orders d)" using assms(2) baskets_in [of b u d] by simp
  have none: "filter (\<lambda>it. oi_order it = o_id b \<and> oi_info it = p) (t_order_items d) = []"
    using assms(5) by (simp add: cart_of_basket [OF assms(2)] split: list.splits)
  have "row_ok (with_pk (db_new_pk Orm OrderItemM d) ?r) d"
    using none b assms(3,4) by (auto simp: filter_empty_conv intro!: item_row_ok)
  then have "insert_item Orm \<lparr>dr_order = Some (o_id b), dr_info = Some p, dr_quantity = q\<rparr> d =
      (Inr ?it, d\<lparr>t_order_items := t_order_items d @ [?it]\<rparr>)"
    using insert_new_ok [of ?r d] by (simp add: insert_item_def create_def)
  moreover have "cart_of u (d\<lparr>t_order_items := t_order_items d @ [?it]\<rparr>) = (cart_of u d)(p \<mapsto> q)"
    using cart_of_add_item [OF assms(2,1), of ?it] none by simp
  ultimately show thesis by (rule that)
qed

lemma insert_item_twice:
  assumes "db_ok d" "baskets u d = [b]" "cart_of u d p \<noteq> None"
  shows "insert_item Orm \<lparr>dr_order = Some (o_id b), dr_info = Some p, dr_quantity = q\<rparr> d = (Inl IntegrityError, d)"
proof -
  let ?k = "db_new_pk Orm OrderItemM d"
  let ?r = "OrderItemRow \<lparr>oi_id = 0, oi_order = o_id b, oi_info = p, oi_quantity = q\<rparr>"
  obtain it its where "filter (\<lambda>it. oi_order it = o_id b \<and> oi_info it = p) (t_order_items d) = it # its"
    using assms(3) by (auto simp: cart_of_basket [OF assms(2)] split: list.splits)
  then have it: "it \<in> set (t_order_items d)" "oi_order it = o_id b" "oi_info it = p"
    by (auto simp: filter_eq_Cons_iff)
  then have "oi_id it \<noteq> ?k" using new_pk_fresh [of OrderItemM d] by (metis image_eqI image_set pks_typed(11))
  then have "\<not> row_ok (with_pk ?k ?r) d"
    using it by (auto simp: row_ok_def unique_ok_def list_all_iff)
  then show ?thesis
    using insert_new_bad [of ?r d] by (simp add: insert_item_def create_def)
qed

lemma keeps_insert_item [keeps_intros]: "keeps db_ok (insert_item Orm x)"
  unfolding insert_item_def by (intro keeps_intros)

lemma add_items_spec:
  assumes "rest_framework Drf" "list_all2 item_asks items ps" "db_ok d" "baskets u d = [b]"
    and "add_items Orm Drf (o_id b) n items d = (r, d')"
  shows "\<exists>reply. r = Inr reply \<and>
    (reply, cart_of u d') = basket_add (set (pks ProductInfoM d)) (cart_of u d) n ps"
  using assms(2-)
proof (induction arbitrary: n d r d' rule: list_all2_induct)
  case Nil
  then show ?case by auto
next
  case (Cons item items pq ps)
  obtain p q where pq: "pq = (p, q)" by (cases pq)
  obtain kvs where item: "item = PDict kvs" "map_of kvs (PStr ''product_info'') = Some (PInt p)"
    "map_of kvs (PStr ''quantity'') = Some (PInt q)"
    using Cons.hyps pq by (auto simp: item_asks_def split: pyval.splits)
  have "o_id b \<in> set (pks OrderM d)" using Cons.prems(2) baskets_in [of b u d] by simp
  then obtain g where g: "serializer False (ref_item_fields Orm Drf d) (PDict ((PStr ''order'', PInt (o_id b)) # kvs)) =
      Inr ((if p \<in> set (pks ProductInfoM d) then [] else [''product_info'']) @ (if q < 0 then [''quantity''] else []), g)"
    "p \<in> set (pks ProductInfoM d) \<Longrightarrow> 0 \<le> q \<Longrightarrow>
       g blank_draft = \<lparr>dr_order = Some (o_id b), dr_info = Some p, dr_quantity = q\<rparr>"
    using item_fields_run [OF assms(1) item(2,3)] by meson
  show ?case
  proof (cases "p \<notin> set (pks ProductInfoM d) \<or> q < 0")
    case True
    then show ?thesis using Cons.prems(3) by (auto simp: item(1) g(1) pq)
  next
    case known: False
    then have draft: "g blank_draft = \<lparr>dr_order = Some (o_id b), dr_info = Some p, dr_quantity = q\<rparr>"
      using g(2) by simp
    show ?thesis
    proof (cases "cart_of u d p")
      case None
      obtain it where ins: "insert_item Orm (g blank_draft) d = (Inr it, d\<lparr>t_order_items := t_order_items d @ [it]\<rparr>)"
        and cart: "cart_of u (d\<lparr>t_order_items := t_order_items d @ [it]\<rparr>) = (cart_of u d)(p \<mapsto> q)"
        using insert_item_new [OF Cons.prems(1,2) _ _ None, of q] known unfolding draft by auto
      let ?d = "d\<lparr>t_order_items := t_order_items d @ [it]\<rparr>"
      have "db_ok ?d" using keeps_result [OF keeps_insert_item Cons.prems(1) ins] .
      moreover have "add_items Orm Drf (o_id b) (n + 1) items ?d = (r, d')"
        using Cons.prems(3) known ins by (simp add: item(1) g(1))
      ultimately have "\<exists>reply. r = Inr reply \<and>
          (reply, cart_of u d') = basket_add (set (pks ProductInfoM ?d)) (cart_of u ?d) (n + 1) ps"
        using Cons.IH [of ?d "n + 1" r d'] Cons.prems(2) by simp
      then show ?thesis unfolding cart using known None by (simp add: pq)
    next
      case (Some m)
      have "insert_item Orm (g blank_draft) d = (Inl IntegrityError, d)"
        unfolding draft by (rule insert_item_twice [OF Cons.prems(1,2)]) (simp add: Some)
      then show ?thesis
        using Cons.prems(3) known Some by (auto simp: item(1) g(1) pq)
    qed
  qed
qed

lemma ref_basket_post_spec:
  assumes "rest_framework Drf" "db_ok (w_db w)" "single_baskets (w_db w)"
    and "request_user rq (w_db w) = Some x" "py_get (rq_data rq) ''items'' PNone = Inr v" "py_true v"
    and "load_json Srv v = Inr (PList items)" "list_all2 item_asks items ps"
    and "ref_basket_post Orm Drf Srv rq w = (r, w')"
  shows "\<exists>reply. r = Inr (Reply 200 reply) \<and>
    (reply, cart_of (u_id x) (w_db w')) =
      basket_add (set (pks ProductInfoM (w_db w))) (cart_of (u_id x) (w_db w)) 0 ps"
proof -
  have "user_exists (u_id x) (w_db w)" using request_userD [OF assms(4)] by (simp add: user_exists_def)
  then obtain b d1 where run: "get_or_create_basket Orm (u_id x) (rq_now rq) (w_db w) = (Inr b, d1)"
    and bas: "baskets (u_id x) d1 = [b]" and d1: "db_ok d1" "cart_of (u_id x) d1 = cart_of (u_id x) (w_db w)"
    and "d1 = w_db w \<or> d1 = w_db w\<lparr>t_orders := t_orders (w_db w) @ [b]\<rparr>"
    using basket_obtained [OF assms(2,3)] by metis
  then have infos: "t_product_infos d1 = t_product_infos (w_db w)" by auto
  obtain res d2 where add: "add_items Orm Drf (o_id b) 0 items d1 = (res, d2)" by fastforce
  from add_items_spec [OF assms(1,8) d1(1) bas add]
  obtain reply where "res = Inr reply"
    "(reply, cart_of (u_id x) d2) = basket_add (set (pks ProductInfoM (w_db w))) (cart_of (u_id x) (w_db w)) 0 ps"
    using infos d1(2) by auto
  then show ?thesis
    using assms(4-7,9) run add by (auto simp: ref_basket_post_def)
qed

end


section \<open>Removing and changing items\<close>

lemma Some_in_image [simp]: "Some x \<in> Some ` A \<longleftrightarrow> x \<in> A"
  by auto

lemma not_in_restrict:
  "distinct (map key xs) \<Longrightarrow> x \<in> set xs \<Longrightarrow> key x \<in> key ` set (filter P xs) \<longleftrightarrow> P x"
  by (auto simp: distinct_map inj_on_def)

context django
begin

lemma ref_basket_delete_spec:
  assumes "db_ok (w_db w)" "single_baskets (w_db w)" "request_user rq (w_db w) = Some x"
    and "py_get (rq_data rq) ''items'' PNone = Inr (PStr s)" "s \<noteq> []"
    and "ref_basket_delete Orm rq w = (r, w')"
  shows "(if filter isdigit (split_comma s) = [] then r = Inr (Reply 200 (Failure Arguments_missing))
      else r = Inr (Reply 200 (Success_count
        (length (filter (\<lambda>it. oi_id it \<in> set (listed_ids s)) (cart_items (u_id x) (w_db w))))))) \<and>
    t_order_items (w_db w') = filter (\<lambda>it. \<not> (it \<in> set (cart_items (u_id x) (w_db w)) \<and> oi_id it \<in> set (listed_ids s)))
      (t_order_items (w_db w))"
proof -
  have u: "user_exists (u_id x) (w_db w)" using request_userD [OF assms(3)] by (simp add: user_exists_def)
  obtain b d1 where run: "get_or_create_basket Orm (u_id x) (rq_now rq) (w_db w) = (Inr b, d1)"
    and bas: "baskets (u_id x) d1 = [b]" and d1: "db_ok d1"
    and or: "d1 = w_db w \<or> baskets (u_id x) (w_db w) = [] \<and> d1 = w_db w\<lparr>t_orders := t_orders (w_db w) @ [b]\<rparr>"
    using basket_obtained [OF assms(1,2) u] by metis
  have items: "t_order_items d1 = t_order_items (w_db w)" using or by auto
  have cart: "cart_items (u_id x) d1 = cart_items (u_id x) (w_db w)"
  proof (cases "d1 = w_db w")
    case False
    with or have new: "baskets (u_id x) (w_db w) = []" "d1 = w_db w\<lparr>t_orders := t_orders (w_db w) @ [b]\<rparr>" by auto
    have "o_id b \<notin> set (pks OrderM (w_db w))"
      using db_ok_distinct [OF d1, of OrderM] new(2) by simp
    then show ?thesis
      using no_items_of_fresh_order [OF assms(1), of "o_id b" "\<lambda>_. True"] bas new(1) items
      by (simp add: cart_items_def)
  qed simp
  show ?thesis
  proof (cases "filter isdigit (split_comma s) = []")
    case True
    then show ?thesis
      using assms(3-6) run items by (auto simp: ref_basket_delete_def listed_ids_def Let_def)
  next
    case False
    let ?found = "filter (\<lambda>it. oi_order it = o_id b \<and> oi_id it \<in> set (listed_ids s)) (t_order_items d1)"
    have ks: "map_each (\<lambda>s. lift_exn (prep_int Orm (PStr s))) (filter isdigit (split_comma s)) v =
        (Inr (map Some (listed_ids s)), v)" for v :: world
      unfolding listed_ids_def by (rule prep_listed) (simp add: list_all_iff)
    let ?d2 = "d1\<lparr>t_order_items := filter (\<lambda>it. oi_id it \<notin> set (map oi_id ?found)) (t_order_items d1)\<rparr>"
    have "db_delete Orm OrderItemM (map oi_id ?found) d1 = (Inr (db_size d1 - db_size ?d2), ?d2)"
      by (simp only: delete_cascades [OF d1] cascade_delete_items [OF d1])
    moreover have mem: "oi_id it \<in> set (map oi_id ?found) \<longleftrightarrow> oi_order it = o_id b \<and> oi_id it \<in> set (listed_ids s)"
      if "it \<in> set (t_order_items d1)" for it
      using not_in_restrict [OF _ that, of oi_id] db_ok_distinct [OF d1, of OrderItemM] by simp
    then have left: "filter (\<lambda>it. oi_id it \<notin> set (map oi_id ?found)) (t_order_items d1) =
        filter (\<lambda>it. \<not> (it \<in> set (cart_items (u_id x) (w_db w)) \<and> oi_id it \<in> set (listed_ids s))) (t_order_items (w_db w))"
      unfolding items [symmetric] cart [symmetric]
      by (intro filter_cong refl) (auto simp: cart_items_basket [OF bas])
    moreover have "db_size d1 - db_size ?d2 =
        length (filter (\<lambda>it. oi_id it \<in> set (listed_ids s)) (cart_items (u_id x) (w_db w)))"
    proof -
      have "filter (\<lambda>it. oi_id it \<notin> set (map oi_id ?found)) (t_order_items d1) =
          filter (\<lambda>it. \<not> (oi_order it = o_id b \<and> oi_id it \<in> set (listed_ids s))) (t_order_items d1)"
        using mem by (intro filter_cong) auto
      then have "db_size d1 - db_size ?d2 = length ?found"
        using db_size_items [of d1 "\<lambda>it. oi_order it = o_id b \<and> oi_id it \<in> set (listed_ids s)"] by simp
      moreover have "?found = filter (\<lambda>it. oi_id it \<in> set (listed_ids s)) (cart_items (u_id x) d1)"
        by (simp add: cart_items_basket [OF bas] conj_commute)
      ultimately show ?thesis using cart by simp
    qed
    ultimately show ?thesis
      using assms(3-6) run False ks by (auto simp: ref_basket_delete_def Let_def)
  qed
qed

end

section \<open>Changing quantities\<close>


text \<open>
  Setting the quantities of the items with the given ids, one after the other; an id outside the
  basket is passed over, a negative quantity is refused by the database and ends the request.
\<close>

fun set_each :: "nat \<Rightarrow> order_item list \<Rightarrow> (int \<times> int) list \<Rightarrow> (exn + nat) \<times> order_item list" where
  "set_each k its [] = (Inr k, its)"
| "set_each k its ((i, n) # ps) =
     (if i \<notin> oi_id ` set its then set_each k its ps
      else if n < 0 then (Inl IntegrityError, its)
      else set_each (k + 1) (map (\<lambda>it. if oi_id it = i then it\<lparr>oi_quantity := n\<rparr> else it) its) ps)"

definition item_sets :: "pyval \<Rightarrow> int \<times> int \<Rightarrow> bool" where
  "item_sets v ik \<longleftrightarrow> py_index v ''id'' = Inr (PInt (fst ik)) \<and> py_index v ''quantity'' = Inr (PInt (snd ik))"

lemma replace_quantity:
  assumes "db_ok d" "it \<in> set (t_order_items d)"
  shows "replace_by oi_id (it\<lparr>oi_quantity := n\<rparr>) (t_order_items d) =
    map (\<lambda>y. if oi_id y = oi_id it then y\<lparr>oi_quantity := n\<rparr> else y) (t_order_items d)"
  unfolding replace_by_def
  by (rule map_cong [OF refl]) (auto dest: rows_same_pk [OF assms])

lemma quantity_outside:
  assumes "db_ok d" "it \<in> set (cart_items u d)"
  shows "outside_cart u (d\<lparr>t_order_items :=
      map (\<lambda>y. if oi_id y = oi_id it then y\<lparr>oi_quantity := n\<rparr> else y) (t_order_items d)\<rparr>) = outside_cart u d"
proof -
  have it: "it \<in> set (t_order_items d)" "oi_order it \<in> o_id ` set (baskets u d)"
    using assms(2) by (auto simp: cart_items_def)
  let ?f = "\<lambda>y. if oi_id y = oi_id it then y\<lparr>oi_quantity := n\<rparr> else y"
  let ?P = "\<lambda>y. oi_order y \<notin> o_id ` set (baskets u d)"
  have "filter ?P (map ?f (t_order_items d)) = map ?f (filter (?P \<circ> ?f) (t_order_items d))"
    by (simp add: filter_map)
  also have "filter (?P \<circ> ?f) (t_order_items d) = filter ?P (t_order_items d)"
    by (rule filter_cong) auto
  also have "map ?f (filter ?P (t_order_items d)) = filter ?P (t_order_items d)"
    by (intro map_idI) (use it in \<open>auto dest: rows_same_pk [OF assms(1) it(1)]\<close>)
  finally show ?thesis by (rule outside_cart_items)
qed

lemma quantity_inside:
  "cart_items u (d\<lparr>t_order_items := map (\<lambda>y. if oi_id y = i then y\<lparr>oi_quantity := n\<rparr> else y) (t_order_items d)\<rparr>) =
     map (\<lambda>y. if oi_id y = i then y\<lparr>oi_quantity := n\<rparr> else y) (cart_items u d)"
proof -
  have "filter ((\<lambda>it. oi_order it \<in> o_id ` set (baskets u d)) \<circ> (\<lambda>y. if oi_id y = i then y\<lparr>oi_quantity := n\<rparr> else y))
      (t_order_items d) = filter (\<lambda>it. oi_order it \<in> o_id ` set (baskets u d)) (t_order_items d)"
    by (rule filter_cong) auto
  then show ?thesis by (simp add: cart_items_def filter_map)
qed

context django
begin

lemma set_item_step:
  assumes "db_ok d" "baskets u d = [b]" "item_sets v (i, n)"
  shows "set_item_quantity Orm (o_id b) k v d =
    (if i \<notin> oi_id ` set (cart_items u d) then (Inr k, d)
     else if n < 0 then (Inl IntegrityError, d)
     else (Inr (k + 1),
       d\<lparr>t_order_items := map (\<lambda>y. if oi_id y = i then y\<lparr>oi_quantity := n\<rparr> else y) (t_order_items d)\<rparr>))"
proof -
  have run: "set_item_quantity Orm (o_id b) k v d =
      andThen (update_rows Orm OrderItemRow
        (\<lambda>d. filter (\<lambda>it. oi_id it = i \<and> oi_order it = o_id b) (t_order_items d))
        (oi_quantity_update (\<lambda>_. n))) (\<lambda>m. ret (k + m)) d"
    using assms(3) by (simp add: set_item_quantity_def item_sets_def conj_commute)
  show ?thesis
  proof (cases rule: cart_item_cases [OF assms(2,1), of i])
    case 1
    then show ?thesis unfolding run by auto
  next
    case (2 it)
    have in_cart: "i \<in> oi_id ` set (cart_items u d)" using 2 by blast
    show ?thesis
    proof (cases "n < 0")
      case True
      then have "\<not> row_ok (OrderItemRow (it\<lparr>oi_quantity := n\<rparr>)) d" by (simp add: row_ok_def positive_ok_def)
      then show ?thesis
        unfolding run using 2(1) in_cart True by (simp add: save_bad)
    next
      case False
      have "row_ok (OrderItemRow (it\<lparr>oi_quantity := n\<rparr>)) d"
        using db_ok_row [OF assms(1), of "OrderItemRow it" OrderItemM] 2(2) False item_requantify_ok by simp
      moreover have "oi_id it \<in> oi_id ` set (t_order_items d)" using 2(2) by blast
      ultimately have "db_save Orm (OrderItemRow (it\<lparr>oi_quantity := n\<rparr>)) d =
          (Inr (), d\<lparr>t_order_items := map (\<lambda>y. if oi_id y = i then y\<lparr>oi_quantity := n\<rparr> else y) (t_order_items d)\<rparr>)"
        using replace_quantity [OF assms(1) 2(2), of n] 2(4) by (simp add: save_ok save_row_def)
      then show ?thesis
        unfolding run using 2(1) in_cart False by simp
    qed
  qed
qed

lemma keeps_set_item_quantity [keeps_intros]: "keeps db_ok (set_item_quantity Orm b k v)"
  unfolding set_item_quantity_def
  by (intro keeps_intros) (auto split: pyval.splits intro!: keeps_intros)

lemma set_items_spec:
  assumes "list_all2 item_sets items ps" "db_ok d" "baskets u d = [b]"
    and "fold_each (set_item_quantity Orm (o_id b)) k items d = (r, d')"
  shows "(r, cart_items u d') = set_each k (cart_items u d) ps \<and> outside_cart u d' = outside_cart u d"
  using assms
proof (induction arbitrary: k d rule: list_all2_induct)
  case Nil
  then show ?case by auto
next
  case (Cons v items p ps)
  obtain i n where p: "p = (i, n)" by (cases p)
  note step = set_item_step [OF Cons.prems(1,2) Cons.hyps(1) [unfolded p], of k]
  show ?case
  proof (cases "i \<notin> oi_id ` set (cart_items u d)")
    case True
    then show ?thesis using Cons.IH [OF Cons.prems(1,2), where k = k] Cons.prems(3) step by (simp add: p)
  next
    case False
    then obtain it where it: "it \<in> set (cart_items u d)" "oi_id it = i" by blast
    show ?thesis
    proof (cases "n < 0")
      case True
      then show ?thesis using Cons.prems(3) step False by (auto simp: p)
    next
      case pos: False
      let ?d = "d\<lparr>t_order_items := map (\<lambda>y. if oi_id y = i then y\<lparr>oi_quantity := n\<rparr> else y) (t_order_items d)\<rparr>"
      have run: "set_item_quantity Orm (o_id b) k v d = (Inr (k + 1), ?d)" using step False pos by simp
      have "db_ok ?d" using keeps_result [OF keeps_set_item_quantity Cons.prems(1) run] .
      then have "(r, cart_items u d') = set_each (k + 1) (cart_items u ?d) ps" "outside_cart u d' = outside_cart u ?d"
        using Cons.IH [where d = ?d and k = "k + 1"] Cons.prems(2,3) run by simp_all
      moreover have "outside_cart u ?d = outside_cart u d"
        using quantity_outside [OF Cons.prems(1) it(1), of n] it(2) by simp
      ultimately show ?thesis using False pos quantity_inside [where u = u and d = d and i = i and n = n] by (simp add: p)
    qed
  qed
qed

lemma basket_opened:
  assumes "db_ok d" "single_baskets d" "user_exists u d"
  obtains b d' where "get_or_create_basket Orm u now d = (Inr b, d')" "baskets u d' = [b]" "db_ok d'"
    "cart_items u d' = cart_items u d" "outside_cart u d' = outside_cart u d" "t_order_items d' = t_order_items d"
    "t_product_infos d' = t_product_infos d"
proof -
  obtain b d' where run: "get_or_create_basket Orm u now d = (Inr b, d')" and bas: "baskets u d' = [b]" and ok: "db_ok d'"
    and or: "d' = d \<or> baskets u d = [] \<and> d' = d\<lparr>t_orders := t_orders d @ [b]\<rparr>"
    using basket_obtained [OF assms] by metis
  have "cart_items u d' = cart_items u d \<and> outside_cart u d' = outside_cart u d"
  proof (cases "d' = d")
    case False
    with or have new: "baskets u d = []" "d' = d\<lparr>t_orders := t_orders d @ [b]\<rparr>" by auto
    have "o_id b \<notin> set (pks OrderM d)" using db_ok_distinct [OF ok, of OrderM] new(2) by simp
    then have "filter (\<lambda>it. oi_order it = o_id b) (t_order_items d) = []"
      using no_items_of_fresh_order [OF assms(1), of "o_id b" "\<lambda>_. True"] by simp
    moreover from this have "filter (\<lambda>it. oi_order it \<noteq> o_id b) (t_order_items d) = t_order_items d"
      by (intro filter_True) (auto simp: filter_empty_conv)
    moreover have "o_user b = u \<and> o_state b = Basket" using bas baskets_in [of b u d'] by simp
    ultimately show ?thesis
      using bas new by (simp add: cart_items_def outside_cart_def)
  qed simp
  then show thesis using that [OF run bas ok] or by auto
qed

lemma ref_basket_put_spec:
  assumes "db_ok (w_db w)" "single_baskets (w_db w)" "request_user rq (w_db w) = Some x"
    and "py_get (rq_data rq) ''items'' PNone = Inr v" "py_true v"
    and "load_json Srv v = Inr (PList items)" "list_all2 item_sets items ps"
    and "ref_basket_put Orm Srv rq w = (r, w')"
  shows "(r, cart_items (u_id x) (w_db w')) =
      (case set_each 0 (cart_items (u_id x) (w_db w)) ps of
         (Inl e, its) \<Rightarrow> (Inl e, its) | (Inr n, its) \<Rightarrow> (Inr (Reply 200 (Success_count n)), its)) \<and>
    outside_cart (u_id x) (w_db w') = outside_cart (u_id x) (w_db w)"
proof -
  have "user_exists (u_id x) (w_db w)" using request_userD [OF assms(3)] by (simp add: user_exists_def)
  then obtain b d1 where run: "get_or_create_basket Orm (u_id x) (rq_now rq) (w_db w) = (Inr b, d1)"
    and bas: "baskets (u_id x) d1 = [b]" and ok: "db_ok d1"
    and same: "cart_items (u_id x) d1 = cart_items (u_id x) (w_db w)"
      "outside_cart (u_id x) d1 = outside_cart (u_id x) (w_db w)"
    by (rule basket_opened [OF assms(1,2)])
  obtain res d2 where loop: "fold_each (set_item_quantity Orm (o_id b)) 0 items d1 = (res, d2)" by fastforce
  from set_items_spec [OF assms(7) ok bas loop]
  have spec: "set_each 0 (cart_items (u_id x) (w_db w)) ps = (res, cart_items (u_id x) d2)"
    "outside_cart (u_id x) d2 = outside_cart (u_id x) (w_db w)"
    using same by simp_all
  show ?thesis
    using assms(3-6,8) run loop spec by (cases res) (auto simp: ref_basket_put_def)
qed

end

section \<open>Placing an order\<close>

definition own_order :: "int \<Rightarrow> int \<Rightarrow> database \<Rightarrow> order_t option" where
  "own_order u k d = find (\<lambda>b. o_id b = k \<and> o_user b = u) (t_orders d)"

definition placed_db :: "order_t \<Rightarrow> int \<Rightarrow> database \<Rightarrow> database" where
  "placed_db b c d = d\<lparr>t_orders := replace_by o_id (b\<lparr>o_contact := Some c, o_state := New\<rparr>) (t_orders d)\<rparr>"

text \<open>
  What placing order \<open>k\<close> with contact \<open>c\<close> does: any order of the user, whatever its state, and any
  contact that exists, whoever owns it.
\<close>

definition place_spec :: "services \<Rightarrow> user \<Rightarrow> int \<Rightarrow> int \<Rightarrow> world \<Rightarrow> (exn + ref_response) \<times> world" where
  "place_spec Srv x k c w = (case own_order (u_id x) k (w_db w) of
       None \<Rightarrow> (Inr (Reply 200 (Failure Arguments_missing)), w)
     | Some b \<Rightarrow>
         if c \<notin> set (pks ContactM (w_db w)) then (Inr (Reply 200 (Failure Arguments_wrong)), w)
         else
           (let w' = w\<lparr>w_db := placed_db b c (w_db w)\<rparr> in
            case mailer Srv (New_order_letter (u_email x)) of
              Inl e \<Rightarrow> (Inl e, w')
            | Inr _ \<Rightarrow> (Inr (Reply 200 Success), w'\<lparr>w_mails := w_mails w @ [New_order_letter (u_email x)]\<rparr>)))"

lemma own_order_cases:
  assumes "db_ok d"
  obtains "filter (\<lambda>b. o_user b = u \<and> o_id b = k) (t_orders d) = []" "own_order u k d = None"
  | b where "filter (\<lambda>b. o_user b = u \<and> o_id b = k) (t_orders d) = [b]" "own_order u k d = Some b"
      "b \<in> set (t_orders d)" "o_id b = k" "o_user b = u"
proof (cases "\<exists>b \<in> set (t_orders d). o_id b = k \<and> o_user b = u")
  case True
  then obtain b where b: "b \<in> set (t_orders d)" "o_id b = k" "o_user b = u" by blast
  have "filter (\<lambda>x. o_id x = k) (t_orders d) = [b]"
    using filter_eq_single [of o_id "t_orders d" b] db_ok_distinct [OF assms, of OrderM] b by simp
  then have "filter (\<lambda>x. o_user x = u) (filter (\<lambda>x. o_id x = k) (t_orders d)) = [b]" using b by simp
  then have "filter (\<lambda>x. o_user x = u \<and> o_id x = k) (t_orders d) = [b]" by (simp add: conj_commute)
  then show thesis using that(2) b by (simp add: own_order_def find_filter conj_commute)
next
  case False
  then have "filter (\<lambda>x. o_user x = u \<and> o_id x = k) (t_orders d) = []" by (auto simp: filter_empty_conv)
  then show thesis using that(1) by (simp add: own_order_def find_filter conj_commute)
qed

lemma placed_row_ok_iff:
  assumes "db_ok d" "b \<in> set (t_orders d)"
  shows "row_ok (OrderRow (b\<lparr>o_contact := Some c, o_state := s\<rparr>)) d \<longleftrightarrow> c \<in> set (pks ContactM d)"
  using db_ok_refs [OF assms(1), of "OrderRow b" OrderM] assms(2)
  by (auto simp: row_ok_def positive_ok_def refs_ok_def unique_ok_def list_all_iff)

context django
begin

lemma ref_order_post_spec:
  assumes "db_ok (w_db w)" "request_user rq (w_db w) = Some x" "rq_data rq = PDict kvs"
    and "list_all (\<lambda>kv. hashable (fst kv)) kvs"
    and "map_of kvs (PStr ''id'') = Some (PStr s)" "isdigit s" "int_of_str s = Inr k"
    and "map_of kvs (PStr ''contact'') = Some v" "py_int v = Inr c"
  shows "ref_order_post Orm Srv rq w = place_spec Srv x k c w"
proof -
  have "PStr ''id'' \<in> fst ` set kvs" "PStr ''contact'' \<in> fst ` set kvs"
    using assms(5,8) by (auto dest!: map_of_SomeD intro: rev_image_eqI)
  then have keys: "has_keys [''id'', ''contact''] (PDict kvs) = Inr True"
    using assms(4) by (simp add: has_keys_def list_all_iff)
  have id: "prep_int Orm (PStr s) = Inr (Some k)" using assms(7) by (simp add: prep_int_py)
  have ct: "prep_int Orm v = Inr (Some c)" using assms(9) by (simp add: prep_int_py)
  note ev = ref_order_post_def assms(2,3,5,6,8) keys id ct place_spec_def
  show ?thesis
  proof (cases rule: own_order_cases [OF assms(1), of "u_id x" k])
    case 1
    then show ?thesis by (simp add: ev)
  next
    case (2 b)
    show ?thesis
    proof (cases "c \<in> set (pks ContactM (w_db w))")
      case False
      then have "\<not> row_ok (OrderRow (b\<lparr>o_contact := Some c, o_state := New\<rparr>)) (w_db w)"
        using placed_row_ok_iff [OF assms(1) 2(3)] by simp
      then show ?thesis using 2 False by (simp add: ev save_bad)
    next
      case True
      then have "row_ok (OrderRow (b\<lparr>o_contact := Some c, o_state := New\<rparr>)) (w_db w)"
        using placed_row_ok_iff [OF assms(1) 2(3)] by simp
      moreover have "o_id b \<in> o_id ` set (t_orders (w_db w))" using 2(3) by blast
      ultimately have s: "db_save Orm (OrderRow (b\<lparr>o_contact := Some c, o_state := New\<rparr>)) (w_db w) =
          (Inr (), placed_db b c (w_db w))"
        by (simp add: save_ok save_row_def placed_db_def)
      have "filter (\<lambda>y. u_id y = u_id x) (t_users (w_db w)) = [x]"
        using filter_eq_single [of u_id "t_users (w_db w)" x] db_ok_distinct [OF assms(1), of UserM]
          request_userD [OF assms(2)] by simp
      then have "filter (\<lambda>y. u_id y = u_id x) (t_users (placed_db b c (w_db w))) = [x]"
        by (simp add: placed_db_def)
      then show ?thesis
        using 2 True s
        by (cases "mailer Srv (New_order_letter (u_email x))")
          (simp_all add: ev new_order_signal_def send_mail_def Let_def)
    qed
  qed
qed

end

end
