(* ===== verification/RefProps.thy ===== *)
theory RefProps
  imports RefAccountSpec RefBasketSpec CartProps
begin

text \<open>The properties of the accounts, baskets and orders of the reference application.\<close>

section \<open>Accounts\<close>

text \<open>C8: Email confirmation, as a round trip. A successful registration mails a token to the given
  address. Until it is used, logging in with the registered body is refused; confirming with the
  email and that token activates the account, and the same login then returns an API token.\<close>

theorem confirmed_account_can_login:
  assumes "ref_accounts Orm Srv" "db_ok (w_db w)" "\<forall>w'. new_auth_key Srv w' \<notin> snd ` set (w_tokens w')"
    and "rq_data rq = PDict kvs" "map_of kvs (PStr ''email'') = Some (PStr e)" "email_field Drf (PStr e) = Some e"
    and "map_of kvs (PStr ''password'') = Some (PStr p)"
    and "register_account Orm Drf Srv rq w = (Inr (Reply 200 Success), w1)"
  shows "\<exists>key. w_mails w1 = w_mails w @ [Token_letter e key] \<and>
    login_account Srv rq w1 = (Inr (Reply 200 (Failure Login_refused)), w1) \<and>
    (\<forall>rq' :: request. rq_data rq' = PDict [(PStr ''email'', PStr e), (PStr ''token'', PStr key)] \<longrightarrow>
      (\<exists>w2 token w3. confirm_account Orm Srv rq' w1 = (Inr (Reply 200 Success), w2) \<and>
        login_account Srv rq w2 = (Inr (Reply 200 (Success_token token)), w3)))"
  by (rule ref_accounts.register_confirm_login [OF assms(1,2) _ assms(4-8)]) (use assms(3) in blast)+

text \<open>C34: Changing one's account. Whatever the body, at most the row of the requesting user changes, and
  only together with the reply that reports success; key, activity, type and rights stay, and the
  password only changes when the new one has passed the validators.\<close>

theorem account_post_own_row:
  assumes "django Orm" "request_user rq (w_db w) = Some x" "account_post Orm Drf Srv rq w = (r, w')"
  shows "r \<noteq> Inr (Reply 200 Success) \<and> w' = w \<or>
    (\<exists>y. r = Inr (Reply 200 Success) \<and> u_id y = u_id x \<and>
       u_is_active y = u_is_active x \<and> u_is_staff y = u_is_staff x \<and> u_is_superuser y = u_is_superuser x \<and>
       u_type y = u_type x \<and>
       (u_password y = u_password x \<or> check_new_password Srv (rq_data rq) = Inr True) \<and>
       w' = w\<lparr>w_db := w_db w\<lparr>t_users := replace_by u_id y (t_users (w_db w))\<rparr>\<rparr>)"
  by (rule django.account_post_spec [OF assms])

section \<open>The basket\<close>

text \<open>C21: Adding items. The items of the request are added one after the other as \<open>basket_add\<close>
  says: an unknown position or a negative quantity names its field, a position already in the
  basket is refused by the unique constraint, either ends the request, and what was added before
  stays in the basket.\<close>

theorem ref_basket_post_refines:
  assumes "django Orm" "rest_framework Drf" "db_ok (w_db w)" "single_baskets (w_db w)"
    and "request_user rq (w_db w) = Some x" "py_get (rq_data rq) ''items'' PNone = Inr v" "py_true v"
    and "load_json Srv v = Inr (PList items)" "list_all2 item_asks items ps"
    and "ref_basket_post Orm Drf Srv rq w = (r, w')"
  shows "\<exists>reply. r = Inr (Reply 200 reply) \<and>
    (reply, cart_of (u_id x) (w_db w')) =
      basket_add (set (pks ProductInfoM (w_db w))) (cart_of (u_id x) (w_db w)) 0 ps"
  by (rule django.ref_basket_post_spec [OF assms])

text \<open>C32: Changing quantities. Ids outside the user's basket are passed over; a negative quantity
  raises the database's \<^verbatim>\<open>IntegrityError\<close>, which no handler catches, after the changes before it
  are stored. Items of all other orders are as before.\<close>

theorem ref_basket_put_refines:
  assumes "django Orm" "db_ok (w_db w)" "single_baskets (w_db w)" "request_user rq (w_db w) = Some x"
    and "py_get (rq_data rq) ''items'' PNone = Inr v" "py_true v"
    and "load_json Srv v = Inr (PList items)" "list_all2 item_sets items ps"
    and "ref_basket_put Orm Srv rq w = (r, w')"
  shows "(r, cart_items (u_id x) (w_db w')) =
      (case set_each 0 (cart_items (u_id x) (w_db w)) ps of
         (Inl e, its) \<Rightarrow> (Inl e, its) | (Inr n, its) \<Rightarrow> (Inr (Reply 200 (Success_count n)), its)) \<and>
    outside_cart (u_id x) (w_db w') = outside_cart (u_id x) (w_db w)"
  by (rule django.ref_basket_put_spec [OF assms])

text \<open>Removing items. Exactly the items of the user's own basket whose ids stand in the comma
  separated list go, and the reply counts them; a list without any number is refused.\<close>

theorem ref_basket_delete_removes:
  assumes "django Orm" "db_ok (w_db w)" "single_baskets (w_db w)" "request_user rq (w_db w) = Some x"
    and "py_get (rq_data rq) ''items'' PNone = Inr (PStr s)" "s \<noteq> []"
    and "ref_basket_delete Orm rq w = (r, w')"
  shows "(if filter isdigit (split_comma s) = [] then r = Inr (Reply 200 (Failure Arguments_missing))
      else r = Inr (Reply 200 (Success_count
        (length (filter (\<lambda>it. oi_id it \<in> set (listed_ids s)) (cart_items (u_id x) (w_db w))))))) \<and>
    t_order_items (w_db w') = filter (\<lambda>it. \<not> (it \<in> set (cart_items (u_id x) (w_db w)) \<and> oi_id it \<in> set (listed_ids s)))
      (t_order_items (w_db w))"
  by (rule django.ref_basket_delete_spec [OF assms])

section \<open>Orders\<close>

text \<open>C22: Placing an order does what \<open>place_spec\<close> says: the row with the given id among all orders
  of the user, in whatever state, becomes new with the given contact, provided that contact
  exists; a missing order or contact is refused without a change, and the letter goes to the
  user after the order is stored.\<close>

theorem ref_order_post_refines:
  assumes "django Orm" "db_ok (w_db w)" "request_user rq (w_db w) = Some x" "rq_data rq = PDict kvs"
    and "list_all (\<lambda>kv. hashable (fst kv)) kvs"
    and "map_of kvs (PStr ''id'') = Some (PStr s)" "isdigit s" "int_of_str s = Inr k"
    and "map_of kvs (PStr ''contact'') = Some v" "py_int v = Inr c"
  shows "ref_order_post Orm Srv rq w = place_spec Srv x k c w"
  by (rule django.ref_order_post_spec [OF assms])

section \<open>Instances\<close>

definition sample_account :: request where
  "sample_account = \<lparr>rq_user = None, rq_is_staff = False, rq_data = PDict
     [(PStr ''first_name'', PStr ''A''), (PStr ''last_name'', PStr ''B''), (PStr ''email'', PStr ''x@y''),
      (PStr ''password'', PStr ''longenough''), (PStr ''company'', PStr ''C''), (PStr ''position'', PStr ''D'')],
     rq_form = False, rq_query = [], rq_now = 200\<rparr>"

definition json_services :: "pyval list \<Rightarrow> services" where
  "json_services vs = test_services\<lparr>load_json := (\<lambda>v. Inr (PList vs))\<rparr>"

lemma sample_user_1:
  "request_user (sample_request 1 kvs) (w_db sample_world) = Some (sample_user 1)" "u_id (sample_user k) = k"
  by (simp_all add: request_user_def sample_request_def sample_world_def sample_db_def sample_user_def)

lemma sample_in_world: "w_db sample_world = sample_db"
  by (simp add: sample_world_def)

lemma fresh_auth_key: "new_auth_key test_services w \<notin> snd ` set (w_tokens w)"
proof -
  have "length s \<le> foldr max (map (length \<circ> snd) ts) 0" if "s \<in> snd ` set ts" for s and ts :: "(int \<times> string) list"
    using that by (induction ts) (auto intro: max.coboundedI2)
  then have "length s < length (new_auth_key test_services w)" if "s \<in> snd ` set (w_tokens w)" for s
    using that by (fastforce simp: test_services_def less_Suc_eq_le)
  then show ?thesis by blast
qed

theorem confirmed_account_can_login_witness:
  "let w1 = snd (register_account sqlite rest_impl test_services sample_account sample_world)
   in \<exists>key. w_mails w1 = [Token_letter ''x@y'' key] \<and>
     fst (login_account test_services sample_account w1) = Inr (Reply 200 (Failure Login_refused)) \<and>
     (\<exists>token. fst (login_account test_services sample_account
        (snd (confirm_account sqlite test_services
          (sample_request 9 [(PStr ''email'', PStr ''x@y''), (PStr ''token'', PStr key)]) w1))) =
        Inr (Reply 200 (Success_token token)))"
proof -
  let ?w1 = "snd (register_account sqlite rest_impl test_services sample_account sample_world)"
  have "fst (register_account sqlite rest_impl test_services sample_account sample_world) = Inr (Reply 200 Success)"
    by code_simp
  then have run: "register_account sqlite rest_impl test_services sample_account sample_world = (Inr (Reply 200 Success), ?w1)"
    by (metis prod.collapse)
  have email: "email_field rest_impl (PStr ''x@y'') = Some ''x@y''" by code_simp
  have "\<exists>key. w_mails ?w1 = w_mails sample_world @ [Token_letter ''x@y'' key] \<and>
    login_account test_services sample_account ?w1 = (Inr (Reply 200 (Failure Login_refused)), ?w1) \<and>
    (\<forall>rq' :: request. rq_data rq' = PDict [(PStr ''email'', PStr ''x@y''), (PStr ''token'', PStr key)] \<longrightarrow>
      (\<exists>w2 token w3. confirm_account sqlite test_services rq' ?w1 = (Inr (Reply 200 Success), w2) \<and>
        login_account test_services sample_account w2 = (Inr (Reply 200 (Success_token token)), w3)))"
    by (rule confirmed_account_can_login [OF test_ref_accounts.ref_accounts_axioms _ _ _ _ email _ run,
          where p = "''longenough''" and kvs = "[(PStr ''first_name'', PStr ''A''), (PStr ''last_name'', PStr ''B''),
            (PStr ''email'', PStr ''x@y''), (PStr ''password'', PStr ''longenough''), (PStr ''company'', PStr ''C''),
            (PStr ''position'', PStr ''D'')]"])
      (simp_all add: sample_in_world sample_db_ok fresh_auth_key sample_account_def)
  then obtain key where key: "w_mails ?w1 = w_mails sample_world @ [Token_letter ''x@y'' key]"
    "login_account test_services sample_account ?w1 = (Inr (Reply 200 (Failure Login_refused)), ?w1)"
    "\<And>rq' :: request. rq_data rq' = PDict [(PStr ''email'', PStr ''x@y''), (PStr ''token'', PStr key)] \<Longrightarrow>
      \<exists>w2 token w3. confirm_account sqlite test_services rq' ?w1 = (Inr (Reply 200 Success), w2) \<and>
        login_account test_services sample_account w2 = (Inr (Reply 200 (Success_token token)), w3)" by blast
  let ?rq' = "sample_request 9 [(PStr ''email'', PStr ''x@y''), (PStr ''token'', PStr key)]"
  have "rq_data ?rq' = PDict [(PStr ''email'', PStr ''x@y''), (PStr ''token'', PStr key)]"
    by (simp add: sample_request_def)
  from key(3) [OF this] obtain w2 token w3 where "confirm_account sqlite test_services ?rq' ?w1 = (Inr (Reply 200 Success), w2)"
    "login_account test_services sample_account w2 = (Inr (Reply 200 (Success_token token)), w3)" by blast
  moreover have "w_mails sample_world = []" by (simp add: sample_world_def)
  ultimately have "w_mails ?w1 = [Token_letter ''x@y'' key]"
    "fst (login_account test_services sample_account ?w1) = Inr (Reply 200 (Failure Login_refused))"
    "fst (login_account test_services sample_account (snd (confirm_account sqlite test_services ?rq' ?w1))) =
      Inr (Reply 200 (Success_token token))"
    using key(1,2) by simp_all
  then show ?thesis unfolding Let_def by blast
qed

theorem account_post_own_row_witness:
  "t_users (w_db (snd (account_post sqlite rest_impl test_services
     (sample_request 1 [(PStr ''password'', PStr ''short'')]) sample_world))) = t_users sample_db"
proof -
  let ?rq = "sample_request 1 [(PStr ''password'', PStr ''short'')]"
  obtain r w' where run: "account_post sqlite rest_impl test_services ?rq sample_world = (r, w')" by fastforce
  have "fst (account_post sqlite rest_impl test_services ?rq sample_world) = Inr (Reply 200 (Failure Weak_password))"
    by code_simp
  then show ?thesis
    using account_post_own_row [OF sqlite.django_axioms sample_user_1(1) run] run by (auto simp: sample_in_world)
qed

theorem ref_basket_post_refines_witness:
  "case ref_basket_post sqlite rest_impl
      (json_services [PDict [(PStr ''product_info'', PInt 2), (PStr ''quantity'', PInt 3)],
        PDict [(PStr ''product_info'', PInt 1), (PStr ''quantity'', PInt 5)]])
      (sample_request 1 [(PStr ''items'', PStr ''[...]'')]) sample_world
   of (r, w') \<Rightarrow> r = Inr (Reply 200 (Failure Not_stored)) \<and> cart_of 1 (w_db w') = [1 \<mapsto> 2, 2 \<mapsto> 3]"
proof -
  let ?vs = "[PDict [(PStr ''product_info'', PInt 2), (PStr ''quantity'', PInt 3)],
    PDict [(PStr ''product_info'', PInt 1), (PStr ''quantity'', PInt 5)]]"
  let ?rq = "sample_request 1 [(PStr ''items'', PStr ''[...]'')]"
  obtain r w' where run: "ref_basket_post sqlite rest_impl (json_services ?vs) ?rq sample_world = (r, w')" by fastforce
  have known: "pi_id ` set (t_product_infos sample_db) = {1, 2}" by (simp add: sample_eval)
  show ?thesis
    using ref_basket_post_refines [OF sqlite.django_axioms rest_impl.rest_framework_axioms _ _ sample_user_1(1) _ _ _ _ run,
        where v = "PStr ''[...]''" and items = ?vs and ps = "[(2, 3), (1, 5)]"]
      sample_db_ok sample_facts(1) run
    by (auto simp: sample_in_world sample_user_1 sample_request_def json_services_def item_asks_def sample_facts known)
qed

theorem ref_basket_put_refines_witness:
  "case ref_basket_put sqlite (json_services [PDict [(PStr ''id'', PInt 1), (PStr ''quantity'', PInt 6)],
        PDict [(PStr ''id'', PInt 2), (PStr ''quantity'', PInt 7)], PDict [(PStr ''id'', PInt 1), (PStr ''quantity'', PInt (- 1))]])
      (sample_request 1 [(PStr ''items'', PStr ''[...]'')]) sample_world
   of (r, w') \<Rightarrow> r = Inl IntegrityError \<and> map oi_quantity (cart_items 1 (w_db w')) = [6]"
proof -
  let ?vs = "[PDict [(PStr ''id'', PInt 1), (PStr ''quantity'', PInt 6)], PDict [(PStr ''id'', PInt 2), (PStr ''quantity'', PInt 7)],
    PDict [(PStr ''id'', PInt 1), (PStr ''quantity'', PInt (- 1))]]"
  let ?rq = "sample_request 1 [(PStr ''items'', PStr ''[...]'')]"
  obtain r w' where run: "ref_basket_put sqlite (json_services ?vs) ?rq sample_world = (r, w')" by fastforce
  have items: "cart_items 1 sample_db = [\<lparr>oi_id = 1, oi_order = 1, oi_info = 1, oi_quantity = 2\<rparr>]"
    by (simp add: cart_items_def baskets_def sample_eval)
  show ?thesis
    using ref_basket_put_refines [OF sqlite.django_axioms _ _ sample_user_1(1) _ _ _ _ run,
        where v = "PStr ''[...]''" and items = ?vs and ps = "[(1, 6), (2, 7), (1, - 1)]"]
      sample_db_ok sample_facts(1) run
    by (simp add: sample_in_world sample_user_1 sample_request_def json_services_def item_sets_def items)
qed

theorem ref_basket_delete_removes_witness:
  "case ref_basket_delete sqlite (sample_request 1 [(PStr ''items'', PStr ''1,x,2'')]) sample_world
   of (r, w') \<Rightarrow> r = Inr (Reply 200 (Success_count 1)) \<and> map oi_id (t_order_items (w_db w')) = [2]"
proof -
  let ?rq = "sample_request 1 [(PStr ''items'', PStr ''1,x,2'')]"
  obtain r w' where run: "ref_basket_delete sqlite ?rq sample_world = (r, w')" by fastforce
  have items: "cart_items 1 sample_db = [\<lparr>oi_id = 1, oi_order = 1, oi_info = 1, oi_quantity = 2\<rparr>]"
    by (simp add: cart_items_def baskets_def sample_eval)
  have ids: "filter isdigit (split_comma ''1,x,2'') \<noteq> []" "listed_ids ''1,x,2'' = [1, 2]" by code_simp+
  have all: "t_order_items sample_db = [\<lparr>oi_id = 1, oi_order = 1, oi_info = 1, oi_quantity = 2\<rparr>,
      \<lparr>oi_id = 2, oi_order = 2, oi_info = 2, oi_quantity = 3\<rparr>]" by (simp add: sample_db_def)
  show ?thesis
    using ref_basket_delete_removes [OF sqlite.django_axioms _ _ sample_user_1(1) _ _ run, of "''1,x,2''"]
      sample_db_ok sample_facts(1) run ids(1)
    by (simp add: sample_in_world sample_user_1 sample_request_def items ids(2) all)
qed

theorem ref_order_post_refines_witness:
  "case ref_order_post sqlite test_services (sample_request 1 [(PStr ''id'', PStr ''1''), (PStr ''contact'', PInt 2)]) sample_world
   of (r, w') \<Rightarrow> r = Inr (Reply 200 Success) \<and> map o_state (t_orders (w_db w')) = [New, Confirmed] \<and>
     map o_contact (t_orders (w_db w')) = [Some 2, Some 2]"
proof -
  let ?kvs = "[(PStr ''id'', PStr ''1''), (PStr ''contact'', PInt 2)]"
  have "isdigit ''1''" "int_of_str ''1'' = Inr 1" by code_simp+
  then have eq: "ref_order_post sqlite test_services (sample_request 1 ?kvs) sample_world =
      place_spec test_services (sample_user 1) 1 2 sample_world"
    using ref_order_post_refines [OF sqlite.django_axioms _ sample_user_1(1), of ?kvs ?kvs "''1''" 1 "PInt 2" 2 test_services] sample_db_ok
    by (simp add: sample_in_world sample_request_def)
  show ?thesis
    unfolding eq
    by (simp add: place_spec_def own_order_def placed_db_def replace_by_def sample_eval sample_in_world test_services_def Let_def)
qed

end
