(* ===== verification/RefContacts.thy ===== *)
theory RefContacts
  imports RefBase
begin

text \<open>
  \<^verbatim>\<open>ContactView\<close> of the reference application with \<^verbatim>\<open>ContactSerializer\<close>. The serializer has the
  owner as a writable field.
\<close>

section \<open>The serializer\<close>

definition ref_contact_fields :: "orm \<Rightarrow> drf \<Rightarrow> database \<Rightarrow> contact field_spec list" where
  "ref_contact_fields Orm Drf d =
     [(''city'', True, char_spec Drf 50 False (\<lambda>s. ct_city_update (\<lambda>_. s))),
      (''street'', True, char_spec Drf 100 False (\<lambda>s. ct_street_update (\<lambda>_. s))),
      (''house'', False, char_spec Drf 15 True (\<lambda>s. ct_house_update (\<lambda>_. s))),
      (''structure'', False, char_spec Drf 15 True (\<lambda>s. ct_structure_update (\<lambda>_. s))),
      (''building'', False, char_spec Drf 15 True (\<lambda>s. ct_building_update (\<lambda>_. s))),
      (''apartment'', False, char_spec Drf 15 True (\<lambda>s. ct_apartment_update (\<lambda>_. s))),
      (''user'', False, key_spec Orm (pks UserM d) (\<lambda>k. ct_user_update (\<lambda>_. k))),
      (''phone'', True, char_spec Drf 20 False (\<lambda>s. ct_phone_update (\<lambda>_. s)))]"

definition blank_contact :: contact where
  "blank_contact = \<lparr>ct_id = 0, ct_user = 0, ct_city = [], ct_street = [], ct_house = [],
     ct_structure = [], ct_building = [], ct_apartment = [], ct_phone = []\<rparr>"

text \<open>In form data an empty value of an optional field that may not be blank counts as missing.\<close>

definition form_values :: "request \<Rightarrow> pyval" where
  "form_values rq = (case rq_data rq of
       PDict kvs \<Rightarrow> PDict (if rq_form rq then filter (\<lambda>kv. kv \<noteq> (PStr ''user'', PStr [])) kvs else kvs)
     | v \<Rightarrow> v)"

section \<open>The view\<close>

definition ref_contact_list :: "request \<Rightarrow> (world, ref_response) comp" where
  "ref_contact_list rq = logged_in rq (\<lambda>user.
     andThen (query (\<lambda>w. filter (\<lambda>c. ct_user c = u_id user) (t_contacts (w_db w)))) (\<lambda>cs.
     ret (Reply 200 (Rendered (PList (map ref_contact_data cs))))))"

text \<open>
  \<^verbatim>\<open>request.data._mutable = True\<close> raises for a JSON body; in form data the last of several values
  counts, so the one that \<^verbatim>\<open>update\<close> appends is the owner.
\<close>

definition ref_contact_post :: "orm \<Rightarrow> drf \<Rightarrow> request \<Rightarrow> (world, ref_response) comp" where
  "ref_contact_post Orm Drf rq = logged_in rq (\<lambda>user.
     andThen (lift_exn (has_keys [''city'', ''street'', ''phone''] (rq_data rq))) (\<lambda>given.
     if \<not> given then ret (Reply 200 (Failure Arguments_missing))
     else case (rq_form rq, rq_data rq) of
       (True, PDict kvs) \<Rightarrow>
         andThen (query (\<lambda>w. serializer False (ref_contact_fields Orm Drf (w_db w))
           (PDict ((PStr ''user'', PInt (u_id user)) # kvs)))) (\<lambda>valid.
         andThen (lift_exn valid) (\<lambda>(bad, set_fields).
         if bad \<noteq> [] then ret (Reply 200 (Failure (Fields_invalid bad)))
         else
           andThen (on_db (create Orm ContactRow (\<lambda>k. ct_id_update (\<lambda>_. k)) (set_fields blank_contact))) (\<lambda>_.
           ret (Reply 200 Success))))
     | _ \<Rightarrow> raise AttributeError))"

definition ref_contact_delete :: "orm \<Rightarrow> request \<Rightarrow> (world, ref_response) comp" where
  "ref_contact_delete Orm rq = logged_in rq (\<lambda>user.
     andThen (lift_exn (py_get (rq_data rq) ''items'' PNone)) (\<lambda>items_string.
     if \<not> py_true items_string then ret (Reply 200 (Failure Arguments_missing))
     else
       andThen (lift_exn (py_split items_string)) (\<lambda>items_list.
       let ids = filter isdigit items_list in
       if ids = [] then ret (Reply 200 (Failure Arguments_missing))
       else
         andThen (map_each (\<lambda>s. lift_exn (prep_int Orm (PStr s))) ids) (\<lambda>ks.
         andThen (query (\<lambda>w. map ct_id
           (filter (\<lambda>c. ct_user c = u_id user \<and> Some (ct_id c) \<in> set ks) (t_contacts (w_db w))))) (\<lambda>found.
         andThen (on_db (db_delete Orm ContactM found)) (\<lambda>deleted_count.
         ret (Reply 200 (Success_count deleted_count))))))))"

definition ref_contact_put :: "orm \<Rightarrow> drf \<Rightarrow> request \<Rightarrow> (world, ref_response) comp" where
  "ref_contact_put Orm Drf rq = logged_in rq (\<lambda>user.
     andThen (lift_exn (py_contains (rq_data rq) ''id'')) (\<lambda>given.
     if \<not> given then ret (Reply 200 (Failure Arguments_missing))
     else
       andThen (lift_exn (py_index (rq_data rq) ''id'')) (\<lambda>contact_id.
       andThen (lift_exn (py_isdigit contact_id)) (\<lambda>digits.
       if \<not> digits then ret (Reply 200 (Failure Arguments_missing))
       else
         andThen (lift_exn (prep_int Orm contact_id)) (\<lambda>k.
         andThen (query (\<lambda>w. filter (\<lambda>c. Some (ct_id c) = k \<and> ct_user c = u_id user) (t_contacts (w_db w)))) (\<lambda>found.
         case found of
           [] \<Rightarrow> ret (Reply 200 (Failure Arguments_missing))
         | contact # _ \<Rightarrow>
             andThen (query (\<lambda>w. serializer True (ref_contact_fields Orm Drf (w_db w)) (form_values rq))) (\<lambda>valid.
             andThen (lift_exn valid) (\<lambda>(bad, set_fields).
             if bad \<noteq> [] then ret (Reply 200 (Failure (Fields_invalid bad)))
             else
               andThen (on_db (db_save Orm (ContactRow (set_fields contact)))) (\<lambda>_.
               ret (Reply 200 Success))))))))))"

end
