(* ===== verification/RefContactSpec.thy ===== *)
theory RefContactSpec
  imports RefContacts RefBasketSpec
begin

text \<open>
  What \<^verbatim>\<open>ContactView\<close> of the reference application does: deletion takes the user's own contacts and
  the orders sent to them; a change overwrites one contact of the user, its owner included.
\<close>

section \<open>Deleting contacts\<close>

text \<open>\<^verbatim>\<open>Order.contact\<close> is declared \<^verbatim>\<open>on_delete=models.CASCADE\<close>: with a contact go the orders sent to it.\<close>

definition sent_to :: "int list \<Rightarrow> order_t \<Rightarrow> bool" where
  "sent_to ks b \<longleftrightarrow> (case o_contact b of None \<Rightarrow> False | Some k \<Rightarrow> k \<in> set ks)"

definition without_contacts :: "int list \<Rightarrow> database \<Rightarrow> database" where
  "without_contacts ks d = d\<lparr>t_contacts := filter (\<lambda>c. ct_id c \<notin> set ks) (t_contacts d),
     t_orders := filter (\<lambda>b. \<not> sent_to ks b) (t_orders d),
     t_order_items := filter (\<lambda>it. oi_order it \<notin> o_id ` {b \<in> set (t_orders d). sent_to ks b}) (t_order_items d)\<rparr>"

lemma cascade_delete_contacts:
  assumes "db_ok d"
  shows "cascade_delete ContactM ks d = without_contacts ks d"
proof -
  let ?f = "fold (sweep_table (map (Pair ContactM) ks))"
  let ?pre = "[UserM, ShopM, CategoryM, CategoryShopM, ProductM, ProductInfoM, ParameterM, ProductParameterM]"
  let ?d1 = "d\<lparr>t_contacts := filter (\<lambda>c. ct_id c \<notin> set ks) (t_contacts d)\<rparr>"
  let ?d2 = "?d1\<lparr>t_orders := filter (\<lambda>b. \<not> sent_to ks b) (t_orders d)\<rparr>"
  let ?d3 = "?d2\<lparr>t_order_items := filter (\<lambda>it. oi_order it \<notin> o_id ` {b \<in> set (t_orders d). sent_to ks b}) (t_order_items d)\<rparr>"
  have split: "all_models = ?pre @ [ContactM] @ [OrderM] @ [OrderItemM] @ [EmailTokenM, ImportTaskM]"
    by (simp add: all_models_def)
  note refs = db_ok_refs [OF assms]
  have 1: "?f ?pre d = d"
    by (rule sweep_fold_id) (auto intro: refs)
  have 2: "?f [ContactM] d = ?d1"
    by (simp add: sweep_selected assms)
  have or: "r \<in> set (table OrderM ?d1) \<Longrightarrow> refs_ok r ?d1 \<longleftrightarrow>
      (\<forall>b. r = OrderRow b \<longrightarrow> \<not> sent_to ks b)" for r
    using refs [of r OrderM] by (auto simp: refs_ok_def sent_to_def split: option.splits)
  have 3: "?f [OrderM] ?d1 = ?d2"
  proof -
    have "sweep_table (map (Pair ContactM) ks) OrderM ?d1 = filter_table OrderM
        (\<lambda>r. \<forall>b. r = OrderRow b \<longrightarrow> \<not> sent_to ks b) ?d1"
      by (rule sweep_unselected) (use or in blast)+
    then show ?thesis by simp
  qed
  have uniq: "b = b'" if "b \<in> set (t_orders d)" "b' \<in> set (t_orders d)" "o_id b = o_id b'" for b b'
    using same_pk_same_row [OF db_ok_distinct [OF assms], of "OrderRow b" OrderM "OrderRow b'"] that by simp
  have kept: "k \<in> o_id ` set (filter (\<lambda>b. \<not> sent_to ks b) (t_orders d)) \<longleftrightarrow>
      k \<notin> o_id ` {b \<in> set (t_orders d). sent_to ks b}" if "k \<in> o_id ` set (t_orders d)" for k
    using that uniq unfolding set_filter by blast
  have oi: "r \<in> set (table OrderItemM ?d2) \<Longrightarrow> refs_ok r ?d2 \<longleftrightarrow>
      (\<forall>it. r = OrderItemRow it \<longrightarrow> oi_order it \<notin> o_id ` {b \<in> set (t_orders d). sent_to ks b})" for r
    using refs [of r OrderItemM] kept by (auto simp: refs_ok_def)
  have 4: "?f [OrderItemM] ?d2 = ?d3"
  proof -
    have "sweep_table (map (Pair ContactM) ks) OrderItemM ?d2 = filter_table OrderItemM
        (\<lambda>r. \<forall>it. r = OrderItemRow it \<longrightarrow> oi_order it \<notin> o_id ` {b \<in> set (t_orders d). sent_to ks b}) ?d2"
      by (rule sweep_unselected) (use oi in blast)+
    then show ?thesis by simp
  qed
  have 5: "?f [EmailTokenM, ImportTaskM] ?d3 = ?d3"
  proof (rule sweep_fold_id)
    fix m r assume m: "m \<in> set [EmailTokenM, ImportTaskM]" and r: "r \<in> set (table m ?d3)"
    then have "refs_ok r d" by (intro refs [of r m]) auto
    then show "refs_ok r ?d3"
      using m r by (auto simp: refs_ok_def)
  qed auto
  have "cascade_delete ContactM ks d = ?d3"
    unfolding cascade_delete_def split by (simp only: fold_append comp_apply 1 2 3 4 5)
  then show ?thesis by (simp add: without_contacts_def)
qed


lemma length_filter_diff: "length (filter P xs) + length (filter (\<lambda>x. \<not> P x) xs) = length xs"
  by (rule sum_length_filter_compl)

text \<open>The rows that go with the contacts \<open>ks\<close>.\<close>

definition rows_with_contacts :: "int list \<Rightarrow> database \<Rightarrow> nat" where
  "rows_with_contacts ks d = length (filter (\<lambda>c. ct_id c \<in> set ks) (t_contacts d)) +
     length (filter (sent_to ks) (t_orders d)) +
     length (filter (\<lambda>it. oi_order it \<in> o_id ` {b \<in> set (t_orders d). sent_to ks b}) (t_order_items d))"

lemma db_size_without_contacts: "db_size d - db_size (without_contacts ks d) = rows_with_contacts ks d"
proof -
  have c: "length (t_contacts d) = length (filter (\<lambda>c. ct_id c \<in> set ks) (t_contacts d)) +
      length (filter (\<lambda>c. ct_id c \<notin> set ks) (t_contacts d))" by (simp add: sum_length_filter_compl)
  have o: "length (t_orders d) = length (filter (sent_to ks) (t_orders d)) +
      length (filter (\<lambda>b. \<not> sent_to ks b) (t_orders d))" by (simp add: sum_length_filter_compl)
  have i: "length (t_order_items d) =
      length (filter (\<lambda>it. oi_order it \<in> o_id ` {b \<in> set (t_orders d). sent_to ks b}) (t_order_items d)) +
      length (filter (\<lambda>it. oi_order it \<notin> o_id ` {b \<in> set (t_orders d). sent_to ks b}) (t_order_items d))"
    by (simp add: sum_length_filter_compl)
  show ?thesis
    unfolding db_size_def all_models_def rows_with_contacts_def without_contacts_def using c o i by simp
qed

text \<open>The keys of the user's contacts among the ids of the request.\<close>

definition own_contacts :: "int \<Rightarrow> string \<Rightarrow> database \<Rightarrow> int list" where
  "own_contacts u s d = map ct_id (filter (\<lambda>c. ct_user c = u \<and> ct_id c \<in> set (listed_ids s)) (t_contacts d))"

context django
begin

lemma ref_contact_delete_spec:
  assumes "db_ok (w_db w)" "request_user rq (w_db w) = Some x"
    and "py_get (rq_data rq) ''items'' PNone = Inr (PStr s)" "filter isdigit (split_comma s) \<noteq> []"
  shows "ref_contact_delete Orm rq w =
    (let ks = own_contacts (u_id x) s (w_db w) in
     (Inr (Reply 200 (Success_count (rows_with_contacts ks (w_db w)))), w\<lparr>w_db := without_contacts ks (w_db w)\<rparr>))"
proof -
  let ?ks = "own_contacts (u_id x) s (w_db w)"
  have s: "s \<noteq> []" using assms(4) by (auto simp: isdigit_def)
  have ks: "map_each (\<lambda>s. lift_exn (prep_int Orm (PStr s))) (filter isdigit (split_comma s)) v =
      (Inr (map Some (listed_ids s)), v)" for v :: world
    unfolding listed_ids_def by (rule prep_listed) (simp add: list_all_iff)
  have "db_delete Orm ContactM ?ks (w_db w) = (Inr (rows_with_contacts ?ks (w_db w)), without_contacts ?ks (w_db w))"
    using delete_cascades [OF assms(1), of ContactM ?ks] cascade_delete_contacts [OF assms(1)]
      db_size_without_contacts by simp
  then show ?thesis
    using assms(2-4) s ks by (simp add: ref_contact_delete_def own_contacts_def Let_def Some_in_image)
qed

lemma keeps_ref_contacts [keeps_intros]:
  "keeps (in_db db_ok) (ref_contact_list rq)"
  "keeps (in_db db_ok) (ref_contact_delete Orm rq)"
  unfolding ref_contact_list_def ref_contact_delete_def Let_def by (intro keeps_intros)+

end

lemma filter_headD: "filter P xs = y # ys \<Longrightarrow> y \<in> set xs \<and> P y"
  by (metis (mono_tags, lifting) list.set_intros(1) mem_Collect_eq set_filter)

section \<open>Changing a contact\<close>

lemma contact_fields_keep_key: "list_all (field_keeps ct_id) (ref_contact_fields Orm Drf d)"
  by (auto simp: ref_contact_fields_def field_keeps_char)
    (auto simp: field_keeps_def key_spec_def split: pyval.splits sum.splits option.splits if_splits)

text \<open>The owner that a valid body leaves the contact with.\<close>

lemma contact_fields_owner:
  assumes "run_fields True (ref_contact_fields Orm Drf d) kvs = Inr ([], g)"
  shows "case map_of kvs (PStr ''user'') of
      None \<Rightarrow> ct_user (g c) = ct_user c
    | Some v \<Rightarrow> prep_int Orm v = Inr (Some (ct_user (g c))) \<and> ct_user (g c) \<in> set (pks UserM d)"
proof -
  have "case map_of kvs (PStr ''user'') of
       None \<Rightarrow> (False \<longrightarrow> True) \<and> ct_user (g c) = ct_user c
     | Some v \<Rightarrow> \<exists>h (y :: contact). key_spec Orm (pks UserM d) (\<lambda>k. ct_user_update (\<lambda>_. k)) v = Inr (Some h) \<and> ct_user (g c) = ct_user (h y)"
    by (rule run_fields_field [where ?fs1.0 = "take 6 (ref_contact_fields Orm Drf d)"
          and ?fs2.0 = "drop 7 (ref_contact_fields Orm Drf d)"])
      (use assms in \<open>simp_all add: ref_contact_fields_def eval_nat_numeral field_keeps_char\<close>)
  then show ?thesis
    by (auto simp: key_spec_def split: option.splits pyval.splits sum.splits if_splits)
qed


context django
begin

text \<open>
  Every outcome of a change: either nothing is stored, or one contact of the user is overwritten,
  under its key.
\<close>

lemma ref_contact_put_cases:
  assumes "db_ok (w_db w)" "request_user rq (w_db w) = Some x" "ref_contact_put Orm Drf rq w = (r, w')"
  obtains "r \<noteq> Inr (Reply 200 Success)" "w' = w"
  | c kvs g where "r = Inr (Reply 200 Success)" "c \<in> set (t_contacts (w_db w))" "ct_user c = u_id x"
      "form_values rq = PDict kvs"
      "run_fields True (ref_contact_fields Orm Drf (w_db w)) kvs = Inr ([], g)" "ct_id (g c) = ct_id c"
      "w' = w\<lparr>w_db := w_db w\<lparr>t_contacts := replace_by ct_id (g c) (t_contacts (w_db w))\<rparr>\<rparr>"
proof -
  consider "r \<noteq> Inr (Reply 200 Success)" "w' = w"
    | c kvs g v where "c \<in> set (t_contacts (w_db w))" "ct_user c = u_id x" "form_values rq = PDict kvs"
        "run_fields True (ref_contact_fields Orm Drf (w_db w)) kvs = Inr ([], g)"
        "on_db (db_save Orm (ContactRow (g c))) w = (v, w')"
        "r = (case v of Inl e \<Rightarrow> Inl e | Inr _ \<Rightarrow> Inr (Reply 200 Success))"
  proof -
    have "r \<noteq> Inr (Reply 200 Success) \<and> w' = w \<or> (\<exists>c kvs g v. c \<in> set (t_contacts (w_db w)) \<and> ct_user c = u_id x \<and>
        form_values rq = PDict kvs \<and> run_fields True (ref_contact_fields Orm Drf (w_db w)) kvs = Inr ([], g) \<and>
        on_db (db_save Orm (ContactRow (g c))) w = (v, w') \<and>
        r = (case v of Inl e \<Rightarrow> Inl e | Inr _ \<Rightarrow> Inr (Reply 200 Success)))"
      using assms(2,3)
      by (auto simp: ref_contact_put_def serializer_def andThen_def dest!: filter_headD
          split: sum.splits prod.splits if_splits list.splits pyval.splits)
    then show thesis using that by blast
  qed
  then show thesis
  proof cases
    case 1
    then show thesis by (rule that(1))
  next
    case (2 c kvs g v)
    have key: "ct_id (g c) = ct_id c" by (rule run_fields_keeps [OF 2(4) contact_fields_keep_key])
    then have "ct_id (g c) \<in> set (pks ContactM (w_db w))" using 2(1) by simp
    then show thesis
      using 2(5,6) that(1) that(2) [OF _ 2(1-4) key]
      by (cases rule: save_cases [of "ContactRow (g c)" "w_db w"]) (auto simp: save_row_def)
  qed
qed

end

end
