(* ===== verification/RefShop.thy ===== *)
theory RefShop
  imports RefBase Catalog "HOL-Library.List_Lexorder" "HOL-Library.Char_ord"
begin

text \<open>
  The catalogue and the shop side of the reference application: \<^verbatim>\<open>CategoryView\<close>, \<^verbatim>\<open>ShopView\<close>,
  \<^verbatim>\<open>ProductInfoView\<close>, \<^verbatim>\<open>PartnerState\<close> and \<^verbatim>\<open>PartnerOrders\<close>.
\<close>

section \<open>Lists\<close>

text \<open>\<^verbatim>\<open>ordering = ('-name',)\<close>: names descending.\<close>

definition by_name_desc :: "('a \<Rightarrow> string) \<Rightarrow> 'a list \<Rightarrow> 'a list" where
  "by_name_desc name xs = rev (sort_key name (rev xs))"

definition listed_page :: "services \<Rightarrow> request \<Rightarrow> (database \<Rightarrow> pyval list) \<Rightarrow> (world, ref_response) comp" where
  "listed_page Srv rq f =
     andThen (query (\<lambda>w. f (w_db w))) (\<lambda>vs.
     andThen (lift_exn (page_of Srv rq vs)) (\<lambda>v. ret (Reply 200 (Rendered v))))"

definition category_list :: "services \<Rightarrow> request \<Rightarrow> (world, ref_response) comp" where
  "category_list Srv rq = listed_page Srv rq (\<lambda>d. map ref_category_data (by_name_desc c_name (t_categories d)))"

definition shop_list :: "services \<Rightarrow> request \<Rightarrow> (world, ref_response) comp" where
  "shop_list Srv rq = listed_page Srv rq
     (\<lambda>d. map ref_shop_data (by_name_desc s_name (filter s_state (t_shops d))))"

text \<open>\<^verbatim>\<open>Q(shop__state=True)\<close> and the two optional filters.\<close>

definition shop_is_open :: "database \<Rightarrow> product_info \<Rightarrow> bool" where
  "shop_is_open d x \<longleftrightarrow> list_ex (\<lambda>s. s_id s = pi_shop x \<and> s_state s) (t_shops d)"

definition product_search :: "orm \<Rightarrow> request \<Rightarrow> (database, ref_response) comp" where
  "product_search Orm rq =
     andThen (id_filter Orm (query_get rq ''shop_id'') in_shop) (\<lambda>by_shop.
     andThen (id_filter Orm (query_get rq ''category_id'') in_category) (\<lambda>by_category.
     andThen (query (\<lambda>d. filter (\<lambda>x. shop_is_open d x \<and> by_shop d x \<and> by_category d x) (t_product_infos d))) (\<lambda>infos.
     andThen (map_each ref_product_info_data infos) (\<lambda>data.
     ret (Reply 200 (Rendered (PList data)))))))"

section \<open>The state of the shop\<close>

definition partner_state_get :: "request \<Rightarrow> (world, ref_response) comp" where
  "partner_state_get rq = logged_in rq (\<lambda>user. shops_only user (
     andThen (on_db (get_one (\<lambda>d. filter (\<lambda>s. s_user s = Some (u_id user)) (t_shops d)))) (\<lambda>shop.
     ret (Reply 200 (Rendered (ref_shop_data shop))))))"

text \<open>\<^verbatim>\<open>distutils.util.strtobool\<close>.\<close>

fun strtobool :: "pyval \<Rightarrow> exn + bool" where
  "strtobool (PStr s) =
     (let t = map lower s in
      if t \<in> {''y'', ''yes'', ''t'', ''true'', ''on'', ''1''} then Inr True
      else if t \<in> {''n'', ''no'', ''f'', ''false'', ''off'', ''0''} then Inr False
      else Inl ValueError)"
| "strtobool _ = Inl AttributeError"

definition partner_state_post :: "orm \<Rightarrow> request \<Rightarrow> (world, ref_response) comp" where
  "partner_state_post Orm rq = logged_in rq (\<lambda>user. shops_only user (
     andThen (lift_exn (py_get (rq_data rq) ''state'' PNone)) (\<lambda>state.
     if \<not> py_true state then ret (Reply 200 (Failure Arguments_missing))
     else try_except
       (andThen (lift_exn (strtobool state)) (\<lambda>b.
        andThen (on_db (update_rows Orm ShopRow
          (\<lambda>d. filter (\<lambda>s. s_user s = Some (u_id user)) (t_shops d)) (s_state_update (\<lambda>_. b)))) (\<lambda>_.
        ret (Reply 200 Success))))
       (\<lambda>e. if e = ValueError then ret (Reply 200 (Failure State_invalid)) else raise e))))"

section \<open>The orders of the shop\<close>

text \<open>
  The filter on the items constrains the annotation that follows it: the sum is over the items of
  the shop, while the rendered order lists all its items.
\<close>

definition partner_items :: "int \<Rightarrow> database \<Rightarrow> order_t \<Rightarrow> order_item list" where
  "partner_items u d b = filter (\<lambda>it. oi_order it = o_id b \<and>
     list_ex (\<lambda>x. pi_id x = oi_info it \<and> list_ex (\<lambda>s. s_id s = pi_shop x \<and> s_user s = Some u) (t_shops d))
       (t_product_infos d)) (t_order_items d)"

definition partner_orders_of :: "int \<Rightarrow> database \<Rightarrow> (order_t \<times> pyval) list" where
  "partner_orders_of u d = map (\<lambda>b. (b, total_sum d (partner_items u d b)))
     (sort_key (\<lambda>b. - o_dt b) (filter (\<lambda>b. o_state b \<noteq> Basket \<and> partner_items u d b \<noteq> []) (t_orders d)))"

definition partner_orders :: "request \<Rightarrow> (world, ref_response) comp" where
  "partner_orders rq = logged_in rq (\<lambda>user. shops_only user (
     andThen (query (\<lambda>w. partner_orders_of (u_id user) (w_db w))) (\<lambda>orders.
     andThen (on_db (map_each ref_order_data orders)) (\<lambda>data.
     ret (Reply 200 (Rendered (PList data)))))))"

end
