(* ===== verification/RefShopSpec.thy ===== *)
theory RefShopSpec
  imports RefShop OrdersSpec
begin

text \<open>
  What the catalogue and the shop's requests answer: the price positions of open shops, the orders a
  shop has a part in with the sum of its own items, and the switch of the shop's state.
\<close>

section \<open>Rendering succeeds on a consistent database\<close>

lemma map_each_rendered:
  assumes "\<And>x. x \<in> set xs \<Longrightarrow> \<exists>v. f x s = (Inr v, s) \<and> Q x v"
  shows "\<exists>vs. map_each f xs s = (Inr vs, s) \<and> list_all2 Q xs vs"
  using assms
proof (induction xs)
  case (Cons x xs)
  then obtain vs where vs: "map_each f xs s = (Inr vs, s)" "list_all2 Q xs vs" by force
  obtain v where "f x s = (Inr v, s)" "Q x v" using Cons.prems [of x] by auto
  with vs show ?case by (intro exI [of _ "v # vs"]) simp
qed simp

lemma ref_product_info_rendered:
  assumes "db_ok d" "info \<in> set (t_product_infos d)"
  shows "\<exists>v. ref_product_info_data info d = (Inr v, d) \<and> py_index v ''id'' = Inr (PInt (pi_id info))"
proof -
  have refs: "refs_ok (ProductInfoRow info) d" using assms db_ok_refs [of d _ ProductInfoM] by simp
  obtain p where p: "p \<in> set (t_products d)" "related p_id t_products (pi_product info) d = (Inr p, d)"
    using related_total [OF assms(1) refs, of ProductM _ p_id t_products] by auto
  have "refs_ok (ProductRow p) d" using p(1) assms(1) db_ok_refs [of d _ ProductM] by simp
  then obtain c where c: "related c_id t_categories (p_category p) d = (Inr c, d)"
    using related_total [OF assms(1), of "ProductRow p" CategoryM _ c_id t_categories] by auto
  have "total d (ref_product_parameter_data pp)" if "pp \<in> set (t_product_parameters d)" for pp
  proof -
    have refs: "refs_ok (ProductParameterRow pp) d"
      using that assms db_ok_refs [of d _ ProductParameterM] by simp
    obtain pa where "related pa_id t_parameters (pp_parameter pp) d = (Inr pa, d)"
      using related_total [OF assms(1) refs, of ParameterM _ pa_id t_parameters] by auto
    then show ?thesis by (simp add: ref_product_parameter_data_def total_def)
  qed
  then have "total d (map_each ref_product_parameter_data
      (filter (\<lambda>pp. pp_info pp = pi_id info) (t_product_parameters d)))"
    by (intro total_map_each) auto
  then show ?thesis using p c by (auto simp: ref_product_info_data_def ref_product_data_def total_def)
qed

lemma ref_order_rendered:
  assumes "db_ok d" "b \<in> set (t_orders d)"
  shows "\<exists>v. ref_order_data (b, s) d = (Inr v, d) \<and>
    py_index v ''id'' = Inr (PInt (o_id b)) \<and> py_index v ''total_sum'' = Inr s"
proof -
  have "\<exists>v. ref_order_item_data it d = (Inr v, d)" if it: "it \<in> set (t_order_items d)" for it
  proof -
    obtain info where "info \<in> set (t_product_infos d)" "related pi_id t_product_infos (oi_info it) d = (Inr info, d)"
      using item_info [OF assms(1) it] by blast
    moreover from this obtain v where "ref_product_info_data info d = (Inr v, d)"
      using ref_product_info_rendered [OF assms(1)] by blast
    ultimately show ?thesis by (simp add: ref_order_item_data_def)
  qed
  then have "\<exists>vs. map_each ref_order_item_data (filter (\<lambda>it. oi_order it = o_id b) (t_order_items d)) d = (Inr vs, d) \<and>
      list_all2 (\<lambda>_ _. True) (filter (\<lambda>it. oi_order it = o_id b) (t_order_items d)) vs"
    by (intro map_each_rendered) auto
  then obtain vs where vs: "map_each ref_order_item_data (filter (\<lambda>it. oi_order it = o_id b) (t_order_items d)) d = (Inr vs, d)"
    by blast
  have "\<exists>c. (case o_contact b of None \<Rightarrow> ret PNone
       | Some k \<Rightarrow> andThen (related ct_id t_contacts k) (\<lambda>c. ret (ref_contact_data c))) d = (Inr c, d)"
  proof (cases "o_contact b")
    case (Some k)
    have "refs_ok (OrderRow b) d" using assms db_ok_refs [of d _ OrderM] by simp
    then obtain c where "related ct_id t_contacts k d = (Inr c, d)"
      using related_total [OF assms(1), of "OrderRow b" ContactM k ct_id t_contacts] Some by auto
    then show ?thesis using Some by simp
  qed simp
  with vs show ?thesis by (auto simp: ref_order_data_def)
qed

section \<open>The orders of a shop\<close>

text \<open>Whether the item comes from a shop of the user, and its price.\<close>

definition sold_by :: "int \<Rightarrow> database \<Rightarrow> order_item \<Rightarrow> bool" where
  "sold_by u d it \<longleftrightarrow> (\<exists>x \<in> set (t_product_infos d). pi_id x = oi_info it \<and>
     (\<exists>s \<in> set (t_shops d). s_id s = pi_shop x \<and> s_user s = Some u))"

definition line_price :: "database \<Rightarrow> order_item \<Rightarrow> int" where
  "line_price d it = oi_quantity it * price_of d (oi_info it)"

lemma partner_items_sold: "partner_items u d b = filter (\<lambda>it. oi_order it = o_id b \<and> sold_by u d it) (t_order_items d)"
  by (simp add: partner_items_def sold_by_def list_ex_iff)

lemma line_prices_map:
  assumes "db_ok d" "set items \<subseteq> set (t_order_items d)"
  shows "line_prices d items = map (line_price d) items"
proof -
  have "map (\<lambda>x. oi_quantity it * pi_price x) (filter (\<lambda>x. pi_id x = oi_info it) (t_product_infos d)) = [line_price d it]"
    if it: "it \<in> set (t_order_items d)" for it
  proof -
    obtain info where "info \<in> set (t_product_infos d)" "pi_id info = oi_info it"
      using item_info [OF assms(1) it] by blast
    then have "filter (\<lambda>x. pi_id x = oi_info it) (t_product_infos d) = [info]"
      using filter_eq_single [of pi_id "t_product_infos d" info] db_ok_distinct [OF assms(1), of ProductInfoM] by simp
    then show ?thesis by (simp add: line_price_def price_of_def)
  qed
  then show ?thesis
    using assms(2) unfolding line_prices_def by (induction items) auto
qed

lemma total_sum_items:
  assumes "db_ok d" "set items \<subseteq> set (t_order_items d)" "items \<noteq> []"
  shows "total_sum d items = PInt (sum_list (map (line_price d) items))"
  unfolding total_sum_def line_prices_map [OF assms(1,2)] using assms(3) by (cases items) simp_all

lemma partner_orders_spec:
  assumes "db_ok (w_db w)" "request_user rq (w_db w) = Some x" "u_type x = ShopUser"
  shows "\<exists>bs data. partner_orders rq w = (Inr (Reply 200 (Rendered (PList data))), w) \<and>
    sorted_wrt (\<lambda>a b. o_dt a \<ge> o_dt b) bs \<and> distinct bs \<and>
    set bs = {b \<in> set (t_orders (w_db w)). o_state b \<noteq> Basket \<and>
      (\<exists>it \<in> set (t_order_items (w_db w)). oi_order it = o_id b \<and> sold_by (u_id x) (w_db w) it)} \<and>
    list_all2 (\<lambda>b v. py_index v ''id'' = Inr (PInt (o_id b)) \<and>
      py_index v ''total_sum'' = Inr (PInt (sum_list (map (line_price (w_db w))
        (filter (\<lambda>it. oi_order it = o_id b \<and> sold_by (u_id x) (w_db w) it) (t_order_items (w_db w))))))) bs data"
proof -
  let ?d = "w_db w" and ?u = "u_id x"
  let ?bs = "sort_key (\<lambda>b. - o_dt b) (filter (\<lambda>b. o_state b \<noteq> Basket \<and> partner_items ?u ?d b \<noteq> []) (t_orders ?d))"
  have mem: "set ?bs = {b \<in> set (t_orders ?d). o_state b \<noteq> Basket \<and>
      (\<exists>it \<in> set (t_order_items ?d). oi_order it = o_id b \<and> sold_by ?u ?d it)}"
    by (auto simp: partner_items_sold filter_empty_conv)
  have "\<exists>v. ref_order_data p ?d = (Inr v, ?d) \<and> py_index v ''id'' = Inr (PInt (o_id (fst p))) \<and> py_index v ''total_sum'' =
      Inr (PInt (sum_list (map (line_price ?d) (partner_items ?u ?d (fst p)))))"
    if "p \<in> set (partner_orders_of ?u ?d)" for p
  proof -
    obtain b where b: "p = (b, total_sum ?d (partner_items ?u ?d b))" "b \<in> set (t_orders ?d)" "partner_items ?u ?d b \<noteq> []"
      using \<open>p \<in> _\<close> by (auto simp: partner_orders_of_def)
    then have "total_sum ?d (partner_items ?u ?d b) = PInt (sum_list (map (line_price ?d) (partner_items ?u ?d b)))"
      by (intro total_sum_items [OF assms(1)]) (auto simp: partner_items_def)
    then show ?thesis using ref_order_rendered [OF assms(1) b(2)] b(1) by simp
  qed
  then have "\<exists>vs. map_each ref_order_data (partner_orders_of ?u ?d) ?d = (Inr vs, ?d) \<and>
    list_all2 (\<lambda>p v. py_index v ''id'' = Inr (PInt (o_id (fst p))) \<and> py_index v ''total_sum'' =
      Inr (PInt (sum_list (map (line_price ?d) (partner_items ?u ?d (fst p)))))) (partner_orders_of ?u ?d) vs"
    by (rule map_each_rendered)
  then obtain vs where vs: "map_each ref_order_data (partner_orders_of ?u ?d) ?d = (Inr vs, ?d)"
    "list_all2 (\<lambda>p v. py_index v ''id'' = Inr (PInt (o_id (fst p))) \<and> py_index v ''total_sum'' =
      Inr (PInt (sum_list (map (line_price ?d) (partner_items ?u ?d (fst p)))))) (partner_orders_of ?u ?d) vs" by blast
  have "list_all2 (\<lambda>b v. py_index v ''id'' = Inr (PInt (o_id b)) \<and> py_index v ''total_sum'' =
      Inr (PInt (sum_list (map (line_price ?d) (partner_items ?u ?d b))))) ?bs vs"
    using vs(2) by (simp add: partner_orders_of_def list_all2_map1)
  moreover have "partner_orders rq w = (Inr (Reply 200 (Rendered (PList vs))), w)"
    using assms vs(1) by (simp add: partner_orders_def shops_only_def)
  moreover have "sorted_wrt (\<lambda>a b. o_dt a \<ge> o_dt b) ?bs"
    using sorted_sort_key [of "\<lambda>b. - o_dt b"] by (simp add: sorted_map)
  moreover have "distinct (t_orders ?d)"
    using db_ok_distinct [OF assms(1), of OrderM] by (simp add: distinct_map)
  ultimately show ?thesis
    using mem by (intro exI [of _ ?bs] exI [of _ vs]) (simp add: partner_items_sold)
qed

text \<open>The sum that SQL computes and the loop of the main application agree, except on no items.\<close>

lemma total_sum_order_price:
  assumes "db_ok d"
  shows "total_sum d (items_of (o_id b) d) = (if items_of (o_id b) d = [] then PNone else PInt (order_price b d))"
proof (cases "items_of (o_id b) d = []")
  case True
  then show ?thesis by (simp add: total_sum_def line_prices_def)
next
  case False
  have "set (items_of (o_id b) d) \<subseteq> set (t_order_items d)" by (auto simp: items_of_def)
  from total_sum_items [OF assms this False] show ?thesis
    using False by (simp add: order_price_def line_price_def [abs_def])
qed

section \<open>The state of the shop\<close>

context django
begin

lemma partner_state_post_spec:
  assumes "db_ok (w_db w)" "request_user rq (w_db w) = Some x" "u_type x = ShopUser"
    and "py_get (rq_data rq) ''state'' PNone = Inr v" "py_true v"
  shows "partner_state_post Orm rq w = (case strtobool v of
      Inl e \<Rightarrow> (if e = ValueError then Inr (Reply 200 (Failure State_invalid)) else Inl e, w)
    | Inr b \<Rightarrow> (Inr (Reply 200 Success), w\<lparr>w_db := w_db w\<lparr>t_shops :=
        map (\<lambda>s. if s_user s = Some (u_id x) then s\<lparr>s_state := b\<rparr> else s) (t_shops (w_db w))\<rparr>\<rparr>))"
proof (cases "strtobool v")
  case (Inl e)
  then show ?thesis using assms by (simp add: partner_state_post_def shops_only_def)
next
  case (Inr b)
  let ?d = "w_db w"
  let ?set = "map (\<lambda>s. if s_user s = Some (u_id x) then s\<lparr>s_state := b\<rparr> else s) (t_shops ?d)"
  have one: "s' = s" if "s \<in> set (t_shops ?d)" "s' \<in> set (t_shops ?d)" "s_user s = Some (u_id x)" "s_user s' = Some (u_id x)" for s s'
  proof -
    have "row_ok (ShopRow s) ?d" using db_ok_row [OF assms(1), of "ShopRow s" ShopM] that by simp
    then have "s_id s' = s_id s"
      using unique_okD [of "ShopRow s" ?d "ShopRow s'"] that by (simp add: row_ok_def)
    then show ?thesis using same_pk_same_row [OF db_ok_distinct [OF assms(1)], of "ShopRow s'" ShopM "ShopRow s"] that by simp
  qed
  show ?thesis
  proof (cases "filter (\<lambda>s. s_user s = Some (u_id x)) (t_shops ?d)")
    case Nil
    then have "?set = t_shops ?d" by (intro map_idI) (auto simp: filter_empty_conv)
    then show ?thesis using assms Inr Nil by (simp add: partner_state_post_def shops_only_def)
  next
    case (Cons s ss)
    then have s: "s \<in> set (t_shops ?d)" "s_user s = Some (u_id x)"
      by (metis (mono_tags, lifting) list.set_intros(1) mem_Collect_eq set_filter)+
    have d: "distinct (map s_id (t_shops ?d))" using db_ok_distinct [OF assms(1), of ShopM] by simp
    have key: "s_user s' = Some (u_id x) \<longleftrightarrow> s_id s' = s_id s" if s': "s' \<in> set (t_shops ?d)" for s'
    proof
      assume "s_user s' = Some (u_id x)"
      then show "s_id s' = s_id s" using one [OF s(1) s' s(2)] by simp
    next
      assume "s_id s' = s_id s"
      then have "s' = s"
        using same_pk_same_row [OF db_ok_distinct [OF assms(1)], of "ShopRow s'" ShopM "ShopRow s"] s' s(1) by simp
      then show "s_user s' = Some (u_id x)" using s(2) by simp
    qed
    have "filter (\<lambda>s. s_user s = Some (u_id x)) (t_shops ?d) = filter (\<lambda>s'. s_id s' = s_id s) (t_shops ?d)"
      by (rule filter_cong [OF refl]) (rule key)
    then have sel: "filter (\<lambda>s. s_user s = Some (u_id x)) (t_shops ?d) = [s]"
      using filter_eq_single [OF d s(1)] by simp
    have "row_ok (ShopRow (s\<lparr>s_state := b\<rparr>)) ?d"
      using db_ok_row [OF assms(1), of "ShopRow s" ShopM] s
      by (auto simp: row_ok_def positive_ok_def refs_ok_def unique_ok_def list_all_iff)
    moreover have "replace_by s_id (s\<lparr>s_state := b\<rparr>) (t_shops ?d) = ?set"
      unfolding replace_by_def
      by (rule map_cong [OF refl]) (simp add: key, metis key one s)
    ultimately have "db_save Orm (ShopRow (s\<lparr>s_state := b\<rparr>)) ?d = (Inr (), ?d\<lparr>t_shops := ?set\<rparr>)"
      using s(1) by (simp add: save_ok save_row_def)
    then show ?thesis using assms Inr sel by (simp add: partner_state_post_def shops_only_def)
  qed
qed

end

section \<open>The catalogue\<close>

definition open_listed :: "int option \<Rightarrow> int option \<Rightarrow> database \<Rightarrow> product_info \<Rightarrow> bool" where
  "open_listed shop cat d x \<longleftrightarrow> (\<exists>s \<in> set (t_shops d). s_id s = pi_shop x \<and> s_state s) \<and>
     (shop = None \<or> shop = Some (pi_shop x)) \<and>
     (cat = None \<or> (\<exists>p \<in> set (t_products d). p_id p = pi_product x \<and> cat = Some (p_category p)))"

context django
begin

lemma product_search_spec:
  assumes "db_ok d" "query_id rq ''shop_id'' = Inr shop" "query_id rq ''category_id'' = Inr cat"
  shows "\<exists>data. product_search Orm rq d = (Inr (Reply 200 (Rendered (PList data))), d) \<and>
    list_all2 (\<lambda>x v. py_index v ''id'' = Inr (PInt (pi_id x)))
      (filter (open_listed shop cat d) (t_product_infos d)) data"
proof -
  have infos: "filter (\<lambda>x. shop_is_open d x \<and> (if shop = None then (\<lambda>d x. True) else in_shop shop) d x \<and>
      (if cat = None then (\<lambda>d x. True) else in_category cat) d x) (t_product_infos d) =
    filter (open_listed shop cat d) (t_product_infos d)"
    by (rule filter_cong [OF refl])
      (auto simp: open_listed_def shop_is_open_def in_shop_def in_category_def list_ex_iff)
  have "\<exists>vs. map_each ref_product_info_data (filter (open_listed shop cat d) (t_product_infos d)) d = (Inr vs, d) \<and>
      list_all2 (\<lambda>x v. py_index v ''id'' = Inr (PInt (pi_id x))) (filter (open_listed shop cat d) (t_product_infos d)) vs"
    by (rule map_each_rendered) (use ref_product_info_rendered [OF assms(1)] in auto)
  then show ?thesis
    by (auto simp: product_search_def id_filter_ok [OF assms(2)] id_filter_ok [OF assms(3)] infos)
qed

lemma keeps_ref_shop [keeps_intros]:
  "keeps (in_db db_ok) (category_list Srv rq)" "keeps (in_db db_ok) (shop_list Srv rq)"
  "keeps (in_db db_ok) (partner_state_get rq)" "keeps (in_db db_ok) (partner_state_post Orm rq)"
  unfolding category_list_def shop_list_def listed_page_def partner_state_get_def partner_state_post_def
  by (intro keeps_intros)+

end

end
