(* ===== verification/RefPartner.thy ===== *)
theory RefPartner
  imports RefBase Import
begin

text \<open>
  \<^verbatim>\<open>PartnerUpdate\<close> of the reference application: a shop replaces its price list by the YAML document
  behind a URL. Unlike \<^verbatim>\<open>load_data\<close> it creates every position, looks categories and products up by
  all given columns, and lets the errors of the import through.
\<close>

definition partner_shop :: "orm \<Rightarrow> pyval \<Rightarrow> int \<Rightarrow> (database, shop \<times> bool) comp" where
  "partner_shop Orm name user_id =
     get_or_create (\<lambda>d. filter (\<lambda>s. Some (s_name s) = prep_str Orm name \<and> s_user s = Some user_id) (t_shops d))
       (andThen (str_column Orm name) (\<lambda>n.
        create Orm ShopRow (\<lambda>k. s_id_update (\<lambda>_. k))
          \<lparr>s_id = 0, s_name = n, s_url = None, s_user = Some user_id, s_state = True\<rparr>))"

definition partner_category :: "orm \<Rightarrow> shop \<Rightarrow> pyval \<Rightarrow> (database, unit) comp" where
  "partner_category Orm shop category =
     andThen (lift_exn (py_index category ''id'')) (\<lambda>category_id.
     andThen (lift_exn (py_index category ''name'')) (\<lambda>name.
     andThen (lift_exn (prep_int Orm category_id)) (\<lambda>k.
     andThen (get_or_create
       (\<lambda>d. filter (\<lambda>c. Some (c_id c) = k \<and> Some (c_name c) = prep_str Orm name) (t_categories d))
       (andThen (str_column Orm name) (\<lambda>n.
        andThen (db_insert Orm k (CategoryRow \<lparr>c_id = 0, c_name = n\<rparr>)) (\<lambda>i.
        ret \<lparr>c_id = i, c_name = n\<rparr>)))) (\<lambda>(category_object, _).
     andThen (link_category Orm category_object shop) (\<lambda>_.
     db_save Orm (CategoryRow category_object))))))"

definition partner_product :: "orm \<Rightarrow> pyval \<Rightarrow> pyval \<Rightarrow> (database, product \<times> bool) comp" where
  "partner_product Orm name category_id =
     andThen (lift_exn (prep_int Orm category_id)) (\<lambda>c.
     get_or_create
       (\<lambda>d. filter (\<lambda>p. Some (p_name p) = prep_str Orm name \<and> Some (p_category p) = c) (t_products d))
       (andThen (str_column Orm name) (\<lambda>n.
        andThen (not_null c) (\<lambda>c.
        create Orm ProductRow (\<lambda>k. p_id_update (\<lambda>_. k)) \<lparr>p_id = 0, p_name = n, p_category = c\<rparr>))))"

text \<open>\<^verbatim>\<open>ProductInfo.objects.create(...)\<close>.\<close>

definition create_product_info ::
  "orm \<Rightarrow> shop \<Rightarrow> product \<Rightarrow> pyval \<Rightarrow> pyval \<Rightarrow> pyval \<Rightarrow> pyval \<Rightarrow> pyval \<Rightarrow> (database, product_info) comp" where
  "create_product_info Orm shop product external_id model_name price price_rrc quantity =
     andThen (lift_exn (prep_int Orm external_id)) (\<lambda>e.
     andThen (lift_exn (prep_int Orm quantity)) (\<lambda>q.
     andThen (lift_exn (prep_int Orm price)) (\<lambda>p.
     andThen (lift_exn (prep_int Orm price_rrc)) (\<lambda>r.
     andThen (str_column Orm model_name) (\<lambda>m.
     andThen (not_null e) (\<lambda>e. andThen (not_null q) (\<lambda>q. andThen (not_null p) (\<lambda>p. andThen (not_null r) (\<lambda>r.
     create Orm ProductInfoRow (\<lambda>k. pi_id_update (\<lambda>_. k))
       \<lparr>pi_id = 0, pi_model = m, pi_external_id = e, pi_product = p_id product, pi_shop = s_id shop,
        pi_quantity = q, pi_price = p, pi_price_rrc = r\<rparr>)))))))))"

definition partner_parameter :: "orm \<Rightarrow> product_info \<Rightarrow> pyval \<times> pyval \<Rightarrow> (database, unit) comp" where
  "partner_parameter Orm info nv = (case nv of (name, v) \<Rightarrow>
     andThen (get_or_create_parameter Orm name) (\<lambda>(par, _).
     andThen (str_column Orm v) (\<lambda>s.
     andThen (create Orm ProductParameterRow (\<lambda>k. pp_id_update (\<lambda>_. k))
       \<lparr>pp_id = 0, pp_info = pi_id info, pp_parameter = pa_id par, pp_value = s\<rparr>) (\<lambda>_. ret ()))))"

definition partner_good :: "orm \<Rightarrow> shop \<Rightarrow> pyval \<Rightarrow> (database, unit) comp" where
  "partner_good Orm shop item =
     andThen (lift_exn (py_index item ''name'')) (\<lambda>name.
     andThen (lift_exn (py_index item ''category'')) (\<lambda>category_id.
     andThen (partner_product Orm name category_id) (\<lambda>(product, _).
     andThen (lift_exn (py_index item ''id'')) (\<lambda>external_id.
     andThen (lift_exn (py_index item ''model'')) (\<lambda>model_name.
     andThen (lift_exn (py_index item ''price'')) (\<lambda>price.
     andThen (lift_exn (py_index item ''price_rrc'')) (\<lambda>price_rrc.
     andThen (lift_exn (py_index item ''quantity'')) (\<lambda>quantity.
     andThen (create_product_info Orm shop product external_id model_name price price_rrc quantity) (\<lambda>info.
     andThen (lift_exn (py_index item ''parameters'')) (\<lambda>parameters.
     andThen (lift_exn (py_items parameters)) (\<lambda>kvs.
     for_each (partner_parameter Orm info) kvs)))))))))))"

definition partner_document :: "orm \<Rightarrow> int \<Rightarrow> pyval \<Rightarrow> (database, unit) comp" where
  "partner_document Orm user_id data =
     andThen (lift_exn (py_index data ''shop'')) (\<lambda>name.
     andThen (partner_shop Orm name user_id) (\<lambda>(shop, _).
     andThen (lift_exn (py_index data ''categories'')) (\<lambda>cs.
     andThen (lift_exn (py_iter cs)) (\<lambda>categories.
     andThen (for_each (partner_category Orm shop) categories) (\<lambda>_.
     andThen (query (\<lambda>d. map pi_id (filter (\<lambda>x. pi_shop x = s_id shop) (t_product_infos d)))) (\<lambda>old.
     andThen (db_delete Orm ProductInfoM old) (\<lambda>_.
     andThen (lift_exn (py_index data ''goods'')) (\<lambda>gs.
     andThen (lift_exn (py_iter gs)) (\<lambda>goods.
     for_each (partner_good Orm shop) goods)))))))))"

definition partner_update :: "orm \<Rightarrow> services \<Rightarrow> request \<Rightarrow> (world, ref_response) comp" where
  "partner_update Orm Srv rq = logged_in rq (\<lambda>user. shops_only user (
     andThen (lift_exn (py_get (rq_data rq) ''url'' PNone)) (\<lambda>url.
     if \<not> py_true url then ret (Reply 200 (Failure Arguments_missing))
     else (case url_check Srv url of
         Inl e \<Rightarrow> if e = ValidationError then ret (Reply 200 (Failure Url_invalid)) else raise e
       | Inr _ \<Rightarrow>
           andThen (lift_exn (http_get Srv url)) (\<lambda>stream.
           andThen (lift_exn (yaml_load_full Srv stream)) (\<lambda>data.
           andThen (on_db (partner_document Orm (u_id user) data)) (\<lambda>_.
           ret (Reply 200 Success))))))))"

end
