(* ===== verification/RefPartnerSpec.thy ===== *)
theory RefPartnerSpec
  imports RefPartner ImportSpec
begin

text \<open>
  What \<^verbatim>\<open>PartnerUpdate\<close> does: after a successful import the price list of the shop is the list of the
  goods of the document, in order; the lists of all other shops are as before.
\<close>

section \<open>The price list of a shop\<close>

definition price_list :: "int \<Rightarrow> database \<Rightarrow> (int \<times> price_entry) list" where
  "price_list s d = map (\<lambda>x. (pi_external_id x, entry_of d x)) (filter (\<lambda>x. pi_shop x = s) (t_product_infos d))"

text \<open>The entry a good stands for.\<close>

definition good_at :: "pyval \<Rightarrow> string \<Rightarrow> pyval" where
  "good_at g k = (case py_index g k of Inl e \<Rightarrow> PNone | Inr v \<Rightarrow> v)"

definition partner_entry :: "orm \<Rightarrow> pyval \<Rightarrow> int \<times> price_entry" where
  "partner_entry Orm g = (column_int Orm (good_at g ''id''),
     Some (column_str Orm (good_at g ''name'')), column_str Orm (good_at g ''model''),
     column_int Orm (good_at g ''quantity''), column_int Orm (good_at g ''price''),
     column_int Orm (good_at g ''price_rrc''))"

lemma price_list_same: "same_prices d0 d \<Longrightarrow> price_list s d = price_list s d0"
  by (simp add: same_prices_def price_list_def entry_of_def [abs_def])

lemma price_list_more_products:
  assumes "db_ok d"
  shows "price_list s (d\<lparr>t_products := t_products d @ [p]\<rparr>) = price_list s d"
  unfolding price_list_def using entry_of_more_products [OF assms] by simp

lemma price_list_put:
  "price_list s (d\<lparr>t_product_infos := t_product_infos d @ [y]\<rparr>) =
     price_list s d @ (if pi_shop y = s then [(pi_external_id y, entry_of d y)] else [])"
  by (simp add: price_list_def entry_of_def [abs_def])

lemma price_list_deleted:
  assumes "db_ok d"
  shows "price_list k (cascade_delete ProductInfoM (map pi_id (filter (\<lambda>x. pi_shop x = s) (t_product_infos d))) d) =
    (if k = s then [] else price_list k d)"
proof -
  let ?d = "cascade_delete ProductInfoM (map pi_id (filter (\<lambda>x. pi_shop x = s) (t_product_infos d))) d"
  have e: "entry_of ?d = entry_of d"
    unfolding cascade_delete_infos [OF assms] by (rule ext) (simp add: entry_of_def)
  have "t_product_infos ?d = filter (\<lambda>x. pi_shop x \<noteq> s) (t_product_infos d)"
    by (rule infos_deleted [OF assms])
  moreover have "filter (\<lambda>x. pi_shop x \<noteq> s \<and> pi_shop x = k) (t_product_infos d) =
      (if k = s then [] else filter (\<lambda>x. pi_shop x = k) (t_product_infos d))"
    by (auto simp: filter_empty_conv intro!: filter_cong)
  ultimately show ?thesis by (simp add: price_list_def e)
qed

context django
begin

lemma keeps_partner_parts [keeps_intros]:
  "keeps db_ok (partner_shop Orm name u)"
  "keeps db_ok (partner_category Orm s c)"
  "keeps db_ok (partner_product Orm name k)"
  "keeps db_ok (create_product_info Orm s p e m pr rrc q)"
  "keeps db_ok (partner_parameter Orm info nv)"
  "keeps db_ok (partner_good Orm s g)"
  unfolding partner_shop_def partner_category_def partner_product_def create_product_info_def
    partner_parameter_def partner_good_def
  by (intro keeps_intros)+

lemma keeps_partner_document [keeps_intros]: "keeps db_ok (partner_document Orm u data)"
  unfolding partner_document_def by (intro keeps_intros)

lemma keeps_partner_update [keeps_intros]: "keeps (in_db db_ok) (partner_update Orm Srv rq)"
  unfolding partner_update_def by (intro keeps_intros) (auto split: sum.splits intro!: keeps_intros)

lemma keeps_partner_prices:
  "keeps (same_prices d0) (partner_shop Orm name u)"
  "keeps (same_prices d0) (partner_category Orm s c)"
  "keeps (same_prices d0) (partner_parameter Orm info nv)"
  unfolding partner_shop_def partner_category_def partner_parameter_def
  by (intro keeps_intros keeps_insert_if keeps_save_if keeps_same_prices; simp add: same_prices_def save_row_def)+

lemma partner_product_obtained:
  assumes "db_ok d" "partner_product Orm name k d = (Inr (p, b), d')"
  shows "price_list s d' = price_list s d \<and> p \<in> set (t_products d') \<and> prep_str Orm name = Some (p_name p)"
proof -
  obtain c where c: "prep_int Orm k = Inr c"
    using assms(2) by (auto simp: partner_product_def andThen_eq_Inr)
  let ?F = "filter (\<lambda>p. Some (p_name p) = prep_str Orm name \<and> Some (p_category p) = c) (t_products d)"
  consider "?F = []" | "?F = [p]" "d' = d"
    using assms(2) c by (auto simp: partner_product_def get_or_create_def split: list.splits)
  then show ?thesis
  proof cases
    case 1
    then obtain n i where ni: "prep_str Orm name = Some n"
      "create Orm ProductRow (\<lambda>k. p_id_update (\<lambda>_. k)) \<lparr>p_id = 0, p_name = n, p_category = i\<rparr> d = (Inr p, d')"
      using assms(2) c
      by (auto simp: partner_product_def andThen_eq_Inr str_column_def not_null_def split: option.splits)
    have "p_name p = n \<and> d' = d\<lparr>t_products := t_products d @ [p]\<rparr>"
      using ni(2) by (cases rule: insert_cases [of "ProductRow \<lparr>p_id = 0, p_name = n, p_category = i\<rparr>" d None]) (auto simp: create_def)
    then show ?thesis using ni(1) price_list_more_products [OF assms(1)] by auto
  next
    case 2
    then show ?thesis by (auto dest: filter_singletonD)
  qed
qed

lemma info_appended:
  assumes "db_ok d" "p \<in> set (t_products d)"
    and run: "create_product_info Orm s p e m pr rrc q d = (Inr x, d')"
  shows "price_list k d' = price_list k d @ (if s_id s = k then [(column_int Orm e,
    Some (p_name p), column_str Orm m, column_int Orm q, column_int Orm pr, column_int Orm rrc)] else [])"
proof -
  obtain en qn pn rn mn where vals: "prep_int Orm e = Inr (Some en)" "prep_int Orm q = Inr (Some qn)"
      "prep_int Orm pr = Inr (Some pn)" "prep_int Orm rrc = Inr (Some rn)" "prep_str Orm m = Some mn"
    and c: "create Orm ProductInfoRow (\<lambda>k. pi_id_update (\<lambda>_. k))
      \<lparr>pi_id = 0, pi_model = mn, pi_external_id = en, pi_product = p_id p, pi_shop = s_id s,
       pi_quantity = qn, pi_price = pn, pi_price_rrc = rn\<rparr> d = (Inr x, d')"
    using run by (auto simp: create_product_info_def andThen_eq_Inr str_column_def not_null_def split: option.splits)
  obtain i where "d' = d\<lparr>t_product_infos := t_product_infos d @ [x]\<rparr>"
    and x: "x = \<lparr>pi_id = i, pi_model = mn, pi_external_id = en, pi_product = p_id p, pi_shop = s_id s,
       pi_quantity = qn, pi_price = pn, pi_price_rrc = rn\<rparr>"
    using info_created [OF c] by auto
  moreover have "entry_of d x = (Some (p_name p), mn, qn, pn, rn)"
    using entry_of_found [OF assms(1,2), of x] x by simp
  ultimately show ?thesis
    using vals by (auto simp: price_list_put column_int_def column_str_def)
qed

lemma partner_good_step:
  assumes "db_ok d" "partner_good Orm s g d = (Inr u, d')"
  shows "price_list k d' = price_list k d @ (if s_id s = k then [partner_entry Orm g] else [])"
proof -
  obtain name cat p b d1 e m pr rrc q info d2 kvs where
    vals: "py_index g ''name'' = Inr name" "py_index g ''id'' = Inr e" "py_index g ''model'' = Inr m"
      "py_index g ''price'' = Inr pr" "py_index g ''price_rrc'' = Inr rrc" "py_index g ''quantity'' = Inr q"
    and p: "partner_product Orm name cat d = (Inr (p, b), d1)"
    and i: "create_product_info Orm s p e m pr rrc q d1 = (Inr info, d2)"
    and l: "for_each (partner_parameter Orm info) kvs d2 = (Inr (), d')"
    using assms(2) by (auto simp: partner_good_def andThen_eq_Inr)
  have p': "price_list k d1 = price_list k d" "p \<in> set (t_products d1)" "prep_str Orm name = Some (p_name p)"
    using partner_product_obtained [OF assms(1) p] by auto
  have "db_ok d1" using keeps_partner_parts(3) assms(1) p keeps_result by metis
  moreover have "price_list k d' = price_list k d2"
    using keeps_result [OF keeps_for_each [OF keeps_partner_prices(3)] same_prices_refl l] by (rule price_list_same)
  ultimately show ?thesis
    using info_appended [OF _ p'(2) i, of k] p' vals by (simp add: partner_entry_def good_at_def column_str_def)
qed

lemma partner_goods:
  "db_ok d \<Longrightarrow> for_each (partner_good Orm s) gs d = (Inr u, d') \<Longrightarrow>
   price_list k d' = price_list k d @ (if s_id s = k then map (partner_entry Orm) gs else [])"
proof (induction gs arbitrary: d)
  case (Cons g gs)
  then obtain d1 where d1: "partner_good Orm s g d = (Inr (), d1)" "for_each (partner_good Orm s) gs d1 = (Inr u, d')"
    by (auto simp: andThen_eq_Inr)
  moreover have "db_ok d1" using keeps_partner_parts(6) Cons.prems(1) d1(1) keeps_result by metis
  ultimately show ?case using Cons.IH partner_good_step [OF Cons.prems(1) d1(1), of k] by simp
qed simp

lemma partner_shop_obtained:
  assumes "partner_shop Orm name u d = (Inr (s, b), d')"
  shows "prep_str Orm name = Some (s_name s) \<and> s_user s = Some u \<and> s \<in> set (t_shops d')"
proof -
  let ?F = "filter (\<lambda>s. Some (s_name s) = prep_str Orm name \<and> s_user s = Some u) (t_shops d)"
  consider "?F = []" | "?F = [s]" "d' = d"
    using assms by (auto simp: partner_shop_def get_or_create_def split: list.splits)
  then show ?thesis
  proof cases
    case 1
    then obtain n where n: "prep_str Orm name = Some n"
      "create Orm ShopRow (\<lambda>k. s_id_update (\<lambda>_. k)) \<lparr>s_id = 0, s_name = n, s_url = None, s_user = Some u, s_state = True\<rparr> d = (Inr s, d')"
      using assms by (auto simp: partner_shop_def andThen_eq_Inr str_column_def not_null_def split: option.splits)
    then show ?thesis
      by (cases rule: insert_cases [of "ShopRow \<lparr>s_id = 0, s_name = n, s_url = None, s_user = Some u, s_state = True\<rparr>" d None])
        (auto simp: create_def)
  next
    case 2
    then show ?thesis by (auto dest: filter_singletonD)
  qed
qed

lemma keeps_partner_shops:
  "keeps (\<lambda>d. s \<in> set (t_shops d)) (partner_category Orm s' x)"
  "keeps (\<lambda>d. s \<in> set (t_shops d)) (partner_good Orm s' g)"
  unfolding partner_category_def link_category_def partner_good_def partner_product_def create_product_info_def
    partner_parameter_def get_or_create_parameter_def
  by (intro keeps_intros keeps_insert_if keeps_save_if; simp add: save_row_def)+

lemma keeps_partner_items:
  "keeps (\<lambda>d. t_order_items d = its) (partner_shop Orm name u)"
  "keeps (\<lambda>d. t_order_items d = its) (partner_category Orm s' x)"
  "keeps (\<lambda>d. t_order_items d = its) (partner_good Orm s' g)"
  unfolding partner_shop_def partner_category_def link_category_def partner_good_def partner_product_def
    create_product_info_def partner_parameter_def get_or_create_parameter_def
  by (intro keeps_intros keeps_insert_if keeps_save_if; simp add: save_row_def)+

lemma partner_document_spec:
  assumes "db_ok d" "partner_document Orm u data d = (Inr (), d')"
  obtains name gs goods s where "py_index data ''shop'' = Inr name"
    "py_index data ''goods'' = Inr gs" "py_iter gs = Inr goods"
    "s \<in> set (t_shops d')" "prep_str Orm name = Some (s_name s)" "s_user s = Some u"
    "price_list (s_id s) d' = map (partner_entry Orm) goods"
    "\<forall>k. k \<noteq> s_id s \<longrightarrow> price_list k d' = price_list k d"
    "t_order_items d' =
      filter (\<lambda>it. oi_info it \<notin> pi_id ` {x \<in> set (t_product_infos d). pi_shop x = s_id s}) (t_order_items d)"
proof -
  obtain name gv cs cats goods s b d1 d2 d3 n where
    name: "py_index data ''shop'' = Inr name" and gv: "py_index data ''goods'' = Inr gv" "py_iter gv = Inr goods"
    and shop: "partner_shop Orm name u d = (Inr (s, b), d1)"
    and cats: "for_each (partner_category Orm s) cats d1 = (Inr (), d2)"
    and del: "db_delete Orm ProductInfoM (map pi_id (filter (\<lambda>x. pi_shop x = s_id s) (t_product_infos d2))) d2 = (Inr n, d3)"
    and load: "for_each (partner_good Orm s) goods d3 = (Inr (), d')"
    using assms(2) by (auto simp: partner_document_def andThen_eq_Inr)
  have s: "prep_str Orm name = Some (s_name s)" "s_user s = Some u" "s \<in> set (t_shops d1)"
    using partner_shop_obtained [OF shop] by auto
  have d1: "db_ok d1" using keeps_result [OF keeps_partner_parts(1) assms(1) shop] .
  have same: "same_prices d d2"
    using keeps_result [OF keeps_for_each [OF keeps_partner_prices(2)]
        keeps_result [OF keeps_partner_prices(1) same_prices_refl shop] cats] .
  have i2: "t_order_items d2 = t_order_items d"
    using keeps_result [OF keeps_for_each [OF keeps_partner_items(2)] keeps_result [OF keeps_partner_items(1) refl shop] cats] .
  have d2: "db_ok d2" using keeps_result [OF keeps_for_each [OF keeps_partner_parts(2)] d1 cats] .
  have d3: "d3 = cascade_delete ProductInfoM (map pi_id (filter (\<lambda>x. pi_shop x = s_id s) (t_product_infos d2))) d2"
    using del delete_cascades [OF d2] by simp
  then have "db_ok d3" using db_ok_cascade_delete [OF d2] by simp
  from partner_goods [OF this load]
  have pl: "price_list k d' = (if k = s_id s then map (partner_entry Orm) goods else price_list k d)" for k
    unfolding d3 price_list_deleted [OF d2] price_list_same [OF same] by auto
  have "s \<in> set (t_shops d2)"
    using keeps_result [OF keeps_for_each [OF keeps_partner_shops(1)] s(3) cats] .
  then have "s \<in> set (t_shops d3)" unfolding d3 cascade_delete_infos [OF d2] by simp
  then have mem: "s \<in> set (t_shops d')"
    using keeps_result [OF keeps_for_each [OF keeps_partner_shops(2)] _ load] by blast
  have "t_order_items d' =
      filter (\<lambda>it. oi_info it \<notin> pi_id ` {x \<in> set (t_product_infos d). pi_shop x = s_id s}) (t_order_items d)"
    using keeps_result [OF keeps_for_each [OF keeps_partner_items(3)] refl load] i2 same
    unfolding d3 cascade_delete_infos [OF d2] by (simp add: same_prices_def)
  then show thesis using that [OF name gv mem s(1,2)] pl by simp
qed

end

end
