(* ===== verification/RefShopProps.thy ===== *)
theory RefShopProps
  imports RefContactSpec RefShopSpec RefPartnerSpec RefProps ImportProps
begin

text \<open>The properties of the contacts, the price list and the shop's views of the reference application.\<close>

section \<open>A shop with an owner\<close>

definition partner_world :: world where
  "partner_world = sample_world\<lparr>w_db := sample_db\<lparr>
     t_users := t_users sample_db @ [sample_user 3\<lparr>u_type := ShopUser\<rparr>],
     t_shops := [\<lparr>s_id = 1, s_name = ''Svyaznoy'', s_url = None, s_user = Some 3, s_state = True\<rparr>]\<rparr>\<rparr>"

definition partner_goods :: "pyval list" where
  "partner_goods = [good_of ''Galaxy'' 77 50000 3, good_of ''iPhone XR'' 4216313 60000 5]"

definition partner_services :: services where
  "partner_services = test_services\<lparr>yaml_load_full := (\<lambda>s. Inr (PDict [(PStr ''shop'', PStr ''Svyaznoy''),
     (PStr ''categories'', PList [PDict [(PStr ''id'', PInt 224), (PStr ''name'', PStr ''Smartphones'')]]),
     (PStr ''goods'', PList partner_goods)]))\<rparr>"

lemma partner_world_ok: "db_ok (w_db partner_world)"
  by (simp add: partner_world_def db_ok_def all_models_def row_ok_def refs_ok_def unique_ok_def positive_ok_def
      sample_eval)

lemma partner_user:
  "request_user (sample_request 3 kvs) (w_db partner_world) = Some (sample_user 3\<lparr>u_type := ShopUser\<rparr>)"
  by (simp add: request_user_def partner_world_def sample_eval)

section \<open>The price list\<close>

text \<open>C9: Replacing a price list. After a successful update the user, who is a shop, owns a shop with
  the name of the document whose price list is the list of the document's goods, in order; the
  lists of all other shops are as before. The order items of all users that referred to the old
  positions are gone, and only they.\<close>

theorem partner_update_replaces_prices:
  assumes "django Orm" "db_ok (w_db w)" "request_user rq (w_db w) = Some x"
    and "partner_update Orm Srv rq w = (Inr (Reply 200 Success), w')"
  shows "\<exists>url stream data name gs goods s. py_get (rq_data rq) ''url'' PNone = Inr url \<and>
    http_get Srv url = Inr stream \<and> yaml_load_full Srv stream = Inr data \<and> u_type x = ShopUser \<and>
    py_index data ''shop'' = Inr name \<and> py_index data ''goods'' = Inr gs \<and> py_iter gs = Inr goods \<and>
    s \<in> set (t_shops (w_db w')) \<and> prep_str Orm name = Some (s_name s) \<and> s_user s = Some (u_id x) \<and>
    price_list (s_id s) (w_db w') = map (partner_entry Orm) goods \<and>
    (\<forall>k. k \<noteq> s_id s \<longrightarrow> price_list k (w_db w') = price_list k (w_db w)) \<and>
    t_order_items (w_db w') = filter (\<lambda>it. oi_info it \<notin> pi_id ` {i \<in> set (t_product_infos (w_db w)). pi_shop i = s_id s})
      (t_order_items (w_db w))"
proof -
  obtain url stream data where src: "u_type x = ShopUser" "py_get (rq_data rq) ''url'' PNone = Inr url"
    "http_get Srv url = Inr stream" "yaml_load_full Srv stream = Inr data"
    and doc: "partner_document Orm (u_id x) data (w_db w) = (Inr (), w_db w')"
    using assms(3,4)
    by (auto simp: partner_update_def shops_only_def andThen_eq_Inr on_db_Inr split: if_splits sum.splits)
  show ?thesis
    by (rule django.partner_document_spec [OF assms(1,2) doc]) (use src in blast)
qed

definition partner_emptied :: database where
  "partner_emptied = w_db partner_world\<lparr>t_product_infos := [], t_product_parameters := [], t_order_items := []\<rparr>"

lemma partner_steps:
  "partner_shop sqlite (PStr ''Svyaznoy'') 3 (w_db partner_world) =
    (Inr (sample_shop\<lparr>s_user := Some 3\<rparr>, False), w_db partner_world)"
  "for_each (partner_category sqlite (sample_shop\<lparr>s_user := Some 3\<rparr>))
    [PDict [(PStr ''id'', PInt 224), (PStr ''name'', PStr ''Smartphones'')]] (w_db partner_world) = (Inr (), w_db partner_world)"
  "map pi_id (filter (\<lambda>x. pi_shop x = 1) (t_product_infos (w_db partner_world))) = [1, 2]"
  by code_simp+

lemma partner_goods_run:
  "fst (for_each (partner_good sqlite (sample_shop\<lparr>s_user := Some 3\<rparr>)) partner_goods partner_emptied) = Inr ()"
  by code_simp

lemma partner_deleted: "\<exists>n. db_delete sqlite ProductInfoM [1, 2] (w_db partner_world) = (Inr n, partner_emptied)"
  using sqlite.delete_cascades [OF partner_world_ok, of ProductInfoM "[1, 2]"] cascade_delete_infos [OF partner_world_ok, of "[1, 2]"]
  by (simp add: partner_emptied_def partner_world_def sample_world_def sample_eval)

lemma partner_run:
  "\<exists>w'. partner_update sqlite partner_services (sample_request 3 [(PStr ''url'', PStr ''u'')]) partner_world =
    (Inr (Reply 200 Success), w')"
proof -
  obtain n where del: "db_delete sqlite ProductInfoM [1, 2] (w_db partner_world) = (Inr n, partner_emptied)" using partner_deleted ..
  obtain d' where goods: "for_each (partner_good sqlite (sample_shop\<lparr>s_user := Some 3\<rparr>)) partner_goods partner_emptied = (Inr (), d')"
    using partner_goods_run by (metis prod.collapse)
  let ?doc = "PDict [(PStr ''shop'', PStr ''Svyaznoy''),
     (PStr ''categories'', PList [PDict [(PStr ''id'', PInt 224), (PStr ''name'', PStr ''Smartphones'')]]),
     (PStr ''goods'', PList partner_goods)]"
  have "partner_document sqlite 3 ?doc (w_db partner_world) = (Inr (), d')"
    using del goods partner_steps by (simp add: partner_document_def sample_shop_def)
  moreover have "sample_request 3 kvs = \<lparr>rq_user = Some 3, rq_is_staff = False, rq_data = PDict kvs,
      rq_form = False, rq_query = [], rq_now = 200\<rparr>" for kvs by (simp add: sample_request_def)
  moreover have "u_type (sample_user 3\<lparr>u_type := ShopUser\<rparr>) = ShopUser" "u_id (sample_user 3\<lparr>u_type := ShopUser\<rparr>) = 3"
    by (simp_all add: sample_user_def)
  ultimately show ?thesis
    using partner_user [of "[(PStr ''url'', PStr ''u'')]"]
    by (simp add: partner_update_def shops_only_def partner_services_def test_services_def)
qed

theorem partner_update_replaces_prices_witness:
  "case partner_update sqlite partner_services (sample_request 3 [(PStr ''url'', PStr ''u'')]) partner_world of (r, w') \<Rightarrow>
     r = Inr (Reply 200 Success) \<and>
     (\<exists>s \<in> set (t_shops (w_db w')). s_name s = ''Svyaznoy'' \<and> s_user s = Some 3 \<and>
       price_list (s_id s) (w_db w') = map (partner_entry sqlite) partner_goods)"
proof -
  let ?rq = "sample_request 3 [(PStr ''url'', PStr ''u'')]"
  obtain w' where run: "partner_update sqlite partner_services ?rq partner_world = (Inr (Reply 200 Success), w')"
    using partner_run ..
  have doc: "yaml_load_full partner_services stream = Inr (PDict [(PStr ''shop'', PStr ''Svyaznoy''),
      (PStr ''categories'', PList [PDict [(PStr ''id'', PInt 224), (PStr ''name'', PStr ''Smartphones'')]]),
      (PStr ''goods'', PList partner_goods)])" for stream by (simp add: partner_services_def)
  obtain url stream data name gs goods s where "yaml_load_full partner_services stream = Inr data"
    "py_index data ''shop'' = Inr name" "py_index data ''goods'' = Inr gs" "py_iter gs = Inr goods"
    and s: "s \<in> set (t_shops (w_db w'))" "prep_str sqlite name = Some (s_name s)"
      "s_user s = Some (u_id (sample_user 3\<lparr>u_type := ShopUser\<rparr>))"
      "price_list (s_id s) (w_db w') = map (partner_entry sqlite) goods"
    using partner_update_replaces_prices [OF sqlite.django_axioms partner_world_ok partner_user run] by blast
  then have "goods = partner_goods" "name = PStr ''Svyaznoy''" by (auto simp: doc)
  then show ?thesis using s by (auto simp: run sqlite.prep_str_PStr sample_user_1)
qed

section \<open>The orders of a shop\<close>



text \<open>Switching the shop. The request changes the state of the user's shop and of no other row,
  to the truth value the text denotes; a text that denotes none is refused without a change.\<close>

theorem partner_state_post_exact:
  assumes "django Orm" "db_ok (w_db w)" "request_user rq (w_db w) = Some x" "u_type x = ShopUser"
    and "py_get (rq_data rq) ''state'' PNone = Inr v" "py_true v"
  shows "partner_state_post Orm rq w = (case strtobool v of
      Inl e \<Rightarrow> (if e = ValueError then Inr (Reply 200 (Failure State_invalid)) else Inl e, w)
    | Inr b \<Rightarrow> (Inr (Reply 200 Success), w\<lparr>w_db := w_db w\<lparr>t_shops :=
        map (\<lambda>s. if s_user s = Some (u_id x) then s\<lparr>s_state := b\<rparr> else s) (t_shops (w_db w))\<rparr>\<rparr>))"
  by (rule django.partner_state_post_spec [OF assms])

theorem partner_state_post_exact_witness:
  "map s_state (t_shops (w_db (snd (partner_state_post sqlite (sample_request 3 [(PStr ''state'', PStr ''Off'')]) partner_world)))) = [False]"
proof -
  have "strtobool (PStr ''Off'') = Inr False" by code_simp
  then show ?thesis
    using partner_state_post_exact [OF sqlite.django_axioms partner_world_ok partner_user, of "[(PStr ''state'', PStr ''Off'')]"]
    by (simp add: sample_request_def sample_user_def partner_world_def)
qed

text \<open>C35: Two ways to add up an order. For every order with items the sum that the reference
  application has the database compute equals what the loop of \<^verbatim>\<open>OrderHistorySerializer\<close>
  returns; for an order without items it is NULL where the loop gives 0.\<close>

theorem total_sum_equals_total_price:
  assumes "db_ok d"
  shows "\<exists>n. order_total_price b d = (Inr n, d) \<and> (items_of (o_id b) d = [] \<longrightarrow> n = 0) \<and>
    total_sum d (items_of (o_id b) d) = (if items_of (o_id b) d = [] then PNone else PInt n)"
  using total_sum_order_price [OF assms] order_total_price_eq [OF assms]
  by (intro exI [of _ "order_price b d"]) (simp add: order_price_def)

theorem total_sum_equals_total_price_witness:
  "total_sum sample_db (items_of 2 sample_db) = PInt 195000"
proof -
  let ?b = "\<lparr>o_id = 2, o_user = 2, o_dt = 50, o_state = Confirmed, o_contact = Some 2\<rparr>"
  have "order_total_price ?b sample_db = (Inr 195000, sample_db)" by code_simp
  moreover have "items_of 2 sample_db \<noteq> []" by (simp add: items_of_def sample_db_def)
  ultimately show ?thesis using total_sum_equals_total_price [OF sample_db_ok, of ?b] by auto
qed

section \<open>Contacts\<close>

text \<open>C27: Deleting contacts. Exactly the user's own contacts among the given ids go, with the orders
  sent to them, placed ones included, and the items of those orders; the reply counts all these
  rows.\<close>

theorem ref_contact_delete_exact:
  assumes "django Orm" "db_ok (w_db w)" "request_user rq (w_db w) = Some x"
    and "py_get (rq_data rq) ''items'' PNone = Inr (PStr s)" "filter isdigit (split_comma s) \<noteq> []"
  shows "ref_contact_delete Orm rq w =
    (let ks = own_contacts (u_id x) s (w_db w) in
     (Inr (Reply 200 (Success_count (rows_with_contacts ks (w_db w)))), w\<lparr>w_db := without_contacts ks (w_db w)\<rparr>))"
  by (rule django.ref_contact_delete_spec [OF assms])

theorem ref_contact_delete_exact_witness:
  "case ref_contact_delete sqlite (sample_request 2 [(PStr ''items'', PStr ''1,2'')]) sample_world of (r, w') \<Rightarrow>
     r = Inr (Reply 200 (Success_count 3)) \<and> map ct_id (t_contacts (w_db w')) = [1] \<and> map o_id (t_orders (w_db w')) = [1]"
proof -
  have user: "request_user (sample_request 2 kvs) (w_db sample_world) = Some (sample_user 2)" for kvs
    by (simp add: request_user_def sample_world_def sample_eval)
  have ids: "filter isdigit (split_comma ''1,2'') \<noteq> []" "listed_ids ''1,2'' = [1, 2]" by code_simp+
  have "own_contacts 2 ''1,2'' sample_db = [2]" by (simp add: own_contacts_def ids(2) sample_eval)
  moreover have "{b \<in> set (t_orders sample_db). sent_to [2] b} =
      {\<lparr>o_id = 2, o_user = 2, o_dt = 50, o_state = Confirmed, o_contact = Some 2\<rparr>}"
    by (auto simp: sent_to_def sample_db_def)
  then have "rows_with_contacts [2] sample_db = 3"
    by (simp add: rows_with_contacts_def) (simp add: sent_to_def sample_db_def sample_contact_def)
  ultimately show ?thesis
    using ref_contact_delete_exact [OF sqlite.django_axioms _ user, of "[(PStr ''items'', PStr ''1,2'')]" "''1,2''"] ids(1)
    by (simp add: sample_in_world sample_db_ok sample_user_1 without_contacts_def sent_to_def Let_def)
      (simp add: sample_request_def sample_db_def sample_contact_def)
qed

text \<open>C28: Changing a contact. Whatever the body, at most one contact changes, it was the user's own and
  keeps its key, and only together with the reply that reports success. Its new owner is the user
  the body names, if it names one: the owner is a writable field.\<close>

theorem ref_contact_put_own:
  assumes "django Orm" "db_ok (w_db w)" "request_user rq (w_db w) = Some x" "ref_contact_put Orm Drf rq w = (r, w')"
  shows "r \<noteq> Inr (Reply 200 Success) \<and> w' = w \<or>
    (\<exists>c c' kvs. r = Inr (Reply 200 Success) \<and> c \<in> set (t_contacts (w_db w)) \<and> ct_user c = u_id x \<and> ct_id c' = ct_id c \<and>
       form_values rq = PDict kvs \<and>
       (case map_of kvs (PStr ''user'') of
          None \<Rightarrow> ct_user c' = u_id x
        | Some v \<Rightarrow> prep_int Orm v = Inr (Some (ct_user c')) \<and> ct_user c' \<in> set (pks UserM (w_db w))) \<and>
       w' = w\<lparr>w_db := w_db w\<lparr>t_contacts := replace_by ct_id c' (t_contacts (w_db w))\<rparr>\<rparr>)"
proof (cases rule: django.ref_contact_put_cases [OF assms])
  case 1
  then show ?thesis by simp
next
  case (2 c kvs g)
  have "case map_of kvs (PStr ''user'') of None \<Rightarrow> ct_user (g c) = u_id x
      | Some v \<Rightarrow> prep_int Orm v = Inr (Some (ct_user (g c))) \<and> ct_user (g c) \<in> set (pks UserM (w_db w))"
    using contact_fields_owner [OF 2(5), of c] 2(3) by (simp split: option.splits)
  then show ?thesis using 2 by blast
qed

theorem ref_contact_put_own_witness:
  "map ct_user (t_contacts (w_db (snd (ref_contact_put sqlite rest_impl
     (sample_request 1 [(PStr ''id'', PStr ''1''), (PStr ''user'', PInt 2)]) sample_world)))) = [2, 2]"
proof -
  let ?rq = "sample_request 1 [(PStr ''id'', PStr ''1''), (PStr ''user'', PInt 2)]"
  have "fst (ref_contact_put sqlite rest_impl ?rq sample_world) = Inr (Reply 200 Success)" by code_simp
  then obtain w' where run: "ref_contact_put sqlite rest_impl ?rq sample_world = (Inr (Reply 200 Success), w')"
    by (metis prod.collapse)
  have form: "form_values ?rq = PDict [(PStr ''id'', PStr ''1''), (PStr ''user'', PInt 2)]"
    by (simp add: form_values_def sample_request_def)
  show ?thesis
    using ref_contact_put_own [OF sqlite.django_axioms _ sample_user_1(1) run] form
    by (auto simp: run sample_in_world sample_db_ok sqlite.prep_int_PInt sample_user_1 replace_by_def)
      (auto simp: sample_db_def sample_contact_def)
qed

end
