(* ===== verification/RefSystem.thy ===== *)
theory RefSystem
  imports System RefPartnerSpec RefContactSpec RefShopSpec RefAccountSpec
begin

text \<open>
  The reference application as one system: the routes of its \<^verbatim>\<open>urls.py\<close>, token authentication, the
  dispatch to the views, and the steps that requests and \<^verbatim>\<open>createsuperuser\<close> make. \<open>ref_inv N A M d0\<close> is
  the invariant every view keeps: the schema, one basket per user, every user of \<open>d0\<close> with the same
  rights (and, unless \<open>A\<close>, the same activity), the tables in \<open>M\<close> untouched, and no order new or
  changed that does not satisfy \<open>N\<close>.
\<close>

section \<open>Routes\<close>

datatype ref_view =
    PartnerUpdate | PartnerState | PartnerOrders | RegisterAccount | ConfirmAccount | AccountDetails
  | ContactView | LoginAccount | ResetPasswordRequestToken | ResetPasswordConfirm | CategoryView
  | ShopView | ProductInfoView | BasketView | OrderView

definition ref_urlpatterns :: "(string \<times> ref_view) list" where
  "ref_urlpatterns =
     [(''partner/update'', PartnerUpdate), (''partner/state'', PartnerState), (''partner/orders'', PartnerOrders),
      (''user/register'', RegisterAccount), (''user/register/confirm'', ConfirmAccount),
      (''user/details'', AccountDetails), (''user/contact'', ContactView), (''user/login'', LoginAccount),
      (''user/password_reset'', ResetPasswordRequestToken), (''user/password_reset/confirm'', ResetPasswordConfirm),
      (''categories'', CategoryView), (''shops'', ShopView), (''products'', ProductInfoView),
      (''basket'', BasketView), (''order'', OrderView)]"

definition ref_root_urlpatterns :: "(string \<times> ref_view) list" where
  "ref_root_urlpatterns = map (\<lambda>(p, v). (''/api/v1/'' @ p, v)) ref_urlpatterns"

text \<open>
  The packages behind the views: \<^verbatim>\<open>TokenAuthentication\<close>, which \<^verbatim>\<open>settings.py\<close> asks for, makes the
  user of a request from the key in its header; \<^verbatim>\<open>django_rest_passwordreset\<close> brings two views.
\<close>

record packages =
  token_user :: "string option \<Rightarrow> world \<Rightarrow> exn + int option"
  reset_password_request_token :: "request \<Rightarrow> (world, ref_response) comp"
  reset_password_confirm :: "request \<Rightarrow> (world, ref_response) comp"

fun ref_handler ::
  "orm \<Rightarrow> drf \<Rightarrow> services \<Rightarrow> packages \<Rightarrow> ref_view \<Rightarrow> http_method \<Rightarrow> request \<Rightarrow> (world, ref_response) comp option" where
  "ref_handler Orm Drf Srv Pkg PartnerUpdate POST rq = Some (partner_update Orm Srv rq)"
| "ref_handler Orm Drf Srv Pkg PartnerState GET rq = Some (partner_state_get rq)"
| "ref_handler Orm Drf Srv Pkg PartnerState POST rq = Some (partner_state_post Orm rq)"
| "ref_handler Orm Drf Srv Pkg PartnerOrders GET rq = Some (partner_orders rq)"
| "ref_handler Orm Drf Srv Pkg RegisterAccount POST rq = Some (register_account Orm Drf Srv rq)"
| "ref_handler Orm Drf Srv Pkg ConfirmAccount POST rq = Some (confirm_account Orm Srv rq)"
| "ref_handler Orm Drf Srv Pkg AccountDetails GET rq = Some (account_get rq)"
| "ref_handler Orm Drf Srv Pkg AccountDetails POST rq = Some (account_post Orm Drf Srv rq)"
| "ref_handler Orm Drf Srv Pkg ContactView GET rq = Some (ref_contact_list rq)"
| "ref_handler Orm Drf Srv Pkg ContactView POST rq = Some (ref_contact_post Orm Drf rq)"
| "ref_handler Orm Drf Srv Pkg ContactView DELETE rq = Some (ref_contact_delete Orm rq)"
| "ref_handler Orm Drf Srv Pkg ContactView PUT rq = Some (ref_contact_put Orm Drf rq)"
| "ref_handler Orm Drf Srv Pkg LoginAccount POST rq = Some (login_account Srv rq)"
| "ref_handler Orm Drf Srv Pkg ResetPasswordRequestToken POST rq = Some (reset_password_request_token Pkg rq)"
| "ref_handler Orm Drf Srv Pkg ResetPasswordConfirm POST rq = Some (reset_password_confirm Pkg rq)"
| "ref_handler Orm Drf Srv Pkg CategoryView GET rq = Some (category_list Srv rq)"
| "ref_handler Orm Drf Srv Pkg ShopView GET rq = Some (shop_list Srv rq)"
| "ref_handler Orm Drf Srv Pkg ProductInfoView GET rq = Some (on_db (product_search Orm rq))"
| "ref_handler Orm Drf Srv Pkg BasketView GET rq = Some (ref_basket_get rq)"
| "ref_handler Orm Drf Srv Pkg BasketView POST rq = Some (ref_basket_post Orm Drf Srv rq)"
| "ref_handler Orm Drf Srv Pkg BasketView DELETE rq = Some (ref_basket_delete Orm rq)"
| "ref_handler Orm Drf Srv Pkg BasketView PUT rq = Some (ref_basket_put Orm Srv rq)"
| "ref_handler Orm Drf Srv Pkg OrderView GET rq = Some (ref_order_get rq)"
| "ref_handler Orm Drf Srv Pkg OrderView POST rq = Some (ref_order_post Orm Srv rq)"
| "ref_handler Orm Drf Srv Pkg v m rq = None"

text \<open>Authentication precedes the choice of the method.\<close>

definition ref_serve ::
  "orm \<Rightarrow> drf \<Rightarrow> services \<Rightarrow> packages \<Rightarrow> string option \<Rightarrow> string \<Rightarrow> http_method \<Rightarrow> request \<Rightarrow> (world, ref_response) comp"
  where
  "ref_serve Orm Drf Srv Pkg key path m rq = (case map_of ref_root_urlpatterns path of
       None \<Rightarrow> raise Http404
     | Some v \<Rightarrow>
         andThen (query (token_user Pkg key)) (\<lambda>user.
         andThen (lift_exn user) (\<lambda>user.
         case ref_handler Orm Drf Srv Pkg v m (rq\<lparr>rq_user := user\<rparr>) of
           None \<Rightarrow> raise MethodNotAllowed
         | Some h \<Rightarrow> h)))"

inductive ref_step :: "orm \<Rightarrow> drf \<Rightarrow> services \<Rightarrow> packages \<Rightarrow> world \<Rightarrow> world \<Rightarrow> bool" for Orm Drf Srv Pkg where
  ref_request: "ref_serve Orm Drf Srv Pkg key path m rq w = (r, w') \<Longrightarrow> ref_step Orm Drf Srv Pkg w w'"
| ref_superuser: "ref_create_superuser Orm Srv now email password active extra w = (r, w') \<Longrightarrow>
    ref_step Orm Drf Srv Pkg w w'"

abbreviation ref_reachable :: "orm \<Rightarrow> drf \<Rightarrow> services \<Rightarrow> packages \<Rightarrow> world \<Rightarrow> world \<Rightarrow> bool" where
  "ref_reachable Orm Drf Srv Pkg \<equiv> (ref_step Orm Drf Srv Pkg)\<^sup>*\<^sup>*"

section \<open>What holds in every state\<close>

text \<open>Every token belongs to one active user.\<close>

definition tokens_ok :: "world \<Rightarrow> bool" where
  "tokens_ok w \<longleftrightarrow> distinct (map fst (w_tokens w)) \<and> distinct (map snd (w_tokens w)) \<and>
     list_all (\<lambda>t. list_ex (\<lambda>x. u_id x = fst t \<and> u_is_active x) (t_users (w_db w))) (w_tokens w)"

definition ref_good :: "world \<Rightarrow> bool" where
  "ref_good w \<longleftrightarrow> db_ok (w_db w) \<and> single_baskets (w_db w) \<and> tokens_ok w"

definition rights :: "user \<Rightarrow> user_type \<times> bool \<times> bool" where
  "rights x = (u_type x, u_is_staff x, u_is_superuser x)"

text \<open>How the activity of a user may change: not at all, or with \<open>A\<close> from inactive to active.\<close>

definition may_become :: "bool \<Rightarrow> bool \<Rightarrow> bool \<Rightarrow> bool" where
  "may_become A b b' \<longleftrightarrow> b' = b \<or> A \<and> \<not> b"

lemma may_become_refl [simp]: "may_become A b b"
  by (simp add: may_become_def)

lemma may_become_trans: "may_become A b1 b2 \<Longrightarrow> may_become A b2 b3 \<Longrightarrow> may_become A b1 b3"
  by (auto simp: may_become_def)

definition users_kept :: "bool \<Rightarrow> database \<Rightarrow> database \<Rightarrow> bool" where
  "users_kept A d d' \<longleftrightarrow> (\<forall>x \<in> set (t_users d). \<exists>x' \<in> set (t_users d').
     u_id x' = u_id x \<and> rights x' = rights x \<and> may_become A (u_is_active x) (u_is_active x'))"

lemma users_kept_same: "t_users d' = t_users d \<Longrightarrow> users_kept A d d'"
  by (auto simp: users_kept_def)

lemma users_kept_trans: "users_kept A d1 d2 \<Longrightarrow> users_kept A d2 d3 \<Longrightarrow> users_kept A d1 d3"
  unfolding users_kept_def using may_become_trans by metis

lemma users_kept_more: "users_kept A d0 d \<Longrightarrow> set (t_users d) \<subseteq> set (t_users d') \<Longrightarrow> users_kept A d0 d'"
  unfolding users_kept_def by blast

lemma users_kept_replace:
  assumes "x \<in> set (t_users d)" "distinct (pks UserM d)" "u_id y = u_id x" "rights y = rights x"
    and "may_become A (u_is_active x) (u_is_active y)"
  shows "users_kept A d (d\<lparr>t_users := replace_by u_id y (t_users d)\<rparr>)"
  unfolding users_kept_def
proof
  fix z assume z: "z \<in> set (t_users d)"
  show "\<exists>x' \<in> set (t_users (d\<lparr>t_users := replace_by u_id y (t_users d)\<rparr>)).
      u_id x' = u_id z \<and> rights x' = rights z \<and> may_become A (u_is_active z) (u_is_active x')"
  proof (cases "u_id z = u_id x")
    case True
    then have "z = x" using assms(1,2) z by (auto simp: distinct_map inj_on_def)
    then show ?thesis using assms z by (auto simp: replace_by_def)
  next
    case False
    then show ?thesis using assms(3) z by (auto simp: replace_by_def)
  qed
qed

definition ref_inv :: "(order_t \<Rightarrow> bool) \<Rightarrow> bool \<Rightarrow> model set \<Rightarrow> database \<Rightarrow> database \<Rightarrow> bool" where
  "ref_inv N A M d0 d \<longleftrightarrow> db_ok d \<and> single_baskets d \<and> users_kept A d0 d \<and> frozen M d0 d \<and>
     (\<forall>b \<in> set (t_orders d). b \<in> set (t_orders d0) \<or> N b)"

lemma ref_invD: "ref_inv N A M d0 d \<Longrightarrow> db_ok d" "ref_inv N A M d0 d \<Longrightarrow> single_baskets d"
  by (simp_all add: ref_inv_def)

named_theorems ref_intros \<open>operations of the reference application that keep \<open>ref_inv\<close>\<close>

lemma ref_inv_quiet:
  assumes "ref_inv N A M d0 d" "db_ok d'" "t_orders d' = t_orders d" "t_users d' = t_users d"
    and "\<And>m. m \<in> M \<Longrightarrow> table m d' = table m d"
  shows "ref_inv N A M d0 d'"
  using assms by (simp add: ref_inv_def single_baskets_def users_kept_def frozen_def)

lemma keeps_form: "(\<And>kvs. keeps I (f kvs)) \<Longrightarrow> keeps I m \<Longrightarrow>
    keeps I (case p of (True, PDict kvs) \<Rightarrow> f kvs | _ \<Rightarrow> m)"
  by (cases p; cases "fst p"; cases "snd p") simp_all

lemmas ref_unfold = ref_contact_post_def ref_contact_put_def ref_contact_delete_def
  ref_basket_post_def ref_basket_put_def ref_basket_delete_def ref_order_post_def new_order_signal_def Let_def

context django
begin

lemma ref_insert [ref_intros]:
  assumes "model_of r \<notin> M" "model_of r \<noteq> OrderM"
  shows "keeps (ref_inv N A M d0) (db_insert Orm p r)"
proof (rule keepsI)
  fix d assume d: "ref_inv N A M d0 d"
  show "ref_inv N A M d0 (snd (db_insert Orm p r d))"
  proof (cases rule: insert_cases [of r d p])
    case (1 k)
    let ?d = "put_row (with_pk k r) d"
    have "db_ok ?d" using db_ok_put_row [OF ref_invD(1) [OF d], of "with_pk k r"] 1 by simp
    moreover have "t_orders ?d = t_orders d" "set (t_users d) \<subseteq> set (t_users ?d)"
      using assms(2) by (cases r; auto)+
    ultimately show ?thesis
      using d assms(1) 1 users_kept_more [of A d0 d ?d]
      by (auto simp: ref_inv_def single_baskets_def frozen_def table_put_row)
  qed (use d in simp)
qed

lemma ref_save [ref_intros]:
  assumes "model_of r \<notin> M" "model_of r \<notin> {OrderM, UserM}"
  shows "keeps (ref_inv N A M d0) (db_save Orm r)"
proof (rule keepsI)
  fix d assume d: "ref_inv N A M d0 d"
  show "ref_inv N A M d0 (snd (db_save Orm r d))"
  proof (cases rule: save_cases [of r d])
    case 1
    have "db_ok (save_row r d)" using db_ok_save_row [OF ref_invD(1) [OF d]] 1 by simp
    then have "ref_inv N A M d0 (save_row r d)"
    proof (rule ref_inv_quiet [OF d])
      show "t_orders (save_row r d) = t_orders d" "t_users (save_row r d) = t_users d"
        using assms(2) by (cases r; simp add: save_row_def)+
      show "table m (save_row r d) = table m d" if "m \<in> M" for m
        using assms(1) that by (auto simp: save_row_def table_put_row table_replace_row)
    qed
    then show ?thesis using 1 by simp
  qed (use d in simp)
qed

lemma filter_basket_replaced:
  "o_state b \<noteq> Basket \<Longrightarrow> filter (\<lambda>x. o_state x = Basket) (map (\<lambda>y. if o_id y = k then b else y) xs) =
     filter (\<lambda>x. o_id x \<noteq> k \<and> o_state x = Basket) xs"
  by (induction xs) simp_all

text \<open>Saving an order that is no basket.\<close>

lemma ref_save_order [ref_intros]:
  assumes "OrderM \<notin> M" "o_state b \<noteq> Basket" "N b"
  shows "keeps (ref_inv N A M d0) (db_save Orm (OrderRow b))"
proof (rule keepsI)
  fix d assume d: "ref_inv N A M d0 d"
  let ?d = "save_row (OrderRow b) d"
  show "ref_inv N A M d0 (snd (db_save Orm (OrderRow b) d))"
  proof (cases rule: save_cases [of "OrderRow b" d])
    case 1
    have ok: "db_ok ?d" using db_ok_save_row [OF ref_invD(1) [OF d]] 1 by simp
    have "filter (\<lambda>x. o_state x = Basket) (t_orders ?d) =
        (if o_id b \<in> set (pks OrderM d) then filter (\<lambda>x. o_id x \<noteq> o_id b \<and> o_state x = Basket) (t_orders d)
         else filter (\<lambda>x. o_state x = Basket) (t_orders d))"
      using filter_basket_replaced [OF assms(2)] assms(2) by (simp add: save_row_def replace_by_def)
    moreover have "distinct (map o_user (filter (\<lambda>x. o_id x \<noteq> o_id b \<and> o_state x = Basket) (t_orders d)))"
      using ref_invD(2) [OF d] distinct_map_filter [of o_user "filter (\<lambda>x. o_state x = Basket) (t_orders d)" "\<lambda>x. o_id x \<noteq> o_id b"]
      by (simp add: single_baskets_def conj_commute)
    ultimately have "single_baskets ?d" using ref_invD(2) [OF d] by (simp add: single_baskets_def)
    moreover have "t_users ?d = t_users d" by (simp add: save_row_def)
    moreover have "table m ?d = table m d" if "m \<in> M" for m
      using assms(1) that unfolding save_row_def by (auto simp: table_put_row table_replace_row simp del: put_row.simps replace_row.simps)
    moreover have "set (t_orders ?d) \<subseteq> insert b (set (t_orders d))" by (auto simp: save_row_def replace_by_def)
    ultimately show ?thesis
      using 1 ok d assms(3) by (auto simp: ref_inv_def users_kept_def frozen_def)
  qed (use d in simp)
qed

text \<open>A new basket, where there is none.\<close>

lemma ref_basket [ref_intros]:
  assumes "OrderM \<notin> M" "\<And>b. o_user b = u \<Longrightarrow> o_state b = Basket \<Longrightarrow> N b"
  shows "keeps (ref_inv N A M d0) (get_or_create_basket Orm u now)"
proof (rule keepsI)
  fix d assume d: "ref_inv N A M d0 d"
  let ?b = "\<lparr>o_id = 0, o_user = u, o_dt = now, o_state = Basket, o_contact = None\<rparr>"
  show "ref_inv N A M d0 (snd (get_or_create_basket Orm u now d))"
  proof (cases "baskets u d = []")
    case False
    then have "snd (get_or_create_basket Orm u now d) = d"
      by (auto simp: get_or_create_basket_def get_or_create_def andThen_def split: list.splits prod.splits)
    then show ?thesis using d by simp
  next
    case none: True
    show ?thesis
    proof (cases rule: insert_cases [of "OrderRow ?b" d None])
      case (1 k)
      let ?d = "put_row (with_pk k (OrderRow ?b)) d"
      have "db_ok ?d" using db_ok_put_row [OF ref_invD(1) [OF d], of "OrderRow (?b\<lparr>o_id := k\<rparr>)"] 1 by simp
      moreover have "single_baskets ?d"
        using single_baskets_add [OF ref_invD(2) [OF d], of "?b\<lparr>o_id := k\<rparr>"] none by simp
      moreover have "table m ?d = table m d" if "m \<in> M" for m
        using assms(1) that by (cases m) auto
      ultimately show ?thesis
        using 1 none d by (simp add: assms(2) get_or_create_basket_def create_def ref_inv_def users_kept_def frozen_def)
    next
      case 2
      then show ?thesis using none d by (simp add: get_or_create_basket_def create_def)
    qed
  qed
qed


text \<open>The deletes that the views issue.\<close>

lemma ref_delete:
  assumes "\<And>d. db_ok d \<Longrightarrow> t_users (cascade_delete m ks d) = t_users d \<and>
      (\<exists>P. t_orders (cascade_delete m ks d) = filter P (t_orders d)) \<and>
      (\<forall>m' \<in> M. table m' (cascade_delete m ks d) = table m' d)"
  shows "keeps (ref_inv N A M d0) (db_delete Orm m ks)"
proof (rule keepsI)
  fix d assume d: "ref_inv N A M d0 d"
  let ?d = "cascade_delete m ks d"
  obtain P where P: "t_users ?d = t_users d" "t_orders ?d = filter P (t_orders d)" "\<forall>m' \<in> M. table m' ?d = table m' d"
    using assms [OF ref_invD(1) [OF d]] by blast
  have "single_baskets ?d"
    using ref_invD(2) [OF d] distinct_map_filter [of o_user "filter (\<lambda>x. o_state x = Basket) (t_orders d)" P]
    by (simp add: single_baskets_def P filter_filter conj_commute)
  then have "ref_inv N A M d0 ?d"
    using d P db_ok_cascade_delete [OF ref_invD(1) [OF d], of m ks]
    by (auto simp: ref_inv_def users_kept_def frozen_def)
  then show "ref_inv N A M d0 (snd (db_delete Orm m ks d))" by (simp add: delete_cascades ref_invD(1) [OF d])
qed

lemma ref_delete_leaf [ref_intros]:
  assumes "leaf m" "m \<notin> M"
  shows "keeps (ref_inv N A M d0) (db_delete Orm m ks)"
proof (rule ref_delete)
  fix d assume ok: "db_ok d"
  have "m \<notin> {UserM, OrderM}" using assms(1) by (auto simp: leaf_def)
  then have "t_users (filter_table m P d) = t_users d \<and> t_orders (filter_table m P d) = t_orders d" for P
    by (cases m) simp_all
  then have "t_users (cascade_delete m ks d) = t_users d \<and> t_orders (cascade_delete m ks d) = t_orders d"
    by (simp add: cascade_delete_leaf [OF ok assms(1)])
  moreover have "t_orders d = filter (\<lambda>_. True) (t_orders d)" by simp
  ultimately show "t_users (cascade_delete m ks d) = t_users d \<and>
      (\<exists>P. t_orders (cascade_delete m ks d) = filter P (t_orders d)) \<and>
      (\<forall>m' \<in> M. table m' (cascade_delete m ks d) = table m' d)"
    using assms(2) by (metis cascade_delete_leaf [OF ok assms(1)] table_filter_table)
qed

lemma ref_delete_contacts [ref_intros]:
  assumes "M \<inter> {ContactM, OrderM, OrderItemM} = {}"
  shows "keeps (ref_inv N A M d0) (db_delete Orm ContactM ks)"
proof (rule ref_delete)
  fix d assume ok: "db_ok d"
  have "table m (without_contacts ks d) = table m d" if "m \<in> M" for m
    using assms that by (cases m) (auto simp: without_contacts_def)
  then show "t_users (cascade_delete ContactM ks d) = t_users d \<and>
      (\<exists>P. t_orders (cascade_delete ContactM ks d) = filter P (t_orders d)) \<and>
      (\<forall>m' \<in> M. table m' (cascade_delete ContactM ks d) = table m' d)"
    by (auto simp: cascade_delete_contacts [OF ok] without_contacts_def)
qed

lemma ref_delete_infos [ref_intros]:
  assumes "M = {}"
  shows "keeps (ref_inv N A M d0) (db_delete Orm ProductInfoM ks)"
proof (rule ref_delete)
  fix d assume ok: "db_ok d"
  have "\<exists>P. t_orders d = filter P (t_orders d)" by (rule exI [of _ "\<lambda>_. True"]) simp
  then show "t_users (cascade_delete ProductInfoM ks d) = t_users d \<and>
      (\<exists>P. t_orders (cascade_delete ProductInfoM ks d) = filter P (t_orders d)) \<and>
      (\<forall>m' \<in> M. table m' (cascade_delete ProductInfoM ks d) = table m' d)"
    unfolding cascade_delete_infos [OF ok] using assms by auto
qed

section \<open>The views\<close>

lemma reads_ref_order_data: "reads (ref_order_data x)"
  unfolding ref_order_data_def
  by (rule readsI) (intro keeps_intros reads_keeps_any [OF reads_ref_order_item_data])

lemma reads_product_search: "reads (product_search Orm rq)"
  unfolding product_search_def by (intro reads_intros)

lemma ref_reads [ref_intros]:
  "keeps I (account_get rq)" "keeps I (ref_contact_list rq)" "keeps I (category_list Srv rq)"
  "keeps I (shop_list Srv rq)" "keeps (in_db J) (partner_state_get rq)" "keeps (in_db J) (partner_orders rq)"
  "keeps J (product_search Orm rq)" "keeps (in_db J) (ref_basket_get rq)" "keeps (in_db J) (ref_order_get rq)"
  unfolding account_get_def ref_contact_list_def category_list_def shop_list_def listed_page_def partner_state_get_def
    partner_orders_def ref_basket_get_def ref_order_get_def
  by (intro keeps_intros reads_keeps_any [OF reads_ref_order_data] reads_keeps_any [OF reads_product_search])+

text \<open>Baskets, orders and contacts do not touch what the shops offer.\<close>

lemma ref_add_items [ref_intros]: "OrderItemM \<notin> M \<Longrightarrow> keeps (ref_inv N A M d0) (add_items Orm Drf b n items)"
proof (induction items arbitrary: n)
  case Nil
  show ?case unfolding add_items.simps by (rule keeps_ret)
next
  case (Cons v vs)
  have "keeps (ref_inv N A M d0) (insert_item Orm x)" for x
    unfolding insert_item_def by (intro keeps_intros ref_intros) (use Cons.prems in simp_all)
  with Cons show ?case
    unfolding add_items.simps by (intro keeps_dict keeps_intros)
qed

lemma ref_set_items [ref_intros]:
  "OrderItemM \<notin> M \<Longrightarrow> keeps (ref_inv N A M d0) (set_item_quantity Orm b n v)"
  unfolding set_item_quantity_def
  by (intro keeps_intros) (auto split: pyval.splits intro!: keeps_intros ref_intros)

lemma ref_contacts:
  assumes "ContactM \<notin> M" "OrderM \<notin> M" "OrderItemM \<notin> M"
  shows "keeps (in_db (ref_inv N A M d0)) (ref_contact_post Orm Drf rq)"
    "keeps (in_db (ref_inv N A M d0)) (ref_contact_put Orm Drf rq)"
    "keeps (in_db (ref_inv N A M d0)) (ref_contact_delete Orm rq)"
  unfolding ref_unfold
  by (intro keeps_form keeps_list keeps_sum keeps_intros keeps_on_db ref_intros; (use assms in \<open>simp add: leaf_def\<close>))+

lemma ref_baskets:
  assumes "OrderM \<notin> M" "OrderItemM \<notin> M" "\<And>b. rq_user rq = Some (o_user b) \<Longrightarrow> o_state b = Basket \<Longrightarrow> N b"
  shows "keeps (in_db (ref_inv N A M d0)) (ref_basket_post Orm Drf Srv rq)"
    "keeps (in_db (ref_inv N A M d0)) (ref_basket_put Orm Srv rq)"
    "keeps (in_db (ref_inv N A M d0)) (ref_basket_delete Orm rq)"
  unfolding ref_unfold
  by (intro keeps_form keeps_list keeps_sum keeps_intros keeps_on_db ref_intros; (use assms in \<open>simp add: leaf_def\<close>))+

lemma ref_orders:
  assumes "OrderM \<notin> M" "\<And>b. rq_user rq = Some (o_user b) \<Longrightarrow> o_state b = New \<Longrightarrow> N b"
  shows "keeps (in_db (ref_inv N A M d0)) (ref_order_post Orm Srv rq)"
  unfolding ref_unfold
  by (intro keeps_form keeps_list keeps_sum keeps_intros keeps_on_db ref_intros; (use assms in simp))

lemmas ref_customer = ref_contacts ref_baskets ref_orders

text \<open>Shops.\<close>

lemma ref_partner_state [ref_intros]:
  "ShopM \<notin> M \<Longrightarrow> keeps (in_db (ref_inv N A M d0)) (partner_state_post Orm rq)"
  unfolding partner_state_post_def by (intro keeps_intros ref_intros) simp_all

lemma ref_partner_creates [ref_intros]:
  "keeps (ref_inv N A {} d0) (partner_shop Orm name u)"
  "keeps (ref_inv N A {} d0) (partner_category Orm s x)"
  "keeps (ref_inv N A {} d0) (partner_good Orm s g)"
  unfolding partner_shop_def partner_category_def link_category_def partner_good_def partner_product_def
    create_product_info_def partner_parameter_def get_or_create_parameter_def
  by (intro keeps_intros ref_intros; simp)+

lemma ref_partner_update [ref_intros]: "keeps (in_db (ref_inv N A {} d0)) (partner_update Orm Srv rq)"
  unfolding partner_update_def partner_document_def
  by (intro keeps_sum keeps_intros keeps_on_db ref_intros) simp_all

end

text \<open>Accounts. What happens after a row has been read depends on that row.\<close>

definition keeps_at :: "('s \<Rightarrow> bool) \<Rightarrow> ('s, 'a) comp \<Rightarrow> 's \<Rightarrow> bool" where
  "keeps_at I m s \<longleftrightarrow> I (snd (m s))"

lemma keeps_at_keeps: "keeps I m \<Longrightarrow> I s \<Longrightarrow> keeps_at I m s"
  by (simp add: keeps_at_def keepsD)

lemma keeps_at_lift: "I s \<Longrightarrow> (\<And>x. keeps_at I (f x) s) \<Longrightarrow> keeps_at I (andThen (lift_exn r) f) s"
  by (cases r) (simp_all add: keeps_at_def)

lemma keeps_at_andThen: "keeps_at I m s \<Longrightarrow> (\<And>x. keeps I (f x)) \<Longrightarrow> keeps_at I (andThen m f) s"
  by (auto simp: keeps_at_def keeps_def andThen_def split: prod.splits sum.splits)

lemma keeps_andThen_at:
  assumes "keeps I m" "\<And>x s s'. I s \<Longrightarrow> m s = (Inr x, s') \<Longrightarrow> I s' \<Longrightarrow> keeps_at I (f x) s'"
  shows "keeps I (andThen m f)"
proof (rule keepsI)
  fix s assume s: "I s"
  obtain r s' where m: "m s = (r, s')" by (cases "m s")
  have "I s'" using keeps_result [OF assms(1) s m] .
  then show "I (snd (andThen m f s))"
    using assms(2) [OF s, of _ s'] m by (cases r) (simp_all add: andThen_def keeps_at_def)
qed

lemma ref_inv_user:
  assumes "ref_inv N A M d0 d" "UserM \<notin> M" "x \<in> set (t_users d)" "u_id y = u_id x" "rights y = rights x"
    and "may_become A (u_is_active x) (u_is_active y)"
    and "db_ok (d\<lparr>t_users := replace_by u_id y (t_users d)\<rparr>)"
  shows "ref_inv N A M d0 (d\<lparr>t_users := replace_by u_id y (t_users d)\<rparr>)"
proof -
  have "users_kept A d (d\<lparr>t_users := replace_by u_id y (t_users d)\<rparr>)"
    using db_ok_distinct [OF ref_invD(1) [OF assms(1)]] assms(6)
    by (rule users_kept_replace [OF assms(3) _ assms(4,5)])
  moreover have "table m (d\<lparr>t_users := replace_by u_id y (t_users d)\<rparr>) = table m d" if "m \<in> M" for m
    using assms(2) that by (cases m) auto
  ultimately show ?thesis
    using assms(1,7) users_kept_trans by (auto simp: ref_inv_def single_baskets_def frozen_def)
qed

context django
begin

lemma ref_update_user:
  assumes "ref_inv N A M d0 (w_db w)" "UserM \<notin> M" "x \<in> set (t_users (w_db w))" "u_id y = u_id x" "rights y = rights x"
    and "may_become A (u_is_active x) (u_is_active y)"
  shows "keeps_at (in_db (ref_inv N A M d0)) (update_user Orm Srv now y) w"
proof -
  have ok: "db_ok (w_db (snd (update_user Orm Srv now y w)))"
    using keepsD [OF keeps_update_user, of w] ref_invD(1) [OF assms(1)] by simp
  have "u_id y \<in> set (pks UserM (w_db w))" using assms(3,4) by simp
  then show ?thesis
    by (cases rule: update_user_cases [of y w Srv now])
      (use ok assms in \<open>auto simp: keeps_at_def intro: ref_inv_user\<close>)
qed

lemma ref_insert_user:
  assumes "UserM \<notin> M" "EmailTokenM \<notin> M"
  shows "keeps (in_db (ref_inv N A M d0)) (insert_user Orm Srv now x)"
proof -
  have get: "keeps (in_db (ref_inv N A M d0)) (get_or_create sel mk)"
    if "keeps (in_db (ref_inv N A M d0)) mk" for sel and mk :: "(world, email_token) comp"
    using that by (rule keeps_get_or_create)
  show ?thesis
    unfolding insert_user_def new_user_registered_signal_def save_token_def save_new_user_def
    by (intro keeps_intros keeps_on_db get ref_intros; (use assms in simp))
qed

lemma insert_user_stored:
  assumes "insert_user Orm Srv now x w = (Inr y, w')"
  shows "y \<in> set (t_users (w_db w'))"
proof -
  obtain d where s: "save_new_user Orm x (w_db w) = (Inr y, d)"
    and n: "new_user_registered_signal Orm Srv now y True (w\<lparr>w_db := d\<rparr>) = (Inr (), w')"
    using assms by (auto simp: insert_user_def andThen_eq_Inr on_db_Inr)
  have "y \<in> set (t_users d)" using s by (rule save_new_user_Inr [OF django_axioms]) simp
  moreover have "keeps (in_db (\<lambda>d. y \<in> set (t_users d))) (new_user_registered_signal Orm Srv now y True)"
  proof -
    have get: "keeps (in_db (\<lambda>d. y \<in> set (t_users d))) (get_or_create sel mk)"
      if "keeps (in_db (\<lambda>d. y \<in> set (t_users d))) mk" for sel and mk :: "(world, email_token) comp"
      using that by (rule keeps_get_or_create)
    show ?thesis unfolding new_user_registered_signal_def save_token_def
      by (intro keeps_intros keeps_on_db get keeps_insert_if) simp
  qed
  ultimately show ?thesis using n by (auto dest!: keepsD [of _ _ "w\<lparr>w_db := d\<rparr>"])
qed

lemma ref_register [ref_intros]:
  assumes "UserM \<notin> M" "EmailTokenM \<notin> M"
  shows "keeps (in_db (ref_inv N A M d0)) (register_account Orm Drf Srv rq)"
proof -
  have set_password: "keeps_at (in_db (ref_inv N A M d0)) (andThen (lift_exn r) (\<lambda>p. andThen (lift_exn (hash_of Srv p)) (\<lambda>h.
      andThen (update_user Orm Srv now (y\<lparr>u_password := h\<rparr>)) (\<lambda>_. ret (Reply 200 Success))))) w"
    if "ref_inv N A M d0 (w_db w)" "y \<in> set (t_users (w_db w))" for r :: "exn + pyval" and now y w
    by (intro keeps_at_lift keeps_at_andThen ref_update_user [where x = y] keeps_ret)
      (use that assms in \<open>simp_all add: rights_def\<close>)
  show ?thesis
    unfolding register_account_def
    by (rule keeps_ret keeps_if keeps_prod keeps_andThen [OF keeps_lift_exn] keeps_andThen [OF keeps_query]
        keeps_andThen_at [OF ref_insert_user [OF assms]] set_password)+
      (auto dest: insert_user_stored)
qed

lemma ref_confirm [ref_intros]:
  assumes "UserM \<notin> M" "EmailTokenM \<notin> M"
  shows "keeps (in_db (ref_inv N True M d0)) (confirm_account Orm Srv rq)"
  unfolding confirm_account_def
  by (intro keeps_list keeps_intros keeps_andThen_at [OF keeps_on_db [OF keeps_related]] keeps_at_andThen ref_update_user
      keeps_on_db ref_intros)
    (auto simp: on_db_Inr related_eq_Inr rights_def leaf_def assms may_become_def dest: filter_singletonD)

lemma ref_account_post [ref_intros]:
  assumes "UserM \<notin> M"
  shows "keeps (in_db (ref_inv N A M d0)) (account_post Orm Drf Srv rq)"
proof (rule keepsI)
  fix w :: world assume w: "ref_inv N A M d0 (w_db w)"
  obtain r w' where run: "account_post Orm Drf Srv rq w = (r, w')" by fastforce
  have ok: "db_ok (w_db w')" using keeps_result [OF keeps_account_post ref_invD(1) [OF w] run] .
  show "ref_inv N A M d0 (w_db (snd (account_post Orm Drf Srv rq w)))"
  proof (cases "request_user rq (w_db w)")
    case None
    then show ?thesis using w by (simp add: account_post_def)
  next
    case (Some x)
    then have "x \<in> set (t_users (w_db w))" using request_userD by blast
    then show ?thesis
      using account_post_spec [OF Some run] w run ok assms ref_inv_user [OF w assms, of x] by (auto simp: rights_def)
  qed
qed

end


section \<open>Tokens\<close>

text \<open>Only a login changes the tokens.\<close>

lemma tokens_on_db: "keeps (\<lambda>w. w_tokens w = T) (on_db m)"
  by (simp add: keeps_def)

lemma tokens_send_mail: "keeps (\<lambda>w. w_tokens w = T) (send_mail Srv m)"
  unfolding send_mail_def by (intro keeps_intros keeps_update_world) simp

lemma tokens_get_or_create:
  "keeps (\<lambda>w. w_tokens w = T) mk \<Longrightarrow> keeps (\<lambda>w. w_tokens w = T) (get_or_create sel mk :: (world, 'a \<times> bool) comp)"
  by (rule keeps_get_or_create)

lemmas token_intros = keeps_list keeps_form keeps_sum keeps_intros tokens_on_db tokens_send_mail tokens_get_or_create

lemma tokens_users:
  "keeps (\<lambda>w. w_tokens w = T) (insert_user Orm Srv now x)"
  "keeps (\<lambda>w. w_tokens w = T) (update_user Orm Srv now x)"
  unfolding insert_user_def update_user_def new_user_registered_signal_def save_token_def
  by (intro token_intros)+

lemma tokens_views:
  "keeps (\<lambda>w. w_tokens w = T) (partner_update Orm Srv rq)"
  "keeps (\<lambda>w. w_tokens w = T) (partner_state_get rq)"
  "keeps (\<lambda>w. w_tokens w = T) (partner_state_post Orm rq)"
  "keeps (\<lambda>w. w_tokens w = T) (partner_orders rq)"
  "keeps (\<lambda>w. w_tokens w = T) (register_account Orm Drf Srv rq)"
  "keeps (\<lambda>w. w_tokens w = T) (confirm_account Orm Srv rq)"
  "keeps (\<lambda>w. w_tokens w = T) (account_post Orm Drf Srv rq)"
  "keeps (\<lambda>w. w_tokens w = T) (ref_contact_post Orm Drf rq)"
  "keeps (\<lambda>w. w_tokens w = T) (ref_contact_put Orm Drf rq)"
  "keeps (\<lambda>w. w_tokens w = T) (ref_contact_delete Orm rq)"
  "keeps (\<lambda>w. w_tokens w = T) (ref_basket_get rq)"
  "keeps (\<lambda>w. w_tokens w = T) (ref_basket_post Orm Drf Srv rq)"
  "keeps (\<lambda>w. w_tokens w = T) (ref_basket_put Orm Srv rq)"
  "keeps (\<lambda>w. w_tokens w = T) (ref_basket_delete Orm rq)"
  "keeps (\<lambda>w. w_tokens w = T) (ref_order_get rq)"
  "keeps (\<lambda>w. w_tokens w = T) (ref_order_post Orm Srv rq)"
  "keeps (\<lambda>w. w_tokens w = T) (ref_create_superuser Orm Srv now email pw active extra)"
  unfolding partner_update_def partner_state_get_def partner_state_post_def partner_orders_def register_account_def
    confirm_account_def account_post_def save_account_def ref_unfold ref_basket_get_def ref_order_get_def
    ref_create_superuser_def ref_create_user_base_def
  by (intro token_intros tokens_users)+

section \<open>The packages\<close>

text \<open>
  A request without a key is anonymous; a key is accepted if it is that of a stored token of an
  active user. Asking for a new password stores a token of the package and sends a letter;
  confirming it sets the password of users.
\<close>

locale ref_packages =
  fixes Pkg :: packages
  assumes token_anonymous: "token_user Pkg None w = Inr None"
    and token_accepted: "tokens_ok w \<Longrightarrow> distinct (pks UserM (w_db w)) \<Longrightarrow> (u, key) \<in> set (w_tokens w) \<Longrightarrow>
      token_user Pkg (Some key) w = Inr (Some u)"
    and token_only: "token_user Pkg (Some key) w = Inr v \<Longrightarrow>
      \<exists>x \<in> set (t_users (w_db w)). v = Some (u_id x) \<and> u_is_active x \<and> (u_id x, key) \<in> set (w_tokens w)"
    and reset_request: "reset_password_request_token Pkg rq w = (r, w') \<Longrightarrow>
      w_db w' = w_db w \<and> w_tokens w' = w_tokens w"
    and reset_confirm: "reset_password_confirm Pkg rq w = (r, w') \<Longrightarrow> w_tokens w' = w_tokens w \<and>
      (\<exists>f. w_db w' = w_db w\<lparr>t_users := map (\<lambda>x. x\<lparr>u_password := f x\<rparr>) (t_users (w_db w))\<rparr>)"

text \<open>\<^verbatim>\<open>authenticate\<close> returns stored users.\<close>

locale ref_app = ref_accounts + ref_packages +
  assumes login_values_stored: "login_values Srv d e p = Inr (Some x) \<Longrightarrow> x \<in> set (t_users d)"

lemma db_ok_passwords:
  assumes "db_ok d"
  shows "db_ok (d\<lparr>t_users := map (\<lambda>x. x\<lparr>u_password := f x\<rparr>) (t_users d)\<rparr>)"
  unfolding db_ok_iff
proof (intro conjI allI ballI)
  let ?d = "d\<lparr>t_users := map (\<lambda>x. x\<lparr>u_password := f x\<rparr>) (t_users d)\<rparr>"
  fix m
  have pks: "pks m' ?d = pks m' d" for m'
    by (cases m') (simp_all add: comp_def)
  show "distinct (pks m ?d)" by (simp only: pks db_ok_distinct [OF assms])
  fix r assume r: "r \<in> set (table m ?d)"
  have refs: "refs_ok r' ?d = refs_ok r' d" for r'
    by (simp only: refs_ok_def pks)
  show "row_ok r ?d"
  proof (cases "m = UserM")
    case True
    then obtain x where x: "x \<in> set (t_users d)" "r = UserRow (x\<lparr>u_password := f x\<rparr>)" using r by auto
    have "row_ok (UserRow x) d" using db_ok_user_row [OF assms x(1)] .
    then show ?thesis by (auto simp: x row_ok_def positive_ok_def refs_ok_def unique_ok_def list_all_iff)
  next
    case False
    then have same: "table m ?d = table m d" by (cases m) simp_all
    then have "row_ok r d" "model_of r = m" using r db_ok_row [OF assms] table_model by metis+
    then show ?thesis using same by (simp add: row_ok_def refs unique_ok_def)
  qed
qed

lemma users_kept_passwords: "users_kept A d (d\<lparr>t_users := map (\<lambda>x. x\<lparr>u_password := f x\<rparr>) (t_users d)\<rparr>)"
  by (auto simp: users_kept_def rights_def)

lemma ref_inv_passwords:
  assumes "ref_inv N A M d0 d" "UserM \<notin> M"
  shows "ref_inv N A M d0 (d\<lparr>t_users := map (\<lambda>x. x\<lparr>u_password := f x\<rparr>) (t_users d)\<rparr>)"
proof -
  let ?d = "d\<lparr>t_users := map (\<lambda>x. x\<lparr>u_password := f x\<rparr>) (t_users d)\<rparr>"
  have "table m ?d = table m d" if "m \<in> M" for m
    using assms(2) that by (cases m) auto
  then show ?thesis
    using assms(1) db_ok_passwords users_kept_trans [OF _ users_kept_passwords]
    by (auto simp: ref_inv_def single_baskets_def frozen_def)
qed

section \<open>Every request\<close>

definition ref_writes_order :: "ref_view \<Rightarrow> http_method \<Rightarrow> request \<Rightarrow> order_t \<Rightarrow> bool" where
  "ref_writes_order v m rq b \<longleftrightarrow> rq_user rq = Some (o_user b) \<and> (o_state b = Basket \<or> v = OrderView \<and> m = POST \<and> o_state b = New)"

definition customer_tables :: "model set" where
  "customer_tables = {ContactM, OrderM, OrderItemM}"

context ref_app
begin

lemma ref_resets [ref_intros]:
  assumes "UserM \<notin> M"
  shows "keeps (in_db (ref_inv N A M d0)) (reset_password_request_token Pkg rq)"
    "keeps (in_db (ref_inv N A M d0)) (reset_password_confirm Pkg rq)"
proof -
  show "keeps (in_db (ref_inv N A M d0)) (reset_password_request_token Pkg rq)"
    by (rule keepsI) (metis reset_request surjective_pairing)
  show "keeps (in_db (ref_inv N A M d0)) (reset_password_confirm Pkg rq)"
  proof (rule keepsI)
    fix w :: world assume w: "ref_inv N A M d0 (w_db w)"
    obtain r w' where run: "reset_password_confirm Pkg rq w = (r, w')" by fastforce
    then obtain f where "w_db w' = w_db w\<lparr>t_users := map (\<lambda>x. x\<lparr>u_password := f x\<rparr>) (t_users (w_db w))\<rparr>"
      using reset_confirm by blast
    then show "ref_inv N A M d0 (w_db (snd (reset_password_confirm Pkg rq w)))"
      using ref_inv_passwords [OF w assms] run by simp
  qed
qed

lemma login_stays: "keeps (in_db J) (login_account Srv rq)"
proof -
  have "keeps (in_db J) (auth_token Srv x)" for x
    by (auto simp: keeps_def auth_token_def Let_def split: list.splits)
  then show ?thesis unfolding login_account_def by (intro keeps_intros)
qed

text \<open>
  The views other than those of a shop leave the catalogue alone, and a request writes orders of its
  user only, and other than a basket only as a new order where orders are placed.
\<close>

lemma handler_inv:
  assumes "ref_handler Orm Drf Srv Pkg v m rq = Some h"
    and "M = {} \<or> v \<notin> {PartnerUpdate, PartnerState} \<and> M \<subseteq> catalogue" "A \<or> v \<noteq> ConfirmAccount"
    and N: "\<And>b. ref_writes_order v m rq b \<Longrightarrow> N b"
  shows "keeps (in_db (ref_inv N A M d0)) h"
proof -
  have M: "UserM \<notin> M" "EmailTokenM \<notin> M" "ContactM \<notin> M" "OrderM \<notin> M" "OrderItemM \<notin> M"
    using assms(2) by (auto simp: catalogue_def)
  have partner: "v \<in> {PartnerUpdate, PartnerState} \<longrightarrow> M = {}" "v = ConfirmAccount \<longrightarrow> A"
    using assms(2,3) by blast+
  have "keeps (in_db (ref_inv N A M d0)) (on_db (product_search Orm rq'))" for rq'
    by (intro keeps_on_db ref_reads)
  note views = this ref_reads login_stays ref_contacts [OF M(3-5)] ref_baskets [OF M(4,5)] ref_orders [OF M(4)] ref_register [OF M(1,2)] ref_confirm [OF M(1,2)]
    ref_account_post [OF M(1)] ref_resets [OF M(1)] ref_partner_update ref_partner_state [of "{}"]
  show ?thesis
    using assms(1) partner N by (elim ref_handler.elims) (auto simp: ref_writes_order_def intro!: views)
qed

lemma handler_tokens:
  assumes "ref_handler Orm Drf Srv Pkg v m rq = Some h" "v \<noteq> LoginAccount"
  shows "keeps (\<lambda>w. w_tokens w = T) h"
proof -
  have "keeps (\<lambda>w. w_tokens w = T) (reset_password_request_token Pkg rq)"
    "keeps (\<lambda>w. w_tokens w = T) (reset_password_confirm Pkg rq)" for rq
    by (rule keepsI, metis reset_request prod.collapse) (rule keepsI, metis reset_confirm prod.collapse)
  note views = this tokens_views tokens_on_db ref_reads
  show ?thesis
    using assms by (elim ref_handler.elims) (auto intro: views)
qed

text \<open>A login adds at most one token, of an active user who had none, with a new key.\<close>

lemma tokens_ok_auth_token:
  assumes "tokens_ok w" "x \<in> set (t_users (w_db w))" "u_is_active x" "auth_token Srv x w = (r, w')"
  shows "tokens_ok w' \<and> w_db w' = w_db w \<and> set (w_tokens w) \<subseteq> set (w_tokens w') \<and>
    (\<forall>key. r = Inr key \<longrightarrow> (u_id x, key) \<in> set (w_tokens w'))"
proof (cases "filter (\<lambda>t. fst t = u_id x) (w_tokens w)")
  case Nil
  then have "u_id x \<notin> fst ` set (w_tokens w)" by (auto simp: filter_empty_conv)
  then show ?thesis
    using assms Nil by (auto simp: auth_token_def Let_def tokens_ok_def list_ex_iff split: if_splits)
next
  case (Cons t ts)
  have "t \<in> set (w_tokens w)" "fst t = u_id x" using filter_headD [OF Cons] by simp_all
  then have "(u_id x, snd t) \<in> set (w_tokens w)" by (metis prod.collapse)
  moreover have "r = Inr (snd t)" "w' = w" using assms(4) Cons by (simp_all add: auth_token_def)
  ultimately show ?thesis using assms(1) by simp
qed

lemma login_tokens:
  assumes "tokens_ok w" "login_account Srv rq w = (r, w')"
  shows "tokens_ok w' \<and> w_db w' = w_db w \<and> set (w_tokens w) \<subseteq> set (w_tokens w')"
proof -
  consider "w' = w"
    | a b x t where "login_values Srv (w_db w) a b = Inr (Some x)" "u_is_active x" "auth_token Srv x w = (t, w')"
    using assms(2)
    by (auto simp: login_account_def andThen_def split: sum.splits prod.splits if_splits option.splits)
  then show ?thesis
  proof cases
    case 1
    then show ?thesis using assms(1) by simp
  next
    case 2
    then show ?thesis using tokens_ok_auth_token [OF assms(1) login_values_stored] by blast
  qed
qed

lemma tokens_ok_kept: "tokens_ok w \<Longrightarrow> w_tokens w' = w_tokens w \<Longrightarrow> users_kept True (w_db w) (w_db w') \<Longrightarrow> tokens_ok w'"
  unfolding tokens_ok_def users_kept_def list_all_iff list_ex_iff may_become_def by (simp, metis)

end

text \<open>\<open>ref_kept\<close>: every user keeps its key and rights, active users stay active, tokens stay valid.\<close>

definition ref_kept :: "world \<Rightarrow> world \<Rightarrow> bool" where
  "ref_kept w w' \<longleftrightarrow> users_kept True (w_db w) (w_db w') \<and> set (w_tokens w) \<subseteq> set (w_tokens w')"

lemma ref_kept_refl: "ref_kept w w"
  by (simp add: ref_kept_def users_kept_same)

lemma ref_kept_trans: "ref_kept w1 w2 \<Longrightarrow> ref_kept w2 w3 \<Longrightarrow> ref_kept w1 w3"
  using users_kept_trans by (auto simp: ref_kept_def)

context ref_app
begin

lemma ref_good_inv: "ref_good w \<Longrightarrow> ref_inv N A M (w_db w) (w_db w)"
  by (simp add: ref_good_def ref_inv_def users_kept_same frozen_def)

lemma handler_good:
  assumes "ref_good w" "ref_handler Orm Drf Srv Pkg v m rq = Some h" "h w = (r, w')"
  shows "ref_good w' \<and> ref_kept w w'"
proof -
  have inv: "ref_inv (\<lambda>_. True) True {} (w_db w) (w_db w')"
    using keeps_result [OF handler_inv [OF assms(2)] ref_good_inv [OF assms(1)] assms(3)] by simp
  have t: "tokens_ok w" using assms(1) by (simp add: ref_good_def)
  have "tokens_ok w' \<and> set (w_tokens w) \<subseteq> set (w_tokens w')"
  proof (cases "v = LoginAccount")
    case True
    then have "h = login_account Srv rq" using assms(2) by (cases m) auto
    then show ?thesis using login_tokens [OF t] assms(3) by blast
  next
    case False
    have "w_tokens w' = w_tokens w"
      by (rule keeps_result [OF handler_tokens [OF assms(2) False] refl assms(3)])
    then show ?thesis using tokens_ok_kept [OF t] inv by (simp add: ref_inv_def)
  qed
  then show ?thesis using inv by (simp add: ref_good_def ref_inv_def ref_kept_def)
qed

text \<open>A request is answered without a change or by a handler, for the user of its key.\<close>

lemma ref_serve_cases:
  assumes "ref_serve Orm Drf Srv Pkg key path m rq w = (r, w')"
  obtains "w' = w"
  | v u h where "map_of ref_root_urlpatterns path = Some v" "token_user Pkg key w = Inr u"
      "ref_handler Orm Drf Srv Pkg v m (rq\<lparr>rq_user := u\<rparr>) = Some h" "h w = (r, w')"
proof (cases "map_of ref_root_urlpatterns path")
  case None
  then show thesis using assms that(1) by (simp add: ref_serve_def)
next
  case (Some v)
  show thesis
  proof (cases "token_user Pkg key w")
    case (Inl e)
    then show thesis using assms Some that(1) by (simp add: ref_serve_def)
  next
    case (Inr u)
    then show thesis
      using assms Some that
      by (cases "ref_handler Orm Drf Srv Pkg v m (rq\<lparr>rq_user := u\<rparr>)") (auto simp: ref_serve_def)
  qed
qed

lemma ref_serve_good:
  assumes "ref_good w" "ref_serve Orm Drf Srv Pkg key path m rq w = (r, w')"
  shows "ref_good w' \<and> ref_kept w w'"
  by (cases rule: ref_serve_cases [OF assms(2)]) (use assms(1) ref_kept_refl handler_good in auto)

lemma superuser_inv: "keeps (in_db (ref_inv N True {} d0)) (ref_create_superuser Orm Srv now email pw active extra)"
  unfolding ref_create_superuser_def ref_create_user_base_def Let_def
  by (intro keeps_intros ref_insert_user) simp_all

lemma superuser_good:
  assumes "ref_good w" "ref_create_superuser Orm Srv now email pw active extra w = (r, w')"
  shows "ref_good w' \<and> ref_kept w w'"
proof -
  have "ref_inv (\<lambda>_. True) True {} (w_db w) (w_db w')"
    using keeps_result [OF superuser_inv ref_good_inv [OF assms(1)] assms(2)] .
  moreover have "w_tokens w' = w_tokens w"
    using keeps_result [OF tokens_views(17) refl assms(2)] .
  ultimately show ?thesis
    using assms(1) tokens_ok_kept [of w w'] by (simp add: ref_good_def ref_inv_def ref_kept_def)
qed

lemma ref_reachable_good_kept:
  "ref_reachable Orm Drf Srv Pkg w w' \<Longrightarrow> ref_good w \<Longrightarrow> ref_good w' \<and> ref_kept w w'"
proof (induction rule: rtranclp_induct)
  case base
  then show ?case by (simp add: ref_kept_refl)
next
  case (step w1 w2)
  from step(2) have "ref_good w2 \<and> ref_kept w1 w2"
    by (cases rule: ref_step.cases) (use step(3,4) ref_serve_good superuser_good in blast)+
  then show ?case using step ref_kept_trans by blast
qed

end

end
