(* ===== verification/RefGuards.thy ===== *)
theory RefGuards
  imports RefSystem
begin

text \<open>
  Who may do what in the reference application: which requests change the catalogue, activate an
  account, or act without a key.
\<close>

context ref_app
begin

lemma partner_views_guarded:
  assumes "ref_handler Orm Drf Srv Pkg v m rq = Some h" "v \<in> {PartnerUpdate, PartnerState}" "h w = (r, w')" "w' \<noteq> w"
  obtains x where "request_user rq (w_db w) = Some x" "u_type x = ShopUser" "m = POST"
proof (cases "request_user rq (w_db w)")
  case None
  then have "w' = w" using assms(1-3)
    by (elim ref_handler.elims) (auto simp: partner_update_def partner_state_get_def partner_state_post_def)
  then show thesis using assms(4) by simp
next
  case (Some x)
  then have "u_type x = ShopUser \<and> m = POST"
    using assms by (elim ref_handler.elims)
      (auto simp: partner_update_def partner_state_get_def partner_state_post_def shops_only_def andThen_def
        get_one_def on_db_def split: if_splits list.splits)
  then show thesis using that Some by blast
qed

lemma partner_paths:
  "map_of ref_root_urlpatterns path = Some v \<Longrightarrow> v \<in> {PartnerUpdate, PartnerState} \<Longrightarrow>
   path \<in> {''/api/v1/partner/update'', ''/api/v1/partner/state''}"
  by (drule map_of_SomeD) (auto simp: ref_root_urlpatterns_def ref_urlpatterns_def)

lemma confirm_path: "map_of ref_root_urlpatterns path = Some ConfirmAccount \<Longrightarrow> path = ''/api/v1/user/register/confirm''"
  by (drule map_of_SomeD) (auto simp: ref_root_urlpatterns_def ref_urlpatterns_def)

lemma catalogue_guarded:
  assumes "ref_good w" "ref_serve Orm Drf Srv Pkg key path m rq w = (r, w')" "\<not> frozen catalogue (w_db w) (w_db w')"
  shows "\<exists>k x. key = Some k \<and> (u_id x, k) \<in> set (w_tokens w) \<and> x \<in> set (t_users (w_db w)) \<and> u_is_active x \<and>
    u_type x = ShopUser \<and> m = POST \<and> path \<in> {''/api/v1/partner/update'', ''/api/v1/partner/state''}"
proof (cases rule: ref_serve_cases [OF assms(2)])
  case 1
  then show ?thesis using assms(3) by (simp add: frozen_def)
next
  case (2 v u h)
  have v: "v \<in> {PartnerUpdate, PartnerState}"
  proof (rule ccontr)
    assume "v \<notin> {PartnerUpdate, PartnerState}"
    then have "keeps (in_db (ref_inv (\<lambda>_. True) True catalogue (w_db w))) h" by (intro handler_inv [OF 2(3)]) simp_all
    from keeps_result [OF this ref_good_inv [OF assms(1)] 2(4)] show False
      using assms(3) by (simp add: ref_inv_def)
  qed
  have "w' \<noteq> w" using assms(3) by (auto simp: frozen_def)
  then obtain x where x: "request_user (rq\<lparr>rq_user := u\<rparr>) (w_db w) = Some x" "u_type x = ShopUser" "m = POST"
    by (rule partner_views_guarded [OF 2(3) v 2(4)])
  then have u: "u = Some (u_id x)" "x \<in> set (t_users (w_db w))" using request_userD [OF x(1)] by simp_all
  then obtain k where k: "key = Some k" using 2(2) token_anonymous by (cases key) simp_all
  obtain y where y: "y \<in> set (t_users (w_db w))" "u = Some (u_id y)" "u_is_active y" "(u_id y, k) \<in> set (w_tokens w)"
    using token_only 2(2) k by metis
  then have "y = x"
    using u assms(1) db_ok_distinct [of "w_db w" UserM] by (auto simp: ref_good_def distinct_map inj_on_def)
  then show ?thesis using y k x partner_paths [OF 2(1) v] by blast
qed

text \<open>What a confirmation needs.\<close>

lemma confirm_effect:
  assumes "db_ok (w_db w)" "confirm_account Orm Srv rq w = (r, w')" "t_users (w_db w') \<noteq> t_users (w_db w)"
  obtains t x e k where "t \<in> set (t_email_tokens (w_db w))" "x \<in> set (t_users (w_db w))" "u_id x = et_user t"
    "py_index (rq_data rq) ''email'' = Inr e" "py_index (rq_data rq) ''token'' = Inr k"
    "\<exists>y \<in> set (t_users (w_db w)). u_id y = et_user t \<and> prep_str Orm e = Some (u_email y)"
    "prep_str Orm k = Some (et_key t)"
    "t_users (w_db w') = replace_by u_id (x\<lparr>u_is_active := True\<rparr>) (t_users (w_db w))"
proof -
  obtain e k t ts where e: "py_index (rq_data rq) ''email'' = Inr e" "py_index (rq_data rq) ''token'' = Inr k"
    and t: "matching_tokens Orm e k (w_db w) = t # ts"
    and run: "andThen (on_db (related u_id t_users (et_user t))) (\<lambda>user.
           andThen (update_user Orm Srv (rq_now rq) (user\<lparr>u_is_active := True\<rparr>)) (\<lambda>_.
           andThen (on_db (db_delete Orm EmailTokenM [et_id t])) (\<lambda>_.
           ret (Reply 200 Success)))) w = (r, w')"
    using assms by (auto simp: confirm_account_def andThen_def split: sum.splits prod.splits if_splits list.splits)
  have "t \<in> set (matching_tokens Orm e k (w_db w))" using t by simp
  then have tk: "t \<in> set (t_email_tokens (w_db w))" "prep_str Orm k = Some (et_key t)"
    "\<exists>y \<in> set (t_users (w_db w)). u_id y = et_user t \<and> prep_str Orm e = Some (u_email y)"
    by (auto simp: matching_tokens_def list_ex_iff)
  obtain x where x: "related u_id t_users (et_user t) (w_db w) = (Inr x, w_db w)" "x \<in> set (t_users (w_db w))" "u_id x = et_user t"
  proof -
    obtain v d where rel: "related u_id t_users (et_user t) (w_db w) = (v, d)" by fastforce
    moreover have "d = w_db w"
      using reads_related [of u_id t_users "et_user t"] rel by (metis reads_def snd_conv)
    ultimately show thesis
      using run assms(3) that by (cases v) (auto simp: related_eq_Inr dest: filter_singletonD)
  qed
  let ?x = "x\<lparr>u_is_active := True\<rparr>"
  let ?w = "w\<lparr>w_db := w_db w\<lparr>t_users := replace_by u_id ?x (t_users (w_db w))\<rparr>\<rparr>"
  have "u_id ?x \<in> set (pks UserM (w_db w))" using x(2) x(3) [symmetric] by simp
  then have "t_users (w_db w') = replace_by u_id ?x (t_users (w_db w))"
  proof (cases rule: update_user_cases [of ?x w Srv "rq_now rq"])
    case 1
    then have "db_ok (w_db ?w)" using keeps_result [OF keeps_update_user assms(1) 1] by simp
    then show ?thesis using 1 run x(1) by (auto simp: delete_cascades cascade_delete_tokens)
  next
    case 2
    then show ?thesis using run x(1) assms(3) by simp
  qed
  then show thesis using that tk e x by blast
qed

lemma activation_guarded:
  assumes "ref_good w" "ref_serve Orm Drf Srv Pkg key path m rq w = (r, w')"
    and "x \<in> set (t_users (w_db w))" "\<not> u_is_active x" "x' \<in> set (t_users (w_db w'))" "u_id x' = u_id x" "u_is_active x'"
  shows "path = ''/api/v1/user/register/confirm'' \<and> m = POST \<and> (\<exists>t \<in> set (t_email_tokens (w_db w)). \<exists>e k.
    et_user t = u_id x \<and> py_index (rq_data rq) ''email'' = Inr e \<and> prep_str Orm e = Some (u_email x) \<and>
    py_index (rq_data rq) ''token'' = Inr k \<and> prep_str Orm k = Some (et_key t))"
proof -
  have good: "ref_good w'" using ref_serve_good [OF assms(1,2)] by blast
  have ids: "distinct (map u_id (t_users (w_db w)))" "distinct (map u_id (t_users (w_db w')))"
    using assms(1) good db_ok_distinct [of _ UserM] by (auto simp: ref_good_def)
  have same: "y = z" if "y \<in> set (t_users (w_db w))" "z \<in> set (t_users (w_db w))" "u_id y = u_id z" for y z
    using that ids(1) by (auto simp: distinct_map inj_on_def)
  have active: False if kept: "users_kept False (w_db w) (w_db w')"
  proof -
    obtain y where "y \<in> set (t_users (w_db w'))" "u_id y = u_id x" "may_become False (u_is_active x) (u_is_active y)"
      using kept assms(3) unfolding users_kept_def by blast
    moreover from this have "y = x'" using ids(2) assms(5,6) by (auto simp: distinct_map inj_on_def)
    ultimately show False using assms(4,7) by (simp add: may_become_def)
  qed
  show ?thesis
  proof (cases rule: ref_serve_cases [OF assms(2)])
    case 1
    then show ?thesis using active by (simp add: users_kept_same)
  next
    case (2 v u h)
    have v: "v = ConfirmAccount"
    proof (rule ccontr)
      assume "v \<noteq> ConfirmAccount"
      then have "keeps (in_db (ref_inv (\<lambda>_. True) False {} (w_db w))) h" by (intro handler_inv [OF 2(3)]) simp_all
      from keeps_result [OF this ref_good_inv [OF assms(1)] 2(4)] show False
        using active by (simp add: ref_inv_def)
    qed
    then have h: "m = POST" "h = confirm_account Orm Srv (rq\<lparr>rq_user := u\<rparr>)"
      using 2(3) by (cases m; simp)+
    have changed: "t_users (w_db w') \<noteq> t_users (w_db w)" using active users_kept_same by metis
    have run: "confirm_account Orm Srv (rq\<lparr>rq_user := u\<rparr>) w = (r, w')" "db_ok (w_db w)"
      using assms(1) 2(4) h(2) by (simp_all add: ref_good_def)
    obtain t y e k where c: "t \<in> set (t_email_tokens (w_db w))" "y \<in> set (t_users (w_db w))" "u_id y = et_user t"
      "py_index (rq_data rq) ''email'' = Inr e" "py_index (rq_data rq) ''token'' = Inr k"
      "\<exists>z \<in> set (t_users (w_db w)). u_id z = et_user t \<and> prep_str Orm e = Some (u_email z)"
      "prep_str Orm k = Some (et_key t)"
      "t_users (w_db w') = replace_by u_id (y\<lparr>u_is_active := True\<rparr>) (t_users (w_db w))"
      by (rule confirm_effect [OF run(2,1) changed]) simp
    have "u_id x = u_id y"
    proof (rule ccontr)
      assume "u_id x \<noteq> u_id y"
      then have "x' \<in> set (t_users (w_db w))" using c(8) assms(5,6) by (auto simp: replace_by_def split: if_splits)
      then show False using same [of x' x] assms(3,4,6,7) by simp
    qed
    then show ?thesis
      using c(1,4,5,7) c(3,6) same [OF _ assms(3)] h(1) confirm_path 2(1) v by metis
  qed
qed

text \<open>Without a key nothing but accounts can change.\<close>

lemma anonymous_guarded:
  assumes "ref_good w" "ref_serve Orm Drf Srv Pkg None path m rq w = (r, w')"
  shows "frozen (catalogue \<union> customer_tables) (w_db w) (w_db w')"
proof (cases rule: ref_serve_cases [OF assms(2)])
  case 1
  then show ?thesis by (simp add: frozen_def)
next
  case (2 v u h)
  let ?M = "catalogue \<union> customer_tables"
  have M: "UserM \<notin> ?M" "EmailTokenM \<notin> ?M" by (auto simp: catalogue_def customer_tables_def)
  have "u = None" using 2(2) token_anonymous by simp
  then have none: "request_user (rq\<lparr>rq_user := u\<rparr>) (w_db w) = None" by (simp add: request_user_def)
  note views = ref_register [OF M] ref_confirm [OF M] ref_resets [OF M(1)] ref_reads login_stays keeps_on_db
  have "w' = w \<or> keeps (in_db (ref_inv (\<lambda>_. True) True ?M (w_db w))) h"
    using 2(3,4) none
    by (elim ref_handler.elims)
      (auto intro: views simp: partner_update_def partner_state_post_def account_post_def ref_unfold)
  then show ?thesis
    using keeps_result [of "in_db (ref_inv (\<lambda>_. True) True ?M (w_db w))" h w r w'] ref_good_inv [OF assms(1)] 2(4)
    by (auto simp: ref_inv_def frozen_def)
qed

text \<open>A token works for ever.\<close>

lemma account_get_served:
  assumes "ref_good w" "(u, key) \<in> set (w_tokens w)"
  shows "\<exists>x. x \<in> set (t_users (w_db w)) \<and> u_id x = u \<and> ref_serve Orm Drf Srv Pkg (Some key) ''/api/v1/user/details'' GET rq w =
    (Inr (Reply 200 (Rendered (ref_user_data x (w_db w)))), w)"
proof -
  have ids: "distinct (map u_id (t_users (w_db w)))" using assms(1) db_ok_distinct [of "w_db w" UserM] by (simp add: ref_good_def)
  have t: "token_user Pkg (Some key) w = Inr (Some u)"
    using token_accepted [OF _ _ assms(2)] assms(1) ids by (simp add: ref_good_def)
  obtain x where x: "x \<in> set (t_users (w_db w))" "u_id x = u"
    using assms by (force simp: ref_good_def tokens_ok_def list_all_iff list_ex_iff)
  have "find (\<lambda>y. u_id y = u) (t_users (w_db w)) = Some x"
    using filter_eq_single [OF ids x(1)] x(2) by (simp add: find_filter)
  then have "request_user (rq\<lparr>rq_user := Some u\<rparr>) (w_db w) = Some x" by (simp add: request_user_def)
  moreover have "map_of ref_root_urlpatterns ''/api/v1/user/details'' = Some AccountDetails" by code_simp
  ultimately have "ref_serve Orm Drf Srv Pkg (Some key) ''/api/v1/user/details'' GET rq w =
      (Inr (Reply 200 (Rendered (ref_user_data x (w_db w)))), w)"
    using t by (simp add: ref_serve_def account_get_def)
  then show ?thesis using x by blast
qed

end

end
