(* ===== verification/RefSystemProps.thy ===== *)
theory RefSystemProps
  imports RefGuards RefProps
begin

text \<open>
  What holds in every state of the reference application, and who may change what; a concrete
  provider of the packages, on which the witnesses run.
\<close>

section \<open>A concrete application\<close>

text \<open>
  Tokens are looked up in the list of the world. The key of a password reset is made from the
  email; confirming it sets the password.
\<close>

definition sample_packages :: packages where
  "sample_packages = \<lparr>
     token_user = (\<lambda>key w. case key of
         None \<Rightarrow> Inr None
       | Some k \<Rightarrow> (case filter (\<lambda>t. snd t = k) (w_tokens w) of
             [] \<Rightarrow> Inl NotAuthenticated
           | t # _ \<Rightarrow> if list_ex (\<lambda>x. u_id x = fst t \<and> u_is_active x) (t_users (w_db w))
               then Inr (Some (fst t)) else Inl NotAuthenticated)),
     reset_password_request_token = (\<lambda>rq w. case find (\<lambda>x. py_index (rq_data rq) ''email'' = Inr (PStr (u_email x))) (t_users (w_db w)) of
         None \<Rightarrow> (Inl ValidationError, w)
       | Some x \<Rightarrow> andThen (password_reset_token_created test_services x (CHR ''r'' # u_email x)) (\<lambda>_. ret (Reply 200 Success)) w),
     reset_password_confirm = (\<lambda>rq w. case (py_index (rq_data rq) ''token'', py_index (rq_data rq) ''password'') of
         (Inr (PStr t), Inr (PStr p)) \<Rightarrow>
           (Inr (Reply 200 Success), w\<lparr>w_db := w_db w\<lparr>t_users := map (\<lambda>x. x\<lparr>u_password :=
              if t = CHR ''r'' # u_email x then CHR ''#'' # p else u_password x\<rparr>) (t_users (w_db w))\<rparr>\<rparr>)
       | _ \<Rightarrow> (Inl ValidationError, w))\<rparr>"

interpretation sample_packages: ref_packages sample_packages
proof
  show "token_user sample_packages None w = Inr None" for w
    by (simp add: sample_packages_def)
next
  fix w :: world and u key
  assume ok: "tokens_ok w" and t: "(u, key) \<in> set (w_tokens w)"
  have "filter (\<lambda>t. snd t = key) (w_tokens w) = [(u, key)]"
    using filter_eq_single [of snd "w_tokens w" "(u, key)"] ok t by (simp add: tokens_ok_def)
  moreover have "list_ex (\<lambda>x. u_id x = u \<and> u_is_active x) (t_users (w_db w))"
    using ok t by (fastforce simp: tokens_ok_def list_all_iff)
  ultimately show "token_user sample_packages (Some key) w = Inr (Some u)"
    by (simp add: sample_packages_def)
next
  fix w :: world and v key
  assume "token_user sample_packages (Some key) w = Inr v"
  then obtain t ts where t: "filter (\<lambda>t. snd t = key) (w_tokens w) = t # ts" "v = Some (fst t)"
      "list_ex (\<lambda>x. u_id x = fst t \<and> u_is_active x) (t_users (w_db w))"
    by (auto simp: sample_packages_def split: list.splits if_splits)
  then show "\<exists>x \<in> set (t_users (w_db w)). v = Some (u_id x) \<and> u_is_active x \<and> (u_id x, key) \<in> set (w_tokens w)"
    using filter_headD [OF t(1)] t(2,3) by (cases t) (auto simp: list_ex_iff)
next
  fix rq :: request and w r w'
  assume "reset_password_request_token sample_packages rq w = (r, w')"
  then show "w_db w' = w_db w \<and> w_tokens w' = w_tokens w"
    by (auto simp: sample_packages_def password_reset_token_created_def send_mail_def test_services_def split: option.splits)
next
  fix rq :: request and w r w'
  assume run: "reset_password_confirm sample_packages rq w = (r, w')"
  have same: "w_db w = w_db w\<lparr>t_users := map (\<lambda>x. x\<lparr>u_password := u_password x\<rparr>) (t_users (w_db w))\<rparr>" by simp
  consider "w' = w" | t p where "w' = w\<lparr>w_db := w_db w\<lparr>t_users := map (\<lambda>x. x\<lparr>u_password :=
      if t = CHR ''r'' # u_email x then CHR ''#'' # p else u_password x\<rparr>) (t_users (w_db w))\<rparr>\<rparr>"
    using run by (auto simp: sample_packages_def split: sum.splits pyval.splits)
  then show "w_tokens w' = w_tokens w \<and>
      (\<exists>f. w_db w' = w_db w\<lparr>t_users := map (\<lambda>x. x\<lparr>u_password := f x\<rparr>) (t_users (w_db w))\<rparr>)"
  proof cases
    case 1
    then show ?thesis using same by (intro conjI exI [of _ u_password]) simp_all
  next
    case 2
    then show ?thesis
      by (intro conjI exI [of _ "\<lambda>x. if t = CHR ''r'' # u_email x then CHR ''#'' # p else u_password x"]) simp_all
  qed
qed

interpretation sample_app: ref_app sqlite test_services sample_packages
  by unfold_locales (auto simp: test_services_def dest: find_SomeD split: pyval.splits)

section \<open>Properties\<close>






text \<open>C24: Anonymous requests. Without a key no request, whatever its path, method and body, changes
  a shop, a product, a price, a contact, an order or an item.\<close>

theorem anonymous_changes_accounts_only:
  assumes "ref_app Orm Srv Pkg" "ref_good w" "ref_serve Orm Drf Srv Pkg None path m rq w = (r, w')"
  shows "frozen (catalogue \<union> customer_tables) (w_db w) (w_db w')"
  by (rule ref_app.anonymous_guarded [OF assms])

section \<open>Instances\<close>

text \<open>Buyer 1 has a token, user 2 is a shop with one, and user 3 waits for confirmation.\<close>

definition sample_site :: world where
  "sample_site = sample_world\<lparr>
     w_db := sample_db\<lparr>t_users := [sample_user 1, (sample_user 2)\<lparr>u_type := ShopUser\<rparr>, (sample_user 3)\<lparr>u_is_active := False\<rparr>],
       t_shops := [\<lparr>s_id = 1, s_name = ''Svyaznoy'', s_url = None, s_user = Some 2, s_state = True\<rparr>],
       t_email_tokens := [\<lparr>et_id = 1, et_user = 3, et_created_at = 0, et_key = ''abc''\<rparr>]\<rparr>,
     w_tokens := [(1, ''k1''), (2, ''k2'')]\<rparr>"

lemma sample_site_good: "ref_good sample_site"
  by (simp add: ref_good_def tokens_ok_def single_baskets_def sample_site_def sample_world_def db_ok_def all_models_def row_ok_def
      refs_ok_def unique_ok_def positive_ok_def sample_eval)

abbreviation sample_serve :: "string option \<Rightarrow> string \<Rightarrow> http_method \<Rightarrow> request \<Rightarrow> (world, ref_response) comp" where
  "sample_serve \<equiv> ref_serve sqlite rest_impl test_services sample_packages"

definition sample_switch :: request where
  "sample_switch = sample_request 9 [(PStr ''state'', PStr ''off'')]"

definition sample_switched :: world where
  "sample_switched = snd (sample_serve (Some ''k2'') ''/api/v1/partner/state'' POST sample_switch sample_site)"

lemma sample_switched_run:
  "sample_serve (Some ''k2'') ''/api/v1/partner/state'' POST sample_switch sample_site = (Inr (Reply 200 Success), sample_switched)"
proof -
  have "fst (sample_serve (Some ''k2'') ''/api/v1/partner/state'' POST sample_switch sample_site) = Inr (Reply 200 Success)"
    by code_simp
  then show ?thesis unfolding sample_switched_def by (metis prod.collapse)
qed

lemma sample_site_reachable: "ref_reachable sqlite rest_impl test_services sample_packages sample_site sample_switched"
  by (rule r_into_rtranclp) (rule ref_step.ref_request [OF sample_switched_run])

lemma sample_site_users:
  "t_users (w_db sample_site) = [sample_user 1, (sample_user 2)\<lparr>u_type := ShopUser\<rparr>, (sample_user 3)\<lparr>u_is_active := False\<rparr>]"
  "w_tokens sample_site = [(1, ''k1''), (2, ''k2'')]"
  by (simp_all add: sample_site_def)




lemma sample_switched_catalogue: "\<not> frozen catalogue (w_db sample_site) (w_db sample_switched)"
proof -
  have "t_shops (w_db sample_switched) \<noteq> t_shops (w_db sample_site)" by code_simp
  then have "table ShopM (w_db sample_switched) \<noteq> table ShopM (w_db sample_site)" by (auto simp: inj_map_eq_map inj_def)
  then show ?thesis unfolding frozen_def catalogue_def by blast
qed


definition sample_confirm_account :: request where
  "sample_confirm_account = sample_request 9 [(PStr ''email'', PStr ''c''), (PStr ''token'', PStr ''abc'')]"

definition sample_activated :: world where
  "sample_activated = sample_site\<lparr>w_db := w_db sample_site\<lparr>
     t_users := [sample_user 1, (sample_user 2)\<lparr>u_type := ShopUser\<rparr>, (sample_user 3)\<lparr>u_is_active := True\<rparr>],
     t_email_tokens := []\<rparr>\<rparr>"

lemma sample_activated_run:
  "sample_serve None ''/api/v1/user/register/confirm'' POST sample_confirm_account sample_site = (Inr (Reply 200 Success), sample_activated)"
proof -
  let ?kvs = "[(PStr ''email'', PStr ''c''), (PStr ''token'', PStr ''abc'')]"
  let ?x = "(sample_user 3)\<lparr>u_is_active := False\<rparr>"
  let ?t = "\<lparr>et_id = 1, et_user = 3, et_created_at = 0, et_key = ''abc''\<rparr>"
  have ok: "db_ok (w_db sample_site)" using sample_site_good by (simp add: ref_good_def)
  have tokens: "t_email_tokens (w_db sample_site) = [?t]" by (simp add: sample_site_def)
  have email: "u_email ?x = ''c''" by code_simp
  have "confirm_account sqlite test_services (sample_confirm_account\<lparr>rq_user := None\<rparr>) sample_site = (Inr (Reply 200 Success), sample_activated)"
    using sqlite.confirm_success [OF ok, of ?x ?t "sample_confirm_account\<lparr>rq_user := None\<rparr>" ?kvs test_services]
    by (simp add: sample_site_users tokens email sample_confirm_account_def sample_request_def has_keys_def sample_activated_def
        replace_by_def) (simp add: sample_user_def)
  moreover have "map_of ref_root_urlpatterns ''/api/v1/user/register/confirm'' = Some ConfirmAccount" by code_simp
  ultimately show ?thesis by (simp add: ref_serve_def sample_packages_def)
qed


theorem anonymous_changes_accounts_only_witness:
  "frozen (catalogue \<union> customer_tables) (w_db sample_site)
     (w_db (snd (sample_serve None ''/api/v1/basket'' DELETE sample_switch sample_site)))"
  by (rule anonymous_changes_accounts_only [OF sample_app.ref_app_axioms sample_site_good surjective_pairing])

end
