(* ===== verification/RefTrace.thy ===== *)
theory RefTrace
  imports RefSystemProps
begin

text \<open>
  Where a placed order of the reference application comes from: a request with a token of its owner.
\<close>

section \<open>Which step writes an order\<close>

lemma order_path: "map_of ref_root_urlpatterns path = Some OrderView \<Longrightarrow> path = ''/api/v1/order''"
  by (drule map_of_SomeD) (auto simp: ref_root_urlpatterns_def ref_urlpatterns_def)

definition owner_places ::
  "orm \<Rightarrow> drf \<Rightarrow> services \<Rightarrow> packages \<Rightarrow> order_t \<Rightarrow> world \<Rightarrow> world \<Rightarrow> bool" where
  "owner_places Orm Drf Srv Pkg b w w' \<longleftrightarrow> o_state b = New \<and> b \<notin> set (t_orders (w_db w)) \<and> b \<in> set (t_orders (w_db w')) \<and>
     (\<exists>k rq r. ref_serve Orm Drf Srv Pkg (Some k) ''/api/v1/order'' POST rq w = (r, w') \<and> (o_user b, k) \<in> set (w_tokens w))"

context ref_app
begin

lemma ref_request_writes:
  assumes "ref_good w" "ref_serve Orm Drf Srv Pkg key path m rq w = (r, w')"
    and b: "b \<in> set (t_orders (w_db w'))" "b \<notin> set (t_orders (w_db w))" "o_state b \<noteq> Basket"
  shows "owner_places Orm Drf Srv Pkg b w w'"
proof (cases rule: ref_serve_cases [OF assms(2)])
  case 1
  then show ?thesis using b by simp
next
  case (2 v u h)
  let ?N = "ref_writes_order v m (rq\<lparr>rq_user := u\<rparr>)"
  have "keeps (in_db (ref_inv ?N True {} (w_db w))) h" by (rule handler_inv [OF 2(3)]) simp_all
  from keeps_result [OF this ref_good_inv [OF assms(1)] 2(4)] have "?N b"
    using b(1,2) by (auto simp: ref_inv_def)
  then have N: "u = Some (o_user b)" "v = OrderView" "m = POST" "o_state b = New"
    using b(3) by (auto simp: ref_writes_order_def)
  then obtain k where k: "key = Some k" using 2(2) token_anonymous by (cases key) simp_all
  then have "(o_user b, k) \<in> set (w_tokens w)" using token_only [of k w u] 2(2) N(1) by auto
  then show ?thesis using assms(2) b N order_path 2(1) k unfolding owner_places_def by blast
qed

lemma ref_step_writes:
  assumes "ref_good w" "ref_step Orm Drf Srv Pkg w w'"
    and b: "b \<in> set (t_orders (w_db w'))" "b \<notin> set (t_orders (w_db w))" "o_state b \<noteq> Basket"
  shows "owner_places Orm Drf Srv Pkg b w w'"
  using assms(2)
proof (cases rule: ref_step.cases)
  case (ref_request key path m rq r)
  then show ?thesis by (rule ref_request_writes [OF assms(1) _ b])
next
  case (ref_superuser now email password active extra r)
  have "ref_inv (\<lambda>_. False) True {} (w_db w) (w_db w')"
    using keeps_result [OF superuser_inv ref_good_inv [OF assms(1)] ref_superuser] .
  then show ?thesis using b by (simp add: ref_inv_def)
qed

lemma ref_reachable_writes:
  assumes "ref_reachable Orm Drf Srv Pkg w w'" "ref_good w"
    and "b \<in> set (t_orders (w_db w'))" "b \<notin> set (t_orders (w_db w))" "o_state b \<noteq> Basket"
  shows "\<exists>w1 w2. ref_reachable Orm Drf Srv Pkg w w1 \<and> owner_places Orm Drf Srv Pkg b w1 w2 \<and>
    ref_reachable Orm Drf Srv Pkg w2 w'"
proof -
  obtain y z where y: "ref_reachable Orm Drf Srv Pkg w y" "ref_step Orm Drf Srv Pkg y z" "ref_reachable Orm Drf Srv Pkg z w'"
    and b: "b \<notin> set (t_orders (w_db y))" "b \<in> set (t_orders (w_db z))"
    using crossing [OF assms(1), of "\<lambda>w. b \<in> set (t_orders (w_db w))"] assms(3,4) by blast
  have "ref_good y" using ref_reachable_good_kept [OF y(1) assms(2)] by blast
  then show ?thesis using ref_step_writes [OF _ y(2) b(2,1) assms(5)] y(1,3) by blast
qed

end

section \<open>Property\<close>


definition sample_order_request :: request where
  "sample_order_request = sample_request 9 [(PStr ''id'', PStr ''1''), (PStr ''contact'', PInt 1)]"

definition sample_placed :: world where
  "sample_placed = snd (sample_serve (Some ''k1'') ''/api/v1/order'' POST sample_order_request sample_site)"

lemma sample_placed_reachable: "ref_reachable sqlite rest_impl test_services sample_packages sample_site sample_placed"
  unfolding sample_placed_def by (rule r_into_rtranclp) (rule ref_step.ref_request, rule surjective_pairing)

lemma sample_placed_order:
  "\<lparr>o_id = 1, o_user = 1, o_dt = 100, o_state = New, o_contact = Some 1\<rparr> \<in> set (t_orders (w_db sample_placed))"
  by code_simp


end
