(* ===== verification/Spec2Isabelle.thy ===== *)
theory Spec2Isabelle
  imports CartProps OrderProps AccountProps Catalog ImportProps Migrations System Traceback CatalogueTrace Admin Settings
    CartTypes RefProps RefShopProps RefSystemProps RefTrace
begin

text \<open>
  A verification development for \<^verbatim>\<open>automation_of_purchases\<close>, a Django service through which
  buyers order goods from shops whose price lists are imported from YAML.

  The program. \<^verbatim>\<open>orders/backend\<close> is the application: \<^verbatim>\<open>models.py\<close> declares the tables,
  \<^verbatim>\<open>serializers.py\<close> validates and renders, \<^verbatim>\<open>views.py\<close> holds the HTTP handlers, \<^verbatim>\<open>utils.py\<close> and
  \<^verbatim>\<open>tasks.py\<close> the two importers and the mails, \<^verbatim>\<open>admin.py\<close> the upload of import files. All parts
  share one database; views hand work to the Celery tasks through a queue of messages.
  \<^verbatim>\<open>reference/netology_pd_diplom/backend\<close> is the application it was modelled on, with the same
  tables and views of its own.

  Theories and code.
  \<^item> \<open>Prelude\<close>: Python values and built-ins (\<open>pyval\<close>, \<open>py_int\<close>, \<open>py_get\<close>, \<open>py_index\<close>), exceptions
    as values, computations that thread a state and may raise (\<open>comp\<close>, \<open>andThen\<close>,
    \<open>try_except\<close>, \<open>for_each\<close>), and the rules \<open>keeps\<close> and \<open>reads\<close> for invariants and for
    read-only code.
  \<^item> \<open>Models\<close>: one record per class of \<^verbatim>\<open>models.py\<close>, the database as the record of its tables, the
    schema (foreign keys, unique constraints, non-negative columns, cascades) and the invariant
    \<open>db_ok\<close>. \<open>Schema\<close>: inserting, saving and cascading deletion preserve \<open>db_ok\<close>.
  \<^item> \<open>Migrations\<close>: the field declarations of \<^verbatim>\<open>models.py\<close>, in both applications, and the migrations as
    data; the migrations build the declared models, and what the built schema demands of the
    tables is \<open>db_ok\<close>.
  \<^item> \<open>Orm\<close>: the interface to Django, the record \<open>orm\<close> with the locale \<open>django\<close>, and the backend
    \<open>sqlite\<close> that provides it. \<open>Http\<close>: requests, responses, the rendering serializers.
    \<open>World\<close>: queue, mailbox, sessions, and the other services (\<open>services\<close>, \<open>drf\<close>).
  \<^item> \<open>Cart\<close>: \<^verbatim>\<open>CartView\<close>, \<^verbatim>\<open>DeleteCartItemView\<close>, \<^verbatim>\<open>BatchDeleteCartItemView\<close>, \<^verbatim>\<open>ClearCartView\<close>.
    \<open>CartSpec\<close> is the abstract basket, a map from price positions to quantities, that the
    handlers refine; \<open>CartSteps\<close> the step relation of all basket requests, the locale
    \<open>cart_service\<close> and its interpretation by the handlers; \<open>CartProps\<close> the properties;
    \<open>CartTypes\<close> the types of the values each endpoint needs, with which no request goes wrong.
  \<^item> \<open>Contacts\<close>, \<open>Orders\<close>: the contact views, confirmation, history and the order mail.
    \<open>OrdersSpec\<close> and \<open>OrderProps\<close>: their specification and properties.
  \<^item> \<open>Accounts\<close>, \<open>AccountProps\<close>: \<^verbatim>\<open>UserManager\<close>, registration, login, the token mail.
  \<^item> \<open>Catalog\<close>: \<^verbatim>\<open>ProductListView\<close>.
  \<^item> \<open>Import\<close>, \<open>ImportSpec\<close>, \<open>ImportProps\<close>: \<^verbatim>\<open>load_data\<close>, \<^verbatim>\<open>load_db\<close>, \<^verbatim>\<open>do_import\<close>, \<^verbatim>\<open>trigger_import\<close>
    and the admin upload.
  \<^item> \<open>System\<close>: \<^verbatim>\<open>urls.py\<close>, permissions, the CSRF middleware and the worker; the step relation of
    the whole application, the invariant \<open>safe\<close> that every handler, task and command keeps, and
    what follows for all reachable states. \<open>Traceback\<close>: a confirmed order goes back to the request
    of its owner that confirmed it. \<open>CatalogueTrace\<close>: a change of the catalogue goes back to the
    command \<^verbatim>\<open>load_db\<close> or to the request of a member of the staff that started an import.
  \<^item> \<open>Settings\<close>: both \<^verbatim>\<open>settings.py\<close>, \<^verbatim>\<open>celery.py\<close> and \<^verbatim>\<open>celeryconfig.py\<close> as data, the checks Django
    makes of them, and what the configured chain of middleware means for the CSRF check in \<open>serve\<close>.
  \<^item> \<open>Admin\<close>: the registrations of \<^verbatim>\<open>admin.py\<close>, in both applications, and the checks that every name in
    them leads to a field of the migrated models; the button that starts an import, against the view it calls.
  \<^item> The reference application: \<open>RefBase\<close> holds its replies, guards and serializers,
    \<open>RefAccounts\<close> the account views and the receivers of \<^verbatim>\<open>signals.py\<close>, \<open>RefBasket\<close>
    \<^verbatim>\<open>BasketView\<close> and \<^verbatim>\<open>OrderView\<close>, \<open>RefContacts\<close> \<^verbatim>\<open>ContactView\<close>, \<open>RefShop\<close> the catalogue,
    \<^verbatim>\<open>PartnerState\<close> and \<^verbatim>\<open>PartnerOrders\<close>, \<open>RefPartner\<close> \<^verbatim>\<open>PartnerUpdate\<close>. The theories ending in
    \<open>Spec\<close> show what each view does, \<open>RefProps\<close> and \<open>RefShopProps\<close> hold the properties.
    \<open>RefSystem\<close> puts the views together: its \<^verbatim>\<open>urls.py\<close>, token authentication, the step relation of
    requests and \<^verbatim>\<open>createsuperuser\<close>, and the invariant \<open>ref_inv\<close> that every view keeps (the schema,
    one basket per user, the rights of the users, the tables a view leaves alone, the orders it may
    write); \<open>RefGuards\<close> derives who may do what, \<open>RefSystemProps\<close> states it with what holds in all
    reachable states, and \<open>RefTrace\<close> leads a placed order back to a request of its owner.

  Parameters. Django, Celery, Django REST framework, PyYAML, the mail server and the file system
  are third-party code: handlers take their operations as the arguments \<open>Orm\<close>, \<open>Srv\<close>, \<open>Drf\<close>, and a
  theorem that relies on their documented behaviour names it as a hypothesis (\<open>django Orm\<close>,
  \<open>rest_framework Drf\<close>, \<open>accounts Orm Srv\<close>, \<open>ref_accounts Orm Srv\<close>). \<^verbatim>\<open>TokenAuthentication\<close> and the
  package for password resets are the record \<open>packages\<close> with the locale \<open>ref_packages\<close>; \<open>ref_app\<close> joins it
  with the others. The witnesses instantiate them by \<open>sqlite\<close>, \<open>rest_impl\<close>, \<open>test_services\<close> and
  \<open>sample_packages\<close>.

  Representation. Python integers are \<open>int\<close>; strings are character lists; a finite float is the
  rational it denotes; a date is an integer. A table is the list of its rows in the order of
  insertion, which is also the order of a query set without \<^verbatim>\<open>order_by\<close>. A handler returns
  \<open>Inl\<close> of the exception it lets through or \<open>Inr\<close> of its reply, with the database it leaves; the
  statements of a handler commit one by one, as the settings do not ask for transactions per
  request. The loops of the program run over finite lists and are structural recursions, so no
  fuel is needed.

  Not modelled: logging and \<^verbatim>\<open>print\<close> (no effect on the state), the start scripts (\<^verbatim>\<open>manage.py\<close>,
  \<^verbatim>\<open>wsgi.py\<close>, \<^verbatim>\<open>asgi.py\<close>) and the form that no view uses, the pages of the admin site (Django's),
  the texts of the replies and letters (only which
  one is sent), the HTML of the admin button, length limits that the database engine of the
  settings does not enforce.
\<close>

end
